(* ===== verification/Prelude.thy ===== *)
theory Prelude
  imports Complex_Main "HOL-Library.Word" "HOL-Library.Multiset" "HOL-Library.List_Lexorder" "HOL-Library.Char_ord"
begin

text \<open>
  Shared vocabulary of the development: the types that stand for Python's \<^verbatim>\<open>datetime\<close>,
  \<^verbatim>\<open>timedelta\<close> and \<^verbatim>\<open>uuid.UUID\<close>, insertion-ordered dictionaries, exceptions as values, the
  first-match search \<^verbatim>\<open>next(... for ... if ...)\<close>, and the collections of facts that the
  component theories extend. An interface locale for dictionaries states what the components
  rely on; it is interpreted here on the association-list model of \<^verbatim>\<open>dict\<close>.
\<close>

section \<open>Collections of facts\<close>

named_theorems model_simps \<open>unfolding rules of the small accessors and predicates of the model\<close>
named_theorems inv_intros \<open>introduction rules for the invariants\<close>

section \<open>Time, identifiers\<close>

text \<open>
  A \<^verbatim>\<open>datetime\<close> is a number of microseconds since a fixed epoch, a \<^verbatim>\<open>timedelta\<close> a signed
  number of microseconds: both are exact in Python at this resolution, and comparison,
  addition and subtraction are those of the integers.
\<close>

type_synonym datetime = int
type_synonym timedelta = int
type_synonym uuid = "128 word"

definition seconds :: "int \<Rightarrow> timedelta" where
  [simp]: "seconds n = n * 1000000"

text \<open>
  \<^verbatim>\<open>timedelta / 3\<close> rounds to the nearest microsecond. A remainder of one or two thirds is never
  a tie, so rounding half to even does not come into play.
\<close>

definition td_third :: "timedelta \<Rightarrow> timedelta" where
  "td_third t = (2 * t + 3) div 6"

lemma td_third_bounds: "3 * td_third t \<le> t + 1" "t - 1 \<le> 3 * td_third t"
  unfolding td_third_def by presburger+

lemma td_third_nonneg: "0 \<le> t \<Longrightarrow> 0 \<le> td_third t"
  unfolding td_third_def by simp

section \<open>Strings\<close>

text \<open>\<^verbatim>\<open>str.strip()\<close> on characters below 256: the ones for which \<^verbatim>\<open>str.isspace\<close> holds.\<close>

definition py_isspace :: "char \<Rightarrow> bool" where
  "py_isspace c \<longleftrightarrow> (let n = of_char c :: nat in
     9 \<le> n \<and> n \<le> 13 \<or> 28 \<le> n \<and> n \<le> 32 \<or> n = 133 \<or> n = 160)"

definition py_strip :: "string \<Rightarrow> string" where
  "py_strip s = rev (dropWhile py_isspace (rev (dropWhile py_isspace s)))"

section \<open>First match\<close>

text \<open>\<^verbatim>\<open>next((x for x in xs if P(x)), None)\<close> is \<^const>\<open>List.find\<close>.\<close>

lemma find_SomeD: "List.find P xs = Some x \<Longrightarrow> x \<in> set xs \<and> P x"
  by (induction xs) (auto split: if_splits)

lemma find_None_ball: "List.find P xs = None \<longleftrightarrow> (\<forall>x\<in>set xs. \<not> P x)"
  by (induction xs) auto

lemma find_ex: "x \<in> set xs \<Longrightarrow> P x \<Longrightarrow> \<exists>y. List.find P xs = Some y"
  by (cases "List.find P xs") (auto simp: find_None_ball)

lemma find_unique_key:
  assumes "distinct (map f xs)" "x \<in> set xs"
  shows "List.find (\<lambda>y. f y = f x) xs = Some x"
  using assms by (induction xs) (auto simp: image_iff)

section \<open>Stable sorting\<close>

text \<open>\<^verbatim>\<open>sorted(xs, key=f)\<close> is the stable \<^const>\<open>sort_key\<close>.\<close>

lemma set_filter_sort: "set (filter P (sort_key f xs)) = {x \<in> set xs. P x}"
  by auto

lemma sum_list_sort_key: "sum_list (map g (sort_key f xs)) = (sum_list (map g xs) :: int)"
proof -
  have "mset (map g (sort_key f xs)) = mset (map g xs)"
    by simp
  then show ?thesis
    by (metis sum_mset_sum_list)
qed

section \<open>Insertion-ordered dictionaries\<close>

text \<open>
  Python's \<^verbatim>\<open>dict\<close>: an association list with distinct keys. Assigning to a present key keeps
  its position, assigning to a fresh key appends.
\<close>

type_synonym ('k, 'v) pydict = "('k \<times> 'v) list"

abbreviation dict_get :: "('k, 'v) pydict \<Rightarrow> 'k \<Rightarrow> 'v option" where
  "dict_get d k \<equiv> map_of d k"

fun dict_set :: "'k \<Rightarrow> 'v \<Rightarrow> ('k, 'v) pydict \<Rightarrow> ('k, 'v) pydict" where
  "dict_set k v [] = [(k, v)]"
| "dict_set k v ((a, b) # d) = (if a = k then (k, v) # d else (a, b) # dict_set k v d)"

definition dict_pop :: "'k \<Rightarrow> ('k, 'v) pydict \<Rightarrow> ('k, 'v) pydict" where
  "dict_pop k d = filter (\<lambda>kv. fst kv \<noteq> k) d"

definition dict_setdefault :: "'k \<Rightarrow> 'v \<Rightarrow> ('k, 'v) pydict \<Rightarrow> ('k, 'v) pydict" where
  "dict_setdefault k v d = (case dict_get d k of None \<Rightarrow> dict_set k v d | Some _ \<Rightarrow> d)"

definition dict_values :: "('k, 'v) pydict \<Rightarrow> 'v list" where
  "dict_values d = map snd d"

definition dict_ok :: "('k, 'v) pydict \<Rightarrow> bool" where
  "dict_ok d \<longleftrightarrow> distinct (map fst d)"

lemma dict_get_set [simp]: "dict_get (dict_set k v d) = (dict_get d)(k \<mapsto> v)"
  by (induction k v d rule: dict_set.induct) (auto simp: fun_eq_iff)

lemma dict_get_pop [simp]: "dict_get (dict_pop k d) = (dict_get d)(k := None)"
  unfolding dict_pop_def by (induction d) (auto simp: fun_eq_iff)

lemma dict_get_setdefault [simp]:
  "dict_get (dict_setdefault k v d) k' =
    (if k' = k then Some (case dict_get d k of None \<Rightarrow> v | Some w \<Rightarrow> w) else dict_get d k')"
  by (auto simp: dict_setdefault_def split: option.splits)

lemma set_dict_set_subset: "set (dict_set k v d) \<subseteq> insert (k, v) (set d)"
  by (induction k v d rule: dict_set.induct) auto

lemma fst_set_dict_set [simp]: "fst ` set (dict_set k v d) = insert k (fst ` set d)"
  by (induction k v d rule: dict_set.induct) auto

lemma dict_ok_empty [simp]: "dict_ok []"
  by (simp add: dict_ok_def)

lemma dict_ok_set [simp]: "dict_ok d \<Longrightarrow> dict_ok (dict_set k v d)"
  unfolding dict_ok_def
proof (induction k v d rule: dict_set.induct)
  case (2 k v a b d)
  have "a \<noteq> k \<Longrightarrow> a \<notin> fst ` set (dict_set k v d)"
    using "2.prems" by (auto simp del: fst_set_dict_set simp: fst_set_dict_set)
  with 2 show ?case by auto
qed simp

lemma dict_ok_pop [simp]: "dict_ok d \<Longrightarrow> dict_ok (dict_pop k d)"
  unfolding dict_ok_def dict_pop_def by (induction d) auto

lemma dict_ok_setdefault [simp]: "dict_ok d \<Longrightarrow> dict_ok (dict_setdefault k v d)"
  by (auto simp: dict_setdefault_def split: option.splits)

lemma dict_get_in_set: "dict_get d k = Some v \<Longrightarrow> (k, v) \<in> set d"
  by (rule map_of_SomeD)

lemma dict_get_iff: "dict_ok d \<Longrightarrow> dict_get d k = Some v \<longleftrightarrow> (k, v) \<in> set d"
  unfolding dict_ok_def by (rule map_of_eq_Some_iff)

lemma dict_values_mem: "dict_ok d \<Longrightarrow> v \<in> set (dict_values d) \<longleftrightarrow> (\<exists>k. dict_get d k = Some v)"
  by (force simp: dict_values_def dict_get_iff)

text \<open>What the components rely on, as an interface, and the model of \<^verbatim>\<open>dict\<close> as its provider.\<close>

locale dictionary =
  fixes empty :: "'d"
    and get :: "'d \<Rightarrow> 'k \<Rightarrow> 'v option"
    and put :: "'k \<Rightarrow> 'v \<Rightarrow> 'd \<Rightarrow> 'd"
    and vals :: "'d \<Rightarrow> 'v list"
    and ok :: "'d \<Rightarrow> bool"
  assumes get_empty: "get empty k = None"
    and get_put: "ok d \<Longrightarrow> get (put k v d) = (get d)(k \<mapsto> v)"
    and vals_get: "ok d \<Longrightarrow> v \<in> set (vals d) \<longleftrightarrow> (\<exists>k. get d k = Some v)"
    and ok_empty: "ok empty"
    and ok_put: "ok d \<Longrightarrow> ok (put k v d)"
begin

lemma vals_empty: "vals empty = []"
  using vals_get [OF ok_empty] by (metis get_empty list.set_intros(1) neq_Nil_conv option.distinct(1))

lemma vals_put_subset: "ok d \<Longrightarrow> x \<in> set (vals (put k v d)) \<Longrightarrow> x = v \<or> x \<in> set (vals d)"
  by (auto simp: vals_get ok_put get_put split: if_splits)

lemma vals_put_self: "ok d \<Longrightarrow> v \<in> set (vals (put k v d))"
  by (auto simp: vals_get ok_put get_put)

lemma vals_put_keep:
  assumes "ok d" "x \<in> set (vals d)" "get d k \<noteq> Some x"
  shows "x \<in> set (vals (put k v d))"
  using assms by (auto simp: vals_get ok_put get_put)

end

interpretation pd: dictionary "[]" dict_get dict_set dict_values dict_ok
  by unfold_locales (auto simp: dict_values_mem)

end
