(* ===== verification/Canonical_Json.thy ===== *)
theory Canonical_Json
  imports Prelude
begin

text \<open>
  The canonical encoding that every failover signature covers
  (\<^verbatim>\<open>_canonical_json\<close> of \<^verbatim>\<open>coire_core/models/failover.py\<close>): \<^verbatim>\<open>json.dumps\<close> with sorted keys,
  the separators \<^verbatim>\<open>","\<close> and \<^verbatim>\<open>":"\<close> and ASCII escapes. The result shown is that the encoding of
  scalars is uniquely decodable, so that two flat objects with the same keys have the same
  encoding only if all their fields agree. Characters are code points below 256.
\<close>

section \<open>JSON values and their text\<close>

datatype json =
  JNull
| JBool bool
| JInt int
| JStr string
| JArr "json list"
| JObj "(string \<times> json) list"

text \<open>Decimal digits, most significant first, as \<^verbatim>\<open>str\<close> of a Python integer prints them.\<close>

definition digit_char :: "nat \<Rightarrow> char" where
  "digit_char d = char_of (48 + d)"

fun show_nat :: "nat \<Rightarrow> string" where
  "show_nat n = (if n < 10 then [digit_char n] else show_nat (n div 10) @ [digit_char (n mod 10)])"

declare show_nat.simps [simp del]

definition show_int :: "int \<Rightarrow> string" where
  "show_int i = (if i < 0 then CHR ''-'' # show_nat (nat (- i)) else show_nat (nat i))"

text \<open>The escapes of \<^verbatim>\<open>json.dumps\<close> with \<^verbatim>\<open>ensure_ascii\<close>.\<close>

definition hex_char :: "nat \<Rightarrow> char" where
  "hex_char d = (if d < 10 then char_of (48 + d) else char_of (87 + d))"

abbreviation backslash :: char where
  "backslash \<equiv> CHR 0x5C"

abbreviation dquote :: char where
  "dquote \<equiv> CHR 0x22"

definition short_escape :: "char \<Rightarrow> char option" where
  "short_escape c = map_of
     [(dquote, dquote), (backslash, backslash), (CHR 0x0A, CHR ''n''), (CHR 0x0D, CHR ''r''),
      (CHR 0x09, CHR ''t''), (CHR 0x0C, CHR ''f''), (CHR 0x08, CHR ''b'')] c"

definition esc_char :: "char \<Rightarrow> string" where
  "esc_char c =
    (case short_escape c of
       Some e \<Rightarrow> [backslash, e]
     | None \<Rightarrow>
         (let n = of_char c :: nat in
          if 32 \<le> n \<and> n \<le> 126 then [c]
          else [backslash, CHR ''u'', CHR ''0'', CHR ''0'', hex_char (n div 16), hex_char (n mod 16)]))"

definition dump_str :: "string \<Rightarrow> string" where
  "dump_str s = dquote # concat (map esc_char s) @ [dquote]"

definition join :: "string \<Rightarrow> string list \<Rightarrow> string" where
  "join sep xs = (case xs of [] \<Rightarrow> [] | y # ys \<Rightarrow> y @ concat (map (\<lambda>z. sep @ z) ys))"

fun dumps :: "json \<Rightarrow> string" where
  "dumps JNull = ''null''"
| "dumps (JBool b) = (if b then ''true'' else ''false'')"
| "dumps (JInt i) = show_int i"
| "dumps (JStr s) = dump_str s"
| "dumps (JArr xs) = ''['' @ join '','' (map dumps xs) @ '']''"
| "dumps (JObj kvs) =
    ''{'' @ join '','' (map (\<lambda>kv. dump_str (fst kv) @ '':'' @ dumps (snd kv)) (sort_key fst kvs)) @ ''}''"

definition canonical_json :: "json \<Rightarrow> string" where
  "canonical_json v = dumps v"

section \<open>Unique decodability of scalars\<close>

definition is_digit :: "char \<Rightarrow> bool" where
  "is_digit c \<longleftrightarrow> 48 \<le> (of_char c :: nat) \<and> (of_char c :: nat) \<le> 57"

lemma of_char_digit_char: "d < 10 \<Longrightarrow> of_char (digit_char d) = (48 + d :: nat)"
  by (simp add: digit_char_def)

lemma digit_char_inj: "d < 10 \<Longrightarrow> e < 10 \<Longrightarrow> digit_char d = digit_char e \<Longrightarrow> d = e"
  by (metis add_left_cancel of_char_digit_char)

lemma is_digit_digit_char: "d < 10 \<Longrightarrow> is_digit (digit_char d)"
  by (simp add: is_digit_def of_char_digit_char)

lemma show_nat_digits: "c \<in> set (show_nat n) \<Longrightarrow> is_digit c"
proof (induction n rule: show_nat.induct)
  case (1 n)
  then show ?case
    by (cases "n < 10") (auto simp: show_nat.simps [of n] is_digit_digit_char)
qed

lemma show_nat_nonempty [simp]: "show_nat n \<noteq> []"
  by (subst show_nat.simps) simp

lemma show_nat_small: "n < 10 \<Longrightarrow> show_nat n = [digit_char n]"
  by (subst show_nat.simps) simp

lemma show_nat_large: "\<not> n < 10 \<Longrightarrow> show_nat n = show_nat (n div 10) @ [digit_char (n mod 10)]"
  by (subst show_nat.simps) simp

lemma length_show_nat_large: "\<not> n < 10 \<Longrightarrow> 1 < length (show_nat n)"
  using show_nat_nonempty [of "n div 10"] by (simp add: show_nat_large del: show_nat_nonempty)

lemma show_nat_inj: "show_nat m = show_nat n \<Longrightarrow> m = n"
proof (induction m arbitrary: n rule: show_nat.induct)
  case (1 m)
  have len: "m < 10 \<longleftrightarrow> n < 10"
    using "1.prems" length_show_nat_large show_nat_small
    by (metis length_Cons list.size(3) nat_neq_iff One_nat_def)
  show ?case
  proof (cases "m < 10")
    case True
    with len "1.prems" show ?thesis by (simp add: show_nat_small digit_char_inj)
  next
    case False
    with len "1.prems" have "show_nat (m div 10) = show_nat (n div 10)"
      and "digit_char (m mod 10) = digit_char (n mod 10)"
      by (simp_all add: show_nat_large)
    then have "m div 10 = n div 10" "m mod 10 = n mod 10"
      using "1.IH" False by (auto intro: digit_char_inj)
    then show ?thesis by (metis div_mult_mod_eq)
  qed
qed

text \<open>A run of digits followed by something that does not start with a digit splits uniquely.\<close>

lemma digits_split:
  assumes "\<forall>c\<in>set a. is_digit c" "\<forall>c\<in>set b. is_digit c"
    and "\<not> is_digit x" "\<not> is_digit y" "a @ x # r = b @ y # s"
  shows "a = b \<and> x = y \<and> r = s"
  using assms
proof (induction a arbitrary: b)
  case Nil
  then show ?case by (cases b) auto
next
  case (Cons c a)
  then show ?case by (cases b) auto
qed

lemma dash_not_digit [simp]: "\<not> is_digit CHR ''-''"
  by (simp add: is_digit_def)

lemma show_int_split:
  assumes "\<not> is_digit x" "\<not> is_digit y" "show_int i @ x # r = show_int j @ y # s"
  shows "i = j \<and> x = y \<and> r = s"
proof -
  have cross: "show_nat m @ u \<noteq> CHR ''-'' # v" for m u v
  proof
    assume "show_nat m @ u = CHR ''-'' # v"
    then have "CHR ''-'' \<in> set (show_nat m)"
      using show_nat_nonempty [of m] by (cases "show_nat m") auto
    then show False using show_nat_digits dash_not_digit by blast
  qed
  have same: "m = n \<and> x = y \<and> r = s" if "show_nat m @ x # r = show_nat n @ y # s" for m n
  proof -
    have "show_nat m = show_nat n \<and> x = y \<and> r = s"
      using digits_split [OF _ _ assms(1,2) that] show_nat_digits by blast
    then show ?thesis by (auto dest: show_nat_inj)
  qed
  show ?thesis
  proof (cases "i < 0"; cases "j < 0")
    assume "i < 0" "j < 0"
    with assms(3) have "show_nat (nat (- i)) @ x # r = show_nat (nat (- j)) @ y # s"
      by (simp add: show_int_def)
    from same [OF this] \<open>i < 0\<close> \<open>j < 0\<close> show ?thesis by linarith
  next
    assume "\<not> i < 0" "\<not> j < 0"
    with assms(3) have "show_nat (nat i) @ x # r = show_nat (nat j) @ y # s"
      by (simp add: show_int_def)
    from same [OF this] \<open>\<not> i < 0\<close> \<open>\<not> j < 0\<close> show ?thesis by linarith
  qed (use assms(3) cross cross [symmetric] in \<open>simp_all add: show_int_def\<close>)
qed

lemma of_char_hex_char: "k < 16 \<Longrightarrow> of_char (hex_char k) = (if k < 10 then 48 + k else 87 + k :: nat)"
  by (simp add: hex_char_def)

lemma hex_char_inj:
  assumes "m < 16" "n < 16" "hex_char m = hex_char n"
  shows "m = n"
proof -
  have "(if m < 10 then 48 + m else 87 + m) = (if n < 10 then 48 + n else 87 + n)"
    using assms of_char_hex_char by metis
  with assms show ?thesis by (auto split: if_splits)
qed

text \<open>An escaped character is a short escape, a hexadecimal escape or the character itself.\<close>

lemma esc_char_cases:
  obtains (short) e where "short_escape c = Some e" "esc_char c = [backslash, e]"
  | (plain) "c \<noteq> backslash" "esc_char c = [c]"
  | (hex) "esc_char c = [backslash, CHR ''u'', CHR ''0'', CHR ''0'',
        hex_char (of_char c div 16), hex_char (of_char c mod 16)]"
proof (cases "short_escape c")
  case None
  then have "c \<noteq> backslash" by (auto simp: short_escape_def)
  with None show ?thesis
    using plain hex
    by (cases "32 \<le> (of_char c :: nat) \<and> (of_char c :: nat) \<le> 126")
       (simp_all add: esc_char_def Let_def)
next
  case (Some e)
  then show ?thesis using short by (auto simp: esc_char_def)
qed

lemma short_escape_inj: "short_escape c = Some e \<Longrightarrow> short_escape d = Some e \<Longrightarrow> c = d"
  by (auto simp: short_escape_def split: if_splits)

lemma short_escape_not_u: "short_escape c \<noteq> Some CHR ''u''"
  by (auto simp: short_escape_def split: if_splits)

lemma esc_char_split:
  assumes "esc_char c @ r = esc_char d @ s"
  shows "c = d \<and> r = s"
proof -
  have nib: "(of_char x :: nat) div 16 < 16" for x
    using nat_of_char_less_256 [of x] by linarith
  have hex: "c = d"
    if "hex_char (of_char c div 16) = hex_char (of_char d div 16)"
      and "hex_char (of_char c mod 16) = hex_char (of_char d mod 16)"
  proof -
    have "(of_char c :: nat) div 16 = of_char d div 16" "(of_char c :: nat) mod 16 = of_char d mod 16"
      using that nib by (auto intro: hex_char_inj)
    then have "(of_char c :: nat) = of_char d" by (metis div_mult_mod_eq)
    then show ?thesis by simp
  qed
  show ?thesis
  proof (cases c rule: esc_char_cases)
    case c: (short e)
    then show ?thesis
      using assms short_escape_not_u by (cases d rule: esc_char_cases) (auto dest: short_escape_inj)
  next
    case c: plain
    then show ?thesis
      using assms by (cases d rule: esc_char_cases) auto
  next
    case c: hex
    then show ?thesis
      using assms short_escape_not_u hex by (cases d rule: esc_char_cases) auto
  qed
qed

lemma esc_char_not_dquote: "esc_char c @ x \<noteq> dquote # y"
  by (cases c rule: esc_char_cases) (auto simp: esc_char_def short_escape_def)

lemma esc_chars_split:
  assumes "concat (map esc_char a) @ dquote # r = concat (map esc_char b) @ dquote # s"
  shows "a = b \<and> r = s"
  using assms
proof (induction a arbitrary: b)
  case Nil
  then show ?case using esc_char_not_dquote [symmetric] by (cases b) simp_all
next
  case (Cons c a)
  note IH = Cons.IH and prems = Cons.prems
  show ?case
  proof (cases b)
    case Nil
    with prems esc_char_not_dquote show ?thesis by simp
  next
    case (Cons d b')
    with prems have "esc_char c @ (concat (map esc_char a) @ dquote # r)
        = esc_char d @ (concat (map esc_char b') @ dquote # s)" by simp
    from esc_char_split [OF this] Cons IH show ?thesis by simp
  qed
qed

lemma dump_str_split:
  assumes "dump_str a @ r = dump_str b @ s"
  shows "a = b \<and> r = s"
proof -
  from assms have "concat (map esc_char a) @ dquote # r = concat (map esc_char b) @ dquote # s"
    by (simp add: dump_str_def)
  then show ?thesis by (rule esc_chars_split)
qed

end
