(* ===== verification/Failover_Models.thy ===== *)
theory Failover_Models
  imports Canonical_Json
begin

text \<open>
  The contracts of the failover tier (\<^verbatim>\<open>coire_core/models/failover.py\<close>): member names, the
  membership configuration, vote requests and grants, promotion proofs, overrides, hand-back
  notices, journal events, leases and the signed snapshot, each with its validator as a
  boolean function and with the bytes its signature covers. Signing, verification, hashing,
  ISO formatting of a \<^verbatim>\<open>datetime\<close> and the iteration order of a \<^verbatim>\<open>frozenset\<close> belong to
  third-party code or to the running process; they are the fields of \<^verbatim>\<open>runtime\<close>, a parameter.
\<close>

section \<open>The runtime parameter\<close>

record runtime =
  sign_ed25519 :: "string \<Rightarrow> string \<Rightarrow> string"
  verify_ed25519 :: "string \<Rightarrow> string \<Rightarrow> string \<Rightarrow> bool"
  sha256_hex :: "string \<Rightarrow> string"
  isoformat :: "datetime \<Rightarrow> string"
  set_iter :: "string set \<Rightarrow> string list"

section \<open>Members\<close>

text \<open>
  The pattern \<^verbatim>\<open>^coire-(core|edge-[ab])$\<close> and \<^verbatim>\<open>FAILOVER_MEMBER_NAMES\<close> admit three names.
  \<^verbatim>\<open>parse_member\<close> is that check; past it a name is a value of an enumeration. Names are
  ordered as the strings are.
\<close>

datatype member_name = Core | Edge_a | Edge_b

fun name_str :: "member_name \<Rightarrow> string" where
  "name_str Core = ''coire-core''"
| "name_str Edge_a = ''coire-edge-a''"
| "name_str Edge_b = ''coire-edge-b''"

definition failover_member_names :: "member_name list" where
  "failover_member_names = [Core, Edge_a, Edge_b]"

definition parse_member :: "string \<Rightarrow> member_name option" where
  "parse_member s = List.find (\<lambda>n. name_str n = s) failover_member_names"

instantiation member_name :: linorder
begin

fun member_rank :: "member_name \<Rightarrow> nat" where
  "member_rank Core = 0"
| "member_rank Edge_a = 1"
| "member_rank Edge_b = 2"

definition less_eq_member_name :: "member_name \<Rightarrow> member_name \<Rightarrow> bool" where
  "m \<le> n \<longleftrightarrow> member_rank m \<le> member_rank n"

definition less_member_name :: "member_name \<Rightarrow> member_name \<Rightarrow> bool" where
  "m < n \<longleftrightarrow> member_rank m < member_rank n"

lemma member_rank_inj: "member_rank m = member_rank n \<Longrightarrow> m = n"
  by (cases m; cases n) auto

instance
  by standard (auto simp: less_eq_member_name_def less_member_name_def intro: member_rank_inj)

end

lemmas member_order_simps [simp] = less_eq_member_name_def less_member_name_def

lemma name_str_order: "m \<le> n \<longleftrightarrow> name_str m \<le> name_str n"
  by (cases m; cases n) (simp_all add: less_char_def)

lemma name_str_inj: "name_str m = name_str n \<Longrightarrow> m = n"
  by (cases m; cases n) simp_all

lemma parse_member_iff: "parse_member s = Some n \<longleftrightarrow> s = name_str n"
  by (cases n) (auto simp: parse_member_def failover_member_names_def)

lemma failover_member_names_all [simp]: "n \<in> set failover_member_names"
  by (cases n) (simp_all add: failover_member_names_def)

record failover_member =
  m_name :: member_name
  m_priority :: int
  m_public_key :: string

record membership_config =
  mc_epoch :: int
  mc_members :: "failover_member list"
  mc_signing_key_id :: string

definition failover_member_valid :: "failover_member \<Rightarrow> bool" where
  "failover_member_valid m \<longleftrightarrow> 0 \<le> m_priority m \<and> m_priority m \<le> 2 \<and> m_public_key m \<noteq> []"

definition membership_valid :: "membership_config \<Rightarrow> bool" where
  "membership_valid mc \<longleftrightarrow>
     1 \<le> mc_epoch mc \<and> length (mc_members mc) = 3 \<and> mc_signing_key_id mc \<noteq> []
   \<and> list_all failover_member_valid (mc_members mc)
   \<and> set (map m_name (mc_members mc)) = set failover_member_names
   \<and> card (set (map m_priority (mc_members mc))) = length (mc_members mc)"

text \<open>
  \<^verbatim>\<open>next(member for member in members if member.name == name)\<close>: without a default, so a missing
  name raises \<^verbatim>\<open>StopIteration\<close>. A validated configuration holds every name
  (\<^verbatim>\<open>lookup_member_total\<close> below), so the exception cannot occur; \<^verbatim>\<open>the None\<close> leaves the
  result unspecified there and no theorem speaks of it.
\<close>

definition lookup_member :: "membership_config \<Rightarrow> member_name \<Rightarrow> failover_member option" where
  "lookup_member mc n = List.find (\<lambda>m. m_name m = n) (mc_members mc)"

definition member_priority :: "membership_config \<Rightarrow> member_name \<Rightarrow> int" where
  "member_priority mc n = m_priority (the (lookup_member mc n))"

definition member_key :: "membership_config \<Rightarrow> member_name \<Rightarrow> string" where
  "member_key mc n = m_public_key (the (lookup_member mc n))"

lemma lookup_member_total:
  assumes "membership_valid mc"
  obtains m where "lookup_member mc n = Some m" "m \<in> set (mc_members mc)" "m_name m = n"
proof -
  have "n \<in> set (map m_name (mc_members mc))"
    using assms by (simp add: membership_valid_def)
  then obtain m where m: "m \<in> set (mc_members mc)" "m_name m = n" by auto
  obtain m' where m': "List.find (\<lambda>m. m_name m = n) (mc_members mc) = Some m'"
    using find_ex [OF m(1), of "\<lambda>m. m_name m = n"] m(2) by auto
  show ?thesis
    by (rule that [of m']) (use m' find_SomeD [OF m'] in \<open>simp_all add: lookup_member_def\<close>)
qed

lemma membership_distinct:
  assumes "membership_valid mc"
  shows "distinct (map m_name (mc_members mc))" "distinct (map m_priority (mc_members mc))"
proof -
  have "card (set failover_member_names) = 3"
    by (simp add: failover_member_names_def)
  then show "distinct (map m_name (mc_members mc))"
    using assms by (intro card_distinct) (simp add: membership_valid_def)
  show "distinct (map m_priority (mc_members mc))"
    using assms by (intro card_distinct) (simp add: membership_valid_def)
qed

lemma lookup_member_mem:
  assumes "membership_valid mc" "m \<in> set (mc_members mc)"
  shows "lookup_member mc (m_name m) = Some m"
  unfolding lookup_member_def
  using find_unique_key [OF membership_distinct(1) [OF assms(1)] assms(2)] .

lemma member_priority_mem:
  "membership_valid mc \<Longrightarrow> m \<in> set (mc_members mc) \<Longrightarrow> member_priority mc (m_name m) = m_priority m"
  by (simp add: member_priority_def lookup_member_mem)

lemma member_priority_inj:
  assumes "membership_valid mc" "member_priority mc a = member_priority mc b"
  shows "a = b"
proof -
  obtain x where x: "lookup_member mc a = Some x" "x \<in> set (mc_members mc)" "m_name x = a"
    using lookup_member_total [OF assms(1)] .
  obtain y where y: "lookup_member mc b = Some y" "y \<in> set (mc_members mc)" "m_name y = b"
    using lookup_member_total [OF assms(1)] .
  have "m_priority x = m_priority y"
    using assms(2) x(1) y(1) by (simp add: member_priority_def)
  then have "x = y"
    using membership_distinct(2) [OF assms(1)] x(2) y(2) by (simp add: distinct_map inj_on_def)
  with x y show ?thesis by simp
qed

section \<open>Heartbeats, vote requests and grants\<close>

record heartbeat =
  hb_member :: member_name
  hb_sent_at :: datetime
  hb_signature :: string

definition heartbeat_bytes :: "runtime \<Rightarrow> heartbeat \<Rightarrow> string" where
  "heartbeat_bytes rt h = canonical_json (JObj
     [(''member'', JStr (name_str (hb_member h))), (''sent_at'', JStr (isoformat rt (hb_sent_at h)))])"

record vote_request =
  vr_epoch :: int
  vr_term :: int
  vr_candidate :: member_name
  vr_signature :: string

definition vote_request_valid :: "vote_request \<Rightarrow> bool" where
  "vote_request_valid r \<longleftrightarrow> 1 \<le> vr_epoch r \<and> 1 \<le> vr_term r \<and> vr_signature r \<noteq> []"

definition vote_request_bytes :: "runtime \<Rightarrow> vote_request \<Rightarrow> string" where
  "vote_request_bytes rt r = canonical_json (JObj
     [(''epoch'', JInt (vr_epoch r)), (''term'', JInt (vr_term r)),
      (''candidate'', JStr (name_str (vr_candidate r)))])"

record vote_grant =
  g_epoch :: int
  g_term :: int
  g_candidate :: member_name
  g_voter :: member_name
  g_expires_at :: datetime
  g_signature :: string

definition vote_grant_valid :: "vote_grant \<Rightarrow> bool" where
  "vote_grant_valid g \<longleftrightarrow> 1 \<le> g_epoch g \<and> 1 \<le> g_term g \<and> g_signature g \<noteq> []"

definition grant_is_current :: "vote_grant \<Rightarrow> datetime \<Rightarrow> bool" where
  [model_simps]: "grant_is_current g now \<longleftrightarrow> g_expires_at g > now"

definition grant_json :: "runtime \<Rightarrow> vote_grant \<Rightarrow> (string \<times> json) list" where
  "grant_json rt g =
     [(''epoch'', JInt (g_epoch g)), (''term'', JInt (g_term g)),
      (''candidate'', JStr (name_str (g_candidate g))), (''voter'', JStr (name_str (g_voter g))),
      (''expires_at'', JStr (isoformat rt (g_expires_at g)))]"

definition grant_bytes :: "runtime \<Rightarrow> vote_grant \<Rightarrow> string" where
  "grant_bytes rt g = canonical_json (JObj (grant_json rt g))"

text \<open>Two grants with the same content, whatever their signatures.\<close>

definition same_grant :: "vote_grant \<Rightarrow> vote_grant \<Rightarrow> bool" where
  "same_grant g h \<longleftrightarrow> g\<lparr>g_signature := []\<rparr> = h\<lparr>g_signature := []\<rparr>"

lemma same_grantD:
  assumes "same_grant g h"
  shows "g_epoch g = g_epoch h" "g_term g = g_term h" "g_candidate g = g_candidate h"
    "g_voter g = g_voter h" "g_expires_at g = g_expires_at h"
  using assms by (cases g; cases h; simp add: same_grant_def)+

lemma same_grant_refl [simp]: "same_grant g g"
  by (simp add: same_grant_def)

section \<open>Promotion proofs\<close>

record promotion_proof =
  pp_epoch :: int
  pp_term :: int
  pp_candidate :: member_name
  pp_grants :: "vote_grant list"

definition proof_valid :: "promotion_proof \<Rightarrow> bool" where
  "proof_valid p \<longleftrightarrow>
     1 \<le> pp_epoch p \<and> 1 \<le> pp_term p \<and> length (pp_grants p) = 2
   \<and> card (set (map g_voter (pp_grants p))) = 2
   \<and> (\<forall>g\<in>set (pp_grants p).
        g_epoch g = pp_epoch p \<and> g_term g = pp_term p \<and> g_candidate g = pp_candidate p)"

definition proof_is_current :: "promotion_proof \<Rightarrow> datetime \<Rightarrow> bool" where
  [model_simps]: "proof_is_current p now \<longleftrightarrow> list_all (\<lambda>g. grant_is_current g now) (pp_grants p)"

definition proof_bytes :: "runtime \<Rightarrow> promotion_proof \<Rightarrow> string" where
  "proof_bytes rt p = canonical_json (JObj
     [(''epoch'', JInt (pp_epoch p)), (''term'', JInt (pp_term p)),
      (''candidate'', JStr (name_str (pp_candidate p))),
      (''grants'', JArr (map (\<lambda>g. JObj (grant_json rt g @ [(''signature'', JStr (g_signature g))]))
                             (pp_grants p)))])"

definition proof_is_valid_for ::
  "runtime \<Rightarrow> promotion_proof \<Rightarrow> membership_config \<Rightarrow> datetime \<Rightarrow> bool" where
  "proof_is_valid_for rt p mc now \<longleftrightarrow>
     (if mc_epoch mc \<noteq> pp_epoch p \<or> \<not> proof_is_current p now then False
      else list_all
        (\<lambda>g. case lookup_member mc (g_voter g) of
               None \<Rightarrow> False
             | Some m \<Rightarrow> verify_ed25519 rt (grant_bytes rt g) (g_signature g) (m_public_key m))
        (pp_grants p))"

section \<open>Overrides, hand-back notices, events, leases\<close>

datatype override_kind = INHIBIT | BREAK_GLASS_PROMOTE

fun override_kind_str :: "override_kind \<Rightarrow> string" where
  "override_kind_str INHIBIT = ''inhibit''"
| "override_kind_str BREAK_GLASS_PROMOTE = ''break_glass_promote''"

record failover_override =
  ov_kind :: override_kind
  ov_actor_id :: string
  ov_reason :: string
  ov_expires_at :: datetime
  ov_signature :: string

definition override_valid :: "failover_override \<Rightarrow> bool" where
  "override_valid v \<longleftrightarrow> 1 \<le> length (ov_reason v) \<and> length (ov_reason v) \<le> 1000 \<and> ov_signature v \<noteq> []"

definition override_is_current :: "failover_override \<Rightarrow> datetime \<Rightarrow> bool" where
  [model_simps]: "override_is_current v now \<longleftrightarrow> ov_expires_at v > now"

definition override_bytes :: "runtime \<Rightarrow> failover_override \<Rightarrow> string" where
  "override_bytes rt v = canonical_json (JObj
     [(''kind'', JStr (override_kind_str (ov_kind v))), (''actor_id'', JStr (ov_actor_id v)),
      (''reason'', JStr (ov_reason v)), (''expires_at'', JStr (isoformat rt (ov_expires_at v)))])"

record handback_notice =
  hn_epoch :: int
  hn_term :: int
  hn_holder :: member_name
  hn_successor :: member_name
  hn_expires_at :: datetime
  hn_signature :: string

definition handback_is_current :: "handback_notice \<Rightarrow> datetime \<Rightarrow> bool" where
  [model_simps]: "handback_is_current n now \<longleftrightarrow> hn_expires_at n > now"

definition handback_bytes :: "runtime \<Rightarrow> handback_notice \<Rightarrow> string" where
  "handback_bytes rt n = canonical_json (JObj
     [(''epoch'', JInt (hn_epoch n)), (''term'', JInt (hn_term n)),
      (''holder'', JStr (name_str (hn_holder n))), (''successor'', JStr (name_str (hn_successor n))),
      (''expires_at'', JStr (isoformat rt (hn_expires_at n)))])"

datatype event_kind =
  PROMOTED | EV_DRAINING | FENCED | HANDBACK | BREAK_GLASS | OVERRIDE_INHIBIT | OVERRIDE_BREAK_GLASS

text \<open>A journal entry without its random \<^verbatim>\<open>event_id\<close>, which no operation of the election reads.\<close>

record failover_event =
  ev_term :: int
  ev_kind :: event_kind
  ev_host :: member_name
  ev_occurred_at :: datetime
  ev_proof_digest :: string

record failover_lease =
  fl_holder :: member_name
  fl_proof :: "promotion_proof option"
  fl_break_glass :: "failover_override option"

definition lease_valid :: "failover_lease \<Rightarrow> bool" where
  "lease_valid l \<longleftrightarrow>
     \<not> (fl_proof l = None \<and> fl_break_glass l = None)
   \<and> (case fl_proof l of None \<Rightarrow> True | Some p \<Rightarrow> pp_candidate p = fl_holder l)"

section \<open>What a grant's signature covers\<close>

text \<open>The keys of an encoded grant, in the order the encoder writes them.\<close>

lemma grant_bytes_eq:
  "grant_bytes rt g =
     ''{'' @ dump_str ''candidate'' @ '':'' @ dump_str (name_str (g_candidate g)) @ '','' @
     dump_str ''epoch'' @ '':'' @ show_int (g_epoch g) @ '','' @
     dump_str ''expires_at'' @ '':'' @ dump_str (isoformat rt (g_expires_at g)) @ '','' @
     dump_str ''term'' @ '':'' @ show_int (g_term g) @ '','' @
     dump_str ''voter'' @ '':'' @ dump_str (name_str (g_voter g)) @ ''}''"
proof -
  have "sort_key fst (grant_json rt g) =
     [(''candidate'', JStr (name_str (g_candidate g))), (''epoch'', JInt (g_epoch g)),
      (''expires_at'', JStr (isoformat rt (g_expires_at g))), (''term'', JInt (g_term g)),
      (''voter'', JStr (name_str (g_voter g)))]"
    by (simp add: grant_json_def)
  then show ?thesis
    by (simp add: grant_bytes_def canonical_json_def join_def)
qed

lemma comma_not_digit [simp]: "\<not> is_digit CHR '',''"
  by (simp add: is_digit_def)

text \<open>Fields between fixed separators, an integer being followed by a comma.\<close>

lemma flat_object_split:
  assumes "k1 @ dump_str a @ k2 @ show_int e @ CHR '','' # k3 @ dump_str x @ k4 @ show_int t @
             CHR '','' # k5 @ dump_str v @ k6
         = k1 @ dump_str a' @ k2 @ show_int e' @ CHR '','' # k3 @ dump_str x' @ k4 @ show_int t' @
             CHR '','' # k5 @ dump_str v' @ k6"
  shows "a = a' \<and> e = e' \<and> x = x' \<and> t = t' \<and> v = v'"
proof -
  let ?r5 = "\<lambda>v. k5 @ dump_str v @ k6"
  let ?r4 = "\<lambda>t v. k4 @ show_int t @ CHR '','' # ?r5 v"
  let ?r3 = "\<lambda>x t v. k3 @ dump_str x @ ?r4 t v"
  let ?r2 = "\<lambda>e x t v. k2 @ show_int e @ CHR '','' # ?r3 x t v"
  have 1: "dump_str a @ ?r2 e x t v = dump_str a' @ ?r2 e' x' t' v'"
    using assms by simp
  have 2: "show_int e @ CHR '','' # ?r3 x t v = show_int e' @ CHR '','' # ?r3 x' t' v'"
    using dump_str_split [OF 1] by simp
  have 3: "dump_str x @ ?r4 t v = dump_str x' @ ?r4 t' v'"
    using show_int_split [OF comma_not_digit comma_not_digit 2] by simp
  have 4: "show_int t @ CHR '','' # ?r5 v = show_int t' @ CHR '','' # ?r5 v'"
    using dump_str_split [OF 3] by simp
  have 5: "dump_str v @ k6 = dump_str v' @ k6"
    using show_int_split [OF comma_not_digit comma_not_digit 4] by simp
  show ?thesis
    using dump_str_split [OF 1] show_int_split [OF comma_not_digit comma_not_digit 2]
      dump_str_split [OF 3] show_int_split [OF comma_not_digit comma_not_digit 4]
      dump_str_split [OF 5] by blast
qed

lemma grant_bytes_content:
  assumes "inj (isoformat rt)" "grant_bytes rt g = grant_bytes rt h"
  shows "same_grant g h"
proof -
  have shape: "grant_bytes rt k =
     (''{'' @ dump_str ''candidate'' @ '':'') @ dump_str (name_str (g_candidate k)) @
     ('','' @ dump_str ''epoch'' @ '':'') @ show_int (g_epoch k) @ CHR '','' #
     (dump_str ''expires_at'' @ '':'') @ dump_str (isoformat rt (g_expires_at k)) @
     ('','' @ dump_str ''term'' @ '':'') @ show_int (g_term k) @ CHR '','' #
     (dump_str ''voter'' @ '':'') @ dump_str (name_str (g_voter k)) @ ''}''" for k
    unfolding grant_bytes_eq append_assoc append_Cons append_Nil ..
  have "name_str (g_candidate g) = name_str (g_candidate h) \<and> g_epoch g = g_epoch h
      \<and> isoformat rt (g_expires_at g) = isoformat rt (g_expires_at h)
      \<and> g_term g = g_term h \<and> name_str (g_voter g) = name_str (g_voter h)"
    using assms(2) unfolding shape by (rule flat_object_split)
  then show ?thesis
    using assms(1) name_str_inj by (cases g; cases h) (auto simp: same_grant_def dest: injD)
qed

end
