(* ===== verification/Failover_Election.thy ===== *)
theory Failover_Election
  imports Failover_Models
begin

text \<open>
  One member of the three-member election (\<^verbatim>\<open>coire_core/failover_election.py\<close>), with the restart
  fence, the lease file and the override slot that \<^verbatim>\<open>StudioParticipant\<close> of
  \<^verbatim>\<open>coire_node/failover/participant.py\<close> adds. The object's attributes are the fields of the
  record \<^verbatim>\<open>participant\<close>; a method is a function that returns the new record, with its result
  where it has one. Metrics and tracing are left out: nothing reads them back.
\<close>

section \<open>State\<close>

datatype member_health = HEALTHY | DEGRADED | UNREACHABLE

datatype service_role = STANDBY | CANDIDATE | ELECTED | DRAINING

record member_observation =
  ob_name :: member_name
  ob_health :: member_health
  ob_since :: datetime

record election_timings =
  t_promotion :: timedelta
  t_demotion :: timedelta
  t_lease :: timedelta
  t_drain :: timedelta

text \<open>
  \<^verbatim>\<open>on_change\<close>: core installs no listener; a Studio installs \<^verbatim>\<open>publish_lease\<close>, whose only
  effect is the content of the lease file (\<^const>\<open>None\<close>: the file is absent).
\<close>

datatype role_listener = No_listener | Lease_file "failover_lease option"

record participant =
  e_name :: member_name
  e_membership :: membership_config
  e_timings :: election_timings
  e_role :: service_role
  e_term :: int
  e_proof :: "promotion_proof option"
  e_reservation_held :: bool
  e_in_flight :: int
  e_engines_evicted :: int
  e_private_key :: string
  e_journal :: "failover_event list option"
  e_on_change :: role_listener
  e_observations :: "member_observation list"
  e_override :: "failover_override option"
  e_received :: "(int \<times> member_name, vote_grant) pydict"
  e_issued :: "(int, vote_grant) pydict"
  e_closed :: bool
  e_outage :: bool
  e_reclaim_since :: "datetime option"
  e_drain_started :: "datetime option"
  e_now :: datetime
  e_published :: "(service_role \<times> promotion_proof option) option"
  e_restart_fence_until :: "datetime option"
  e_delivered_override :: "failover_override option"

datatype election_error = Demotion_not_slower

definition demotion_is_slower :: "election_timings \<Rightarrow> election_error + unit" where
  "demotion_is_slower t = (if t_demotion t \<le> t_promotion t then Inl Demotion_not_slower else Inr ())"

definition init_participant ::
  "member_name \<Rightarrow> membership_config \<Rightarrow> string \<Rightarrow> election_timings \<Rightarrow> failover_event list option
     \<Rightarrow> role_listener \<Rightarrow> bool \<Rightarrow> datetime \<Rightarrow> election_error + participant" where
  "init_participant name mc key timings journal on_change standing now =
    (case demotion_is_slower timings of
       Inl e \<Rightarrow> Inl e
     | Inr _ \<Rightarrow> Inr
       \<lparr>e_name = name, e_membership = mc, e_timings = timings, e_role = STANDBY, e_term = 1,
        e_proof = None, e_reservation_held = standing, e_in_flight = 0, e_engines_evicted = 0,
        e_private_key = key, e_journal = journal, e_on_change = on_change, e_observations = [],
        e_override = None, e_received = [], e_issued = [], e_closed = False, e_outage = False,
        e_reclaim_since = None, e_drain_started = None, e_now = now, e_published = None,
        e_restart_fence_until = None, e_delivered_override = None\<rparr>)"

text \<open>
  \<^verbatim>\<open>StudioParticipant.__init__\<close>: a member that restarts holds its votes and its campaign back for
  one lease. Without a restart the fence is \<^verbatim>\<open>datetime.min\<close>, below every time.
\<close>

definition init_studio ::
  "member_name \<Rightarrow> membership_config \<Rightarrow> string \<Rightarrow> election_timings \<Rightarrow> failover_event list option
     \<Rightarrow> failover_lease option \<Rightarrow> bool \<Rightarrow> datetime \<Rightarrow> election_error + participant" where
  "init_studio name mc key timings journal file restart_hold now =
    (case init_participant name mc key timings journal
            (Lease_file (if restart_hold then None else file)) True now of
       Inl e \<Rightarrow> Inl e
     | Inr p \<Rightarrow> Inr (if restart_hold
                      then p\<lparr>e_restart_fence_until := Some (now + t_lease timings)\<rparr> else p))"

text \<open>\<^verbatim>\<open>core_participant\<close>: a fresh core process assumes that it is recovering from an outage.\<close>

definition init_core ::
  "membership_config \<Rightarrow> string \<Rightarrow> election_timings \<Rightarrow> datetime \<Rightarrow> election_error + participant" where
  "init_core mc key timings now =
    (case init_participant Core mc key timings None No_listener False now of
       Inl e \<Rightarrow> Inl e
     | Inr p \<Rightarrow> Inr (p\<lparr>e_outage := True\<rparr>))"

section \<open>Views of the cluster\<close>

definition observed :: "participant \<Rightarrow> member_name \<Rightarrow> member_observation option" where
  "observed p n = List.find (\<lambda>ob. ob_name ob = n) (e_observations p)"

definition prio :: "participant \<Rightarrow> member_name \<Rightarrow> int" where
  "prio p n = member_priority (e_membership p) n"

definition visible :: "participant \<Rightarrow> member_name set" where
  "visible p = insert (e_name p) (set (map m_name (filter
     (\<lambda>m. m_name m \<noteq> e_name p \<and>
          (case observed p (m_name m) of None \<Rightarrow> False | Some ob \<Rightarrow> ob_health ob \<noteq> UNREACHABLE))
     (mc_members (e_membership p)))))"

definition inhibit_applies :: "participant \<Rightarrow> datetime \<Rightarrow> bool" where
  "inhibit_applies p now \<longleftrightarrow>
     e_name p \<noteq> Core \<and>
     (case e_override p of
        None \<Rightarrow> False
      | Some v \<Rightarrow> ov_kind v = INHIBIT \<and> override_is_current v now)"

definition break_glass_ok :: "participant \<Rightarrow> datetime \<Rightarrow> bool" where
  "break_glass_ok p now \<longleftrightarrow>
     (case e_override p of
        None \<Rightarrow> False
      | Some v \<Rightarrow> ov_kind v = BREAK_GLASS_PROMOTE \<and> override_is_current v now)"

definition override_is_authentic :: "runtime \<Rightarrow> participant \<Rightarrow> failover_override option \<Rightarrow> bool" where
  "override_is_authentic rt p ov =
    (case ov of
       None \<Rightarrow> False
     | Some v \<Rightarrow> verify_ed25519 rt (override_bytes rt v) (ov_signature v)
                   (member_key (e_membership p) Core))"

datatype higher_status = Down | Wait | Leader

definition higher_status :: "participant \<Rightarrow> member_name \<Rightarrow> datetime \<Rightarrow> higher_status" where
  "higher_status p n now =
    (case observed p n of
       None \<Rightarrow> Wait
     | Some ob \<Rightarrow>
         if ob_health ob = UNREACHABLE
         then (if now - ob_since ob \<ge> t_promotion (e_timings p) then Down else Wait)
         else Leader)"

fun leader_scan :: "participant \<Rightarrow> datetime \<Rightarrow> failover_member list \<Rightarrow> member_name option" where
  "leader_scan p now [] = None"
| "leader_scan p now (m # ms) =
    (if m_name m = e_name p
     then (if inhibit_applies p now then None else Some (e_name p))
     else (case higher_status p (m_name m) now of
             Down \<Rightarrow> leader_scan p now ms
           | Wait \<Rightarrow> None
           | Leader \<Rightarrow> Some (m_name m)))"

definition eligible_leader :: "participant \<Rightarrow> datetime \<Rightarrow> member_name option" where
  "eligible_leader p now = leader_scan p now (sort_key m_priority (mc_members (e_membership p)))"

definition higher_recovered :: "participant \<Rightarrow> datetime \<Rightarrow> bool" where
  "higher_recovered p now =
    list_ex
      (\<lambda>m. m_priority m < prio p (e_name p) \<and>
           (case observed p (m_name m) of
              None \<Rightarrow> False
            | Some ob \<Rightarrow> ob_health ob = HEALTHY \<and> now - ob_since ob \<ge> t_demotion (e_timings p)))
      (mc_members (e_membership p))"

definition lower_visible :: "participant \<Rightarrow> bool" where
  "lower_visible p =
    list_ex (\<lambda>m. m_priority m > prio p (e_name p) \<and> m_name m \<in> visible p)
      (mc_members (e_membership p))"

section \<open>Proofs, leases, serving\<close>

definition proof_ok :: "runtime \<Rightarrow> participant \<Rightarrow> datetime \<Rightarrow> bool" where
  "proof_ok rt p now =
    (case e_proof p of
       None \<Rightarrow> False
     | Some pr \<Rightarrow> proof_is_current pr now \<and> proof_is_valid_for rt pr (e_membership p) now)"

definition serving :: "runtime \<Rightarrow> participant \<Rightarrow> datetime option \<Rightarrow> bool" where
  "serving rt p now =
    (let moment = (case now of None \<Rightarrow> e_now p | Some t \<Rightarrow> t) in
     if e_role p \<noteq> ELECTED then False
     else if break_glass_ok p moment \<and> e_proof p = None then True
     else proof_ok rt p moment)"

definition lease :: "participant \<Rightarrow> failover_lease option" where
  "lease p =
    (if e_role p \<noteq> ELECTED then None
     else case e_proof p of
       Some pr \<Rightarrow> Some \<lparr>fl_holder = e_name p, fl_proof = Some pr, fl_break_glass = None\<rparr>
     | None \<Rightarrow>
         (case e_override p of
            Some v \<Rightarrow> if ov_kind v = BREAK_GLASS_PROMOTE
                      then Some \<lparr>fl_holder = e_name p, fl_proof = None, fl_break_glass = Some v\<rparr>
                      else None
          | None \<Rightarrow> None))"

definition proof_digest :: "runtime \<Rightarrow> promotion_proof option \<Rightarrow> string" where
  "proof_digest rt pr =
    sha256_hex rt (case pr of Some x \<Rightarrow> proof_bytes rt x | None \<Rightarrow> ''fenced'')"

definition record_event ::
  "runtime \<Rightarrow> event_kind \<Rightarrow> promotion_proof option \<Rightarrow> participant \<Rightarrow> participant" where
  "record_event rt kind pr p =
    (case e_journal p of
       None \<Rightarrow> p
     | Some es \<Rightarrow> p\<lparr>e_journal := Some (es @
         [\<lparr>ev_term = e_term p, ev_kind = kind, ev_host = e_name p, ev_occurred_at = e_now p,
           ev_proof_digest = proof_digest rt pr\<rparr>])\<rparr>)"

definition emit :: "participant \<Rightarrow> participant" where
  "emit p =
    (if e_published p = Some (e_role p, e_proof p) then p
     else (case e_on_change p of
             No_listener \<Rightarrow> p\<lparr>e_published := Some (e_role p, e_proof p)\<rparr>
           | Lease_file _ \<Rightarrow> p\<lparr>e_published := Some (e_role p, e_proof p),
                               e_on_change := Lease_file (lease p)\<rparr>))"

section \<open>Role changes\<close>

definition self_grant :: "runtime \<Rightarrow> participant \<Rightarrow> datetime \<Rightarrow> vote_grant" where
  "self_grant rt p now =
    (let unsigned = \<lparr>g_epoch = mc_epoch (e_membership p), g_term = e_term p,
                     g_candidate = e_name p, g_voter = e_name p,
                     g_expires_at = now + t_lease (e_timings p), g_signature = ''unsigned''\<rparr>
     in unsigned\<lparr>g_signature := sign_ed25519 rt (grant_bytes rt unsigned) (e_private_key p)\<rparr>)"

definition ensure_self_grant :: "runtime \<Rightarrow> datetime \<Rightarrow> participant \<Rightarrow> participant" where
  "ensure_self_grant rt now p =
    (if list_ex (\<lambda>g. g_candidate g \<noteq> e_name p \<and> grant_is_current g now) (dict_values (e_issued p))
     then p
     else
       (let fresh = p\<lparr>e_received := dict_set (e_term p, e_name p) (self_grant rt p now) (e_received p)\<rparr>
        in case dict_get (e_received p) (e_term p, e_name p) of
          Some g \<Rightarrow>
            if grant_is_current g now \<and> g_candidate g = e_name p
               \<and> g_expires_at g - now > td_third (t_lease (e_timings p))
            then p else fresh
        | None \<Rightarrow> fresh))"

definition usable_grants ::
  "runtime \<Rightarrow> participant \<Rightarrow> datetime \<Rightarrow> (member_name, vote_grant) pydict" where
  "usable_grants rt p now =
    map (\<lambda>((t, v), g). (v, g))
      (filter (\<lambda>((t, v), g). t = e_term p \<and> g_candidate g = e_name p \<and> grant_is_current g now
                \<and> verify_ed25519 rt (grant_bytes rt g) (g_signature g) (member_key (e_membership p) v))
         (e_received p))"

definition try_proof :: "runtime \<Rightarrow> datetime \<Rightarrow> participant \<Rightarrow> promotion_proof option" where
  "try_proof rt now p =
    (let grants = usable_grants rt p now in
     case dict_get grants (e_name p) of
       None \<Rightarrow> None
     | Some mine \<Rightarrow>
         if length grants < 2 then None
         else
           (let other = hd (sort (filter (\<lambda>v. v \<noteq> e_name p) (map fst grants)));
                pr = \<lparr>pp_epoch = mc_epoch (e_membership p), pp_term = e_term p,
                      pp_candidate = e_name p,
                      pp_grants = [mine, the (dict_get grants other)]\<rparr>
            in if proof_is_valid_for rt pr (e_membership p) now then Some pr else None))"

definition promote ::
  "runtime \<Rightarrow> promotion_proof option \<Rightarrow> bool \<Rightarrow> participant \<Rightarrow> participant" where
  "promote rt pr break_glass p =
    (let first = (e_role p \<noteq> ELECTED);
         p' = p\<lparr>e_proof := pr, e_role := ELECTED, e_reservation_held := True, e_outage := False,
                e_reclaim_since := None\<rparr>
     in if first then record_event rt (if break_glass then BREAK_GLASS else PROMOTED) pr p' else p')"

definition begin_drain :: "runtime \<Rightarrow> datetime \<Rightarrow> participant \<Rightarrow> participant" where
  "begin_drain rt now p =
    (if e_role p = DRAINING then p
     else record_event rt EV_DRAINING (e_proof p)
            (p\<lparr>e_role := DRAINING, e_proof := None, e_drain_started := Some now\<rparr>))"

definition finish_drain_if_idle :: "runtime \<Rightarrow> participant \<Rightarrow> participant" where
  "finish_drain_if_idle rt p =
    (if e_role p \<noteq> DRAINING then p
     else if e_in_flight p > 0
           \<and> (case e_drain_started p of
                None \<Rightarrow> False
              | Some s \<Rightarrow> e_now p - s < t_drain (e_timings p)) then p
     else record_event rt HANDBACK None (p\<lparr>e_role := STANDBY, e_closed := True\<rparr>))"

definition fence :: "runtime \<Rightarrow> bool \<Rightarrow> participant \<Rightarrow> participant" where
  "fence rt outage p =
    (let was_leader = (e_role p = ELECTED \<or> e_role p = DRAINING);
         p' = p\<lparr>e_role := STANDBY, e_proof := None, e_closed := True,
                e_outage := (if outage then True else e_outage p)\<rparr>
     in if was_leader then record_event rt FENCED (e_proof p) p' else p')"

definition base_may_campaign ::
  "datetime \<Rightarrow> member_name option \<Rightarrow> participant \<Rightarrow> bool \<times> participant" where
  "base_may_campaign now leader p =
    (let quorum = (2 \<le> card (visible p));
         break_glass = (break_glass_ok p now \<and> leader = Some (e_name p)) in
     if \<not> (quorum \<or> break_glass) then (False, p)
     else if e_outage p \<and> lower_visible p then
       (let since = (case e_reclaim_since p of None \<Rightarrow> now | Some s \<Rightarrow> s);
            p' = p\<lparr>e_reclaim_since := Some since\<rparr>
        in (\<not> (now - since < t_demotion (e_timings p)), p'))
     else (True, p\<lparr>e_reclaim_since := None\<rparr>))"

text \<open>The Studio's override of \<^verbatim>\<open>_may_campaign\<close> consults the restart fence first.\<close>

definition past_restart_fence :: "participant \<Rightarrow> datetime \<Rightarrow> bool" where
  "past_restart_fence p now =
    (case e_restart_fence_until p of None \<Rightarrow> True | Some f \<Rightarrow> f \<le> now)"

definition may_campaign ::
  "datetime \<Rightarrow> member_name option \<Rightarrow> participant \<Rightarrow> bool \<times> participant" where
  "may_campaign now leader p =
    (if past_restart_fence p now then base_may_campaign now leader p else (False, p))"

definition stand_down :: "participant \<Rightarrow> participant" where
  "stand_down p = (if e_role p = CANDIDATE then p\<lparr>e_role := STANDBY, e_proof := None\<rparr> else p)"

definition enter_candidacy :: "participant \<Rightarrow> participant" where
  "enter_candidacy p =
    (if e_role p = STANDBY then
       (let p' = (if e_closed p then p\<lparr>e_term := e_term p + 1, e_received := []\<rparr> else p)
        in p'\<lparr>e_closed := False, e_role := CANDIDATE\<rparr>)
     else p)"

definition campaign :: "runtime \<Rightarrow> datetime \<Rightarrow> participant \<Rightarrow> participant" where
  "campaign rt now p =
    (let leader = eligible_leader p now in
     if leader \<noteq> Some (e_name p) then stand_down (p\<lparr>e_reclaim_since := None\<rparr>)
     else
       (let (ok, p1) = may_campaign now leader p in
        if \<not> ok then stand_down p1
        else
          (let p2 = ensure_self_grant rt now (enter_candidacy p1) in
           case try_proof rt now p2 of
             Some pr \<Rightarrow> promote rt (Some pr) False p2
           | None \<Rightarrow> if break_glass_ok p2 now then promote rt None True p2 else p2)))"

definition hold_or_fence :: "runtime \<Rightarrow> datetime \<Rightarrow> participant \<Rightarrow> participant" where
  "hold_or_fence rt now p =
    (if \<not> 2 \<le> card (visible p) \<and> \<not> break_glass_ok p now then fence rt True p
     else
       (let proof_current = proof_ok rt p now in
        if proof_current
           \<and> (case e_proof p of
                None \<Rightarrow> False
              | Some pr \<Rightarrow> list_all
                  (\<lambda>g. g_expires_at g - now > td_third (t_lease (e_timings p))) (pp_grants pr))
        then p
        else if e_proof p = None \<and> break_glass_ok p now then p
        else
          (let p1 = ensure_self_grant rt now p in
           case try_proof rt now p1 of
             Some pr \<Rightarrow> p1\<lparr>e_proof := Some pr\<rparr>
           | None \<Rightarrow> if \<not> proof_current then p1\<lparr>e_role := CANDIDATE, e_proof := None\<rparr> else p1)))"

section \<open>Operations\<close>

definition advance :: "runtime \<Rightarrow> datetime \<Rightarrow> participant \<Rightarrow> participant" where
  "advance rt now p =
    emit
      (if inhibit_applies p now then fence rt False p
       else if (e_role p = ELECTED \<or> e_role p = DRAINING) \<and> higher_recovered p now
       then finish_drain_if_idle rt (begin_drain rt now p)
       else if e_role p = DRAINING then finish_drain_if_idle rt p
       else if e_role p = ELECTED then hold_or_fence rt now p
       else campaign rt now p)"

definition observe ::
  "runtime \<Rightarrow> member_observation list \<Rightarrow> datetime \<Rightarrow> int \<Rightarrow> failover_override option
     \<Rightarrow> participant \<Rightarrow> participant" where
  "observe rt obs now in_flight ov p =
    advance rt now
      (p\<lparr>e_observations := obs,
         e_override := (if override_is_authentic rt p ov then ov else None),
         e_in_flight := in_flight, e_now := now\<rparr>)"

definition issue_grant ::
  "runtime \<Rightarrow> int \<Rightarrow> member_name \<Rightarrow> datetime \<Rightarrow> participant \<Rightarrow> vote_grant" where
  "issue_grant rt epoch candidate now p =
    (let unsigned = \<lparr>g_epoch = epoch, g_term = e_term p, g_candidate = candidate,
                     g_voter = e_name p, g_expires_at = now + t_lease (e_timings p),
                     g_signature = ''unsigned''\<rparr>
     in unsigned\<lparr>g_signature := sign_ed25519 rt (grant_bytes rt unsigned) (e_private_key p)\<rparr>)"

text \<open>\<^verbatim>\<open>vote\<close>: the checks that refuse before anything changes, then the grant for the term.\<close>

definition vote_refused ::
  "int \<Rightarrow> int \<Rightarrow> member_name \<Rightarrow> datetime \<Rightarrow> participant \<Rightarrow> bool" where
  "vote_refused epoch vterm candidate now p \<longleftrightarrow>
     \<not> past_restart_fence p now
   \<or> epoch \<noteq> mc_epoch (e_membership p) \<or> candidate = e_name p
   \<or> eligible_leader p now \<noteq> Some candidate
   \<or> e_role p = ELECTED \<or> e_role p = DRAINING
   \<or> list_ex (\<lambda>g. g_candidate g \<noteq> candidate \<and> grant_is_current g now) (dict_values (e_issued p))
   \<or> vterm < e_term p"

definition vote_in_term ::
  "runtime \<Rightarrow> int \<Rightarrow> member_name \<Rightarrow> datetime \<Rightarrow> participant \<Rightarrow> vote_grant option \<times> participant" where
  "vote_in_term rt epoch candidate now p =
    (let signed = issue_grant rt epoch candidate now p;
         issue = (Some signed, p\<lparr>e_issued := dict_set (e_term p) signed (e_issued p)\<rparr>)
     in case dict_get (e_issued p) (e_term p) of
       None \<Rightarrow> issue
     | Some g \<Rightarrow>
         if g_candidate g \<noteq> candidate \<and> grant_is_current g now then (None, p)
         else if grant_is_current g now \<and> g_expires_at g - now > td_third (t_lease (e_timings p))
         then (Some g, p)
         else issue)"

definition vote ::
  "runtime \<Rightarrow> int \<Rightarrow> int \<Rightarrow> member_name \<Rightarrow> datetime \<Rightarrow> participant \<Rightarrow> vote_grant option \<times> participant"
where
  "vote rt epoch vterm candidate now p =
    (if vote_refused epoch vterm candidate now p then (None, p)
     else vote_in_term rt epoch candidate now (if vterm > e_term p then p\<lparr>e_term := vterm\<rparr> else p))"

definition receive_grant :: "runtime \<Rightarrow> vote_grant \<Rightarrow> datetime \<Rightarrow> participant \<Rightarrow> bool \<times> participant" where
  "receive_grant rt g now p =
    (if g_candidate g \<noteq> e_name p \<or> g_epoch g \<noteq> mc_epoch (e_membership p)
        \<or> g_term g \<noteq> e_term p \<or> \<not> grant_is_current g now then (False, p)
     else if \<not> verify_ed25519 rt (grant_bytes rt g) (g_signature g)
                 (member_key (e_membership p) (g_voter g)) then (False, p)
     else
       (let store = (True, p\<lparr>e_received := dict_set (g_term g, g_voter g) g (e_received p)\<rparr>) in
        case dict_get (e_received p) (g_term g, g_voter g) of
          None \<Rightarrow> store
        | Some old \<Rightarrow>
            if grant_is_current old now then
              (if g_candidate old \<noteq> g_candidate g \<or> g_expires_at g < g_expires_at old then (False, p)
               else if g_expires_at g = g_expires_at old then (g_signature old = g_signature g, p)
               else store)
            else store))"

definition accept_handback ::
  "runtime \<Rightarrow> handback_notice \<Rightarrow> datetime \<Rightarrow> participant \<Rightarrow> bool \<times> participant" where
  "accept_handback rt n now p =
    (if hn_holder n \<noteq> e_name p \<or> hn_epoch n \<noteq> mc_epoch (e_membership p)
        \<or> \<not> handback_is_current n now \<or> prio p (hn_successor n) \<ge> prio p (e_name p) then (False, p)
     else if \<not> verify_ed25519 rt (handback_bytes rt n) (hn_signature n)
                 (member_key (e_membership p) (hn_successor n)) then (False, p)
     else if e_role p = STANDBY then (True, p)
     else if e_role p \<noteq> ELECTED \<and> e_role p \<noteq> DRAINING then (False, p)
     else (True, emit (finish_drain_if_idle rt (begin_drain rt now (p\<lparr>e_now := now\<rparr>)))))"

definition adopt_term :: "int \<Rightarrow> participant \<Rightarrow> participant" where
  "adopt_term t p =
    (if t \<le> e_term p \<or> e_role p = ELECTED \<or> e_role p = DRAINING then p
     else p\<lparr>e_term := t, e_received := []\<rparr>)"

definition issue_heartbeat :: "runtime \<Rightarrow> datetime \<Rightarrow> participant \<Rightarrow> heartbeat" where
  "issue_heartbeat rt now p =
    (let unsigned = \<lparr>hb_member = e_name p, hb_sent_at = now, hb_signature = ''unsigned''\<rparr>
     in unsigned\<lparr>hb_signature := sign_ed25519 rt (heartbeat_bytes rt unsigned) (e_private_key p)\<rparr>)"

definition issue_vote_request :: "runtime \<Rightarrow> participant \<Rightarrow> vote_request option" where
  "issue_vote_request rt p =
    (if e_role p \<noteq> CANDIDATE \<and> e_role p \<noteq> ELECTED then None
     else if eligible_leader p (e_now p) \<noteq> Some (e_name p) then None
     else
       (let unsigned = \<lparr>vr_epoch = mc_epoch (e_membership p), vr_term = e_term p,
                        vr_candidate = e_name p, vr_signature = ''unsigned''\<rparr>
        in Some (unsigned\<lparr>vr_signature :=
             sign_ed25519 rt (vote_request_bytes rt unsigned) (e_private_key p)\<rparr>)))"

text \<open>The override slot of a Studio.\<close>

definition deliver_override ::
  "runtime \<Rightarrow> failover_override \<Rightarrow> datetime \<Rightarrow> participant \<Rightarrow> bool \<times> participant" where
  "deliver_override rt v now p =
    (if \<not> override_is_current v now
        \<or> \<not> verify_ed25519 rt (override_bytes rt v) (ov_signature v) (member_key (e_membership p) Core)
     then (False, p)
     else if (case e_delivered_override p of
                None \<Rightarrow> False | Some d \<Rightarrow> ov_signature d = ov_signature v) then (True, p)
     else
       (let p' = p\<lparr>e_delivered_override := Some v\<rparr> in
        (True,
         case e_journal p' of
           None \<Rightarrow> p'
         | Some es \<Rightarrow> p'\<lparr>e_journal := Some (es @
             [\<lparr>ev_term = e_term p',
               ev_kind = (if ov_kind v = INHIBIT then OVERRIDE_INHIBIT else OVERRIDE_BREAK_GLASS),
               ev_host = e_name p', ev_occurred_at = now,
               ev_proof_digest = sha256_hex rt (override_bytes rt v)\<rparr>])\<rparr>)))"

definition active_override :: "datetime \<Rightarrow> participant \<Rightarrow> failover_override option \<times> participant" where
  "active_override now p =
    (case e_delivered_override p of
       Some v \<Rightarrow> if override_is_current v now then (Some v, p)
                 else (None, p\<lparr>e_delivered_override := None\<rparr>)
     | None \<Rightarrow> (None, p\<lparr>e_delivered_override := None\<rparr>))"

end
