(* ===== verification/Failover_Election_Inv.thy ===== *)
theory Failover_Election_Inv
  imports Failover_Election
begin

text \<open>
  Invariants of one election member: which fields an operation leaves alone, what a stored
  grant and a held proof look like, that a voter never has two current grants out for
  different candidates, that terms only grow, and that the lease file of a Studio exists only
  while it is elected.
\<close>

section \<open>Frames\<close>

lemma record_event_fields [simp]:
  "e_name (record_event rt k pr p) = e_name p"
  "e_membership (record_event rt k pr p) = e_membership p"
  "e_timings (record_event rt k pr p) = e_timings p"
  "e_private_key (record_event rt k pr p) = e_private_key p"
  "e_restart_fence_until (record_event rt k pr p) = e_restart_fence_until p"
  "e_issued (record_event rt k pr p) = e_issued p"
  "e_received (record_event rt k pr p) = e_received p"
  "e_role (record_event rt k pr p) = e_role p"
  "e_proof (record_event rt k pr p) = e_proof p"
  "e_term (record_event rt k pr p) = e_term p"
  "e_now (record_event rt k pr p) = e_now p"
  "e_on_change (record_event rt k pr p) = e_on_change p"
  "e_override (record_event rt k pr p) = e_override p"
  "e_observations (record_event rt k pr p) = e_observations p"
  "e_published (record_event rt k pr p) = e_published p"
  "e_in_flight (record_event rt k pr p) = e_in_flight p"
  "e_drain_started (record_event rt k pr p) = e_drain_started p"
  by (simp_all add: record_event_def split: option.splits)

text \<open>Identity, clock-independent configuration and votes given: what no role change touches.\<close>

definition same_identity :: "participant \<Rightarrow> participant \<Rightarrow> bool" where
  "same_identity p q \<longleftrightarrow>
     e_name q = e_name p \<and> e_membership q = e_membership p \<and> e_timings q = e_timings p
   \<and> e_private_key q = e_private_key p \<and> e_restart_fence_until q = e_restart_fence_until p"

definition same_votes :: "participant \<Rightarrow> participant \<Rightarrow> bool" where
  "same_votes p q \<longleftrightarrow> same_identity p q \<and> e_issued q = e_issued p"

lemma same_votes_refl [simp]: "same_votes p p"
  by (simp add: same_votes_def same_identity_def)

lemma same_votes_trans: "same_votes p q \<Longrightarrow> same_votes q r \<Longrightarrow> same_votes p r"
  by (simp add: same_votes_def same_identity_def)

named_theorems votes_kept \<open>role changes that keep identity and votes\<close>

lemma same_votes_record_event [votes_kept]: "same_votes p (record_event rt k pr q) = same_votes p q"
  by (simp add: same_votes_def same_identity_def)

lemma same_votes_emit [votes_kept]: "same_votes p (emit q) = same_votes p q"
  by (simp add: emit_def same_votes_def same_identity_def split: role_listener.splits)

lemma same_votes_ensure_self_grant [votes_kept]:
  "same_votes p (ensure_self_grant rt now q) = same_votes p q"
  by (simp add: ensure_self_grant_def Let_def same_votes_def same_identity_def split: option.splits)

lemma same_votes_stand_down [votes_kept]: "same_votes p (stand_down q) = same_votes p q"
  by (simp add: stand_down_def same_votes_def same_identity_def)

lemma same_votes_enter_candidacy [votes_kept]: "same_votes p (enter_candidacy q) = same_votes p q"
  by (simp add: enter_candidacy_def Let_def same_votes_def same_identity_def)

lemma same_votes_promote [votes_kept]: "same_votes p (promote rt pr bg q) = same_votes p q"
  by (simp add: promote_def Let_def votes_kept) (simp add: same_votes_def same_identity_def)

lemma same_votes_fence [votes_kept]: "same_votes p (fence rt b q) = same_votes p q"
  by (simp add: fence_def Let_def votes_kept) (simp add: same_votes_def same_identity_def)

lemma same_votes_begin_drain [votes_kept]: "same_votes p (begin_drain rt now q) = same_votes p q"
  by (simp add: begin_drain_def votes_kept) (simp add: same_votes_def same_identity_def)

lemma same_votes_finish_drain [votes_kept]: "same_votes p (finish_drain_if_idle rt q) = same_votes p q"
  by (simp add: finish_drain_if_idle_def votes_kept) (simp add: same_votes_def same_identity_def)

lemma same_votes_proof [votes_kept]: "same_votes p (q\<lparr>e_proof := x\<rparr>) = same_votes p q"
  by (simp add: same_votes_def same_identity_def)

lemma same_votes_role [votes_kept]: "same_votes p (q\<lparr>e_role := x\<rparr>) = same_votes p q"
  by (simp add: same_votes_def same_identity_def)

lemma same_votes_reclaim [votes_kept]: "same_votes p (q\<lparr>e_reclaim_since := x\<rparr>) = same_votes p q"
  by (simp add: same_votes_def same_identity_def)

lemma same_votes_may_campaign [votes_kept]:
  "same_votes p (snd (may_campaign now leader q)) = same_votes p q"
  by (simp add: may_campaign_def base_may_campaign_def Let_def votes_kept)

text \<open>The outcomes of a campaign: standing down, candidacy, promotion by quorum or by override.\<close>

lemma may_campaign_reclaim: "\<exists>x. snd (may_campaign now leader p) = p\<lparr>e_reclaim_since := x\<rparr>"
proof -
  have "\<exists>x. p = p\<lparr>e_reclaim_since := x\<rparr>"
    by (rule exI [of _ "e_reclaim_since p"]) simp
  then show ?thesis
    by (auto simp: may_campaign_def base_may_campaign_def Let_def)
qed

lemma may_campaign_quorum:
  "fst (may_campaign now leader p) \<Longrightarrow> 2 \<le> card (visible p) \<or> break_glass_ok p now"
  by (auto simp: may_campaign_def base_may_campaign_def Let_def split: if_splits)

lemma campaign_cases:
  obtains (down) x where "campaign rt now p = stand_down (p\<lparr>e_reclaim_since := x\<rparr>)"
  | (candidate) x c where "eligible_leader p now = Some (e_name p)"
      "2 \<le> card (visible p) \<or> break_glass_ok p now"
      "c = ensure_self_grant rt now (enter_candidacy (p\<lparr>e_reclaim_since := x\<rparr>))"
      "try_proof rt now c = None" "\<not> break_glass_ok c now" "campaign rt now p = c"
  | (promoted) x c pr where "eligible_leader p now = Some (e_name p)"
      "2 \<le> card (visible p) \<or> break_glass_ok p now"
      "c = ensure_self_grant rt now (enter_candidacy (p\<lparr>e_reclaim_since := x\<rparr>))"
      "try_proof rt now c = Some pr" "campaign rt now p = promote rt (Some pr) False c"
  | (glass) x c where "eligible_leader p now = Some (e_name p)"
      "c = ensure_self_grant rt now (enter_candidacy (p\<lparr>e_reclaim_since := x\<rparr>))"
      "try_proof rt now c = None" "break_glass_ok c now" "campaign rt now p = promote rt None True c"
proof (cases "eligible_leader p now = Some (e_name p)")
  case False
  then show ?thesis by (intro down [of None]) (simp add: campaign_def Let_def)
next
  case True
  obtain ok p1 where m: "may_campaign now (Some (e_name p)) p = (ok, p1)"
    by (cases "may_campaign now (Some (e_name p)) p")
  obtain x where x: "p1 = p\<lparr>e_reclaim_since := x\<rparr>"
    using may_campaign_reclaim [of now "Some (e_name p)" p] m by auto
  define c where "c = ensure_self_grant rt now (enter_candidacy (p\<lparr>e_reclaim_since := x\<rparr>))"
  have q: "2 \<le> card (visible p) \<or> break_glass_ok p now" if ok
    using may_campaign_quorum [of now "Some (e_name p)" p] m that by simp
  have r: "campaign rt now p = (if \<not> ok then stand_down p1 else
      case try_proof rt now c of Some pr \<Rightarrow> promote rt (Some pr) False c
      | None \<Rightarrow> if break_glass_ok c now then promote rt None True c else c)"
    unfolding c_def campaign_def Let_def using True m x by simp
  show ?thesis
  proof (cases ok)
    case False
    with r x show ?thesis by (intro down [of x]) simp
  next
    case ok: True
    show ?thesis
    proof (cases "try_proof rt now c")
      case None
      with r ok q True c_def show ?thesis
        by (cases "break_glass_ok c now") (auto intro: candidate glass)
    next
      case (Some pr)
      with r ok q True c_def show ?thesis by (intro promoted [of c x pr]) auto
    qed
  qed
qed

lemma same_votes_campaign [votes_kept]: "same_votes p (campaign rt now q) = same_votes p q"
  by (cases rule: campaign_cases [of rt now q]) (simp_all add: votes_kept)

text \<open>The outcomes of a poll of an elected member.\<close>

lemma hold_or_fence_cases:
  obtains (fenced) "\<not> 2 \<le> card (visible p)" "\<not> break_glass_ok p now"
      "hold_or_fence rt now p = fence rt True p"
  | (kept) "2 \<le> card (visible p) \<or> break_glass_ok p now"
      "proof_ok rt p now \<or> e_proof p = None \<and> break_glass_ok p now" "hold_or_fence rt now p = p"
  | (renewed) p1 pr where "2 \<le> card (visible p) \<or> break_glass_ok p now"
      "p1 = ensure_self_grant rt now p" "try_proof rt now p1 = Some pr"
      "hold_or_fence rt now p = p1\<lparr>e_proof := Some pr\<rparr>"
  | (lapsed) p1 where "2 \<le> card (visible p) \<or> break_glass_ok p now"
      "p1 = ensure_self_grant rt now p" "try_proof rt now p1 = None" "\<not> proof_ok rt p now"
      "hold_or_fence rt now p = p1\<lparr>e_role := CANDIDATE, e_proof := None\<rparr>"
  | (waiting) p1 where "2 \<le> card (visible p) \<or> break_glass_ok p now"
      "p1 = ensure_self_grant rt now p" "try_proof rt now p1 = None" "proof_ok rt p now"
      "hold_or_fence rt now p = p1"
proof -
  define p1 where "p1 = ensure_self_grant rt now p"
  define fresh where "fresh = (case e_proof p of None \<Rightarrow> False | Some pr \<Rightarrow> list_all
      (\<lambda>g. g_expires_at g - now > td_third (t_lease (e_timings p))) (pp_grants pr))"
  have h: "hold_or_fence rt now p =
      (if \<not> 2 \<le> card (visible p) \<and> \<not> break_glass_ok p now then fence rt True p
       else if proof_ok rt p now \<and> fresh then p
       else if e_proof p = None \<and> break_glass_ok p now then p
       else case try_proof rt now p1 of Some pr \<Rightarrow> p1\<lparr>e_proof := Some pr\<rparr>
            | None \<Rightarrow> if \<not> proof_ok rt p now then p1\<lparr>e_role := CANDIDATE, e_proof := None\<rparr> else p1)"
    by (simp only: hold_or_fence_def Let_def p1_def fresh_def)
  consider "\<not> 2 \<le> card (visible p) \<and> \<not> break_glass_ok p now"
    | "2 \<le> card (visible p) \<or> break_glass_ok p now"
      "proof_ok rt p now \<and> fresh \<or> e_proof p = None \<and> break_glass_ok p now"
    | "2 \<le> card (visible p) \<or> break_glass_ok p now"
      "\<not> (proof_ok rt p now \<and> fresh)" "\<not> (e_proof p = None \<and> break_glass_ok p now)"
    by blast
  then show ?thesis
  proof cases
    case 1
    then show ?thesis using fenced h by simp
  next
    case 2
    then have "hold_or_fence rt now p = p" using h by auto
    then show ?thesis using kept 2 by blast
  next
    case 3
    then have r: "hold_or_fence rt now p = (case try_proof rt now p1 of
          Some pr \<Rightarrow> p1\<lparr>e_proof := Some pr\<rparr>
        | None \<Rightarrow> if \<not> proof_ok rt p now then p1\<lparr>e_role := CANDIDATE, e_proof := None\<rparr> else p1)"
      using h by (simp only: if_False simp_thms) auto
    show ?thesis
    proof (cases "try_proof rt now p1")
      case None
      show ?thesis
      proof (cases "proof_ok rt p now")
        case True
        then show ?thesis using waiting [OF 3(1) p1_def None True] r None by simp
      next
        case False
        then show ?thesis using lapsed [OF 3(1) p1_def None False] r None by simp
      qed
    next
      case (Some pr)
      then show ?thesis using renewed [OF 3(1) p1_def Some] r by simp
    qed
  qed
qed

lemma same_votes_hold_or_fence [votes_kept]: "same_votes p (hold_or_fence rt now q) = same_votes p q"
  by (cases rule: hold_or_fence_cases [of q now rt]) (simp_all add: votes_kept)

lemma same_votes_advance [votes_kept]: "same_votes p (advance rt now q) = same_votes p q"
  by (auto simp: advance_def votes_kept)

lemma observe_same_votes: "same_votes p (observe rt obs now k ov p)"
  by (simp add: observe_def votes_kept) (simp add: same_votes_def same_identity_def)

lemma receive_grant_same_votes: "same_votes p (snd (receive_grant rt g now p))"
  by (simp add: receive_grant_def Let_def same_votes_def same_identity_def split: option.splits)

lemma accept_handback_same_votes: "same_votes p (snd (accept_handback rt n now p))"
  by (simp add: accept_handback_def votes_kept) (simp add: same_votes_def same_identity_def)

lemma adopt_term_same_votes: "same_votes p (adopt_term t p)"
  by (simp add: adopt_term_def same_votes_def same_identity_def)

lemma deliver_override_same_votes: "same_votes p (snd (deliver_override rt v now p))"
  by (simp add: deliver_override_def Let_def same_votes_def same_identity_def split: option.splits)

lemma active_override_same_votes: "same_votes p (snd (active_override now p))"
  by (simp add: active_override_def same_votes_def same_identity_def split: option.splits)

section \<open>Stored grants and held proofs\<close>

text \<open>
  \<^verbatim>\<open>Q\<close> is what is known of a grant that came from another voter. Every stored grant is filed
  under its own term and voter and is for this member; a held proof consists of the member's
  own grant and one other voter's, and only an elected member holds one.
\<close>

definition grant_filed :: "(vote_grant \<Rightarrow> bool) \<Rightarrow> participant \<Rightarrow> (int \<times> member_name) \<times> vote_grant \<Rightarrow> bool" where
  "grant_filed Q p e \<longleftrightarrow>
     g_term (snd e) = fst (fst e) \<and> g_voter (snd e) = snd (fst e) \<and> g_candidate (snd e) = e_name p
   \<and> g_epoch (snd e) = mc_epoch (e_membership p) \<and> (g_voter (snd e) \<noteq> e_name p \<longrightarrow> Q (snd e))"

definition proof_shape :: "(vote_grant \<Rightarrow> bool) \<Rightarrow> participant \<Rightarrow> promotion_proof \<Rightarrow> bool" where
  "proof_shape Q p pr \<longleftrightarrow>
     pp_candidate pr = e_name p \<and> pp_epoch pr = mc_epoch (e_membership p)
   \<and> (\<exists>mine oth. pp_grants pr = [mine, oth] \<and> g_voter mine = e_name p \<and> g_voter oth \<noteq> e_name p
        \<and> Q oth \<and> (\<forall>g\<in>{mine, oth}. g_candidate g = e_name p \<and> g_term g = pp_term pr
                                     \<and> g_epoch g = pp_epoch pr))"

definition holds_inv :: "(vote_grant \<Rightarrow> bool) \<Rightarrow> participant \<Rightarrow> bool" where
  "holds_inv Q p \<longleftrightarrow>
     dict_ok (e_received p) \<and> (\<forall>e\<in>set (e_received p). grant_filed Q p e)
   \<and> (\<forall>pr. e_proof p = Some pr \<longrightarrow> e_role p = ELECTED \<and> proof_shape Q p pr)"

lemma grant_filed_cong:
  "e_name q = e_name p \<Longrightarrow> e_membership q = e_membership p \<Longrightarrow> grant_filed Q q = grant_filed Q p"
  by (simp add: grant_filed_def fun_eq_iff)

lemma proof_shape_cong:
  "e_name q = e_name p \<Longrightarrow> e_membership q = e_membership p \<Longrightarrow> proof_shape Q q = proof_shape Q p"
  by (simp add: proof_shape_def fun_eq_iff)

lemma holds_inv_mono: "holds_inv Q p \<Longrightarrow> (\<And>g. Q g \<Longrightarrow> R g) \<Longrightarrow> holds_inv R p"
  unfolding holds_inv_def grant_filed_def proof_shape_def by meson

text \<open>A change that keeps identity and stored grants and keeps or drops the proof.\<close>

lemma holds_inv_same:
  assumes "holds_inv Q p" "e_name q = e_name p" "e_membership q = e_membership p"
    and "e_received q = e_received p \<or> e_received q = []"
    and "e_proof q = None \<or> (e_proof q = e_proof p \<and> (e_role p = ELECTED \<longrightarrow> e_role q = ELECTED))"
  shows "holds_inv Q q"
  using assms grant_filed_cong [of q p Q] proof_shape_cong [of q p Q]
  unfolding holds_inv_def by auto

lemma self_grant_filed: "grant_filed Q p ((e_term p, e_name p), self_grant rt p now)"
  by (simp add: grant_filed_def self_grant_def Let_def)

lemma holds_inv_store:
  assumes "holds_inv Q p" "grant_filed Q p (k, g)"
  shows "holds_inv Q (p\<lparr>e_received := dict_set k g (e_received p)\<rparr>)"
proof -
  have "e \<in> set (dict_set k g (e_received p)) \<Longrightarrow> grant_filed Q p e" for e
    using set_dict_set_subset [of k g "e_received p"] assms by (auto simp: holds_inv_def)
  then show ?thesis
    using assms(1) grant_filed_cong [of "p\<lparr>e_received := dict_set k g (e_received p)\<rparr>" p Q]
      proof_shape_cong [of "p\<lparr>e_received := dict_set k g (e_received p)\<rparr>" p Q]
    by (simp add: holds_inv_def)
qed

lemma holds_inv_ensure_self_grant: "holds_inv Q p \<Longrightarrow> holds_inv Q (ensure_self_grant rt now p)"
  unfolding ensure_self_grant_def Let_def
  by (simp add: holds_inv_store self_grant_filed split: option.splits)

lemma ensure_self_grant_fields [simp]:
  "e_name (ensure_self_grant rt now p) = e_name p"
  "e_membership (ensure_self_grant rt now p) = e_membership p"
  "e_timings (ensure_self_grant rt now p) = e_timings p"
  "e_role (ensure_self_grant rt now p) = e_role p"
  "e_proof (ensure_self_grant rt now p) = e_proof p"
  "e_term (ensure_self_grant rt now p) = e_term p"
  "e_on_change (ensure_self_grant rt now p) = e_on_change p"
  "e_override (ensure_self_grant rt now p) = e_override p"
  "e_published (ensure_self_grant rt now p) = e_published p"
  by (simp_all add: ensure_self_grant_def Let_def split: option.splits)

lemma usable_grants_mem:
  "(v, g) \<in> set (usable_grants rt p now) \<longleftrightarrow>
     ((e_term p, v), g) \<in> set (e_received p) \<and> g_candidate g = e_name p \<and> grant_is_current g now
     \<and> verify_ed25519 rt (grant_bytes rt g) (g_signature g) (member_key (e_membership p) v)"
  by (force simp: usable_grants_def)

lemma usable_grants_ok: "dict_ok (e_received p) \<Longrightarrow> dict_ok (usable_grants rt p now)"
proof -
  define P where "P = (\<lambda>((t, v), g). t = e_term p \<and> g_candidate g = e_name p \<and> grant_is_current g now
                \<and> verify_ed25519 rt (grant_bytes rt g) (g_signature g) (member_key (e_membership p) v))"
  have "distinct (map fst d) \<Longrightarrow> distinct (map fst (map (\<lambda>((t, v), g). (v, g)) (filter P d)))" for d
  proof (induction d)
    case (Cons a d)
    have "v \<notin> fst ` (\<lambda>((t, v), g). (v, g)) ` {x \<in> set d. P x}" if "a = ((t, v), g)" "P a" for t v g
      using Cons.prems that by (force simp: P_def)
    with Cons show ?case by (cases a) (force simp: case_prod_unfold)
  qed simp
  then show "dict_ok (e_received p) \<Longrightarrow> dict_ok (usable_grants rt p now)"
    by (simp add: usable_grants_def dict_ok_def P_def)
qed

lemma try_proof_SomeD:
  assumes "dict_ok (e_received p)" "try_proof rt now p = Some pr"
  obtains mine v oth where
    "pr = \<lparr>pp_epoch = mc_epoch (e_membership p), pp_term = e_term p, pp_candidate = e_name p,
           pp_grants = [mine, oth]\<rparr>"
    "v \<noteq> e_name p" "(e_name p, mine) \<in> set (usable_grants rt p now)"
    "(v, oth) \<in> set (usable_grants rt p now)"
    "proof_is_valid_for rt pr (e_membership p) now"
proof -
  let ?G = "usable_grants rt p now"
  let ?vs = "filter (\<lambda>v. v \<noteq> e_name p) (map fst ?G)"
  define other where "other = hd (sort ?vs)"
  obtain mine where mine: "dict_get ?G (e_name p) = Some mine"
    using assms(2) by (auto simp: try_proof_def Let_def split: option.splits)
  have len: "\<not> length ?G < 2"
    and valid: "proof_is_valid_for rt pr (e_membership p) now"
    and pr: "pr = \<lparr>pp_epoch = mc_epoch (e_membership p), pp_term = e_term p, pp_candidate = e_name p,
           pp_grants = [mine, the (dict_get ?G other)]\<rparr>"
    using assms(2) mine by (auto simp: try_proof_def Let_def other_def split: if_splits)
  have dist: "distinct (map fst ?G)"
    using usable_grants_ok [OF assms(1)] by (simp add: dict_ok_def)
  have "?vs \<noteq> []"
  proof
    assume "?vs = []"
    then have "set (map fst ?G) \<subseteq> {e_name p}" by (auto simp: filter_empty_conv)
    then have "card (set (map fst ?G)) \<le> card {e_name p}" by (intro card_mono) simp_all
    then show False using distinct_card [OF dist] len by simp
  qed
  then have "sort ?vs \<noteq> []" by (metis length_0_conv length_sort)
  then have "other \<in> set (sort ?vs)" unfolding other_def by (rule hd_in_set)
  then have o: "other \<noteq> e_name p" "other \<in> fst ` set ?G" by auto
  then obtain oth where oth: "dict_get ?G other = Some oth"
    by (metis domD dom_map_of_conv_image_fst)
  show ?thesis
    by (rule that [of mine oth other]) (use pr oth o valid mine map_of_SomeD in auto)
qed

lemma try_proof_shape:
  assumes "holds_inv Q p" "try_proof rt now p = Some pr"
  shows "proof_shape Q p pr"
proof -
  have ok: "dict_ok (e_received p)" and filed: "\<forall>e\<in>set (e_received p). grant_filed Q p e"
    using assms(1) by (simp_all add: holds_inv_def)
  obtain mine v oth where pr: "pr = \<lparr>pp_epoch = mc_epoch (e_membership p), pp_term = e_term p,
      pp_candidate = e_name p, pp_grants = [mine, oth]\<rparr>"
    and v: "v \<noteq> e_name p" "(e_name p, mine) \<in> set (usable_grants rt p now)"
      "(v, oth) \<in> set (usable_grants rt p now)"
    using try_proof_SomeD [OF ok assms(2)] .
  have "grant_filed Q p ((e_term p, e_name p), mine)" "grant_filed Q p ((e_term p, v), oth)"
    using filed v(2,3) by (auto simp: usable_grants_mem)
  with pr v(1) show ?thesis by (auto simp: proof_shape_def grant_filed_def)
qed

text \<open>Every role change keeps the invariant.\<close>

lemma holds_inv_record_event [simp]: "holds_inv Q (record_event rt k pr p) = holds_inv Q p"
  by (simp add: holds_inv_def grant_filed_cong [of "record_event rt k pr p" p]
      proof_shape_cong [of "record_event rt k pr p" p])

lemma holds_inv_stand_down: "holds_inv Q p \<Longrightarrow> holds_inv Q (stand_down p)"
  by (erule holds_inv_same) (simp_all add: stand_down_def)

lemma holds_inv_reclaim: "holds_inv Q p \<Longrightarrow> holds_inv Q (p\<lparr>e_reclaim_since := x\<rparr>)"
  by (erule holds_inv_same) simp_all

lemma holds_inv_enter_candidacy: "holds_inv Q p \<Longrightarrow> holds_inv Q (enter_candidacy p)"
proof -
  assume inv: "holds_inv Q p"
  then have "e_role p = STANDBY \<Longrightarrow> e_proof p = None"
    by (cases "e_proof p") (auto simp: holds_inv_def)
  with inv show ?thesis
    by (intro holds_inv_same [OF inv]) (auto simp: enter_candidacy_def Let_def)
qed

lemma holds_inv_promote:
  assumes "holds_inv Q p" "case pr of None \<Rightarrow> True | Some x \<Rightarrow> proof_shape Q p x"
  shows "holds_inv Q (promote rt pr bg p)"
proof -
  define q where "q = p\<lparr>e_proof := pr, e_role := ELECTED, e_reservation_held := True,
      e_outage := False, e_reclaim_since := None\<rparr>"
  have "holds_inv Q q"
    using assms grant_filed_cong [of q p Q] proof_shape_cong [of q p Q]
    by (auto simp: holds_inv_def q_def)
  then show ?thesis by (simp add: promote_def Let_def q_def)
qed

lemma holds_inv_fence: "holds_inv Q p \<Longrightarrow> holds_inv Q (fence rt b p)"
  unfolding fence_def Let_def by (auto elim: holds_inv_same)

lemma holds_inv_begin_drain: "holds_inv Q p \<Longrightarrow> holds_inv Q (begin_drain rt now p)"
  unfolding begin_drain_def by (auto elim: holds_inv_same)

lemma holds_inv_finish_drain: "holds_inv Q p \<Longrightarrow> holds_inv Q (finish_drain_if_idle rt p)"
proof -
  assume inv: "holds_inv Q p"
  then have "e_role p = DRAINING \<Longrightarrow> e_proof p = None"
    by (cases "e_proof p") (auto simp: holds_inv_def)
  then have "e_role p = DRAINING \<Longrightarrow> holds_inv Q (p\<lparr>e_role := STANDBY, e_closed := True\<rparr>)"
    by (intro holds_inv_same [OF inv]) simp_all
  with inv show ?thesis by (auto simp: finish_drain_if_idle_def)
qed

lemma emit_fields [simp]:
  "e_name (emit p) = e_name p" "e_membership (emit p) = e_membership p"
  "e_received (emit p) = e_received p" "e_proof (emit p) = e_proof p" "e_role (emit p) = e_role p"
  "e_term (emit p) = e_term p" "e_issued (emit p) = e_issued p" "e_override (emit p) = e_override p"
  "e_timings (emit p) = e_timings p" "e_now (emit p) = e_now p"
  by (simp_all add: emit_def split: role_listener.splits)

lemma holds_inv_emit: "holds_inv Q p \<Longrightarrow> holds_inv Q (emit p)"
  by (erule holds_inv_same) simp_all

lemmas holds_inv_intros = holds_inv_stand_down holds_inv_reclaim holds_inv_enter_candidacy
  holds_inv_ensure_self_grant holds_inv_fence holds_inv_begin_drain holds_inv_finish_drain
  holds_inv_emit

lemma holds_inv_campaign: "holds_inv Q p \<Longrightarrow> holds_inv Q (campaign rt now p)"
  by (cases rule: campaign_cases [of rt now p])
     (auto intro!: holds_inv_intros holds_inv_promote intro: try_proof_shape)

lemma holds_inv_hold_or_fence:
  assumes inv: "holds_inv Q p" and role: "e_role p = ELECTED"
  shows "holds_inv Q (hold_or_fence rt now p)"
proof (cases rule: hold_or_fence_cases [of p now rt])
  case (renewed p1 pr)
  have "holds_inv Q p1" "e_role p1 = ELECTED"
    using inv role by (simp_all add: renewed holds_inv_intros)
  then show ?thesis
    using try_proof_shape [OF \<open>holds_inv Q p1\<close> renewed(3)] renewed(4)
      grant_filed_cong [of "p1\<lparr>e_proof := Some pr\<rparr>" p1 Q]
      proof_shape_cong [of "p1\<lparr>e_proof := Some pr\<rparr>" p1 Q]
    by (simp add: holds_inv_def)
next
  case (lapsed p1)
  have "holds_inv Q p1" using inv by (simp add: lapsed holds_inv_intros)
  then show ?thesis unfolding lapsed(5) by (rule holds_inv_same) simp_all
qed (use inv in \<open>simp_all add: holds_inv_intros\<close>)

lemma holds_inv_advance: "holds_inv Q p \<Longrightarrow> holds_inv Q (advance rt now p)"
  unfolding advance_def
  by (auto intro!: holds_inv_intros holds_inv_campaign holds_inv_hold_or_fence)

theorem holds_inv_observe: "holds_inv Q p \<Longrightarrow> holds_inv Q (observe rt obs now k ov p)"
  unfolding observe_def by (rule holds_inv_advance) (erule holds_inv_same, simp_all)

text \<open>The outcomes of a vote request: refusal, a replayed grant, a new grant.\<close>

lemma vote_in_term_cases:
  obtains (refused) "vote_in_term rt ep cand now p = (None, p)"
  | (replayed) g where "vote_in_term rt ep cand now p = (Some g, p)"
      "dict_get (e_issued p) (e_term p) = Some g" "g_candidate g = cand" "grant_is_current g now"
  | (issued) g where "g = issue_grant rt ep cand now p"
      "vote_in_term rt ep cand now p = (Some g, p\<lparr>e_issued := dict_set (e_term p) g (e_issued p)\<rparr>)"
proof (cases "dict_get (e_issued p) (e_term p)")
  case None
  then show ?thesis by (intro issued [OF refl]) (simp add: vote_in_term_def Let_def)
next
  case (Some g)
  show ?thesis
  proof (cases "grant_is_current g now")
    case cur: True
    show ?thesis
    proof (cases "g_candidate g = cand")
      case same: True
      show ?thesis
      proof (cases "g_expires_at g - now > td_third (t_lease (e_timings p))")
        case True
        with same cur Some show ?thesis
          by (intro replayed [of g]) (simp_all add: vote_in_term_def Let_def)
      next
        case False
        with same cur Some show ?thesis
          by (intro issued [OF refl]) (simp add: vote_in_term_def Let_def)
      qed
    next
      case False
      with cur Some show ?thesis by (intro refused) (simp add: vote_in_term_def Let_def)
    qed
  next
    case False
    with Some show ?thesis by (intro issued [OF refl]) (simp add: vote_in_term_def Let_def)
  qed
qed

lemma vote_cases:
  obtains (refused) t' where "vote rt ep t cand now p = (None, p\<lparr>e_term := t'\<rparr>)" "e_term p \<le> t'"
  | (replayed) t' g where "vote rt ep t cand now p = (Some g, p\<lparr>e_term := t'\<rparr>)" "e_term p \<le> t'"
      "dict_get (e_issued p) t' = Some g" "g_candidate g = cand" "grant_is_current g now"
      "past_restart_fence p now" "eligible_leader p now = Some cand" "cand \<noteq> e_name p"
  | (issued) t' g where
      "vote rt ep t cand now p = (Some g, p\<lparr>e_term := t', e_issued := dict_set t' g (e_issued p)\<rparr>)"
      "e_term p \<le> t'" "g = issue_grant rt ep cand now (p\<lparr>e_term := t'\<rparr>)"
      "past_restart_fence p now" "eligible_leader p now = Some cand" "cand \<noteq> e_name p"
      "ep = mc_epoch (e_membership p)" "e_role p \<noteq> ELECTED" "e_role p \<noteq> DRAINING"
      "\<forall>h\<in>set (dict_values (e_issued p)). grant_is_current h now \<longrightarrow> g_candidate h = cand"
proof (cases "vote_refused ep t cand now p")
  case True
  then show ?thesis using refused [of "e_term p"] by (simp add: vote_def)
next
  case False
  define t' where "t' = (if t > e_term p then t else e_term p)"
  define p1 where "p1 = p\<lparr>e_term := t'\<rparr>"
  have t': "e_term p \<le> t'" by (simp add: t'_def)
  have v: "vote rt ep t cand now p = vote_in_term rt ep cand now p1"
    using False by (simp add: vote_def p1_def t'_def)
  note open_vote = False [unfolded vote_refused_def list_ex_iff]
  have cur: "\<forall>h\<in>set (dict_values (e_issued p)). grant_is_current h now \<longrightarrow> g_candidate h = cand"
    using open_vote by blast
  show ?thesis
  proof (cases rule: vote_in_term_cases [of rt ep cand now p1])
    case none: refused
    then show ?thesis using v t' refused [of t'] by (simp add: p1_def)
  next
    case old: (replayed g)
    then show ?thesis using v t' open_vote by (intro replayed [of g t']) (simp_all add: p1_def)
  next
    case new: (issued g)
    then show ?thesis using v t' open_vote by (intro issued [of g t', OF _ _ _ _ _ _ _ _ _ cur]) (simp_all add: p1_def)
  qed
qed

theorem holds_inv_vote: "holds_inv Q p \<Longrightarrow> holds_inv Q (snd (vote rt ep t c now p))"
  by (cases rule: vote_cases [of rt ep t c now p]) (simp_all, (erule holds_inv_same; simp)+)

lemma receive_grant_cases:
  obtains (kept) "snd (receive_grant rt g now p) = p"
  | (stored) "snd (receive_grant rt g now p) = p\<lparr>e_received := dict_set (g_term g, g_voter g) g (e_received p)\<rparr>"
      "fst (receive_grant rt g now p)"
      "g_candidate g = e_name p" "g_epoch g = mc_epoch (e_membership p)" "g_term g = e_term p"
      "grant_is_current g now"
      "verify_ed25519 rt (grant_bytes rt g) (g_signature g) (member_key (e_membership p) (g_voter g))"
proof (cases "g_candidate g \<noteq> e_name p \<or> g_epoch g \<noteq> mc_epoch (e_membership p) \<or> g_term g \<noteq> e_term p
    \<or> \<not> grant_is_current g now
    \<or> \<not> verify_ed25519 rt (grant_bytes rt g) (g_signature g) (member_key (e_membership p) (g_voter g))")
  case True
  then show ?thesis by (intro kept, elim disjE) (simp_all add: receive_grant_def)
next
  case ok: False
  show ?thesis
  proof (cases "dict_get (e_received p) (g_term g, g_voter g)")
    case None
    with ok show ?thesis by (intro stored) (simp_all add: receive_grant_def Let_def)
  next
    case (Some old)
    show ?thesis
    proof (cases "grant_is_current old now")
      case cur: True
      consider "g_candidate old \<noteq> g_candidate g \<or> g_expires_at g < g_expires_at old"
        | "g_candidate old = g_candidate g" "g_expires_at g = g_expires_at old"
        | "g_candidate old = g_candidate g" "g_expires_at g > g_expires_at old"
        by (meson linorder_less_linear)
      then show ?thesis
      proof cases
        case 3
        with ok Some cur show ?thesis by (intro stored) (simp_all add: receive_grant_def Let_def)
      qed (rule kept, use ok Some cur in \<open>simp add: receive_grant_def Let_def\<close>)+
    next
      case False
      with ok Some show ?thesis by (intro stored) (simp_all add: receive_grant_def Let_def)
    qed
  qed
qed

theorem holds_inv_receive_grant:
  assumes "holds_inv Q p"
    and "g_voter g \<noteq> e_name p \<Longrightarrow> g_candidate g = e_name p \<Longrightarrow>
      verify_ed25519 rt (grant_bytes rt g) (g_signature g) (member_key (e_membership p) (g_voter g)) \<Longrightarrow> Q g"
  shows "holds_inv Q (snd (receive_grant rt g now p))"
proof (cases rule: receive_grant_cases [of rt g now p])
  case kept
  then show ?thesis using assms(1) by simp
next
  case stored
  then have "grant_filed Q p ((g_term g, g_voter g), g)"
    using assms(2) by (simp add: grant_filed_def)
  then show ?thesis unfolding stored(1) by (rule holds_inv_store [OF assms(1)])
qed

lemma accept_handback_cases:
  obtains (kept) "snd (accept_handback rt n now p) = p"
  | (drained) "snd (accept_handback rt n now p)
        = emit (finish_drain_if_idle rt (begin_drain rt now (p\<lparr>e_now := now\<rparr>)))"
      "fst (accept_handback rt n now p)" "e_role p = ELECTED \<or> e_role p = DRAINING"
      "prio p (hn_successor n) < prio p (e_name p)"
proof (cases "hn_holder n \<noteq> e_name p \<or> hn_epoch n \<noteq> mc_epoch (e_membership p)
    \<or> \<not> handback_is_current n now \<or> prio p (hn_successor n) \<ge> prio p (e_name p)
    \<or> \<not> verify_ed25519 rt (handback_bytes rt n) (hn_signature n) (member_key (e_membership p) (hn_successor n))")
  case True
  then show ?thesis by (intro kept, elim disjE) (simp_all add: accept_handback_def)
next
  case ok: False
  show ?thesis
  proof (cases "e_role p")
    case STANDBY
    then show ?thesis by (intro kept) (simp add: accept_handback_def)
  next
    case CANDIDATE
    then show ?thesis by (intro kept) (simp add: accept_handback_def)
  next
    case ELECTED
    then show ?thesis using ok by (intro drained) (simp_all add: accept_handback_def)
  next
    case DRAINING
    then show ?thesis using ok by (intro drained) (simp_all add: accept_handback_def)
  qed
qed

theorem holds_inv_handback:
  assumes "holds_inv Q p"
  shows "holds_inv Q (snd (accept_handback rt n now p))"
proof (cases rule: accept_handback_cases [of rt n now p])
  case drained
  have "holds_inv Q (p\<lparr>e_now := now\<rparr>)" by (rule holds_inv_same [OF assms]) simp_all
  then show ?thesis unfolding drained(1)
    by (intro holds_inv_emit holds_inv_finish_drain holds_inv_begin_drain)
qed (use assms in simp)

theorem holds_inv_adopt_term: "holds_inv Q p \<Longrightarrow> holds_inv Q (adopt_term t p)"
  by (erule holds_inv_same) (simp_all add: adopt_term_def)

theorem holds_inv_deliver_override: "holds_inv Q p \<Longrightarrow> holds_inv Q (snd (deliver_override rt v now p))"
  by (erule holds_inv_same) (simp_all add: deliver_override_def Let_def split: option.splits)

theorem holds_inv_active_override: "holds_inv Q p \<Longrightarrow> holds_inv Q (snd (active_override now p))"
  by (erule holds_inv_same) (simp_all add: active_override_def split: option.splits)

end
