(* ===== verification/Failover_Votes.thy ===== *)
theory Failover_Votes
  imports Failover_Election_Inv
begin

text \<open>
  Whom a member may follow and whom it may vote for (\<^verbatim>\<open>_eligible_leader\<close> and \<^verbatim>\<open>vote\<close> of
  \<^verbatim>\<open>coire_core/failover_election.py\<close>): the scan of the priority order, the direction of a vote,
  and the invariant on the grants a member has issued, kept by every operation as time passes.
\<close>

section \<open>The scan of the priority order\<close>

lemma leader_scan_SomeD:
  assumes "leader_scan p now ms = Some c"
  shows "\<exists>xs m ys. ms = xs @ m # ys \<and> m_name m = c
    \<and> (\<forall>x\<in>set xs. m_name x \<noteq> e_name p \<and> higher_status p (m_name x) now = Down)
    \<and> (if c = e_name p then \<not> inhibit_applies p now else higher_status p c now = Leader)"
  using assms
proof (induction ms)
  case (Cons m ms)
  show ?case
  proof (cases "m_name m \<noteq> e_name p \<and> higher_status p (m_name m) now = Down")
    case True
    with Cons.prems have "leader_scan p now ms = Some c" by simp
    from Cons.IH [OF this] obtain xs k ys where IH: "ms = xs @ k # ys" "m_name k = c"
      "\<forall>x\<in>set xs. m_name x \<noteq> e_name p \<and> higher_status p (m_name x) now = Down"
      "if c = e_name p then \<not> inhibit_applies p now else higher_status p c now = Leader" by blast
    show ?thesis
      by (rule exI [of _ "m # xs"], rule exI [of _ k], rule exI [of _ ys]) (use IH True in simp)
  next
    case False
    with Cons.prems have "m_name m = c"
      "if c = e_name p then \<not> inhibit_applies p now else higher_status p c now = Leader"
      by (auto split: if_splits higher_status.splits)
    then show ?thesis
      by (intro exI [of _ "[]"] exI [of _ m] exI [of _ ms]) simp
  qed
qed simp

lemma eligible_leader_split:
  assumes "membership_valid (e_membership p)" "eligible_leader p now = Some c"
  shows "(\<forall>n. prio p n < prio p c \<longrightarrow> n \<noteq> e_name p \<and> higher_status p n now = Down)
    \<and> (if c = e_name p then \<not> inhibit_applies p now else higher_status p c now = Leader)"
proof -
  let ?ms = "sort_key m_priority (mc_members (e_membership p))"
  obtain xs m ys where s: "?ms = xs @ m # ys" and m: "m_name m = c"
    and xs: "\<forall>x\<in>set xs. m_name x \<noteq> e_name p \<and> higher_status p (m_name x) now = Down"
    and c: "if c = e_name p then \<not> inhibit_applies p now else higher_status p c now = Leader"
    using leader_scan_SomeD [of p now ?ms c] assms(2) unfolding eligible_leader_def by blast
  have sorted: "sorted (map m_priority (xs @ m # ys))"
    unfolding s [symmetric] by simp
  have mem: "set (xs @ m # ys) = set (mc_members (e_membership p))"
    unfolding s [symmetric] by simp
  have "n \<noteq> e_name p \<and> higher_status p n now = Down" if less: "prio p n < prio p c" for n
  proof -
    obtain k where k: "lookup_member (e_membership p) n = Some k"
      "k \<in> set (mc_members (e_membership p))" "m_name k = n"
      using lookup_member_total [OF assms(1)] .
    have "m \<in> set (mc_members (e_membership p))" using mem by auto
    then have "m_priority k < m_priority m"
      using less k m member_priority_mem [OF assms(1)] unfolding prio_def by metis
    moreover have "m_priority m \<le> m_priority y" if "y \<in> set (m # ys)" for y
      using sorted that by (auto simp: sorted_append)
    ultimately have "k \<in> set xs" using k(2) mem by fastforce
    with xs k(3) show ?thesis by blast
  qed
  with c show ?thesis by blast
qed

lemma prio_inj: "membership_valid (e_membership p) \<Longrightarrow> prio p a = prio p b \<Longrightarrow> a = b"
  unfolding prio_def by (rule member_priority_inj)

lemma eligible_leader_higher:
  assumes "membership_valid (e_membership p)" "eligible_leader p now = Some c" "c \<noteq> e_name p"
  shows "prio p c < prio p (e_name p)"
proof -
  have "\<not> prio p (e_name p) < prio p c"
    using eligible_leader_split [OF assms(1,2)] by blast
  moreover have "prio p (e_name p) \<noteq> prio p c"
    using prio_inj [OF assms(1)] assms(3) by blast
  ultimately show ?thesis by simp
qed

section \<open>The grants a member has issued\<close>

definition issued_ok :: "datetime \<Rightarrow> participant \<Rightarrow> int \<times> vote_grant \<Rightarrow> bool" where
  "issued_ok now p e \<longleftrightarrow>
     g_term (snd e) = fst e \<and> fst e \<le> e_term p \<and> g_voter (snd e) = e_name p
   \<and> prio p (g_candidate (snd e)) < prio p (e_name p)
   \<and> g_expires_at (snd e) \<le> now + t_lease (e_timings p)"

definition issued_inv :: "datetime \<Rightarrow> participant \<Rightarrow> bool" where
  "issued_inv now p \<longleftrightarrow>
     dict_ok (e_issued p) \<and> (\<forall>e\<in>set (e_issued p). issued_ok now p e)
   \<and> (\<forall>g\<in>set (dict_values (e_issued p)). \<forall>h\<in>set (dict_values (e_issued p)).
        grant_is_current g now \<longrightarrow> grant_is_current h now \<longrightarrow> g_candidate g = g_candidate h)
   \<and> (\<not> past_restart_fence p now \<longrightarrow> e_issued p = [])"

lemma issued_invI:
  assumes "dict_ok (e_issued p)" "\<And>e. e \<in> set (e_issued p) \<Longrightarrow> issued_ok now p e"
    and "\<And>g h. g \<in> set (dict_values (e_issued p)) \<Longrightarrow> h \<in> set (dict_values (e_issued p)) \<Longrightarrow>
      grant_is_current g now \<Longrightarrow> grant_is_current h now \<Longrightarrow> g_candidate g = g_candidate h"
    and "\<not> past_restart_fence p now \<Longrightarrow> e_issued p = []"
  shows "issued_inv now p"
  unfolding issued_inv_def using assms by blast

lemma issued_invD:
  assumes "issued_inv now p"
  shows "dict_ok (e_issued p)" "\<And>e. e \<in> set (e_issued p) \<Longrightarrow> issued_ok now p e"
    and "\<And>g h. g \<in> set (dict_values (e_issued p)) \<Longrightarrow> h \<in> set (dict_values (e_issued p)) \<Longrightarrow>
      grant_is_current g now \<Longrightarrow> grant_is_current h now \<Longrightarrow> g_candidate g = g_candidate h"
    and "\<not> past_restart_fence p now \<Longrightarrow> e_issued p = []"
  using assms unfolding issued_inv_def by blast+

lemma same_votesD:
  assumes "same_votes p q"
  shows "e_name q = e_name p" "e_membership q = e_membership p" "e_timings q = e_timings p"
    "e_private_key q = e_private_key p" "e_restart_fence_until q = e_restart_fence_until p"
    "e_issued q = e_issued p" "prio q = prio p" "past_restart_fence q = past_restart_fence p"
  using assms
  by (simp_all add: same_votes_def same_identity_def prio_def past_restart_fence_def fun_eq_iff)

lemma issued_inv_same:
  assumes "issued_inv now p" "same_votes p q" "e_term p \<le> e_term q"
  shows "issued_inv now q"
proof -
  note same = same_votesD [OF assms(2)]
  have ok: "issued_ok now p e \<Longrightarrow> issued_ok now q e" for e
    using assms(3) by (simp add: issued_ok_def same)
  show ?thesis
    by (rule issued_invI; unfold same)
       (rule issued_invD [OF assms(1)] ok [OF issued_invD(2) [OF assms(1)]]; assumption)+
qed

lemma issued_inv_later:
  assumes "issued_inv now p" "now \<le> later"
  shows "issued_inv later p"
proof (rule issued_invI)
  show "dict_ok (e_issued p)" by (rule issued_invD [OF assms(1)])
  show "issued_ok later p e" if "e \<in> set (e_issued p)" for e
    using issued_invD(2) [OF assms(1) that] assms(2) by (simp add: issued_ok_def)
  show "g_candidate g = g_candidate h"
    if "g \<in> set (dict_values (e_issued p))" "h \<in> set (dict_values (e_issued p))"
      "grant_is_current g later" "grant_is_current h later" for g h
    using issued_invD(3) [OF assms(1) that(1,2)] that(3,4) assms(2) by (simp add: grant_is_current_def)
  show "e_issued p = []" if "\<not> past_restart_fence p later"
    using issued_invD(4) [OF assms(1)] that assms(2)
    by (simp add: past_restart_fence_def split: option.splits)
qed

text \<open>A vote keeps the invariant: a new grant replaces at most one of its own term.\<close>

lemma issue_grant_fields [simp]:
  "g_epoch (issue_grant rt ep c now p) = ep" "g_term (issue_grant rt ep c now p) = e_term p"
  "g_candidate (issue_grant rt ep c now p) = c" "g_voter (issue_grant rt ep c now p) = e_name p"
  "g_expires_at (issue_grant rt ep c now p) = now + t_lease (e_timings p)"
  by (simp_all add: issue_grant_def Let_def)

lemma dict_values_set_mem:
  "v \<in> set (dict_values (dict_set k x d)) \<Longrightarrow> v = x \<or> v \<in> set (dict_values d)"
  using set_dict_set_subset [of k x d] by (auto simp: dict_values_def)

lemma issued_inv_new_grant:
  assumes inv: "issued_inv now p" and t': "e_term p \<le> t'"
    and g: "g_term g = t'" "g_voter g = e_name p" "prio p (g_candidate g) < prio p (e_name p)"
      "g_expires_at g = now + t_lease (e_timings p)"
    and open_fence: "past_restart_fence p now"
    and others: "\<forall>h\<in>set (dict_values (e_issued p)). grant_is_current h now \<longrightarrow> g_candidate h = g_candidate g"
  shows "issued_inv now (p\<lparr>e_term := t', e_issued := dict_set t' g (e_issued p)\<rparr>)" (is "issued_inv now ?q")
proof (rule issued_invI)
  show "dict_ok (e_issued ?q)" using issued_invD(1) [OF inv] by simp
  show "issued_ok now ?q e" if "e \<in> set (e_issued ?q)" for e
  proof -
    have "e = (t', g) \<or> e \<in> set (e_issued p)"
      using that set_dict_set_subset [of t' g "e_issued p"] by auto
    then show ?thesis
      using g t' issued_invD(2) [OF inv, of e] by (auto simp: issued_ok_def prio_def)
  qed
  show "g_candidate h = g_candidate k"
    if "h \<in> set (dict_values (e_issued ?q))" "k \<in> set (dict_values (e_issued ?q))"
      "grant_is_current h now" "grant_is_current k now" for h k
  proof -
    have "x = g \<or> x \<in> set (dict_values (e_issued p))" if "x \<in> set (dict_values (e_issued ?q))" for x
      using that dict_values_set_mem [of x t' g "e_issued p"] by simp
    then show ?thesis using that others by metis
  qed
  show "e_issued ?q = []" if "\<not> past_restart_fence ?q now"
    using that open_fence by (simp add: past_restart_fence_def)
qed

lemma issued_inv_vote:
  assumes "membership_valid (e_membership p)" "issued_inv now p"
  shows "issued_inv now (snd (vote rt ep t cand now p))"
proof (cases rule: vote_cases [of rt ep t cand now p])
  case (refused t')
  have "same_votes p (p\<lparr>e_term := t'\<rparr>)" by (simp add: same_votes_def same_identity_def)
  then show ?thesis using issued_inv_same [OF assms(2)] refused by simp
next
  case (replayed t' g)
  have "same_votes p (p\<lparr>e_term := t'\<rparr>)" by (simp add: same_votes_def same_identity_def)
  then show ?thesis using issued_inv_same [OF assms(2)] replayed by simp
next
  case (issued t' g)
  have "prio p cand < prio p (e_name p)"
    using eligible_leader_higher [OF assms(1)] issued by blast
  then have "issued_inv now (p\<lparr>e_term := t', e_issued := dict_set t' g (e_issued p)\<rparr>)"
    using issued(4,10)
    by (intro issued_inv_new_grant [OF assms(2) issued(2)]) (simp_all add: issued(3))
  then show ?thesis by (simp only: issued(1) snd_conv)
qed

section \<open>What a granted vote means\<close>

definition covers :: "participant \<Rightarrow> vote_grant \<Rightarrow> bool" where
  "covers p g \<longleftrightarrow> (\<exists>k\<in>set (dict_values (e_issued p)).
     g_candidate k = g_candidate g \<and> g_expires_at g \<le> g_expires_at k)"

lemma covers_issued: "g \<in> set (dict_values (e_issued p)) \<Longrightarrow> covers p g"
  unfolding covers_def by blast

lemma dict_set_value: "v \<in> set (dict_values (dict_set k v d))"
  by (induction k v d rule: dict_set.induct) (simp_all add: dict_values_def)

lemma issued_valueD:
  assumes "issued_inv now p" "g \<in> set (dict_values (e_issued p))"
  shows "g_voter g = e_name p" "prio p (g_candidate g) < prio p (e_name p)"
    "g_expires_at g \<le> now + t_lease (e_timings p)" "g_term g \<le> e_term p"
proof -
  obtain e where "e \<in> set (e_issued p)" "snd e = g"
    using assms(2) by (auto simp: dict_values_def)
  then have "issued_ok now p e" using issued_invD(2) [OF assms(1)] by blast
  then show "g_voter g = e_name p" "prio p (g_candidate g) < prio p (e_name p)"
    "g_expires_at g \<le> now + t_lease (e_timings p)" "g_term g \<le> e_term p"
    using \<open>snd e = g\<close> by (simp_all add: issued_ok_def)
qed

lemma vote_granted:
  assumes valid: "membership_valid (e_membership p)" and inv: "issued_inv now p"
    and v: "vote rt ep t c now p = (Some g, q)"
  shows "same_identity p q" "g_candidate g = c" "g_voter g = e_name p" "prio p c < prio p (e_name p)"
    "g_expires_at g \<le> now + t_lease (e_timings p)" "past_restart_fence p now"
    "g \<in> set (dict_values (e_issued q))"
    "\<And>h. h \<in> set (dict_values (e_issued p)) \<Longrightarrow> grant_is_current h now \<Longrightarrow> g_candidate h = c \<and> covers q h"
proof -
  have all: "same_identity p q \<and> g_candidate g = c \<and> g_voter g = e_name p \<and> prio p c < prio p (e_name p)
     \<and> g_expires_at g \<le> now + t_lease (e_timings p) \<and> past_restart_fence p now
     \<and> g \<in> set (dict_values (e_issued q))
     \<and> (\<forall>h\<in>set (dict_values (e_issued p)). grant_is_current h now \<longrightarrow> g_candidate h = c \<and> covers q h)"
  proof (cases rule: vote_cases [of rt ep t c now p])
    case (refused t')
    then show ?thesis using v by simp
  next
    case (replayed t' g')
    have q: "g' = g" "q = p\<lparr>e_term := t'\<rparr>" using v replayed(1) by simp_all
    have g: "g \<in> set (dict_values (e_issued p))"
      using replayed(3) q(1) issued_invD(1) [OF inv] by (auto simp: dict_values_mem)
    have "g_candidate h = c \<and> covers q h"
      if "h \<in> set (dict_values (e_issued p))" "grant_is_current h now" for h
      using issued_invD(3) [OF inv that(1) g that(2)] replayed(4,5) that(1) q covers_issued [of h q] by simp
    then show ?thesis
      using issued_valueD [OF inv g] replayed(4,6) g q by (simp add: same_identity_def)
  next
    case (issued t' g')
    have q: "g' = g" "q = p\<lparr>e_term := t', e_issued := dict_set t' g (e_issued p)\<rparr>"
      using v issued(1) by auto
    have g: "g \<in> set (dict_values (e_issued q))" by (simp add: q dict_set_value)
    have fields: "g_candidate g = c" "g_voter g = e_name p" "g_expires_at g = now + t_lease (e_timings p)"
      using issued(3) q(1) by simp_all
    have "g_candidate h = c \<and> covers q h"
      if "h \<in> set (dict_values (e_issued p))" "grant_is_current h now" for h
    proof -
      have "g_candidate h = c" using issued(10) that by blast
      then show ?thesis
        unfolding covers_def using issued_valueD(3) [OF inv that(1)] g fields by auto
    qed
    then show ?thesis
      using eligible_leader_higher [OF valid issued(5,6)] g fields issued(4) q(2)
      by (simp add: same_identity_def)
  qed
  show "same_identity p q" "g_candidate g = c" "g_voter g = e_name p" "prio p c < prio p (e_name p)"
    "g_expires_at g \<le> now + t_lease (e_timings p)" "past_restart_fence p now"
    "g \<in> set (dict_values (e_issued q))"
    using all by simp_all
  show "g_candidate h = c \<and> covers q h"
    if "h \<in> set (dict_values (e_issued p))" "grant_is_current h now" for h
    using all that by blast
qed

section \<open>Terms\<close>

lemma role_change_terms [simp]:
  "e_term (stand_down p) = e_term p" "e_term (promote rt pr bg p) = e_term p"
  "e_term (fence rt b p) = e_term p" "e_term (begin_drain rt now p) = e_term p"
  "e_term (finish_drain_if_idle rt p) = e_term p"
  by (simp_all add: stand_down_def promote_def fence_def begin_drain_def finish_drain_if_idle_def Let_def)

lemma enter_candidacy_term: "e_term p \<le> e_term (enter_candidacy p)"
  by (simp add: enter_candidacy_def Let_def)

lemma campaign_term: "e_term p \<le> e_term (campaign rt now p)"
proof -
  have "e_term p \<le> e_term (enter_candidacy (p\<lparr>e_reclaim_since := x\<rparr>))" for x
    using enter_candidacy_term [of "p\<lparr>e_reclaim_since := x\<rparr>"] by simp
  then show ?thesis by (cases rule: campaign_cases [of rt now p]) simp_all
qed

lemma hold_or_fence_term [simp]: "e_term (hold_or_fence rt now p) = e_term p"
  by (cases rule: hold_or_fence_cases [of p now rt]) simp_all

lemma advance_term: "e_term p \<le> e_term (advance rt now p)"
  by (simp add: advance_def campaign_term)

lemma observe_term: "e_term p \<le> e_term (observe rt obs now k ov p)"
  unfolding observe_def
  by (rule order_trans [OF _ advance_term]) simp

lemma vote_term: "e_term p \<le> e_term (snd (vote rt ep t c now p))"
  by (cases rule: vote_cases [of rt ep t c now p]) simp_all

lemma receive_grant_term [simp]: "e_term (snd (receive_grant rt g now p)) = e_term p"
  by (cases rule: receive_grant_cases [of rt g now p]) simp_all

lemma accept_handback_term [simp]: "e_term (snd (accept_handback rt n now p)) = e_term p"
  by (cases rule: accept_handback_cases [of rt n now p]) simp_all

lemma adopt_term_term: "e_term p \<le> e_term (adopt_term t p)"
  by (simp add: adopt_term_def)

lemma deliver_override_term [simp]: "e_term (snd (deliver_override rt v now p)) = e_term p"
  by (simp add: deliver_override_def Let_def split: option.splits)

lemma active_override_term [simp]: "e_term (snd (active_override now p)) = e_term p"
  by (simp add: active_override_def split: option.splits)

lemmas issued_inv_ops =
  issued_inv_same [OF _ observe_same_votes observe_term]
  issued_inv_same [OF _ receive_grant_same_votes]
  issued_inv_same [OF _ accept_handback_same_votes]
  issued_inv_same [OF _ adopt_term_same_votes adopt_term_term]
  issued_inv_same [OF _ deliver_override_same_votes]
  issued_inv_same [OF _ active_override_same_votes]

end
