(* ===== verification/Failover_Cluster.thy ===== *)
theory Failover_Cluster
  imports Failover_Votes
begin

text \<open>
  The three members together. A cluster is one clock, the three participants and the grants their
  \<^verbatim>\<open>vote\<close> routes have answered with; its steps are the calls that the peer routes and the pollers
  make on a participant (\<^verbatim>\<open>coire_node/routes/failover.py\<close>, \<^verbatim>\<open>coire_api/routes/failover.py\<close>,
  \<^verbatim>\<open>coire_core/failover_poller.py\<close>), in any order and any number, with any arguments, and the
  restart of a member's process. Messages may be lost, delayed, repeated or altered; what a network
  adversary cannot do is written into the step that files a grant: a signature that verifies under
  a voter's key covers the bytes of a grant which that voter has issued. The clocks of the members
  are taken as synchronised, which the leases of the source rely on too.
\<close>

section \<open>Configuration\<close>

text \<open>\<^verbatim>\<open>configured_membership\<close>: the pinned priorities. An unset key disarms failover.\<close>

record failover_settings =
  fs_peer_key :: string
  fs_core_public_key :: string
  fs_edge_a_public_key :: string
  fs_edge_b_public_key :: string
  fs_epoch :: int
  fs_signing_key_id :: string

datatype membership_error = Key_mismatch | Invalid_membership

definition pinned_config :: "int \<Rightarrow> string \<Rightarrow> string \<Rightarrow> string \<Rightarrow> string \<Rightarrow> membership_config" where
  "pinned_config epoch key_id public edge_a edge_b =
     \<lparr>mc_epoch = epoch,
      mc_members = [\<lparr>m_name = Core, m_priority = 0, m_public_key = public\<rparr>,
                    \<lparr>m_name = Edge_a, m_priority = 1, m_public_key = edge_a\<rparr>,
                    \<lparr>m_name = Edge_b, m_priority = 2, m_public_key = edge_b\<rparr>],
      mc_signing_key_id = key_id\<rparr>"

definition configured_membership ::
  "(string \<Rightarrow> string) \<Rightarrow> failover_settings \<Rightarrow> membership_error + membership_config option" where
  "configured_membership public_key_b64 s =
    (let key = py_strip (fs_peer_key s); public = py_strip (fs_core_public_key s);
         edge_a = py_strip (fs_edge_a_public_key s); edge_b = py_strip (fs_edge_b_public_key s) in
     if key = [] \<or> public = [] \<or> edge_a = [] \<or> edge_b = [] then Inr None
     else if public_key_b64 key \<noteq> public then Inl Key_mismatch
     else
       (let mc = pinned_config (fs_epoch s) (fs_signing_key_id s) public edge_a edge_b
        in if membership_valid mc then Inr (Some mc) else Inl Invalid_membership))"

definition pinned :: "membership_config \<Rightarrow> bool" where
  "pinned mc \<longleftrightarrow> membership_valid mc
     \<and> member_priority mc Core = 0 \<and> member_priority mc Edge_a = 1 \<and> member_priority mc Edge_b = 2"

lemma pinned_config_pinned: "membership_valid (pinned_config e k c a b) \<Longrightarrow> pinned (pinned_config e k c a b)"
  by (simp add: pinned_def) (simp add: pinned_config_def member_priority_def lookup_member_def)

lemma pinned_config_valid:
  "membership_valid (pinned_config e k c a b) \<longleftrightarrow> 1 \<le> e \<and> k \<noteq> [] \<and> c \<noteq> [] \<and> a \<noteq> [] \<and> b \<noteq> []"
  by (auto simp: membership_valid_def pinned_config_def failover_member_valid_def failover_member_names_def)

lemma configured_membership_pinned:
  "configured_membership pk s = Inr (Some mc) \<Longrightarrow> pinned mc"
  unfolding configured_membership_def Let_def
  by (auto simp: pinned_config_pinned split: if_splits)

lemma pinned_valid [simp]: "pinned mc \<Longrightarrow> membership_valid mc"
  by (simp add: pinned_def)

lemma pinned_rank: "pinned mc \<Longrightarrow> member_priority mc n = (case n of Core \<Rightarrow> 0 | Edge_a \<Rightarrow> 1 | Edge_b \<Rightarrow> 2)"
  by (cases n) (simp_all add: pinned_def)

lemma pinned_two_edges:
  assumes "pinned mc" "member_priority mc p < member_priority mc u" "member_priority mc q < member_priority mc v"
    and "p \<noteq> q" "u \<noteq> v"
  shows "p = Core \<and> q = Edge_a \<and> u = Edge_a \<and> v = Edge_b \<or> q = Core \<and> p = Edge_a \<and> v = Edge_a \<and> u = Edge_b"
  using assms(2-) unfolding pinned_rank [OF assms(1)]
  by (cases p; cases q; cases u; cases v) simp_all

section \<open>States and steps\<close>

record deployment =
  su_membership :: membership_config
  su_timings :: election_timings
  su_private_key :: "member_name \<Rightarrow> string"

record cluster =
  c_clock :: datetime
  c_members :: "member_name \<Rightarrow> participant"
  c_wire :: "vote_grant list"

text \<open>
  A process start: core through \<^verbatim>\<open>core_participant\<close>, a Studio through \<^verbatim>\<open>StudioParticipant\<close> with
  the restart hold its poller asks for, whatever its journal and its old lease file hold.
\<close>

definition member_start :: "deployment \<Rightarrow> member_name \<Rightarrow> datetime \<Rightarrow> participant \<Rightarrow> bool" where
  "member_start su n now p \<longleftrightarrow>
    (if n = Core
     then init_core (su_membership su) (su_private_key su Core) (su_timings su) now = Inr p
     else \<exists>journal file. init_studio n (su_membership su) (su_private_key su n) (su_timings su)
                            journal file True now = Inr p)"

definition set_member :: "member_name \<Rightarrow> participant \<Rightarrow> cluster \<Rightarrow> cluster" where
  "set_member n p c = c\<lparr>c_members := (c_members c)(n := p)\<rparr>"

definition on_wire :: "cluster \<Rightarrow> vote_grant \<Rightarrow> bool" where
  "on_wire c g \<longleftrightarrow> (\<exists>h\<in>set (c_wire c). same_grant g h)"

definition unforged :: "runtime \<Rightarrow> deployment \<Rightarrow> cluster \<Rightarrow> vote_grant \<Rightarrow> bool" where
  "unforged rt su c g \<longleftrightarrow>
    (verify_ed25519 rt (grant_bytes rt g) (g_signature g) (member_key (su_membership su) (g_voter g))
       \<longrightarrow> (\<exists>h\<in>set (c_wire c). g_voter h = g_voter g \<and> grant_bytes rt h = grant_bytes rt g))"

inductive cluster_step :: "runtime \<Rightarrow> deployment \<Rightarrow> cluster \<Rightarrow> cluster \<Rightarrow> bool" for rt su where
  tick: "c_clock c \<le> t \<Longrightarrow> cluster_step rt su c (c\<lparr>c_clock := t\<rparr>)"
| polled: "cluster_step rt su c (set_member n (observe rt obs (c_clock c) k ov (c_members c n)) c)"
| voted: "vote rt ep t cand (c_clock c) (c_members c n) = (Some g, p) \<Longrightarrow>
    cluster_step rt su c ((set_member n p c)\<lparr>c_wire := c_wire c @ [g]\<rparr>)"
| refused: "vote rt ep t cand (c_clock c) (c_members c n) = (None, p) \<Longrightarrow>
    cluster_step rt su c (set_member n p c)"
| received: "(g_voter g \<noteq> n \<and> g_candidate g = n \<Longrightarrow> unforged rt su c g) \<Longrightarrow>
    cluster_step rt su c (set_member n (snd (receive_grant rt g (c_clock c) (c_members c n))) c)"
| handed_back:
    "cluster_step rt su c (set_member n (snd (accept_handback rt h (c_clock c) (c_members c n))) c)"
| adopted: "cluster_step rt su c (set_member n (adopt_term t (c_members c n)) c)"
| delivered:
    "cluster_step rt su c (set_member n (snd (deliver_override rt v (c_clock c) (c_members c n))) c)"
| override_read:
    "cluster_step rt su c (set_member n (snd (active_override (c_clock c) (c_members c n))) c)"
| restarted: "member_start su n (c_clock c) p \<Longrightarrow> cluster_step rt su c (set_member n p c)"

definition cluster_start :: "deployment \<Rightarrow> cluster \<Rightarrow> bool" where
  "cluster_start su c \<longleftrightarrow> c_wire c = [] \<and> (\<forall>n. member_start su n (c_clock c) (c_members c n))"

inductive cluster_reach :: "runtime \<Rightarrow> deployment \<Rightarrow> cluster \<Rightarrow> bool" for rt su where
  start: "cluster_start su c \<Longrightarrow> cluster_reach rt su c"
| step: "cluster_reach rt su c \<Longrightarrow> cluster_step rt su c d \<Longrightarrow> cluster_reach rt su d"

section \<open>The invariant\<close>

text \<open>
  A grant on the wire points up the priority order and lapses within one lease. While it is
  current, its voter either still holds a grant for the same candidate that lasts as long, or has
  restarted and is fenced until the grant has lapsed.
\<close>

definition accounted :: "participant \<Rightarrow> vote_grant \<Rightarrow> bool" where
  "accounted p g \<longleftrightarrow> covers p g \<or> (\<exists>f. e_restart_fence_until p = Some f \<and> g_expires_at g \<le> f)"

lemma accounted_same: "same_votes p q \<Longrightarrow> accounted q g = accounted p g"
  by (simp add: accounted_def covers_def same_votes_def same_identity_def)

definition wire_ok :: "deployment \<Rightarrow> cluster \<Rightarrow> vote_grant \<Rightarrow> bool" where
  "wire_ok su c g \<longleftrightarrow>
     member_priority (su_membership su) (g_candidate g) < member_priority (su_membership su) (g_voter g)
   \<and> g_expires_at g \<le> c_clock c + t_lease (su_timings su)
   \<and> (grant_is_current g (c_clock c) \<longrightarrow> accounted (c_members c (g_voter g)) g)"

definition configured :: "deployment \<Rightarrow> member_name \<Rightarrow> participant \<Rightarrow> bool" where
  "configured su n p \<longleftrightarrow>
     e_name p = n \<and> e_membership p = su_membership su \<and> e_timings p = su_timings su"

definition exclusive_on :: "datetime \<Rightarrow> vote_grant set \<Rightarrow> bool" where
  "exclusive_on now G \<longleftrightarrow>
    (\<forall>g\<in>G. \<forall>h\<in>G. g_voter g = g_voter h \<and> grant_is_current g now \<and> grant_is_current h now
         \<longrightarrow> g_candidate g = g_candidate h)"

lemma exclusive_on_later: "exclusive_on now G \<Longrightarrow> now \<le> t \<Longrightarrow> exclusive_on t G"
  unfolding exclusive_on_def grant_is_current_def by (meson order_le_less_trans)

lemma exclusive_onD:
  assumes "exclusive_on now G" "g \<in> G" "h \<in> G" "g_voter g = g_voter h"
    "grant_is_current g now" "grant_is_current h now"
  shows "g_candidate g = g_candidate h"
  using assms unfolding exclusive_on_def by blast

lemma exclusive_on_insert:
  assumes "exclusive_on now G"
    and "\<And>h. h \<in> G \<Longrightarrow> g_voter h = g_voter g \<Longrightarrow> grant_is_current h now \<Longrightarrow> g_candidate h = g_candidate g"
  shows "exclusive_on now (insert g G)"
  using assms unfolding exclusive_on_def by (metis insert_iff)

definition cluster_inv :: "deployment \<Rightarrow> cluster \<Rightarrow> bool" where
  "cluster_inv su c \<longleftrightarrow>
     (\<forall>n. configured su n (c_members c n) \<and> issued_inv (c_clock c) (c_members c n)
          \<and> holds_inv (on_wire c) (c_members c n))
   \<and> (\<forall>g\<in>set (c_wire c). wire_ok su c g) \<and> exclusive_on (c_clock c) (set (c_wire c))"

lemma cluster_invD:
  assumes "cluster_inv su c"
  shows "configured su n (c_members c n)" "issued_inv (c_clock c) (c_members c n)"
    "holds_inv (on_wire c) (c_members c n)" "g \<in> set (c_wire c) \<Longrightarrow> wire_ok su c g"
    "exclusive_on (c_clock c) (set (c_wire c))"
  using assms unfolding cluster_inv_def by blast+

lemma same_votes_configured: "configured su n p \<Longrightarrow> same_identity p q \<Longrightarrow> configured su n q"
  by (simp add: configured_def same_identity_def)

lemma cluster_invI:
  assumes "\<And>n. configured su n (c_members c n)" "\<And>n. issued_inv (c_clock c) (c_members c n)"
    "\<And>n. holds_inv (on_wire c) (c_members c n)" "\<And>g. g \<in> set (c_wire c) \<Longrightarrow> wire_ok su c g"
    "exclusive_on (c_clock c) (set (c_wire c))"
  shows "cluster_inv su c"
  using assms unfolding cluster_inv_def by blast

text \<open>A step of one member that gives no vote away.\<close>

lemma set_member_fields [simp]:
  "c_clock (set_member n p c) = c_clock c" "c_wire (set_member n p c) = c_wire c"
  "c_members (set_member n p c) = (c_members c)(n := p)" "on_wire (set_member n p c) = on_wire c"
  by (simp_all add: set_member_def on_wire_def fun_eq_iff)

lemma cluster_inv_quiet:
  assumes inv: "cluster_inv su c" and same: "same_votes (c_members c n) p"
    and "e_term (c_members c n) \<le> e_term p" "holds_inv (on_wire c) p"
  shows "cluster_inv su (set_member n p c)"
proof (rule cluster_invI)
  fix k
  have "same_identity (c_members c n) p" using same by (simp add: same_votes_def)
  then show "configured su k (c_members (set_member n p c) k)"
    using same_votes_configured [OF cluster_invD(1) [OF inv, of n]] cluster_invD(1) [OF inv, of k] by simp
  show "issued_inv (c_clock (set_member n p c)) (c_members (set_member n p c) k)"
    using issued_inv_same [OF cluster_invD(2) [OF inv] same assms(3)] cluster_invD(2) [OF inv, of k] by simp
  show "holds_inv (on_wire (set_member n p c)) (c_members (set_member n p c) k)"
    using assms(4) cluster_invD(3) [OF inv, of k] by simp
next
  fix g
  assume "g \<in> set (c_wire (set_member n p c))"
  then have "wire_ok su c g" using cluster_invD(4) [OF inv] by simp
  then show "wire_ok su (set_member n p c) g"
    using accounted_same [OF same, of g] by (auto simp: wire_ok_def)
qed (use cluster_invD(5) [OF inv] in simp)

lemma cluster_inv_tick:
  assumes inv: "cluster_inv su c" and later: "c_clock c \<le> t"
  shows "cluster_inv su (c\<lparr>c_clock := t\<rparr>)" (is "cluster_inv su ?d")
proof (rule cluster_invI)
  have "on_wire ?d = on_wire c" by (simp add: fun_eq_iff on_wire_def)
  then show "holds_inv (on_wire ?d) (c_members ?d n)" for n
    using cluster_invD(3) [OF inv, of n] by simp
  show "wire_ok su ?d g" if "g \<in> set (c_wire ?d)" for g
    using cluster_invD(4) [OF inv, of g] that later by (simp add: wire_ok_def grant_is_current_def)
  show "exclusive_on (c_clock ?d) (set (c_wire ?d))"
    using exclusive_on_later [OF cluster_invD(5) [OF inv] later] by simp
qed (use cluster_invD(1) [OF inv] issued_inv_later [OF cluster_invD(2) [OF inv] later] in simp_all)

text \<open>A granted vote: it agrees with every current grant of its voter.\<close>

lemma cluster_inv_voted:
  assumes mc: "membership_valid (su_membership su)" and inv: "cluster_inv su c"
    and v: "vote rt ep t cand (c_clock c) (c_members c n) = (Some g, p)"
  shows "cluster_inv su ((set_member n p c)\<lparr>c_wire := c_wire c @ [g]\<rparr>)" (is "cluster_inv su ?d")
proof -
  let ?p = "c_members c n"
  have conf: "configured su n ?p" and iss: "issued_inv (c_clock c) ?p"
    using cluster_invD(1,2) [OF inv] by blast+
  have val: "membership_valid (e_membership ?p)" using mc conf by (simp add: configured_def)
  note g = vote_granted [OF val iss v]
  have d [simp]: "c_clock ?d = c_clock c" "c_wire ?d = c_wire c @ [g]"
    "c_members ?d = (c_members c)(n := p)" by simp_all
  have wider: "on_wire c h \<Longrightarrow> on_wire ?d h" for h by (auto simp: on_wire_def)
  have agree: "g_candidate h = g_candidate g \<and> covers p h"
    if h: "h \<in> set (c_wire c)" "g_voter h = n" "grant_is_current h (c_clock c)" for h
  proof -
    have "accounted ?p h" using cluster_invD(4) [OF inv h(1)] h(2,3) by (simp add: wire_ok_def)
    moreover have "\<not> (\<exists>f. e_restart_fence_until ?p = Some f \<and> g_expires_at h \<le> f)"
      using g(6) h(3) by (auto simp: past_restart_fence_def grant_is_current_def)
    ultimately obtain k where k: "k \<in> set (dict_values (e_issued ?p))"
      "g_candidate k = g_candidate h" "g_expires_at h \<le> g_expires_at k"
      by (auto simp: accounted_def covers_def)
    then have "grant_is_current k (c_clock c)" using h(3) by (simp add: grant_is_current_def)
    from g(8) [OF k(1) this] k(2,3) g(2) show ?thesis unfolding covers_def by fastforce
  qed
  show ?thesis
  proof (rule cluster_invI)
    fix k
    show "configured su k (c_members ?d k)"
      using same_votes_configured [OF conf g(1)] cluster_invD(1) [OF inv, of k] by simp
    show "issued_inv (c_clock ?d) (c_members ?d k)"
      using issued_inv_vote [OF val iss, of rt ep t cand] v cluster_invD(2) [OF inv, of k] by simp
    have "holds_inv (on_wire c) p"
      using holds_inv_vote [OF cluster_invD(3) [OF inv, of n], of rt ep t cand "c_clock c"] v by simp
    then have "holds_inv (on_wire c) (c_members ?d k)" using cluster_invD(3) [OF inv, of k] by simp
    then show "holds_inv (on_wire ?d) (c_members ?d k)" by (rule holds_inv_mono) (rule wider)
  next
    fix h
    assume "h \<in> set (c_wire ?d)"
    then consider "h = g" | "h \<in> set (c_wire c)" by auto
    then show "wire_ok su ?d h"
    proof cases
      case 1
      then show ?thesis
        using g(2-5,7) conf covers_issued [OF g(7)]
        by (simp add: wire_ok_def accounted_def configured_def prio_def)
    next
      case 2
      then show ?thesis
        using cluster_invD(4) [OF inv 2] agree [OF 2] by (auto simp: wire_ok_def accounted_def)
    qed
  next
    show "exclusive_on (c_clock ?d) (set (c_wire ?d))"
      using exclusive_on_insert [OF cluster_invD(5) [OF inv], of g] agree g(3) conf
      by (simp add: configured_def)
  qed
qed

text \<open>A restarted member has forgotten its grants; its fence outlasts them.\<close>

lemma init_participant_InrD:
  assumes "init_participant n mc key tm j ch standing now = Inr p"
  shows "e_name p = n" "e_membership p = mc" "e_timings p = tm" "e_issued p = []" "e_received p = []"
    "e_proof p = None" "e_role p = STANDBY" "t_promotion tm < t_demotion tm" "e_term p = 1"
    "e_restart_fence_until p = None" "e_on_change p = ch" "e_published p = None" "e_override p = None"
  using assms by (auto simp: init_participant_def demotion_is_slower_def split: if_splits)

lemma member_startD:
  assumes "member_start su n now p"
  shows "configured su n p" "e_issued p = []" "e_received p = []" "e_proof p = None" "e_role p = STANDBY"
    "n \<noteq> Core \<Longrightarrow> e_restart_fence_until p = Some (now + t_lease (su_timings su))"
proof -
  have *: "configured su n p \<and> e_issued p = [] \<and> e_received p = [] \<and> e_proof p = None \<and> e_role p = STANDBY
    \<and> (n \<noteq> Core \<longrightarrow> e_restart_fence_until p = Some (now + t_lease (su_timings su)))"
  proof (cases "n = Core")
    case True
    then obtain q where
      q: "init_participant Core (su_membership su) (su_private_key su Core) (su_timings su) None No_listener
            False now = Inr q" "p = q\<lparr>e_outage := True\<rparr>"
      using assms by (auto simp: member_start_def init_core_def split: sum.splits)
    show ?thesis using init_participant_InrD [OF q(1)] q(2) True by (simp add: configured_def)
  next
    case False
    then obtain j f where "init_studio n (su_membership su) (su_private_key su n) (su_timings su) j f True now = Inr p"
      using assms by (auto simp: member_start_def)
    then obtain q where
      q: "init_participant n (su_membership su) (su_private_key su n) (su_timings su) j (Lease_file None)
            True now = Inr q" "p = q\<lparr>e_restart_fence_until := Some (now + t_lease (su_timings su))\<rparr>"
      by (auto simp: init_studio_def split: sum.splits)
    show ?thesis using init_participant_InrD [OF q(1)] q(2) by (simp add: configured_def)
  qed
  from * show "configured su n p" "e_issued p = []" "e_received p = []" "e_proof p = None" "e_role p = STANDBY"
    "n \<noteq> Core \<Longrightarrow> e_restart_fence_until p = Some (now + t_lease (su_timings su))"
    by simp_all
qed

lemma member_start_inv:
  assumes "member_start su n now p"
  shows "issued_inv now p" "holds_inv Q p"
  using member_startD [OF assms] by (simp_all add: issued_inv_def holds_inv_def dict_values_def)

lemma cluster_inv_restarted:
  assumes mc: "pinned (su_membership su)" and inv: "cluster_inv su c" and st: "member_start su n (c_clock c) p"
  shows "cluster_inv su (set_member n p c)"
proof (rule cluster_invI)
  fix g
  assume "g \<in> set (c_wire (set_member n p c))"
  then have g: "wire_ok su c g" using cluster_invD(4) [OF inv] by simp
  show "wire_ok su (set_member n p c) g"
  proof (cases "g_voter g = n")
    case True
    have "n \<noteq> Core"
      using g True pinned_rank [OF mc, of "g_candidate g"] pinned_rank [OF mc, of n]
      by (auto simp: wire_ok_def split: member_name.splits)
    then have "accounted p g"
      using g member_startD(6) [OF st] by (simp add: wire_ok_def accounted_def)
    with True g show ?thesis by (simp add: wire_ok_def)
  qed (use g in \<open>simp add: wire_ok_def\<close>)
qed (use cluster_invD [OF inv] member_startD(1) [OF st] member_start_inv [OF st] in simp_all)

lemma cluster_inv_start: "cluster_start su c \<Longrightarrow> cluster_inv su c"
  by (rule cluster_invI)
     (auto simp: cluster_start_def exclusive_on_def dest: member_startD(1) intro: member_start_inv)

lemma on_wire_unforged:
  assumes "inj (isoformat rt)" "unforged rt su c g"
    and "verify_ed25519 rt (grant_bytes rt g) (g_signature g) (member_key (su_membership su) (g_voter g))"
  shows "on_wire c g"
proof -
  obtain h where "h \<in> set (c_wire c)" "grant_bytes rt g = grant_bytes rt h"
    using assms(2,3) unfolding unforged_def by metis
  then show ?thesis
    using grant_bytes_content [OF assms(1)] unfolding on_wire_def by blast
qed

lemma cluster_inv_step:
  assumes mc: "pinned (su_membership su)" and iso: "inj (isoformat rt)"
    and inv: "cluster_inv su c" and step: "cluster_step rt su c d"
  shows "cluster_inv su d"
  using step
proof cases
  case (tick t)
  then show ?thesis using cluster_inv_tick [OF inv] by blast
next
  case (polled n obs k ov)
  then show ?thesis
    by (simp only:) (intro cluster_inv_quiet [OF inv] observe_same_votes observe_term holds_inv_observe cluster_invD(3) [OF inv])
next
  case (voted ep t cand n g p)
  then show ?thesis using cluster_inv_voted [OF pinned_valid [OF mc] inv] by blast
next
  case (refused ep t cand n p)
  obtain t' where "p = (c_members c n)\<lparr>e_term := t'\<rparr>" "e_term (c_members c n) \<le> t'"
    using refused(2) by (cases rule: vote_cases [of rt ep t cand "c_clock c" "c_members c n"]) auto
  moreover have "holds_inv (on_wire c) p"
    using holds_inv_vote [OF cluster_invD(3) [OF inv, of n], of rt ep t cand "c_clock c"] refused(2) by simp
  ultimately show ?thesis
    unfolding refused(1) by (intro cluster_inv_quiet [OF inv]) (simp_all add: same_votes_def same_identity_def)
next
  case (received g n)
  have conf: "configured su n (c_members c n)" by (rule cluster_invD(1) [OF inv])
  have "holds_inv (on_wire c) (snd (receive_grant rt g (c_clock c) (c_members c n)))"
    using received(2) conf
    by (intro holds_inv_receive_grant cluster_invD(3) [OF inv] on_wire_unforged [OF iso, of su])
       (simp_all add: configured_def)
  then show ?thesis
    unfolding received(1) by (intro cluster_inv_quiet [OF inv] receive_grant_same_votes) simp_all
next
  case (handed_back n h)
  then show ?thesis
    by (simp only:) (intro cluster_inv_quiet [OF inv] accept_handback_same_votes holds_inv_handback
        cluster_invD(3) [OF inv], simp)
next
  case (adopted n t)
  then show ?thesis
    by (simp only:) (intro cluster_inv_quiet [OF inv] adopt_term_same_votes adopt_term_term
        holds_inv_adopt_term cluster_invD(3) [OF inv])
next
  case (delivered n v)
  then show ?thesis
    by (simp only:) (intro cluster_inv_quiet [OF inv] deliver_override_same_votes
        holds_inv_deliver_override cluster_invD(3) [OF inv], simp)
next
  case (override_read n)
  then show ?thesis
    by (simp only:) (intro cluster_inv_quiet [OF inv] active_override_same_votes
        holds_inv_active_override cluster_invD(3) [OF inv], simp)
next
  case (restarted n p)
  then show ?thesis using cluster_inv_restarted [OF mc inv] by blast
qed

lemma cluster_inv_reach:
  assumes "cluster_reach rt su c" "pinned (su_membership su)" "inj (isoformat rt)"
  shows "cluster_inv su c"
  using assms by induction (blast intro: cluster_inv_start cluster_inv_step)+

section \<open>Who may lead\<close>

text \<open>A member that leads with a quorum proof, as \<^verbatim>\<open>serving\<close> reports it, not on a break-glass override.\<close>

definition leads :: "runtime \<Rightarrow> cluster \<Rightarrow> member_name \<Rightarrow> bool" where
  "leads rt c n \<longleftrightarrow> serving rt (c_members c n) (Some (c_clock c)) \<and> e_proof (c_members c n) \<noteq> None"

lemma leadsD:
  assumes inv: "cluster_inv su c" and l: "leads rt c n"
  obtains g where "g \<in> set (c_wire c)" "g_candidate g = n" "g_voter g \<noteq> n"
    "grant_is_current g (c_clock c)" "member_priority (su_membership su) n < member_priority (su_membership su) (g_voter g)"
proof -
  let ?p = "c_members c n"
  obtain pr where pr: "e_proof ?p = Some pr" "proof_is_current pr (c_clock c)"
    using l by (auto simp: leads_def serving_def proof_ok_def Let_def split: if_splits)
  then have "proof_shape (on_wire c) ?p pr"
    using cluster_invD(3) [OF inv, of n] by (simp add: holds_inv_def)
  then obtain mine oth where o: "pp_grants pr = [mine, oth]" "g_voter oth \<noteq> e_name ?p" "on_wire c oth"
    "g_candidate oth = e_name ?p" unfolding proof_shape_def by blast
  obtain h where h: "h \<in> set (c_wire c)" "same_grant oth h" using o(3) by (auto simp: on_wire_def)
  have n: "e_name ?p = n" using cluster_invD(1) [OF inv] by (simp add: configured_def)
  have eq: "g_candidate h = n" "g_voter h \<noteq> n" "grant_is_current h (c_clock c)"
    using same_grantD [OF h(2)] o(1,2,4) pr(2) n by (simp_all add: proof_is_current_def grant_is_current_def)
  show ?thesis
    using that [OF h(1) eq] cluster_invD(4) [OF inv h(1)] eq(1) by (simp add: wire_ok_def)
qed

text \<open>
  C1: in every reachable state of the cluster, a voter has at most one candidate. Of two current
  grants that one member has handed out, in whatever terms and with restarts of the member in
  between, both name the same candidate.
\<close>

theorem votes_exclusive:
  assumes "pinned (su_membership su)" "inj (isoformat rt)" "cluster_reach rt su c"
    and "g \<in> set (c_wire c)" "h \<in> set (c_wire c)" "g_voter g = g_voter h"
    and "grant_is_current g (c_clock c)" "grant_is_current h (c_clock c)"
  shows "g_candidate g = g_candidate h"
  by (rule exclusive_onD [OF cluster_invD(5) [OF cluster_inv_reach [OF assms(3,1,2)]] assms(4-8)])

text \<open>
  C3: who can lead at the same time. If two members serve on quorum proofs at one moment, they are
  core and edge-a, edge-a has itself granted core a vote that is still current, and edge-b has
  granted edge-a one. Every other overlap is excluded, and edge-b never serves on a quorum proof.
\<close>

theorem simultaneous_leaders:
  assumes mc: "pinned (su_membership su)" and iso: "inj (isoformat rt)" and c: "cluster_reach rt su c"
    and l: "leads rt c p" "leads rt c q" "p \<noteq> q"
  shows "{p, q} = {Core, Edge_a}
    \<and> (\<exists>g\<in>set (c_wire c). g_voter g = Edge_a \<and> g_candidate g = Core \<and> grant_is_current g (c_clock c))
    \<and> (\<exists>g\<in>set (c_wire c). g_voter g = Edge_b \<and> g_candidate g = Edge_a \<and> grant_is_current g (c_clock c))"
proof -
  have inv: "cluster_inv su c" by (rule cluster_inv_reach [OF c mc iso])
  obtain g where g: "g \<in> set (c_wire c)" "g_candidate g = p" "g_voter g \<noteq> p"
    "grant_is_current g (c_clock c)" "member_priority (su_membership su) p < member_priority (su_membership su) (g_voter g)"
    using leadsD [OF inv l(1)] .
  obtain h where h: "h \<in> set (c_wire c)" "g_candidate h = q" "g_voter h \<noteq> q"
    "grant_is_current h (c_clock c)" "member_priority (su_membership su) q < member_priority (su_membership su) (g_voter h)"
    using leadsD [OF inv l(2)] .
  have "g_voter g \<noteq> g_voter h"
    using exclusive_onD [OF cluster_invD(5) [OF inv] g(1) h(1) _ g(4) h(4)] g(2) h(2) l(3) by auto
  from pinned_two_edges [OF mc g(5) h(5) l(3) this] show ?thesis
  proof
    assume "p = Core \<and> q = Edge_a \<and> g_voter g = Edge_a \<and> g_voter h = Edge_b"
    then show ?thesis using g(1,2,4) h(1,2,4) by (intro conjI bexI [of _ g] bexI [of _ h]) simp_all
  next
    assume "q = Core \<and> p = Edge_a \<and> g_voter h = Edge_a \<and> g_voter g = Edge_b"
    then show ?thesis using g(1,2,4) h(1,2,4) by (intro conjI bexI [of _ h] bexI [of _ g]) auto
  qed
qed


end
