(* ===== verification/Failover_Trace.thy ===== *)
theory Failover_Trace
  imports Failover_Cluster
begin

text \<open>
  A run of the cluster with the default timings of \<^verbatim>\<open>settings.py\<close> (lease and promotion threshold
  15 s, demotion threshold 45 s, drain 30 s): edge-a takes over from an unreachable core, core
  returns and is granted edge-a's vote, and edge-a leads again on the vote it had given itself
  before, while core still leads.
\<close>

section \<open>A deployment\<close>

definition lab_runtime :: runtime where
  "lab_runtime = \<lparr>sign_ed25519 = (\<lambda>m k. k @ m), verify_ed25519 = (\<lambda>m s k. s = k @ m),
     sha256_hex = (\<lambda>m. m), isoformat = show_int, set_iter = (\<lambda>_. [])\<rparr>"

definition lab_key :: "member_name \<Rightarrow> string" where
  "lab_key n = name_str n"

definition lab_membership :: membership_config where
  "lab_membership = pinned_config 1 ''core-1'' (lab_key Core) (lab_key Edge_a) (lab_key Edge_b)"

definition lab_timings :: election_timings where
  "lab_timings = \<lparr>t_promotion = 15000000, t_demotion = 45000000, t_lease = 15000000, t_drain = 30000000\<rparr>"

definition lab :: deployment where
  "lab = \<lparr>su_membership = lab_membership, su_timings = lab_timings, su_private_key = lab_key\<rparr>"

lemma lab_pinned: "pinned (su_membership lab)"
  by (simp add: lab_def lab_membership_def lab_key_def pinned_config_pinned pinned_config_valid)

lemma lab_iso: "inj (isoformat lab_runtime)"
proof (rule injI)
  fix x y
  assume "isoformat lab_runtime x = isoformat lab_runtime y"
  then have "show_int x @ CHR '','' # [] = show_int y @ CHR '','' # []" by (simp add: lab_runtime_def)
  then show "x = y" using show_int_split [of "CHR '',''" "CHR '',''" x "[]" y "[]"] by (simp add: is_digit_def)
qed

text \<open>The grant that a member signs.\<close>

definition lab_grant :: "member_name \<Rightarrow> member_name \<Rightarrow> datetime \<Rightarrow> vote_grant" where
  "lab_grant v c x =
    (let u = \<lparr>g_epoch = 1, g_term = 1, g_candidate = c, g_voter = v, g_expires_at = x,
              g_signature = ''unsigned''\<rparr>
     in u\<lparr>g_signature := lab_key v @ grant_bytes lab_runtime u\<rparr>)"

lemma grant_bytes_signature [simp]: "grant_bytes rt (g\<lparr>g_signature := s\<rparr>) = grant_bytes rt g"
  by (simp add: grant_bytes_def grant_json_def)

lemma lab_grant_fields [simp]:
  "g_epoch (lab_grant v c x) = 1" "g_term (lab_grant v c x) = 1" "g_candidate (lab_grant v c x) = c"
  "g_voter (lab_grant v c x) = v" "g_expires_at (lab_grant v c x) = x"
  by (simp_all add: lab_grant_def Let_def)

lemma lab_member_key [simp]: "member_key lab_membership n = lab_key n"
  by (cases n) (simp_all add: member_key_def lab_membership_def pinned_config_def lookup_member_def)

lemma lab_grant_verified [simp]:
  "verify_ed25519 lab_runtime (grant_bytes lab_runtime (lab_grant v c x)) (g_signature (lab_grant v c x))
     (lab_key v)"
proof -
  have "grant_bytes lab_runtime (lab_grant v c x) = grant_bytes lab_runtime
    \<lparr>g_epoch = 1, g_term = 1, g_candidate = c, g_voter = v, g_expires_at = x, g_signature = ''unsigned''\<rparr>"
    unfolding lab_grant_def Let_def by (rule grant_bytes_signature)
  then show ?thesis by (simp add: lab_runtime_def lab_grant_def Let_def)
qed

lemma lab_self_grant [simp]:
  "e_membership p = lab_membership \<Longrightarrow> e_timings p = lab_timings \<Longrightarrow> e_term p = 1 \<Longrightarrow>
   e_private_key p = lab_key (e_name p) \<Longrightarrow>
   self_grant lab_runtime p now = lab_grant (e_name p) (e_name p) (now + 15000000)"
  by (simp add: self_grant_def lab_grant_def Let_def lab_runtime_def lab_timings_def lab_membership_def
      pinned_config_def)

lemma lab_issue_grant [simp]:
  "e_membership p = lab_membership \<Longrightarrow> e_timings p = lab_timings \<Longrightarrow> e_term p = 1 \<Longrightarrow>
   e_private_key p = lab_key (e_name p) \<Longrightarrow>
   issue_grant lab_runtime 1 c now p = lab_grant (e_name p) c (now + 15000000)"
  by (simp add: issue_grant_def lab_grant_def Let_def lab_runtime_def lab_timings_def)

lemma lab_members [simp]:
  "sort_key m_priority (mc_members lab_membership) = mc_members lab_membership"
  "mc_members lab_membership =
     [\<lparr>m_name = Core, m_priority = 0, m_public_key = lab_key Core\<rparr>,
      \<lparr>m_name = Edge_a, m_priority = 1, m_public_key = lab_key Edge_a\<rparr>,
      \<lparr>m_name = Edge_b, m_priority = 2, m_public_key = lab_key Edge_b\<rparr>]"
  "mc_epoch lab_membership = 1"
  by (simp_all add: lab_membership_def pinned_config_def)

section \<open>The participants\<close>

definition fresh :: "member_name \<Rightarrow> participant" where
  "fresh n = \<lparr>e_name = n, e_membership = lab_membership, e_timings = lab_timings, e_role = STANDBY,
     e_term = 1, e_proof = None, e_reservation_held = (n \<noteq> Core), e_in_flight = 0, e_engines_evicted = 0,
     e_private_key = lab_key n, e_journal = None,
     e_on_change = (if n = Core then No_listener else Lease_file None), e_observations = [],
     e_override = None, e_received = [], e_issued = [], e_closed = False, e_outage = (n = Core),
     e_reclaim_since = None, e_drain_started = None, e_now = 0, e_published = None,
     e_restart_fence_until = (if n = Core then None else Some 15000000), e_delivered_override = None\<rparr>"

lemma fresh_start: "member_start lab n 0 (fresh n)"
  by (cases n)
     (auto simp: member_start_def init_core_def init_studio_def init_participant_def demotion_is_slower_def
       lab_def lab_timings_def fresh_def intro!: exI [of _ None])

definition seen :: "member_name \<Rightarrow> member_health \<Rightarrow> datetime \<Rightarrow> member_observation" where
  [simp]: "seen n h t = \<lparr>ob_name = n, ob_health = h, ob_since = t\<rparr>"

lemmas run_simps = fresh_def observe_def advance_def inhibit_applies_def override_is_authentic_def
  campaign_def eligible_leader_def higher_status_def observed_def may_campaign_def base_may_campaign_def
  past_restart_fence_def visible_def break_glass_ok_def lower_visible_def prio_def member_priority_def
  lookup_member_def stand_down_def enter_candidacy_def ensure_self_grant_def try_proof_def
  usable_grants_def promote_def emit_def lease_def record_event_def hold_or_fence_def proof_ok_def
  proof_is_current_def proof_is_valid_for_def higher_recovered_def lab_timings_def td_third_def
  grant_is_current_def dict_values_def Let_def

definition core1 :: participant where
  "core1 = (fresh Core)\<lparr>e_observations := [seen Edge_a HEALTHY 0, seen Edge_b HEALTHY 0],
     e_reclaim_since := Some 0, e_published := Some (STANDBY, None)\<rparr>"

lemma core1: "observe lab_runtime [seen Edge_a HEALTHY 0, seen Edge_b HEALTHY 0] 0 0 None (fresh Core) = core1"
  by (simp add: core1_def run_simps)

definition a1 :: participant where
  "a1 = (fresh Edge_a)\<lparr>e_observations := [seen Core UNREACHABLE 30000000, seen Edge_b HEALTHY 0],
     e_role := CANDIDATE, e_received := [((1, Edge_a), lab_grant Edge_a Edge_a 65000000)],
     e_now := 50000000, e_published := Some (CANDIDATE, None)\<rparr>"

lemma a1: "observe lab_runtime [seen Core UNREACHABLE 30000000, seen Edge_b HEALTHY 0] 50000000 0 None
    (fresh Edge_a) = a1"
  by (simp add: a1_def run_simps)

definition b1 :: participant where
  "b1 = (fresh Edge_b)\<lparr>e_observations := [seen Core UNREACHABLE 30000000, seen Edge_a HEALTHY 0],
     e_now := 50000000, e_published := Some (STANDBY, None)\<rparr>"

lemma b1: "observe lab_runtime [seen Core UNREACHABLE 30000000, seen Edge_a HEALTHY 0] 50000000 0 None
    (fresh Edge_b) = b1"
  by (simp add: b1_def run_simps)

definition b2 :: participant where
  "b2 = b1\<lparr>e_issued := [(1, lab_grant Edge_b Edge_a 65000000)]\<rparr>"

lemmas vote_simps = vote_def vote_refused_def vote_in_term_def

lemma b2: "vote lab_runtime 1 1 Edge_a 50000000 b1 = (Some (lab_grant Edge_b Edge_a 65000000), b2)"
  by (simp add: b2_def b1_def vote_simps run_simps)

definition a2 :: participant where
  "a2 = a1\<lparr>e_received := [((1, Edge_a), lab_grant Edge_a Edge_a 65000000),
     ((1, Edge_b), lab_grant Edge_b Edge_a 65000000)]\<rparr>"

lemma a2: "snd (receive_grant lab_runtime (lab_grant Edge_b Edge_a 65000000) 50000000 a1) = a2"
  by (simp add: a2_def a1_def receive_grant_def run_simps)

definition lab_proof :: "member_name \<Rightarrow> vote_grant \<Rightarrow> vote_grant \<Rightarrow> promotion_proof" where
  "lab_proof n g h = \<lparr>pp_epoch = 1, pp_term = 1, pp_candidate = n, pp_grants = [g, h]\<rparr>"

definition a3 :: participant where
  "a3 = (let pr = lab_proof Edge_a (lab_grant Edge_a Edge_a 65000000) (lab_grant Edge_b Edge_a 65000000) in
     a2\<lparr>e_role := ELECTED, e_proof := Some pr, e_published := Some (ELECTED, Some pr),
        e_on_change := Lease_file (Some \<lparr>fl_holder = Edge_a, fl_proof = Some pr, fl_break_glass = None\<rparr>)\<rparr>)"

lemma a3: "observe lab_runtime [seen Core UNREACHABLE 30000000, seen Edge_b HEALTHY 0] 50000000 0 None a2 = a3"
  by (simp add: a3_def a2_def a1_def lab_proof_def run_simps)

definition a4 :: participant where
  "a4 = (let pr = lab_proof Edge_a (lab_grant Edge_a Edge_a 79000000) (lab_grant Edge_b Edge_a 65000000) in
     a3\<lparr>e_observations := [seen Core HEALTHY 54000000, seen Edge_b HEALTHY 0],
        e_received := [((1, Edge_a), lab_grant Edge_a Edge_a 79000000),
          ((1, Edge_b), lab_grant Edge_b Edge_a 65000000)],
        e_now := 64000000, e_proof := Some pr, e_published := Some (ELECTED, Some pr),
        e_on_change := Lease_file (Some \<lparr>fl_holder = Edge_a, fl_proof = Some pr, fl_break_glass = None\<rparr>)\<rparr>)"

lemma a4: "observe lab_runtime [seen Core HEALTHY 54000000, seen Edge_b HEALTHY 0] 64000000 0 None a3 = a4"
  by (simp add: a4_def a3_def a2_def a1_def lab_proof_def run_simps)

definition a5 :: participant where
  "a5 = a4\<lparr>e_role := CANDIDATE, e_proof := None, e_now := 66000000,
     e_published := Some (CANDIDATE, None), e_on_change := Lease_file None\<rparr>"

lemma a5: "observe lab_runtime [seen Core HEALTHY 54000000, seen Edge_b HEALTHY 0] 66000000 0 None a4 = a5"
  by (simp add: a5_def a4_def a3_def a2_def a1_def lab_proof_def run_simps)

definition core2 :: participant where
  "core2 = core1\<lparr>e_role := CANDIDATE, e_now := 66000000,
     e_received := [((1, Core), lab_grant Core Core 81000000)], e_published := Some (CANDIDATE, None)\<rparr>"

lemma core2: "observe lab_runtime [seen Edge_a HEALTHY 0, seen Edge_b HEALTHY 0] 66000000 0 None core1 = core2"
  by (simp add: core2_def core1_def run_simps)

definition a6 :: participant where
  "a6 = a5\<lparr>e_issued := [(1, lab_grant Edge_a Core 81000000)]\<rparr>"

lemma a6: "vote lab_runtime 1 1 Core 66000000 a5 = (Some (lab_grant Edge_a Core 81000000), a6)"
  by (simp add: a6_def a5_def a4_def a3_def a2_def a1_def vote_simps run_simps)

definition core3 :: participant where
  "core3 = core2\<lparr>e_received := [((1, Core), lab_grant Core Core 81000000),
     ((1, Edge_a), lab_grant Edge_a Core 81000000)]\<rparr>"

lemma core3: "snd (receive_grant lab_runtime (lab_grant Edge_a Core 81000000) 66000000 core2) = core3"
  by (simp add: core3_def core2_def core1_def receive_grant_def run_simps)

definition core4 :: participant where
  "core4 = (let pr = lab_proof Core (lab_grant Core Core 81000000) (lab_grant Edge_a Core 81000000) in
     core3\<lparr>e_role := ELECTED, e_proof := Some pr, e_reservation_held := True, e_outage := False,
        e_reclaim_since := None, e_published := Some (ELECTED, Some pr)\<rparr>)"

lemma core4: "observe lab_runtime [seen Edge_a HEALTHY 0, seen Edge_b HEALTHY 0] 66000000 0 None core3 = core4"
  by (simp add: core4_def core3_def core2_def core1_def lab_proof_def run_simps)

definition b3 :: participant where
  "b3 = b2\<lparr>e_issued := [(1, lab_grant Edge_b Edge_a 93000000)]\<rparr>"

lemma b3: "vote lab_runtime 1 1 Edge_a 78000000 b2 = (Some (lab_grant Edge_b Edge_a 93000000), b3)"
  by (simp add: b3_def b2_def b1_def vote_simps run_simps)

definition a7 :: participant where
  "a7 = a6\<lparr>e_received := [((1, Edge_a), lab_grant Edge_a Edge_a 79000000),
     ((1, Edge_b), lab_grant Edge_b Edge_a 93000000)]\<rparr>"

lemma a7: "snd (receive_grant lab_runtime (lab_grant Edge_b Edge_a 93000000) 78000000 a6) = a7"
  by (simp add: a7_def a6_def a5_def a4_def a3_def a2_def a1_def receive_grant_def run_simps)

definition a8 :: participant where
  "a8 = (let pr = lab_proof Edge_a (lab_grant Edge_a Edge_a 79000000) (lab_grant Edge_b Edge_a 93000000) in
     a7\<lparr>e_observations := [seen Core UNREACHABLE 62000000, seen Edge_b HEALTHY 0], e_now := 78000000,
        e_role := ELECTED, e_proof := Some pr, e_published := Some (ELECTED, Some pr),
        e_on_change := Lease_file (Some \<lparr>fl_holder = Edge_a, fl_proof = Some pr, fl_break_glass = None\<rparr>)\<rparr>)"

lemma a8: "observe lab_runtime [seen Core UNREACHABLE 62000000, seen Edge_b HEALTHY 0] 78000000 0 None a7 = a8"
  by (simp add: a8_def a7_def a6_def a5_def a4_def a3_def a2_def a1_def lab_proof_def run_simps)

section \<open>The run\<close>

definition lab_state :: "datetime \<Rightarrow> participant \<Rightarrow> participant \<Rightarrow> participant \<Rightarrow> vote_grant list \<Rightarrow> cluster" where
  "lab_state t core a b w =
     \<lparr>c_clock = t, c_members = (\<lambda>n. case n of Core \<Rightarrow> core | Edge_a \<Rightarrow> a | Edge_b \<Rightarrow> b), c_wire = w\<rparr>"

lemma lab_state_simps [simp]:
  "c_clock (lab_state t x y z w) = t" "c_wire (lab_state t x y z w) = w"
  "c_members (lab_state t x y z w) Core = x" "c_members (lab_state t x y z w) Edge_a = y"
  "c_members (lab_state t x y z w) Edge_b = z"
  "set_member Core p (lab_state t x y z w) = lab_state t p y z w"
  "set_member Edge_a p (lab_state t x y z w) = lab_state t x p z w"
  "set_member Edge_b p (lab_state t x y z w) = lab_state t x y p w"
  "(lab_state t x y z w)\<lparr>c_clock := t'\<rparr> = lab_state t' x y z w"
  "(lab_state t x y z w)\<lparr>c_wire := w'\<rparr> = lab_state t x y z w'"
  by (simp_all add: lab_state_def set_member_def fun_eq_iff split: member_name.split)

abbreviation reaches :: "datetime \<Rightarrow> participant \<Rightarrow> participant \<Rightarrow> participant \<Rightarrow> vote_grant list \<Rightarrow> bool" where
  "reaches t x y z w \<equiv> cluster_reach lab_runtime lab (lab_state t x y z w)"

text \<open>The steps of the cluster on such a state, one lemma per kind of step.\<close>

lemma run_tick: "reaches t x y z w \<Longrightarrow> t \<le> t' \<Longrightarrow> reaches t' x y z w"
  using cluster_reach.step [OF _ cluster_step.tick [of "lab_state t x y z w" t' lab_runtime lab]] by simp

lemma run_core: "reaches t x y z w \<Longrightarrow> observe lab_runtime obs t k ov x = x' \<Longrightarrow> reaches t x' y z w"
  using cluster_reach.step [OF _ cluster_step.polled [of lab_runtime lab "lab_state t x y z w" Core obs k ov]]
  by simp

lemma run_a: "reaches t x y z w \<Longrightarrow> observe lab_runtime obs t k ov y = y' \<Longrightarrow> reaches t x y' z w"
  using cluster_reach.step [OF _ cluster_step.polled [of lab_runtime lab "lab_state t x y z w" Edge_a obs k ov]]
  by simp

lemma run_b: "reaches t x y z w \<Longrightarrow> observe lab_runtime obs t k ov z = z' \<Longrightarrow> reaches t x y z' w"
  using cluster_reach.step [OF _ cluster_step.polled [of lab_runtime lab "lab_state t x y z w" Edge_b obs k ov]]
  by simp

lemma run_vote_a:
  "reaches t x y z w \<Longrightarrow> vote lab_runtime 1 1 n t y = (Some g, y') \<Longrightarrow> reaches t x y' z (w @ [g])"
  using cluster_reach.step [OF _ cluster_step.voted [of lab_runtime 1 1 n "lab_state t x y z w" Edge_a g y' lab]]
  by simp

lemma run_vote_b:
  "reaches t x y z w \<Longrightarrow> vote lab_runtime 1 1 n t z = (Some g, z') \<Longrightarrow> reaches t x y z' (w @ [g])"
  using cluster_reach.step [OF _ cluster_step.voted [of lab_runtime 1 1 n "lab_state t x y z w" Edge_b g z' lab]]
  by simp

lemma wire_unforged: "g \<in> set (c_wire c) \<Longrightarrow> unforged lab_runtime lab c g"
  unfolding unforged_def by blast

lemma run_receive_core:
  "reaches t x y z w \<Longrightarrow> g \<in> set w \<Longrightarrow> snd (receive_grant lab_runtime g t x) = x' \<Longrightarrow> reaches t x' y z w"
  using cluster_reach.step [OF _ cluster_step.received
      [where c = "lab_state t x y z w" and g = g and n = Core, OF wire_unforged]] by simp

lemma run_receive_a:
  "reaches t x y z w \<Longrightarrow> g \<in> set w \<Longrightarrow> snd (receive_grant lab_runtime g t y) = y' \<Longrightarrow> reaches t x y' z w"
  using cluster_reach.step [OF _ cluster_step.received
      [where c = "lab_state t x y z w" and g = g and n = Edge_a, OF wire_unforged]] by simp

definition lab_wire :: "vote_grant list" where
  "lab_wire = [lab_grant Edge_b Edge_a 65000000, lab_grant Edge_a Core 81000000,
     lab_grant Edge_b Edge_a 93000000]"

text \<open>Edge-a takes over.\<close>

lemma run_takeover: "reaches 50000000 core1 a3 b2 [lab_grant Edge_b Edge_a 65000000]"
proof -
  have "reaches 0 (fresh Core) (fresh Edge_a) (fresh Edge_b) []"
    using fresh_start by (auto simp: lab_state_def cluster_start_def split: member_name.split
        intro!: cluster_reach.start)
  from run_core [OF this core1] have "reaches 0 core1 (fresh Edge_a) (fresh Edge_b) []" .
  then have "reaches 50000000 core1 (fresh Edge_a) (fresh Edge_b) []" by (rule run_tick) simp
  from run_vote_b [OF run_b [OF run_a [OF this a1] b1] b2]
  have "reaches 50000000 core1 a1 b2 [lab_grant Edge_b Edge_a 65000000]" by simp
  from run_a [OF run_receive_a [OF this _ a2] a3] show ?thesis by simp
qed

text \<open>Edge-a renews its own grant, lapses, and grants core its vote.\<close>

lemma run_return:
  "reaches 66000000 core4 a6 b2 [lab_grant Edge_b Edge_a 65000000, lab_grant Edge_a Core 81000000]"
proof -
  have "reaches 64000000 core1 a3 b2 [lab_grant Edge_b Edge_a 65000000]"
    by (rule run_tick [OF run_takeover]) simp
  from run_a [OF this a4] have "reaches 66000000 core1 a4 b2 [lab_grant Edge_b Edge_a 65000000]"
    by (rule run_tick) simp
  from run_vote_a [OF run_core [OF run_a [OF this a5] core2] a6]
  have "reaches 66000000 core2 a6 b2 [lab_grant Edge_b Edge_a 65000000, lab_grant Edge_a Core 81000000]"
    by simp
  from run_core [OF run_receive_core [OF this _ core3] core4] show ?thesis by simp
qed

lemma run_overlap: "reaches 78000000 core4 a8 b3 lab_wire"
proof -
  have "reaches 78000000 core4 a6 b2 [lab_grant Edge_b Edge_a 65000000, lab_grant Edge_a Core 81000000]"
    by (rule run_tick [OF run_return]) simp
  from run_vote_b [OF this b3] have "reaches 78000000 core4 a6 b3 lab_wire" by (simp add: lab_wire_def)
  from run_a [OF run_receive_a [OF this _ a7] a8] show ?thesis by (simp add: lab_wire_def)
qed

lemma overlap_leads:
  "leads lab_runtime (lab_state 78000000 core4 a8 b3 lab_wire) Core"
  "leads lab_runtime (lab_state 78000000 core4 a8 b3 lab_wire) Edge_a"
  by (simp_all add: leads_def serving_def core4_def core3_def core2_def core1_def a8_def a7_def a6_def a5_def
      a4_def a3_def a2_def a1_def lab_proof_def run_simps)

text \<open>
  C19: the exception that \<^verbatim>\<open>simultaneous_leaders\<close> leaves open does occur. With the default timings,
  pinned priorities, exact clocks and no forged message, a reachable state has core and edge-a
  both serving on valid quorum proofs: \<^verbatim>\<open>vote\<close> looks at the grants a member has issued to others
  and not at the one it holds for itself.
\<close>

theorem two_leaders_reachable:
  "\<exists>c. cluster_reach lab_runtime lab c \<and> pinned (su_membership lab) \<and> inj (isoformat lab_runtime)
     \<and> leads lab_runtime c Core \<and> leads lab_runtime c Edge_a"
  using run_overlap overlap_leads lab_pinned lab_iso by blast

section \<open>Witnesses\<close>

definition b2r :: participant where
  "b2r = b2\<lparr>e_issued := [(1, lab_grant Edge_b Edge_a 76000000)]\<rparr>"

lemma b2r: "vote lab_runtime 1 1 Edge_a 61000000 b2 = (Some (lab_grant Edge_b Edge_a 76000000), b2r)"
  by (simp add: b2r_def b2_def b1_def vote_simps run_simps)

lemma run_renewal:
  "reaches 61000000 core1 a3 b2r [lab_grant Edge_b Edge_a 65000000, lab_grant Edge_b Edge_a 76000000]"
proof -
  have "reaches 61000000 core1 a3 b2 [lab_grant Edge_b Edge_a 65000000]"
    by (rule run_tick [OF run_takeover]) simp
  from run_vote_b [OF this b2r] show ?thesis by simp
qed

theorem votes_exclusive_witness:
  "\<exists>c g h. cluster_reach lab_runtime lab c \<and> g \<in> set (c_wire c) \<and> h \<in> set (c_wire c) \<and> g \<noteq> h
     \<and> g_voter g = g_voter h \<and> grant_is_current g (c_clock c) \<and> grant_is_current h (c_clock c)
     \<and> g_candidate g = g_candidate h"
proof -
  let ?g = "lab_grant Edge_b Edge_a 65000000" and ?h = "lab_grant Edge_b Edge_a 76000000"
  let ?c = "lab_state 61000000 core1 a3 b2r [?g, ?h]"
  have hyps: "?g \<in> set (c_wire ?c)" "?h \<in> set (c_wire ?c)" "g_voter ?g = g_voter ?h"
    "grant_is_current ?g (c_clock ?c)" "grant_is_current ?h (c_clock ?c)"
    by (simp_all add: grant_is_current_def)
  have "?g \<noteq> ?h"
  proof
    assume "?g = ?h"
    then have "g_expires_at ?g = g_expires_at ?h" by (rule arg_cong)
    then show False by simp
  qed
  then show ?thesis using run_renewal hyps votes_exclusive [OF lab_pinned lab_iso run_renewal hyps] by blast
qed

theorem simultaneous_leaders_witness:
  "leads lab_runtime (lab_state 78000000 core4 a8 b3 lab_wire) Core
   \<and> leads lab_runtime (lab_state 78000000 core4 a8 b3 lab_wire) Edge_a
   \<and> (\<exists>g\<in>set lab_wire. g_voter g = Edge_a \<and> g_candidate g = Core \<and> grant_is_current g 78000000)"
  using simultaneous_leaders [OF lab_pinned lab_iso run_overlap overlap_leads] overlap_leads by simp


end
