(* ===== verification/Failover_Guarantees.thy ===== *)
theory Failover_Guarantees
  imports Failover_Trace
begin

text \<open>
  What one poll of a member guarantees (\<^verbatim>\<open>observe\<close> of \<^verbatim>\<open>coire_core/failover_election.py\<close>): when it
  may take the lead, when it must give it up, how long a drain lasts, and what the lease file on a
  Studio says. The hypotheses speak of the observations and the override that the poll is given.
\<close>

section \<open>Where a poll can end\<close>

lemma role_results [simp]:
  "e_role (fence rt b p) = STANDBY" "e_proof (fence rt b p) = None"
  "e_role (promote rt pr bg p) = ELECTED" "e_proof (promote rt pr bg p) = pr"
  by (simp_all add: fence_def promote_def Let_def)

lemma stand_down_role: "e_role p \<noteq> ELECTED \<Longrightarrow> e_role (stand_down p) \<noteq> ELECTED"
  by (simp add: stand_down_def)

lemma enter_candidacy_role: "e_role p \<noteq> ELECTED \<Longrightarrow> e_role (enter_candidacy p) \<noteq> ELECTED"
  by (simp add: enter_candidacy_def Let_def)

lemma drain_role: "e_role (finish_drain_if_idle rt (begin_drain rt now p)) \<in> {DRAINING, STANDBY}"
  by (simp add: finish_drain_if_idle_def begin_drain_def)

lemma finish_drain_role: "e_role p = DRAINING \<Longrightarrow> e_role (finish_drain_if_idle rt p) \<in> {DRAINING, STANDBY}"
  by (simp add: finish_drain_if_idle_def)

lemma candidate_override:
  "break_glass_ok (ensure_self_grant rt now (enter_candidacy (p\<lparr>e_reclaim_since := x\<rparr>))) t = break_glass_ok p t"
proof -
  have "e_override (ensure_self_grant rt now q) = e_override q" for q
    by (simp add: ensure_self_grant_def Let_def split: option.splits)
  then show ?thesis by (simp add: break_glass_ok_def enter_candidacy_def Let_def)
qed

lemma campaign_elected:
  assumes "e_role p \<noteq> ELECTED" "e_role (campaign rt now p) = ELECTED"
  shows "eligible_leader p now = Some (e_name p)" "2 \<le> card (visible p) \<or> break_glass_ok p now"
    "e_proof (campaign rt now p) = None \<longrightarrow> break_glass_ok p now"
proof -
  have c: "e_role (ensure_self_grant rt now (enter_candidacy (p\<lparr>e_reclaim_since := x\<rparr>))) \<noteq> ELECTED" for x
    using assms(1) enter_candidacy_role [of "p\<lparr>e_reclaim_since := x\<rparr>"] by simp
  have "eligible_leader p now = Some (e_name p) \<and> (2 \<le> card (visible p) \<or> break_glass_ok p now)
      \<and> (e_proof (campaign rt now p) = None \<longrightarrow> break_glass_ok p now)"
  proof (cases rule: campaign_cases [of rt now p])
    case (down x)
    then show ?thesis using assms stand_down_role [of "p\<lparr>e_reclaim_since := x\<rparr>"] by simp
  next
    case (candidate x q)
    then show ?thesis using assms(2) c [of x] by simp
  next
    case (promoted x q pr)
    then show ?thesis by simp
  next
    case (glass x q)
    then show ?thesis by (simp add: candidate_override)
  qed
  then show "eligible_leader p now = Some (e_name p)" "2 \<le> card (visible p) \<or> break_glass_ok p now"
    "e_proof (campaign rt now p) = None \<longrightarrow> break_glass_ok p now" by blast+
qed

lemma hold_elected:
  assumes "e_role (hold_or_fence rt now p) = ELECTED"
  shows "2 \<le> card (visible p) \<or> break_glass_ok p now"
  by (cases rule: hold_or_fence_cases [of p now rt]) (use assms in simp_all)

lemma advance_elected:
  assumes "e_role (advance rt now p) = ELECTED"
  obtains (held) "e_role p = ELECTED" "\<not> inhibit_applies p now" "\<not> higher_recovered p now"
      "2 \<le> card (visible p) \<or> break_glass_ok p now" "advance rt now p = emit (hold_or_fence rt now p)"
  | (gained) "e_role p \<in> {STANDBY, CANDIDATE}" "\<not> inhibit_applies p now"
      "eligible_leader p now = Some (e_name p)" "2 \<le> card (visible p) \<or> break_glass_ok p now"
      "e_proof (advance rt now p) = None \<longrightarrow> break_glass_ok p now"
proof -
  have inh: "\<not> inhibit_applies p now" using assms by (auto simp: advance_def)
  have up: "\<not> ((e_role p = ELECTED \<or> e_role p = DRAINING) \<and> higher_recovered p now)"
    using assms inh drain_role [of rt now p] by (auto simp: advance_def)
  have dr: "e_role p \<noteq> DRAINING"
    using assms inh up finish_drain_role [of p rt] by (auto simp: advance_def)
  show ?thesis
  proof (cases "e_role p = ELECTED")
    case True
    then have a: "advance rt now p = emit (hold_or_fence rt now p)"
      using inh up by (simp add: advance_def)
    show ?thesis
      by (rule held) (use True inh up a assms hold_elected [of rt now p] in simp_all)
  next
    case False
    then have a: "advance rt now p = emit (campaign rt now p)"
      using inh up dr by (simp add: advance_def)
    have "e_role p \<in> {STANDBY, CANDIDATE}" using False dr by (cases "e_role p") simp_all
    then show ?thesis
      by (rule gained) (use False inh a assms campaign_elected [of p rt now] in simp_all)
  qed
qed

section \<open>Taking the lead\<close>

abbreviation sees :: "member_observation list \<Rightarrow> member_name \<Rightarrow> member_observation option" where
  "sees obs n \<equiv> List.find (\<lambda>ob. ob_name ob = n) obs"

definition break_glass_given :: "runtime \<Rightarrow> participant \<Rightarrow> failover_override option \<Rightarrow> datetime \<Rightarrow> bool" where
  "break_glass_given rt p ov now \<longleftrightarrow> override_is_authentic rt p ov
     \<and> (\<exists>v. ov = Some v \<and> ov_kind v = BREAK_GLASS_PROMOTE \<and> override_is_current v now)"

text \<open>The record a poll hands to \<^verbatim>\<open>_advance\<close>.\<close>

definition viewed ::
  "runtime \<Rightarrow> member_observation list \<Rightarrow> datetime \<Rightarrow> int \<Rightarrow> failover_override option \<Rightarrow> participant \<Rightarrow> participant" where
  "viewed rt obs now k ov p =
     p\<lparr>e_observations := obs, e_override := (if override_is_authentic rt p ov then ov else None),
       e_in_flight := k, e_now := now\<rparr>"

lemma observe_viewed: "observe rt obs now k ov p = advance rt now (viewed rt obs now k ov p)"
  by (simp add: observe_def viewed_def)

lemma viewed_simps [simp]:
  "e_name (viewed rt obs now k ov p) = e_name p" "e_membership (viewed rt obs now k ov p) = e_membership p"
  "e_timings (viewed rt obs now k ov p) = e_timings p" "e_role (viewed rt obs now k ov p) = e_role p"
  "observed (viewed rt obs now k ov p) n = sees obs n" "prio (viewed rt obs now k ov p) = prio p"
  "e_drain_started (viewed rt obs now k ov p) = e_drain_started p" "e_now (viewed rt obs now k ov p) = now"
  "e_in_flight (viewed rt obs now k ov p) = k" "e_proof (viewed rt obs now k ov p) = e_proof p"
  by (simp_all add: viewed_def observed_def prio_def fun_eq_iff)

lemma viewed_break_glass [simp]:
  "break_glass_ok (viewed rt obs now k ov p) t = break_glass_given rt p ov t"
  by (auto simp: break_glass_ok_def viewed_def break_glass_given_def split: option.splits)

lemma viewed_quorum:
  assumes "2 \<le> card (visible (viewed rt obs now k ov p))"
  shows "\<exists>n ob. n \<noteq> e_name p \<and> sees obs n = Some ob \<and> ob_health ob \<noteq> UNREACHABLE"
proof (rule ccontr)
  assume none: "\<not> ?thesis"
  have "visible (viewed rt obs now k ov p) \<subseteq> {e_name p}"
    using none by (auto simp: visible_def split: option.splits)
  then have "card (visible (viewed rt obs now k ov p)) \<le> 1"
    using card_mono [of "{e_name p}"] by fastforce
  with assms show False by simp
qed

text \<open>
  A poll promotes a member only if every member of higher priority has been unreachable for the
  whole promotion threshold, and only with a reachable peer or under a current break-glass override
  that core has signed. A degraded or an unobserved superior is never overtaken.
\<close>

theorem promotion_justified:
  assumes "membership_valid (e_membership p)" "e_role p \<noteq> ELECTED"
    and "e_role (observe rt obs now k ov p) = ELECTED"
  shows "(\<forall>n. prio p n < prio p (e_name p) \<longrightarrow>
            (\<exists>ob. sees obs n = Some ob \<and> ob_health ob = UNREACHABLE
                \<and> t_promotion (e_timings p) \<le> now - ob_since ob))
    \<and> ((\<exists>n ob. n \<noteq> e_name p \<and> sees obs n = Some ob \<and> ob_health ob \<noteq> UNREACHABLE)
       \<or> break_glass_given rt p ov now)"
proof -
  let ?v = "viewed rt obs now k ov p"
  have adv: "e_role (advance rt now ?v) = ELECTED" using assms(3) by (simp add: observe_viewed)
  then show ?thesis
  proof (cases rule: advance_elected)
    case held
    then show ?thesis using assms(2) by simp
  next
    case gained
    have "higher_status ?v n now = Down" if "prio p n < prio p (e_name p)" for n
      using eligible_leader_split [OF _ gained(3)] assms(1) that by simp
    moreover have "higher_status ?v n now = Down \<Longrightarrow> \<exists>ob. sees obs n = Some ob \<and> ob_health ob = UNREACHABLE
        \<and> t_promotion (e_timings p) \<le> now - ob_since ob" for n
      by (auto simp: higher_status_def split: option.splits if_splits)
    ultimately show ?thesis using gained(4) viewed_quorum [of rt obs now k ov p] by auto
  qed
qed

text \<open>
  A member that reaches neither peer does not lead after its next poll, whatever it held before,
  unless core has signed a current break-glass override.
\<close>

theorem minority_fenced:
  assumes "\<forall>n ob. n \<noteq> e_name p \<and> sees obs n = Some ob \<longrightarrow> ob_health ob = UNREACHABLE"
    and "\<not> break_glass_given rt p ov now"
  shows "e_role (observe rt obs now k ov p) \<noteq> ELECTED \<and> \<not> serving rt (observe rt obs now k ov p) t"
proof -
  have "e_role (advance rt now (viewed rt obs now k ov p)) \<noteq> ELECTED"
  proof
    assume "e_role (advance rt now (viewed rt obs now k ov p)) = ELECTED"
    then have "2 \<le> card (visible (viewed rt obs now k ov p))"
      by (cases rule: advance_elected) (use assms(2) in simp_all)
    then show False using viewed_quorum assms(1) by blast
  qed
  then show ?thesis by (simp add: observe_viewed serving_def Let_def)
qed

section \<open>Giving the lead up\<close>

text \<open>
  an operator's inhibit, signed by core and current, takes a Studio out of the lead at its next
  poll: it stands by, holds no proof, and does not serve.
\<close>

theorem inhibit_fences:
  assumes "e_name p \<noteq> Core" "override_is_authentic rt p (Some v)" "ov_kind v = INHIBIT"
    and "override_is_current v now"
  shows "e_role (observe rt obs now k (Some v) p) = STANDBY
    \<and> e_proof (observe rt obs now k (Some v) p) = None \<and> \<not> serving rt (observe rt obs now k (Some v) p) t"
proof -
  have "inhibit_applies (viewed rt obs now k (Some v) p) now"
    using assms by (simp add: inhibit_applies_def viewed_def)
  then show ?thesis by (simp add: observe_viewed advance_def serving_def Let_def)
qed

lemma viewed_recovered:
  assumes "membership_valid (e_membership p)" "prio p n < prio p (e_name p)"
    and "sees obs n = Some ob" "ob_health ob = HEALTHY" "t_demotion (e_timings p) \<le> now - ob_since ob"
  shows "higher_recovered (viewed rt obs now k ov p) now"
proof -
  obtain m where m: "lookup_member (e_membership p) n = Some m" "m \<in> set (mc_members (e_membership p))" "m_name m = n"
    using lookup_member_total [OF assms(1)] .
  then have "m_priority m < prio p (e_name p)"
    using assms(2) by (simp add: prio_def member_priority_def)
  with m assms(3-5) show ?thesis by (auto simp: higher_recovered_def list_ex_iff)
qed

text \<open>
  Hand-back. Once a member of higher priority has been healthy for the demotion threshold, the
  leader stops serving at its next poll: it drains, and stands by at once if nothing is in flight.
\<close>

theorem handback_when_recovered:
  assumes "membership_valid (e_membership p)" "e_role p = ELECTED" "prio p n < prio p (e_name p)"
    and "sees obs n = Some ob" "ob_health ob = HEALTHY" "t_demotion (e_timings p) \<le> now - ob_since ob"
  shows "e_role (observe rt obs now k ov p) \<in> {DRAINING, STANDBY}
    \<and> e_proof (observe rt obs now k ov p) = None \<and> \<not> serving rt (observe rt obs now k ov p) t
    \<and> (k \<le> 0 \<longrightarrow> e_role (observe rt obs now k ov p) = STANDBY)"
proof -
  let ?v = "viewed rt obs now k ov p"
  have "higher_recovered ?v now" by (rule viewed_recovered [OF assms(1,3-6)])
  then have adv: "advance rt now ?v = emit (if inhibit_applies ?v now then fence rt False ?v
      else finish_drain_if_idle rt (begin_drain rt now ?v))"
    using assms(2) by (simp add: advance_def)
  have drain: "e_role (finish_drain_if_idle rt (begin_drain rt now ?v)) \<in> {DRAINING, STANDBY}
    \<and> e_proof (finish_drain_if_idle rt (begin_drain rt now ?v)) = None
    \<and> (k \<le> 0 \<longrightarrow> e_role (finish_drain_if_idle rt (begin_drain rt now ?v)) = STANDBY)"
    using assms(2) by (simp add: finish_drain_if_idle_def begin_drain_def)
  show ?thesis
    using drain by (cases "inhibit_applies ?v now") (auto simp: observe_viewed adv serving_def Let_def)
qed


text \<open>
  an incumbent cannot renew its lease while it or a voter sees a superior that is up. With a
  superior in sight, healthy or degraded, a member sends no vote request, and a voter that sees
  one refuses the candidate. The lease therefore runs out before the demotion threshold if that is
  longer than the lease.
\<close>

theorem superior_in_sight_blocks_renewal:
  assumes "membership_valid (e_membership p)" "prio p n < prio p c"
    and "observed p n = Some ob" "ob_health ob \<noteq> UNREACHABLE"
  shows "vote rt ep t c now p = (None, p) \<and> (c = e_name p \<longrightarrow> issue_vote_request rt p = None)"
proof -
  have up: "higher_status p n s = Leader" for s
    using assms(3,4) by (simp add: higher_status_def)
  have "eligible_leader p s \<noteq> Some c" for s
  proof
    assume "eligible_leader p s = Some c"
    then have "higher_status p n s = Down" using eligible_leader_split [OF assms(1)] assms(2) by blast
    then show False using up by simp
  qed
  then show ?thesis by (auto simp: vote_def vote_refused_def issue_vote_request_def)
qed

section \<open>The lease file\<close>







definition same_public :: "participant \<Rightarrow> participant \<Rightarrow> bool" where
  "same_public p q \<longleftrightarrow>
     e_on_change q = e_on_change p \<and> e_published q = e_published p \<and> e_name q = e_name p"



lemma ensure_self_grant_public [simp]:
  "e_on_change (ensure_self_grant rt now p) = e_on_change p"
  "e_published (ensure_self_grant rt now p) = e_published p"
  by (simp_all add: ensure_self_grant_def Let_def split: option.splits)

lemma same_public_roles [simp]:
  "same_public p (record_event rt kd pr q) = same_public p q" "same_public p (stand_down q) = same_public p q"
  "same_public p (enter_candidacy q) = same_public p q" "same_public p (promote rt pr bg q) = same_public p q"
  "same_public p (begin_drain rt now q) = same_public p q"
  "same_public p (finish_drain_if_idle rt q) = same_public p q" "same_public p (fence rt b q) = same_public p q"
  "same_public p (ensure_self_grant rt now q) = same_public p q"
  "same_public p (q\<lparr>e_reclaim_since := x\<rparr>) = same_public p q" "same_public p (q\<lparr>e_proof := pr\<rparr>) = same_public p q"
  "same_public p (q\<lparr>e_role := r\<rparr>) = same_public p q"
  by (simp_all add: same_public_def stand_down_def enter_candidacy_def promote_def begin_drain_def
      finish_drain_if_idle_def fence_def Let_def)














section \<open>Quorum, terms, signatures\<close>

lemma proof_valid_for_signed:
  assumes "proof_is_valid_for rt pr mc now" "g \<in> set (pp_grants pr)"
  shows "grant_is_current g now \<and> verify_ed25519 rt (grant_bytes rt g) (g_signature g) (member_key mc (g_voter g))"
  using assms
  by (auto simp: proof_is_valid_for_def proof_is_current_def list_all_iff member_key_def
      split: if_splits option.splits)

text \<open>
  C27: a member that leads holds a majority. Its proof has two grants, its own and one of another
  member; both name it, are current, agree on term and epoch, and verify under their voters' keys.
\<close>

theorem leader_has_quorum:
  assumes "pinned (su_membership su)" "inj (isoformat rt)" "cluster_reach rt su c" "leads rt c n"
  shows "\<exists>pr mine oth. e_proof (c_members c n) = Some pr \<and> pp_grants pr = [mine, oth]
    \<and> g_voter mine = n \<and> g_voter oth \<noteq> n
    \<and> (\<forall>g\<in>{mine, oth}. g_candidate g = n \<and> g_term g = pp_term pr \<and> g_epoch g = mc_epoch (su_membership su)
         \<and> grant_is_current g (c_clock c)
         \<and> verify_ed25519 rt (grant_bytes rt g) (g_signature g) (member_key (su_membership su) (g_voter g)))"
proof -
  let ?p = "c_members c n"
  have inv: "cluster_inv su c" by (rule cluster_inv_reach [OF assms(3,1,2)])
  have conf: "e_name ?p = n" "e_membership ?p = su_membership su"
    using cluster_invD(1) [OF inv, of n] by (simp_all add: configured_def)
  obtain pr where pr: "e_proof ?p = Some pr" "proof_is_valid_for rt pr (su_membership su) (c_clock c)"
    using assms(4) conf by (auto simp: leads_def serving_def proof_ok_def Let_def split: if_splits)
  then have shape: "proof_shape (on_wire c) ?p pr"
    using cluster_invD(3) [OF inv, of n] by (simp add: holds_inv_def)
  obtain mine oth where gs: "pp_grants pr = [mine, oth]" and v: "g_voter mine = n" "g_voter oth \<noteq> n"
    and sh: "\<forall>g\<in>{mine, oth}. g_candidate g = n \<and> g_term g = pp_term pr \<and> g_epoch g = pp_epoch pr"
    using shape unfolding proof_shape_def conf by auto
  have ep: "pp_epoch pr = mc_epoch (su_membership su)"
    using shape unfolding proof_shape_def conf by simp
  have "g_candidate g = n \<and> g_term g = pp_term pr \<and> g_epoch g = mc_epoch (su_membership su)
      \<and> grant_is_current g (c_clock c)
      \<and> verify_ed25519 rt (grant_bytes rt g) (g_signature g) (member_key (su_membership su) (g_voter g))"
    if "g \<in> {mine, oth}" for g
    using proof_valid_for_signed [OF pr(2), of g] gs that bspec [OF sh that] ep by simp
  then show ?thesis using pr(1) gs v by blast
qed

text \<open>
  terms never go back while a process lives: no operation lowers a member's term, and a vote
  answers in a term no lower than the member's own.
\<close>

theorem terms_never_decrease:
  "e_term p \<le> e_term (observe rt obs now k ov p) \<and> e_term p \<le> e_term (snd (vote rt ep t c now p))
   \<and> e_term p \<le> e_term (snd (receive_grant rt g now p)) \<and> e_term p \<le> e_term (snd (accept_handback rt h now p))
   \<and> e_term p \<le> e_term (adopt_term t p) \<and> e_term p \<le> e_term (snd (deliver_override rt v now p))"
  using observe_term vote_term adopt_term_term by simp

text \<open>
  C31: a signature on a grant covers all of it. Two grants with the same signed bytes agree in
  epoch, term, candidate, voter and expiry, given that timestamps print distinctly.
\<close>

theorem signed_bytes_determine_grant:
  assumes "inj (isoformat rt)" "grant_bytes rt g = grant_bytes rt h"
  shows "g_epoch g = g_epoch h \<and> g_term g = g_term h \<and> g_candidate g = g_candidate h
    \<and> g_voter g = g_voter h \<and> g_expires_at g = g_expires_at h"
  using same_grantD [OF grant_bytes_content [OF assms]] by simp

section \<open>Witnesses\<close>

lemma lab_membership_valid [simp]: "membership_valid lab_membership"
  using lab_pinned by (simp add: lab_def pinned_def)

lemmas a3_unfold = a3_def a2_def a1_def fresh_def

lemma a3_fields [simp]:
  "e_membership a3 = lab_membership" "e_name a3 = Edge_a" "e_role a3 = ELECTED" "e_timings a3 = lab_timings"
  "e_membership a2 = lab_membership" "e_name a2 = Edge_a" "e_role a2 = CANDIDATE" "e_timings a2 = lab_timings"
  by (simp_all add: a3_unfold Let_def)

lemma lab_prio [simp]: "e_membership p = lab_membership \<Longrightarrow> prio p n = (case n of Core \<Rightarrow> 0 | Edge_a \<Rightarrow> 1 | Edge_b \<Rightarrow> 2)"
  using pinned_rank [OF lab_pinned, of n] by (simp add: prio_def lab_def)

theorem promotion_justified_witness:
  "e_role a2 \<noteq> ELECTED
   \<and> e_role (observe lab_runtime [seen Core UNREACHABLE 30000000, seen Edge_b HEALTHY 0] 50000000 0 None a2) = ELECTED
   \<and> (\<exists>ob. sees [seen Core UNREACHABLE 30000000, seen Edge_b HEALTHY 0] Core = Some ob
        \<and> ob_health ob = UNREACHABLE \<and> t_promotion lab_timings \<le> 50000000 - ob_since ob)"
proof -
  have r: "e_role (observe lab_runtime [seen Core UNREACHABLE 30000000, seen Edge_b HEALTHY 0]
      50000000 0 None a2) = ELECTED"
    by (simp only: a3 a3_fields)
  have nr: "e_role a2 \<noteq> ELECTED" "membership_valid (e_membership a2)" "prio a2 Core < prio a2 (e_name a2)"
    by simp_all
  show ?thesis using promotion_justified [OF nr(2,1) r] nr r a3_fields(8) by metis
qed

theorem minority_fenced_witness:
  "e_role a3 = ELECTED
   \<and> e_role (observe lab_runtime [seen Core UNREACHABLE 0, seen Edge_b UNREACHABLE 0] 51000000 0 None a3) \<noteq> ELECTED"
proof -
  have "\<forall>n ob. n \<noteq> e_name a3 \<and> sees [seen Core UNREACHABLE 0, seen Edge_b UNREACHABLE 0] n = Some ob
      \<longrightarrow> ob_health ob = UNREACHABLE"
    by simp
  moreover have "\<not> break_glass_given lab_runtime a3 None 51000000" by (simp add: break_glass_given_def)
  ultimately show ?thesis using minority_fenced a3_fields(3) by blast
qed

definition lab_inhibit :: failover_override where
  "lab_inhibit =
    (let u = \<lparr>ov_kind = INHIBIT, ov_actor_id = ''ops'', ov_reason = ''maintenance'',
              ov_expires_at = 90000000, ov_signature = ''unsigned''\<rparr>
     in u\<lparr>ov_signature := lab_key Core @ override_bytes lab_runtime u\<rparr>)"

lemma override_bytes_signature [simp]: "override_bytes rt (v\<lparr>ov_signature := s\<rparr>) = override_bytes rt v"
  by (simp add: override_bytes_def)

theorem inhibit_fences_witness:
  "e_role a3 = ELECTED \<and> e_role (observe lab_runtime [] 51000000 0 (Some lab_inhibit) a3) = STANDBY"
proof -
  have "override_bytes lab_runtime lab_inhibit = override_bytes lab_runtime \<lparr>ov_kind = INHIBIT,
      ov_actor_id = ''ops'', ov_reason = ''maintenance'', ov_expires_at = 90000000, ov_signature = ''unsigned''\<rparr>"
    unfolding lab_inhibit_def Let_def by (rule override_bytes_signature)
  then have "override_is_authentic lab_runtime a3 (Some lab_inhibit)"
    by (simp add: override_is_authentic_def lab_runtime_def lab_inhibit_def Let_def)
  moreover have "ov_kind lab_inhibit = INHIBIT" "override_is_current lab_inhibit 51000000"
    by (simp_all add: lab_inhibit_def Let_def override_is_current_def)
  ultimately show ?thesis using inhibit_fences [of a3 lab_runtime lab_inhibit 51000000] by simp
qed

theorem handback_when_recovered_witness:
  "e_role a3 = ELECTED
   \<and> e_role (observe lab_runtime [seen Core HEALTHY 0, seen Edge_b HEALTHY 0] 60000000 0 None a3) = STANDBY"
proof -
  have "prio a3 Core < prio a3 (e_name a3)" "t_demotion (e_timings a3) \<le> 60000000 - ob_since (seen Core HEALTHY 0)"
    "sees [seen Core HEALTHY 0, seen Edge_b HEALTHY 0] Core = Some (seen Core HEALTHY 0)"
    "ob_health (seen Core HEALTHY 0) = HEALTHY"
    by (simp_all add: lab_timings_def)
  then show ?thesis using handback_when_recovered [of a3 Core] a3_fields(1,3) lab_membership_valid
    by (metis order_refl)
qed


theorem superior_in_sight_blocks_renewal_witness:
  "observed a4 Core = Some (seen Core HEALTHY 54000000) \<and> issue_vote_request lab_runtime a4 = None"
proof -
  have "membership_valid (e_membership a4)" "prio a4 Core < prio a4 Edge_a" "e_name a4 = Edge_a"
    "observed a4 Core = Some (seen Core HEALTHY 54000000)" "ob_health (seen Core HEALTHY 54000000) \<noteq> UNREACHABLE"
    by (simp_all add: a4_def Let_def observed_def)
  then show ?thesis using superior_in_sight_blocks_renewal by metis
qed


theorem leader_has_quorum_witness:
  "\<exists>pr mine oth. e_proof a8 = Some pr \<and> pp_grants pr = [mine, oth] \<and> g_voter mine = Edge_a \<and> g_voter oth \<noteq> Edge_a"
  using leader_has_quorum [OF lab_pinned lab_iso run_overlap overlap_leads(2)] by auto

theorem signed_bytes_determine_grant_witness:
  "grant_bytes lab_runtime ((lab_grant Edge_b Edge_a 5)\<lparr>g_signature := ''x''\<rparr>) = grant_bytes lab_runtime (lab_grant Edge_b Edge_a 5)
   \<and> g_expires_at ((lab_grant Edge_b Edge_a 5)\<lparr>g_signature := ''x''\<rparr>) = 5"
  using signed_bytes_determine_grant [OF lab_iso grant_bytes_signature
      [where rt = lab_runtime and g = "lab_grant Edge_b Edge_a 5" and s = "''x''"]]
  by simp

end
