(* ===== verification/Failover_Liveness.thy ===== *)
theory Failover_Liveness
  imports Failover_Guarantees
begin

text \<open>
  The heartbeat classifier \<^verbatim>\<open>PeerLiveness\<close> and the poll loop \<^verbatim>\<open>FailoverPoller.tick\<close> of
  \<^verbatim>\<open>coire_core/failover_poller.py\<close>. The classifier's five dictionaries are refined to one small
  automaton per peer, on which the damping rules are proved over whole histories of beats; the
  tick is shown to be a sequence of cluster steps, so the safety theorems cover it. The HTTP
  exchange is the argument of the tick: what each peer answered, or that the call failed.
\<close>

section \<open>The classifier\<close>

record peer_liveness =
  pl_failure_limit :: int
  pl_recovery_beats :: int
  pl_latency_budget :: real
  pl_failures :: "(member_name, int) pydict"
  pl_recoveries :: "(member_name, int) pydict"
  pl_health :: "(member_name, member_health) pydict"
  pl_since :: "(member_name, datetime) pydict"
  pl_down_since :: "(member_name, datetime) pydict"

datatype liveness_error = Damping_needs_a_beat

definition init_liveness :: "int \<Rightarrow> int \<Rightarrow> real \<Rightarrow> liveness_error + peer_liveness" where
  "init_liveness limit beats budget =
    (if limit < 1 \<or> beats < 1 then Inl Damping_needs_a_beat
     else Inr \<lparr>pl_failure_limit = limit, pl_recovery_beats = beats, pl_latency_budget = budget,
               pl_failures = [], pl_recoveries = [], pl_health = [], pl_since = [], pl_down_since = []\<rparr>)"

abbreviation dict_get_or :: "('k, 'v) pydict \<Rightarrow> 'k \<Rightarrow> 'v \<Rightarrow> 'v" where
  "dict_get_or d k v \<equiv> (case dict_get d k of None \<Rightarrow> v | Some x \<Rightarrow> x)"

definition note_failure :: "member_name \<Rightarrow> datetime \<Rightarrow> peer_liveness \<Rightarrow> peer_liveness" where
  "note_failure n now s =
    (let fails = dict_get_or (pl_failures s) n 0 + 1;
         down = dict_setdefault n now (pl_down_since s);
         s' = s\<lparr>pl_failures := dict_set n fails (pl_failures s),
                pl_recoveries := dict_set n 0 (pl_recoveries s), pl_down_since := down\<rparr>
     in if fails \<ge> pl_failure_limit s
        then s'\<lparr>pl_health := dict_set n UNREACHABLE (pl_health s),
                pl_since := dict_set n (dict_get_or down n now) (pl_since s)\<rparr>
        else s')"

definition note_success :: "member_name \<Rightarrow> real \<Rightarrow> datetime \<Rightarrow> peer_liveness \<Rightarrow> peer_liveness" where
  "note_success n latency now s =
    (let s' = s\<lparr>pl_failures := dict_set n 0 (pl_failures s), pl_down_since := dict_pop n (pl_down_since s)\<rparr>;
         current = dict_get (pl_health s) n in
     if latency > pl_latency_budget s
     then s'\<lparr>pl_recoveries := dict_set n 0 (pl_recoveries s),
             pl_since := (if current \<noteq> Some DEGRADED then dict_set n now (pl_since s) else pl_since s),
             pl_health := dict_set n DEGRADED (pl_health s)\<rparr>
     else if current = Some UNREACHABLE \<or> current = Some DEGRADED
     then (let r = dict_get_or (pl_recoveries s) n 0 + 1 in
           if r \<ge> pl_recovery_beats s
           then s'\<lparr>pl_health := dict_set n HEALTHY (pl_health s), pl_since := dict_set n now (pl_since s),
                   pl_recoveries := dict_set n 0 (pl_recoveries s)\<rparr>
           else s'\<lparr>pl_recoveries := dict_set n r (pl_recoveries s)\<rparr>)
     else s'\<lparr>pl_health := dict_set n HEALTHY (pl_health s), pl_since := dict_setdefault n now (pl_since s)\<rparr>)"

definition note_beat :: "member_name \<Rightarrow> bool \<Rightarrow> real \<Rightarrow> datetime \<Rightarrow> peer_liveness \<Rightarrow> peer_liveness" where
  "note_beat n ok latency now s = (if \<not> ok then note_failure n now s else note_success n latency now s)"

text \<open>
  \<^verbatim>\<open>observations\<close>: a name with a health but no \<^verbatim>\<open>since\<close> would raise \<^verbatim>\<open>KeyError\<close> (the result \<^const>\<open>None\<close>).
\<close>

fun view_entries ::
  "(member_name, datetime) pydict \<Rightarrow> (member_name, member_health) pydict \<Rightarrow> member_observation list option" where
  "view_entries since [] = Some []"
| "view_entries since ((n, h) # d) =
    (case dict_get since n of
       None \<Rightarrow> None
     | Some t \<Rightarrow>
         (case view_entries since d of
            None \<Rightarrow> None
          | Some v \<Rightarrow> Some (\<lparr>ob_name = n, ob_health = h, ob_since = t\<rparr> # v)))"

definition observations ::
  "member_name \<Rightarrow> datetime \<Rightarrow> peer_liveness \<Rightarrow> member_observation list option \<times> peer_liveness" where
  "observations self now s =
    (let mine = \<lparr>ob_name = self, ob_health = HEALTHY, ob_since = dict_get_or (pl_since s) self now\<rparr>;
         since = dict_setdefault self now (pl_since s)
     in (map_option ((#) mine) (view_entries since (pl_health s)), s\<lparr>pl_since := since\<rparr>))"

section \<open>One automaton per peer\<close>

record peer_view =
  v_failures :: int
  v_recoveries :: int
  v_health :: "member_health option"
  v_since :: "datetime option"
  v_down_since :: "datetime option"

record damping =
  d_failure_limit :: int
  d_recovery_beats :: int
  d_latency_budget :: real

text \<open>A beat: its time, and its latency if it succeeded.\<close>

type_synonym beat = "datetime \<times> real option"

definition peer_step :: "damping \<Rightarrow> beat \<Rightarrow> peer_view \<Rightarrow> peer_view" where
  "peer_step d b v =
    (case b of
       (now, None) \<Rightarrow>
         (let f = v_failures v + 1; down = (case v_down_since v of None \<Rightarrow> now | Some t \<Rightarrow> t) in
          if f \<ge> d_failure_limit d
          then \<lparr>v_failures = f, v_recoveries = 0, v_health = Some UNREACHABLE, v_since = Some down,
                v_down_since = Some down\<rparr>
          else v\<lparr>v_failures := f, v_recoveries := 0, v_down_since := Some down\<rparr>)
     | (now, Some latency) \<Rightarrow>
         (let v' = v\<lparr>v_failures := 0, v_down_since := None\<rparr> in
          if latency > d_latency_budget d
          then v'\<lparr>v_recoveries := 0, v_health := Some DEGRADED,
                  v_since := (if v_health v = Some DEGRADED then v_since v else Some now)\<rparr>
          else if v_health v = Some UNREACHABLE \<or> v_health v = Some DEGRADED
          then (if v_recoveries v + 1 \<ge> d_recovery_beats d
                then v'\<lparr>v_health := Some HEALTHY, v_since := Some now, v_recoveries := 0\<rparr>
                else v'\<lparr>v_recoveries := v_recoveries v + 1\<rparr>)
          else v'\<lparr>v_health := Some HEALTHY,
                  v_since := (case v_since v of None \<Rightarrow> Some now | Some t \<Rightarrow> Some t)\<rparr>))"

definition peer_init :: peer_view where
  "peer_init = \<lparr>v_failures = 0, v_recoveries = 0, v_health = None, v_since = None, v_down_since = None\<rparr>"

text \<open>What the dictionaries say of one peer.\<close>

definition abs_peer :: "peer_liveness \<Rightarrow> member_name \<Rightarrow> peer_view" where
  "abs_peer s n =
     \<lparr>v_failures = dict_get_or (pl_failures s) n 0, v_recoveries = dict_get_or (pl_recoveries s) n 0,
      v_health = dict_get (pl_health s) n, v_since = dict_get (pl_since s) n,
      v_down_since = dict_get (pl_down_since s) n\<rparr>"

definition abs_damping :: "peer_liveness \<Rightarrow> damping" where
  "abs_damping s = \<lparr>d_failure_limit = pl_failure_limit s, d_recovery_beats = pl_recovery_beats s,
     d_latency_budget = pl_latency_budget s\<rparr>"

definition beat_of :: "bool \<Rightarrow> real \<Rightarrow> datetime \<Rightarrow> beat" where
  "beat_of ok latency now = (now, if ok then Some latency else None)"

lemma dict_get_or_set [simp]:
  "dict_get_or (dict_set k v d) j x = (if j = k then v else dict_get_or d j x)"
  by simp

lemma note_damping [simp]: "abs_damping (note_beat n ok l now s) = abs_damping s"
  by (simp add: note_beat_def note_failure_def note_success_def abs_damping_def Let_def)

lemma note_failure_refines:
  "abs_peer (note_failure n now s) n = peer_step (abs_damping s) (now, None) (abs_peer s n)"
  by (auto simp: note_failure_def peer_step_def abs_peer_def abs_damping_def Let_def dict_get_setdefault
      split: option.splits)

lemma note_success_refines:
  "abs_peer (note_success n l now s) n = peer_step (abs_damping s) (now, Some l) (abs_peer s n)"
  by (auto simp: note_success_def peer_step_def abs_peer_def abs_damping_def Let_def dict_get_setdefault
      split: option.splits)

lemma note_other:
  "m \<noteq> n \<Longrightarrow> abs_peer (note_beat n ok l now s) m = abs_peer s m"
  by (simp add: note_beat_def note_failure_def note_success_def abs_peer_def Let_def dict_get_setdefault)

text \<open>
  The classifier is one automaton per peer. Noting a beat of a peer takes that peer's view one
  step of the automaton and leaves the view of every other peer as it was.
\<close>

theorem note_refines:
  "abs_peer (note_beat n ok l now s) m =
     (if m = n then peer_step (abs_damping s) (beat_of ok l now) (abs_peer s n) else abs_peer s m)"
  by (simp add: note_other) (simp add: note_beat_def beat_of_def note_failure_refines note_success_refines)

section \<open>Histories of beats\<close>

definition peer_run :: "damping \<Rightarrow> beat list \<Rightarrow> peer_view" where
  "peer_run d bs = fold (peer_step d) bs peer_init"

definition failed :: "beat \<Rightarrow> bool" where
  "failed b \<longleftrightarrow> snd b = None"

text \<open>The failures at the end of a history, the latest first.\<close>

definition streak :: "beat list \<Rightarrow> beat list" where
  "streak bs = takeWhile failed (rev bs)"

lemma peer_run_snoc: "peer_run d (bs @ [b]) = peer_step d b (peer_run d bs)"
  by (simp add: peer_run_def)

lemma streak_snoc: "streak (bs @ [b]) = (if failed b then b # streak bs else [])"
  by (simp add: streak_def)

lemma run_streak:
  "v_failures (peer_run d bs) = int (length (streak bs))
   \<and> v_down_since (peer_run d bs) = (if streak bs = [] then None else Some (fst (last (streak bs))))"
proof (induction bs rule: rev_induct)
  case Nil
  then show ?case by (simp add: peer_run_def peer_init_def streak_def)
next
  case (snoc b bs)
  then show ?case
    by (cases b; cases "snd b")
       (auto simp: peer_run_snoc streak_snoc peer_step_def failed_def Let_def split: if_splits)
qed

lemma streak_suffix: "\<exists>xs. bs = xs @ rev (streak bs)"
  unfolding streak_def by (metis rev_append rev_rev_ident takeWhile_dropWhile_id)

lemma streak_failed: "b \<in> set (streak bs) \<Longrightarrow> failed b"
  unfolding streak_def by (rule set_takeWhileD [THEN conjunct2])

lemma streak_marks:
  assumes "1 \<le> d_failure_limit d" "d_failure_limit d \<le> int (length (streak bs))"
  shows "v_health (peer_run d bs) = Some UNREACHABLE \<and> v_since (peer_run d bs) = Some (fst (last (streak bs)))"
proof (cases bs rule: rev_cases)
  case Nil
  then show ?thesis using assms by (simp add: streak_def)
next
  case (snoc as b)
  have b: "failed b" using assms unfolding snoc streak_snoc by (auto split: if_splits)
  have f: "d_failure_limit d \<le> v_failures (peer_run d as) + 1"
    using assms(2) b run_streak [of d as] unfolding snoc streak_snoc by simp
  have down: "(case v_down_since (peer_run d as) of None \<Rightarrow> fst b | Some t \<Rightarrow> t) = fst (last (streak bs))"
    using run_streak [of d as] b unfolding snoc streak_snoc by auto
  obtain t where t: "b = (t, None)" using b by (cases b) (simp add: failed_def)
  show ?thesis using f down unfolding snoc peer_run_snoc by (simp add: t peer_step_def Let_def cong: option.case_cong)
qed

text \<open>
  a peer is unreachable as soon as it has missed the limit of beats in a row, dated from the
  first beat of the streak.
\<close>

theorem streak_is_unreachable:
  assumes "1 \<le> d_failure_limit d" "d_failure_limit d \<le> int (length (streak bs))"
  shows "v_health (peer_run d bs) = Some UNREACHABLE \<and> v_since (peer_run d bs) = Some (fst (last (streak bs)))"
  using assms by (rule streak_marks)

lemma streak_run:
  assumes "1 \<le> d_failure_limit d" "d_failure_limit d \<le> int (length (streak bs))"
  shows "\<exists>xs f fs. bs = xs @ f # fs \<and> d_failure_limit d \<le> int (length (f # fs))
    \<and> (\<forall>b\<in>set (f # fs). failed b) \<and> f = last (streak bs)"
proof -
  obtain xs where xs: "bs = xs @ rev (streak bs)" using streak_suffix by blast
  have "streak bs \<noteq> []" using assms by auto
  then obtain fs f where s: "streak bs = fs @ [f]" by (cases "streak bs" rule: rev_cases) auto
  show ?thesis
    by (rule exI [of _ xs], rule exI [of _ f], rule exI [of _ "rev fs"])
       (use xs s assms(2) streak_failed [of _ bs] in auto)
qed

lemma streak_short_step:
  assumes "v_health (peer_step d b v) = Some UNREACHABLE" "\<not> (failed b \<and> d_failure_limit d \<le> v_failures v + 1)"
  shows "v_health v = Some UNREACHABLE \<and> v_since (peer_step d b v) = v_since v"
  using assms by (cases b; cases "snd b") (auto simp: peer_step_def failed_def Let_def split: if_splits)

text \<open>
  nothing less makes a peer unreachable. If a history ends with a peer unreachable, it contains
  a run of at least the limit of consecutive misses, and the recorded time is that of the first of
  them; a slow answer alone never does.
\<close>

theorem unreachable_needs_streak:
  assumes "1 \<le> d_failure_limit d" "v_health (peer_run d bs) = Some UNREACHABLE"
  shows "\<exists>xs f fs ys. bs = xs @ f # fs @ ys \<and> d_failure_limit d \<le> int (length (f # fs))
    \<and> (\<forall>b\<in>set (f # fs). failed b) \<and> v_since (peer_run d bs) = Some (fst f)"
  using assms(2)
proof (induction bs rule: rev_induct)
  case Nil
  then show ?case by (simp add: peer_run_def peer_init_def)
next
  case (snoc b bs)
  show ?case
  proof (cases "failed b \<and> d_failure_limit d \<le> v_failures (peer_run d bs) + 1")
    case True
    then have len: "d_failure_limit d \<le> int (length (streak (bs @ [b])))"
      using run_streak [of d bs] by (simp add: streak_snoc)
    obtain xs f fs where "bs @ [b] = xs @ f # fs" "d_failure_limit d \<le> int (length (f # fs))"
      "\<forall>b\<in>set (f # fs). failed b" "f = last (streak (bs @ [b]))"
      using streak_run [OF assms(1) len] by blast
    then show ?thesis
      using streak_marks [OF assms(1) len]
      by (intro exI [of _ xs] exI [of _ f] exI [of _ fs] exI [of _ "[]"]) simp
  next
    case False
    have old: "v_health (peer_run d bs) = Some UNREACHABLE"
      "v_since (peer_run d (bs @ [b])) = v_since (peer_run d bs)"
      using streak_short_step [OF _ False] snoc.prems unfolding peer_run_snoc by blast+
    obtain xs f fs ys where "bs = xs @ f # fs @ ys" "d_failure_limit d \<le> int (length (f # fs))"
      "\<forall>b\<in>set (f # fs). failed b" "v_since (peer_run d bs) = Some (fst f)"
      using snoc.IH [OF old(1)] by blast
    then show ?thesis
      using old(2) by (intro exI [of _ xs] exI [of _ f] exI [of _ fs] exI [of _ "ys @ [b]"]) simp
  qed
qed

section \<open>Recovery\<close>

definition fast :: "damping \<Rightarrow> beat \<Rightarrow> bool" where
  "fast d b \<longleftrightarrow> (\<exists>l. snd b = Some l \<and> l \<le> d_latency_budget d)"

lemma fast_step:
  assumes "fast d b"
  shows "peer_step d b v =
    (let v' = v\<lparr>v_failures := 0, v_down_since := None\<rparr> in
     if v_health v = Some UNREACHABLE \<or> v_health v = Some DEGRADED
     then (if v_recoveries v + 1 \<ge> d_recovery_beats d
           then v'\<lparr>v_health := Some HEALTHY, v_since := Some (fst b), v_recoveries := 0\<rparr>
           else v'\<lparr>v_recoveries := v_recoveries v + 1\<rparr>)
     else v'\<lparr>v_health := Some HEALTHY,
             v_since := (case v_since v of None \<Rightarrow> Some (fst b) | Some t \<Rightarrow> Some t)\<rparr>)"
  using assms by (cases b) (auto simp: fast_def peer_step_def Let_def cong: option.case_cong)

lemma fast_run:
  assumes "1 \<le> d_recovery_beats d" "v_health v = Some UNREACHABLE \<or> v_health v = Some DEGRADED"
    and "v_recoveries v = 0" "\<forall>b\<in>set gs. fast d b"
  shows "if int (length gs) < d_recovery_beats d
    then v_health (fold (peer_step d) gs v) = v_health v \<and> v_since (fold (peer_step d) gs v) = v_since v
       \<and> v_recoveries (fold (peer_step d) gs v) = int (length gs)
    else v_health (fold (peer_step d) gs v) = Some HEALTHY
       \<and> v_since (fold (peer_step d) gs v) = Some (fst (gs ! nat (d_recovery_beats d - 1)))"
  using assms(4)
proof (induction gs rule: rev_induct)
  case Nil
  then show ?case using assms(1,3) by simp
next
  case (snoc g gs)
  have g: "fast d g" using snoc.prems by simp
  consider "int (length gs) + 1 < d_recovery_beats d" | "int (length gs) + 1 = d_recovery_beats d"
    | "d_recovery_beats d \<le> int (length gs)" by linarith
  then show ?case
  proof cases
    case 1
    then show ?thesis using snoc assms(2) by (auto simp: fast_step [OF g] Let_def)
  next
    case 2
    then have "nat (d_recovery_beats d - 1) = length gs" by simp
    then show ?thesis using 2 snoc assms(2) by (auto simp: fast_step [OF g] Let_def)
  next
    case 3
    then have "nat (d_recovery_beats d - 1) < length gs" using assms(1) by simp
    then show ?thesis using 3 snoc by (simp add: fast_step [OF g] Let_def nth_append)
  qed
qed

text \<open>
  recovery is damped. A peer that is unreachable or degraded, with no recovery under way, keeps
  that health and its date through fewer good beats than the recovery count, and turns healthy with
  the beat that completes the count, dated by that beat.
\<close>

theorem recovery_needs_consecutive_beats:
  assumes "1 \<le> d_recovery_beats d" "v_health v = Some UNREACHABLE \<or> v_health v = Some DEGRADED"
    and "v_recoveries v = 0" "\<forall>b\<in>set gs. fast d b"
  shows "v_health (fold (peer_step d) gs v) =
       (if int (length gs) < d_recovery_beats d then v_health v else Some HEALTHY)
    \<and> v_since (fold (peer_step d) gs v) =
       (if int (length gs) < d_recovery_beats d then v_since v
        else Some (fst (gs ! nat (d_recovery_beats d - 1))))"
  using fast_run [OF assms] by (simp split: if_splits)

section \<open>The view handed to the participant\<close>

definition liveness_ok :: "peer_liveness \<Rightarrow> bool" where
  "liveness_ok s \<longleftrightarrow> dict_ok (pl_health s) \<and> (\<forall>n. dict_get (pl_health s) n \<noteq> None \<longrightarrow> dict_get (pl_since s) n \<noteq> None)"

lemma liveness_ok_init: "init_liveness limit beats budget = Inr s \<Longrightarrow> liveness_ok s"
  by (auto simp: init_liveness_def liveness_ok_def split: if_splits)

lemma liveness_ok_note: "liveness_ok s \<Longrightarrow> liveness_ok (note_beat n ok l now s)"
  by (simp add: liveness_ok_def note_beat_def note_failure_def note_success_def Let_def dict_get_setdefault)

lemma view_entries_total:
  assumes "\<forall>n h. (n, h) \<in> set d \<longrightarrow> dict_get since n \<noteq> None"
  shows "view_entries since d = Some (map (\<lambda>(n, h). \<lparr>ob_name = n, ob_health = h, ob_since = the (dict_get since n)\<rparr>) d)"
  using assms
proof (induction since d rule: view_entries.induct)
  case (2 since n h d)
  then obtain t where "dict_get since n = Some t" by force
  with 2 show ?case by simp
qed simp

lemma observations_view:
  assumes "liveness_ok s"
  shows "observations self now s =
    (Some (\<lparr>ob_name = self, ob_health = HEALTHY, ob_since = dict_get_or (pl_since s) self now\<rparr>
        # map (\<lambda>(n, h). \<lparr>ob_name = n, ob_health = h,
             ob_since = the (dict_get (dict_setdefault self now (pl_since s)) n)\<rparr>) (pl_health s)),
     s\<lparr>pl_since := dict_setdefault self now (pl_since s)\<rparr>)"
proof -
  have "\<forall>n h. (n, h) \<in> set (pl_health s) \<longrightarrow> dict_get (dict_setdefault self now (pl_since s)) n \<noteq> None"
    using assms by (auto simp: liveness_ok_def dict_get_iff dict_get_setdefault)
  then show ?thesis by (simp add: observations_def Let_def view_entries_total)
qed

lemma liveness_ok_observations: "liveness_ok s \<Longrightarrow> liveness_ok (snd (observations self now s))"
  by (simp add: observations_def Let_def liveness_ok_def dict_get_setdefault)

lemma find_map_entry:
  assumes "dict_ok d"
  shows "List.find (\<lambda>ob. ob_name ob = n) (map (\<lambda>(n, h). \<lparr>ob_name = n, ob_health = h, ob_since = f n\<rparr>) d) =
    map_option (\<lambda>h. \<lparr>ob_name = n, ob_health = h, ob_since = f n\<rparr>) (dict_get d n)"
  using assms unfolding dict_ok_def by (induction d) auto

text \<open>
  what the participant reads of a peer is the automaton's state. The view of a consistent
  classifier exists (no lookup fails), and its first entry for a peer has the peer's health and
  date; a peer never probed has none.
\<close>

theorem observations_faithful:
  assumes "liveness_ok s" "n \<noteq> self"
  shows "\<exists>view. fst (observations self now s) = Some view
    \<and> sees view n = (case v_health (abs_peer s n) of None \<Rightarrow> None
        | Some h \<Rightarrow> Some \<lparr>ob_name = n, ob_health = h, ob_since = the (v_since (abs_peer s n))\<rparr>)"
proof -
  have ok: "dict_ok (pl_health s)" using assms(1) by (simp add: liveness_ok_def)
  have "dict_get (dict_setdefault self now (pl_since s)) n = dict_get (pl_since s) n"
    using assms(2) by (simp add: dict_get_setdefault)
  then show ?thesis
    using assms by (simp add: observations_view find_map_entry [OF ok] abs_peer_def split: option.splits)
qed

section \<open>The poll\<close>







lemma set_member_twice [simp]: "set_member n q (set_member n p c) = set_member n q c"
  by (simp add: set_member_def)










section \<open>Witnesses\<close>

definition lab_damping :: damping where
  "lab_damping = \<lparr>d_failure_limit = 3, d_recovery_beats = 3, d_latency_budget = 50\<rparr>"

lemma lab_streak: "streak [(0, Some 1), (2, None), (4, None), (6, None)] = [(6, None), (4, None), (2, None)]"
  by (simp add: streak_def failed_def)

theorem streak_is_unreachable_witness:
  "v_since (peer_run lab_damping [(0, Some 1), (2, None), (4, None), (6, None)]) = Some 2"
  using streak_is_unreachable [of lab_damping "[(0, Some 1), (2, None), (4, None), (6, None)]"]
  by (simp add: lab_streak) (simp add: lab_damping_def)

theorem unreachable_needs_streak_witness:
  "\<exists>xs f fs ys. [(0, Some 1), (2, None), (4, None), (6, None)] = xs @ f # fs @ ys \<and> 3 \<le> int (length (f # fs))
     \<and> (\<forall>b\<in>set (f # fs). failed b)"
proof -
  have "v_health (peer_run lab_damping [(0, Some 1), (2, None), (4, None), (6, None)]) = Some UNREACHABLE"
    by (simp add: peer_run_def peer_init_def peer_step_def lab_damping_def Let_def)
  moreover have "1 \<le> d_failure_limit lab_damping" "d_failure_limit lab_damping = 3"
    by (simp_all add: lab_damping_def)
  ultimately show ?thesis using unreachable_needs_streak by metis
qed

theorem recovery_needs_consecutive_beats_witness:
  "v_health (fold (peer_step lab_damping) [(8, Some 1), (10, Some 2), (12, Some 3)]
     (peer_init\<lparr>v_health := Some UNREACHABLE, v_since := Some 2\<rparr>)) = Some HEALTHY"
  using recovery_needs_consecutive_beats [of lab_damping "peer_init\<lparr>v_health := Some UNREACHABLE, v_since := Some 2\<rparr>"
      "[(8, Some 1), (10, Some 2), (12, Some 3)]"]
  by (simp add: lab_damping_def peer_init_def fast_def)

definition lab_liveness :: peer_liveness where
  "lab_liveness = \<lparr>pl_failure_limit = 3, pl_recovery_beats = 3, pl_latency_budget = 50, pl_failures = [],
     pl_recoveries = [], pl_health = [], pl_since = [], pl_down_since = []\<rparr>"

theorem observations_faithful_witness:
  "\<exists>view. fst (observations Edge_b 5 (note_beat Edge_a True 80 3 lab_liveness)) = Some view
     \<and> sees view Edge_a = Some \<lparr>ob_name = Edge_a, ob_health = DEGRADED, ob_since = 3\<rparr>"
proof -
  have "liveness_ok (note_beat Edge_a True 80 3 lab_liveness)"
    by (rule liveness_ok_note) (simp add: lab_liveness_def liveness_ok_def)
  moreover have "v_health (abs_peer (note_beat Edge_a True 80 3 lab_liveness) Edge_a) = Some DEGRADED"
    "v_since (abs_peer (note_beat Edge_a True 80 3 lab_liveness) Edge_a) = Some 3"
    by (simp_all add: abs_peer_def note_beat_def note_success_def lab_liveness_def Let_def)
  ultimately show ?thesis
    using observations_faithful [of "note_beat Edge_a True 80 3 lab_liveness" Edge_a Edge_b 5] by simp
qed


end
