(* ===== verification/Py_Uuid.thy ===== *)
theory Py_Uuid
  imports Canonical_Json
begin

text \<open>
  \<^verbatim>\<open>uuid.UUID\<close> as the stores of the program use it: \<^verbatim>\<open>str(u)\<close> for a key on disk, \<^verbatim>\<open>uuid.UUID(s)\<close>
  to read it back, and \<^verbatim>\<open>u.bytes[:8]\<close> for an advisory lock key. Shown: reading what was printed
  gives the value back, so printing is injective.
\<close>

section \<open>Printing\<close>

fun hex_digits :: "nat \<Rightarrow> nat \<Rightarrow> string" where
  "hex_digits 0 n = []"
| "hex_digits (Suc k) n = hex_digits k (n div 16) @ [hex_char (n mod 16)]"

definition uuid_str :: "uuid \<Rightarrow> string" where
  "uuid_str u =
    (let h = hex_digits 32 (unat u) in
     take 8 h @ ''-'' @ take 4 (drop 8 h) @ ''-'' @ take 4 (drop 12 h) @ ''-'' @ take 4 (drop 16 h)
     @ ''-'' @ drop 20 h)"

section \<open>Reading\<close>

definition hex_value :: "char \<Rightarrow> nat option" where
  "hex_value c =
    (let n = of_char c :: nat in
     if 48 \<le> n \<and> n \<le> 57 then Some (n - 48)
     else if 97 \<le> n \<and> n \<le> 102 then Some (n - 87)
     else if 65 \<le> n \<and> n \<le> 70 then Some (n - 55)
     else None)"

text \<open>
  \<^verbatim>\<open>int(s, 16)\<close>: surrounding blanks, a sign, a prefix \<^verbatim>\<open>0x\<close>, and single underscores between digits
  (also after the prefix) are accepted.
\<close>

fun hex_run :: "nat \<Rightarrow> bool \<Rightarrow> string \<Rightarrow> nat option" where
  "hex_run acc seen [] = (if seen then Some acc else None)"
| "hex_run acc seen (c # cs) =
    (if c = CHR ''_'' then (if seen then hex_run acc False cs else None)
     else case hex_value c of None \<Rightarrow> None | Some d \<Rightarrow> hex_run (acc * 16 + d) True cs)"

definition hex_unsigned :: "string \<Rightarrow> nat option" where
  "hex_unsigned s =
    (case s of
       c # x # cs \<Rightarrow>
         if c = CHR ''0'' \<and> (x = CHR ''x'' \<or> x = CHR ''X'') then
           (case cs of y # ys \<Rightarrow> hex_run 0 False (if y = CHR ''_'' then ys else cs) | [] \<Rightarrow> None)
         else hex_run 0 False s
     | _ \<Rightarrow> hex_run 0 False s)"

definition py_int16 :: "string \<Rightarrow> int option" where
  "py_int16 s =
    (case py_strip s of
       c # cs \<Rightarrow>
         if c = CHR ''-'' then map_option (\<lambda>n. - int n) (hex_unsigned cs)
         else if c = CHR ''+'' then map_option int (hex_unsigned cs)
         else map_option int (hex_unsigned (c # cs))
     | [] \<Rightarrow> None)"

text \<open>\<^verbatim>\<open>s.replace(p, '')\<close> for a non-empty \<^verbatim>\<open>p\<close>: occurrences from the left, without overlap.\<close>

function remove_all :: "string \<Rightarrow> string \<Rightarrow> string" where
  "remove_all p s =
    (if p = [] then s
     else case s of
       [] \<Rightarrow> []
     | c # cs \<Rightarrow> if take (length p) s = p then remove_all p (drop (length p) s) else c # remove_all p cs)"
  by pat_completeness auto
termination
  by (relation "measure (\<lambda>(p, s). length s)") auto

declare remove_all.simps [simp del]

definition strip_braces :: "string \<Rightarrow> string" where
  "strip_braces s =
    (let b = (\<lambda>c. c = CHR ''{'' \<or> c = CHR ''}'') in rev (dropWhile b (rev (dropWhile b s))))"

definition uuid_parse :: "string \<Rightarrow> uuid option" where
  "uuid_parse s =
    (let h = remove_all ''-'' (strip_braces (remove_all ''uuid:'' (remove_all ''urn:'' s))) in
     if length h \<noteq> 32 then None
     else (case py_int16 h of
             None \<Rightarrow> None
           | Some i \<Rightarrow> if 0 \<le> i \<and> i < 2 ^ 128 then Some (word_of_int i) else None))"

section \<open>The round trip\<close>

lemma less_16_cases: "(d::nat) < 16 \<Longrightarrow> d = 0 \<or> d = 1 \<or> d = 2 \<or> d = 3 \<or> d = 4 \<or> d = 5 \<or> d = 6 \<or> d = 7
    \<or> d = 8 \<or> d = 9 \<or> d = 10 \<or> d = 11 \<or> d = 12 \<or> d = 13 \<or> d = 14 \<or> d = 15"
  by presburger

lemma hex_char_table:
  "hex_char 0 = CHR ''0''" "hex_char 1 = CHR ''1''" "hex_char 2 = CHR ''2''" "hex_char 3 = CHR ''3''"
  "hex_char 4 = CHR ''4''" "hex_char 5 = CHR ''5''" "hex_char 6 = CHR ''6''" "hex_char 7 = CHR ''7''"
  "hex_char 8 = CHR ''8''" "hex_char 9 = CHR ''9''" "hex_char 10 = CHR ''a''" "hex_char 11 = CHR ''b''"
  "hex_char 12 = CHR ''c''" "hex_char 13 = CHR ''d''" "hex_char 14 = CHR ''e''" "hex_char 15 = CHR ''f''"
  by (simp_all add: hex_char_def char_of_eq_iff)

lemma hex_char_value: "d < 16 \<Longrightarrow> hex_value (hex_char d) = Some d"
  by (drule less_16_cases, elim disjE) (simp_all only: hex_char_table, simp_all add: hex_value_def)

definition is_hex :: "char \<Rightarrow> bool" where
  "is_hex c \<longleftrightarrow> (\<exists>d<16. c = hex_char d)"

lemma hex_digits_length [simp]: "length (hex_digits k n) = k"
  by (induction k arbitrary: n) simp_all

lemma hex_digits_hex: "c \<in> set (hex_digits k n) \<Longrightarrow> is_hex c"
proof (induction k arbitrary: n)
  case (Suc k)
  have "is_hex (hex_char (n mod 16))" unfolding is_hex_def by (rule exI [of _ "n mod 16"]) simp
  with Suc show ?case by auto
qed simp

text \<open>What a lower-case hexadecimal digit is not.\<close>

lemma is_hex_not:
  assumes "is_hex c"
  shows "c \<noteq> CHR ''_''" "c \<noteq> CHR ''-''" "c \<noteq> CHR ''+''" "c \<noteq> CHR ''{''" "c \<noteq> CHR ''}''"
    "c \<noteq> CHR ''x''" "c \<noteq> CHR ''X''" "c \<noteq> CHR ''u''" "\<not> py_isspace c"
proof -
  obtain d where d: "d < 16" "c = hex_char d" using assms by (auto simp: is_hex_def)
  have "c \<noteq> CHR ''_'' \<and> c \<noteq> CHR ''-'' \<and> c \<noteq> CHR ''+'' \<and> c \<noteq> CHR ''{'' \<and> c \<noteq> CHR ''}''
    \<and> c \<noteq> CHR ''x'' \<and> c \<noteq> CHR ''X'' \<and> c \<noteq> CHR ''u'' \<and> \<not> py_isspace c"
    unfolding d(2) using less_16_cases [OF d(1)]
    by (elim disjE) (simp_all only: hex_char_table, simp_all add: py_isspace_def)
  then show "c \<noteq> CHR ''_''" "c \<noteq> CHR ''-''" "c \<noteq> CHR ''+''" "c \<noteq> CHR ''{''" "c \<noteq> CHR ''}''"
    "c \<noteq> CHR ''x''" "c \<noteq> CHR ''X''" "c \<noteq> CHR ''u''" "\<not> py_isspace c" by blast+
qed

definition hex_fold :: "nat \<Rightarrow> string \<Rightarrow> nat" where
  "hex_fold acc s = foldl (\<lambda>a c. a * 16 + the (hex_value c)) acc s"

lemma hex_run_fold:
  "\<forall>c\<in>set s. is_hex c \<Longrightarrow> seen \<or> s \<noteq> [] \<Longrightarrow> hex_run acc seen s = Some (hex_fold acc s)"
proof (induction s arbitrary: acc seen)
  case (Cons c s)
  obtain d where "d < 16" "c = hex_char d" using Cons.prems(1) by (auto simp: is_hex_def)
  then have "hex_value c = Some d" by (simp add: hex_char_value)
  moreover have "c \<noteq> CHR ''_''" using Cons.prems(1) is_hex_not by simp
  ultimately show ?case using Cons.IH [of True] Cons.prems(1) by (simp add: hex_fold_def)
qed (simp add: hex_fold_def)

lemma hex_fold_digits: "hex_fold 0 (hex_digits k n) = n mod 16 ^ k"
proof (induction k arbitrary: n)
  case (Suc k)
  have "hex_fold 0 (hex_digits (Suc k) n) = (n div 16) mod 16 ^ k * 16 + n mod 16"
    using Suc by (simp add: hex_fold_def hex_char_value)
  also have "\<dots> = n mod 16 ^ Suc k" by (simp add: mod_mult2_eq)
  finally show ?case .
qed (simp add: hex_fold_def)

lemma remove_single: "remove_all [c] s = filter (\<lambda>x. x \<noteq> c) s"
proof (induction s)
  case Nil
  then show ?case by (simp add: remove_all.simps)
next
  case (Cons x s)
  then show ?case by (subst remove_all.simps) simp
qed

lemma remove_absent: "c \<notin> set s \<Longrightarrow> remove_all (c # p) s = s"
proof (induction s)
  case Nil
  then show ?case by (simp add: remove_all.simps)
next
  case (Cons x s)
  then show ?case by (subst remove_all.simps) auto
qed

lemma dropWhile_none: "\<forall>c\<in>set s. \<not> P c \<Longrightarrow> dropWhile P s = s"
  by (cases s) simp_all

lemma py_int16_hex:
  assumes "\<forall>c\<in>set s. is_hex c" "s \<noteq> []"
  shows "py_int16 s = Some (int (hex_fold 0 s))"
proof -
  have strip: "py_strip s = s"
    using assms(1) is_hex_not(9) by (simp add: py_strip_def dropWhile_none)
  obtain c cs where s: "s = c # cs" using assms(2) by (cases s) auto
  have "hex_unsigned s = hex_run 0 False s"
    using assms(1) is_hex_not(6,7) s by (auto simp: hex_unsigned_def split: list.split)
  then have "hex_unsigned s = Some (hex_fold 0 s)" using hex_run_fold [OF assms(1)] assms(2) by simp
  then show ?thesis
    using strip s assms(1) is_hex_not(2,3) by (simp add: py_int16_def)
qed

text \<open>The text of an identifier reads back as the identifier.\<close>

theorem uuid_parse_str: "uuid_parse (uuid_str u) = Some u"
proof -
  let ?h = "hex_digits 32 (unat u)"
  have hex: "\<forall>c\<in>set ?h. is_hex c" using hex_digits_hex by blast
  have sub: "set (take k (drop j ?h)) \<subseteq> set ?h" for j k
    using set_take_subset [of k "drop j ?h"] set_drop_subset [of j ?h] by blast
  have chars: "is_hex c \<or> c = CHR ''-''" if "c \<in> set (uuid_str u)" for c
    using that sub [of 8 0] sub [of 4 8] sub [of 4 12] sub [of 4 16] set_drop_subset [of 20 ?h] hex
    by (auto simp: uuid_str_def Let_def)
  have clean: "CHR ''u'' \<notin> set (uuid_str u)" using chars [of "CHR ''u''"] is_hex_not(8) by auto
  have braces: "\<not> (c = CHR ''{'' \<or> c = CHR ''}'')" if "c \<in> set (uuid_str u)" for c
    using chars [OF that] is_hex_not(4,5) by auto
  have keep: "filter (\<lambda>x. x \<noteq> CHR ''-'') (take k (drop j ?h)) = take k (drop j ?h)" for j k
    using sub [of k j] hex is_hex_not(2) by (intro filter_True) blast
  have joins: "take 4 (drop 16 ?h) @ drop 20 ?h = drop 16 ?h" "take 4 (drop 12 ?h) @ drop 16 ?h = drop 12 ?h"
    "take 4 (drop 8 ?h) @ drop 12 ?h = drop 8 ?h" "take 8 ?h @ drop 8 ?h = ?h"
    using append_take_drop_id [of 4 "drop 16 ?h"] append_take_drop_id [of 4 "drop 12 ?h"]
      append_take_drop_id [of 4 "drop 8 ?h"] by (simp_all only: drop_drop) simp_all
  have "drop 20 ?h = take 12 (drop 20 ?h)" by simp
  then have keep5: "filter (\<lambda>x. x \<noteq> CHR ''-'') (drop 20 ?h) = drop 20 ?h" using keep [of 12 20] by simp
  have h: "remove_all ''-'' (uuid_str u) = ?h"
    using keep [of 8 0] keep [of 4 8] keep [of 4 12] keep [of 4 16] keep5
    by (simp add: remove_single uuid_str_def Let_def joins)
  have same: "remove_all ''urn:'' (uuid_str u) = uuid_str u" "remove_all ''uuid:'' (uuid_str u) = uuid_str u"
    "strip_braces (uuid_str u) = uuid_str u"
    using clean braces by (simp_all add: remove_absent strip_braces_def Let_def dropWhile_none)
  have lt: "uint u < 2 ^ 128" using uint_lt2p [of u] by simp
  then have "unat u < 2 ^ 128" unfolding unat_eq_nat_uint by (subst nat_less_iff) simp_all
  then have "hex_fold 0 ?h = unat u" by (simp add: hex_fold_digits)
  moreover have "?h \<noteq> []" by (metis hex_digits_length length_0_conv zero_neq_numeral)
  ultimately have "py_int16 ?h = Some (int (unat u))" using py_int16_hex [OF hex] by simp
  then show ?thesis
    using lt by (simp add: uuid_parse_def Let_def same h)
qed

lemma uuid_str_inj: "uuid_str u = uuid_str v \<Longrightarrow> u = v"
  using uuid_parse_str by (metis option.inject)

end
