(* ===== verification/Reservation_Ledger.thy ===== *)
theory Reservation_Ledger
  imports Py_Uuid "HOL-Library.Monad_Syntax"
begin

text \<open>
  The node's journal of memory and disk holds (\<^verbatim>\<open>coire_node/reservations.py\<close>). The ledger object is
  a record; its file is the JSON value last written. What a call reads from the machine (devices,
  free space, engine memory, the owners' answers, the outcome of the write) is one record, the
  node's view at that call. Model validation and serialisation of the two wire models belong to
  pydantic and are a parameter, the codec, of which only the round trip is assumed.
\<close>

section \<open>Data\<close>

datatype reservation_state = R_HELD | R_RELEASED | R_EXPIRED

record reservation_request =
  rq_key :: uuid
  rq_workflow :: uuid
  rq_variant :: uuid
  rq_memory :: int
  rq_disk :: int

record reservation =
  rs_id :: uuid
  rs_state :: reservation_state
  rs_memory :: int
  rs_disk :: int
  rs_occupants :: "string list"

definition request_valid :: "reservation_request \<Rightarrow> bool" where
  "request_valid q \<longleftrightarrow> 0 < rq_memory q \<and> 0 < rq_disk q"

definition reservation_valid :: "reservation \<Rightarrow> bool" where
  "reservation_valid r \<longleftrightarrow> 0 < rs_memory r \<and> 0 < rs_disk r"

record codec =
  cd_dump_res :: "reservation \<Rightarrow> json"
  cd_val_res :: "json \<Rightarrow> reservation option"
  cd_dump_req :: "reservation_request \<Rightarrow> json"
  cd_val_req :: "json \<Rightarrow> reservation_request option"

text \<open>The metadata of a hold, the request kept as the JSON that was stored.\<close>

record hold_meta =
  md_request :: json
  md_root :: "string option"
  md_device :: "int option"
  md_floor :: int
  md_require_stop :: bool
  md_credit :: int
  md_paths :: "string list"
  md_owner_kind :: "string option"

datatype ledger_error =
  Refused (impossible: bool) (required: int) (committed: int) (budget: int)
| Conflict
| Unavailable
| Unsafe_scope
| Admission_denied

datatype save_outcome = Saved | Save_lost | Save_unsynced

record node_view =
  nv_path_ok :: bool
  nv_path :: string
  nv_device :: int
  nv_device_of :: "string \<Rightarrow> int option"
  nv_budget :: int
  nv_engines :: int
  nv_disk_free :: int
  nv_external :: "int option option"
  nv_quota :: "int option"
  nv_usage :: "int option option"
  nv_training_root :: string
  nv_admission :: bool
  nv_stopped :: "uuid \<Rightarrow> bool"
  nv_footprint :: "uuid \<Rightarrow> int option"
  nv_save :: save_outcome

record ledger =
  l_items :: "(uuid, reservation) pydict"
  l_meta :: "(uuid, hold_meta) pydict"
  l_owners :: "uuid list"
  l_unavailable :: bool
  l_file :: "json option"

section \<open>Paths\<close>

definition is_absolute :: "string \<Rightarrow> bool" where
  "is_absolute p \<longleftrightarrow> (case p of [] \<Rightarrow> False | c # _ \<Rightarrow> c = CHR ''/'')"

fun split_slash :: "string \<Rightarrow> string \<Rightarrow> string list" where
  "split_slash acc [] = [rev acc]"
| "split_slash acc (c # cs) =
    (if c = CHR ''/'' then rev acc # split_slash [] cs else split_slash (c # acc) cs)"

definition path_parts :: "string \<Rightarrow> string list" where
  "path_parts p = filter (\<lambda>x. x \<noteq> [] \<and> x \<noteq> ''.'') (split_slash [] p)"

definition is_relative_to :: "string \<Rightarrow> string \<Rightarrow> bool" where
  "is_relative_to p base \<longleftrightarrow> is_absolute p = is_absolute base
     \<and> take (length (path_parts base)) (path_parts p) = path_parts base"

section \<open>The file\<close>

definition opt_json :: "('a \<Rightarrow> json) \<Rightarrow> 'a option \<Rightarrow> json" where
  "opt_json f x = (case x of None \<Rightarrow> JNull | Some v \<Rightarrow> f v)"

definition meta_json :: "hold_meta \<Rightarrow> (string \<times> json) list" where
  "meta_json md =
     [(''request'', md_request md), (''disk_root'', opt_json JStr (md_root md)),
      (''disk_device'', opt_json JInt (md_device md)), (''disk_floor_bytes'', JInt (md_floor md)),
      (''require_stop'', JBool (md_require_stop md)), (''disk_credit_bytes'', JInt (md_credit md)),
      (''materialized_paths'', JArr (map JStr (md_paths md))),
      (''owner_kind'', opt_json JStr (md_owner_kind md))]"

definition record_json :: "codec \<Rightarrow> reservation \<Rightarrow> hold_meta \<Rightarrow> json" where
  "record_json cd r md = JObj ((''reservation'', cd_dump_res cd r) # meta_json md)"

text \<open>\<^verbatim>\<open>sort_keys\<close> orders the items; the order inside a record is never looked at.\<close>

definition journal_json :: "codec \<Rightarrow> ledger \<Rightarrow> json" where
  "journal_json cd l =
     JObj [(''schema_version'', JInt 2),
           (''items'', JObj (sort_key fst
              (map (\<lambda>(k, r). (uuid_str k, record_json cd r (the (dict_get (l_meta l) k)))) (l_items l))))]"

definition save :: "codec \<Rightarrow> node_view \<Rightarrow> ledger \<Rightarrow> ledger_error option \<times> ledger" where
  "save cd nv l =
    (case nv_save nv of
       Saved \<Rightarrow> (None, l\<lparr>l_file := Some (journal_json cd l)\<rparr>)
     | Save_lost \<Rightarrow> (Some Unavailable, l\<lparr>l_unavailable := True\<rparr>)
     | Save_unsynced \<Rightarrow> (Some Unavailable, l\<lparr>l_file := Some (journal_json cd l), l_unavailable := True\<rparr>))"

text \<open>\<^verbatim>\<open>_unique_object\<close>: no object of the file repeats a key.\<close>

fun unique_json :: "json \<Rightarrow> bool" where
  "unique_json (JArr xs) = list_all unique_json xs"
| "unique_json (JObj kvs) = (distinct (map fst kvs) \<and> list_all (\<lambda>kv. unique_json (snd kv)) kvs)"
| "unique_json _ = True"

definition required_fields :: "string set" where
  "required_fields = {''reservation'', ''request'', ''disk_root'', ''disk_device'', ''disk_floor_bytes'', ''require_stop''}"

definition optional_fields :: "string set" where
  "optional_fields = {''disk_credit_bytes'', ''materialized_paths'', ''owner_kind''}"

fun json_str :: "json \<Rightarrow> string option" where
  "json_str (JStr s) = Some s"
| "json_str _ = None"

fun json_int :: "json \<Rightarrow> int option" where
  "json_int (JInt i) = Some i"
| "json_int _ = None"

fun json_bool :: "json \<Rightarrow> bool option" where
  "json_bool (JBool b) = Some b"
| "json_bool _ = None"

fun json_paths :: "json list \<Rightarrow> string list option" where
  "json_paths [] = Some []"
| "json_paths (v # vs) =
    (case (json_str v, json_paths vs) of
       (Some p, Some ps) \<Rightarrow> if is_absolute p then Some (p # ps) else None
     | _ \<Rightarrow> None)"

text \<open>A check of the loader: \<^const>\<open>None\<close> is the \<^verbatim>\<open>ValueError\<close> or \<^verbatim>\<open>TypeError\<close> that makes the file untrusted.\<close>

definition require :: "bool \<Rightarrow> unit option" where
  "require b = (if b then Some () else None)"

lemma require_True [simp]: "require True = Some ()"
  by (simp add: require_def)

lemma require_Some [simp]: "require b = Some u \<longleftrightarrow> b"
  by (simp add: require_def)

lemma require_bind [simp]: "require b \<bind> f = Some x \<longleftrightarrow> b \<and> f () = Some x"
  by (simp add: require_def)

definition opt_field :: "(json \<Rightarrow> 'a option) \<Rightarrow> json \<Rightarrow> 'a option option" where
  "opt_field f v = (if v = JNull then Some None else map_option Some (f v))"

definition load_record ::
  "codec \<Rightarrow> string \<times> json \<Rightarrow> (uuid \<times> reservation \<times> hold_meta) option" where
  "load_record cd kv = do {
     k \<leftarrow> uuid_parse (fst kv);
     f \<leftarrow> (case snd kv of JObj f \<Rightarrow> Some f | _ \<Rightarrow> None);
     require (set (map fst f) - optional_fields = required_fields);
     item \<leftarrow> cd_val_res cd (the (map_of f ''reservation''));
     credit \<leftarrow> json_int (case map_of f ''disk_credit_bytes'' of None \<Rightarrow> JInt 0 | Some v \<Rightarrow> v);
     paths \<leftarrow> (case map_of f ''materialized_paths'' of
                None \<Rightarrow> Some [] | Some (JArr vs) \<Rightarrow> json_paths vs | _ \<Rightarrow> None);
     require (0 \<le> credit \<and> credit \<le> rs_disk item);
     kind \<leftarrow> opt_field json_str (case map_of f ''owner_kind'' of None \<Rightarrow> JNull | Some v \<Rightarrow> v);
     require (kind = None \<or> kind = Some ''artifact-import'');
     let request = the (map_of f ''request'');
     q \<leftarrow> opt_field (cd_val_req cd) request;
     require (rs_id item = k \<and> (case q of None \<Rightarrow> True
       | Some r \<Rightarrow> rq_key r = k \<and> rq_memory r = rs_memory item \<and> rq_disk r = rs_disk item));
     base \<leftarrow> opt_field json_str (the (map_of f ''disk_root''));
     device \<leftarrow> opt_field json_int (the (map_of f ''disk_device''));
     floor \<leftarrow> json_int (the (map_of f ''disk_floor_bytes''));
     stop \<leftarrow> json_bool (the (map_of f ''require_stop''));
     require ((case base of None \<Rightarrow> True | Some p \<Rightarrow> is_absolute p)
       \<and> (case device of None \<Rightarrow> True | Some d \<Rightarrow> 0 \<le> d) \<and> 0 \<le> floor \<and> (base = None) = (device = None));
     Some (k, item, \<lparr>md_request = request, md_root = base, md_device = device, md_floor = floor,
       md_require_stop = stop, md_credit = credit, md_paths = paths, md_owner_kind = kind\<rparr>)
   }"

text \<open>Holds of the older format: no request and no filesystem is known of them.\<close>

definition legacy_meta :: hold_meta where
  "legacy_meta = \<lparr>md_request = JNull, md_root = None, md_device = None, md_floor = 0,
     md_require_stop = False, md_credit = 0, md_paths = [], md_owner_kind = None\<rparr>"

definition load_legacy :: "codec \<Rightarrow> string \<times> json \<Rightarrow> (uuid \<times> reservation \<times> hold_meta) option" where
  "load_legacy cd kv = do {
     k \<leftarrow> uuid_parse (fst kv);
     item \<leftarrow> cd_val_res cd (snd kv);
     require (rs_id item = k);
     Some (k, item, legacy_meta)
   }"

text \<open>The loop over the file's items fills both dictionaries, a later key replacing an earlier one.\<close>

fun load_all ::
  "(string \<times> json \<Rightarrow> (uuid \<times> reservation \<times> hold_meta) option) \<Rightarrow> (string \<times> json) list
     \<Rightarrow> (uuid, reservation) pydict \<times> (uuid, hold_meta) pydict
     \<Rightarrow> ((uuid, reservation) pydict \<times> (uuid, hold_meta) pydict) option" where
  "load_all f [] acc = Some acc"
| "load_all f (kv # kvs) acc =
    (case f kv of
       None \<Rightarrow> None
     | Some (k, r, md) \<Rightarrow> load_all f kvs (dict_set k r (fst acc), dict_set k md (snd acc)))"

definition load_value ::
  "codec \<Rightarrow> json \<Rightarrow> ((uuid, reservation) pydict \<times> (uuid, hold_meta) pydict) option" where
  "load_value cd v = do {
     require (unique_json v);
     values \<leftarrow> (case v of JObj f \<Rightarrow> Some f | _ \<Rightarrow> None);
     if map_of values ''schema_version'' = Some (JInt 2)
     then (case map_of values ''items'' of
             Some (JObj items) \<Rightarrow>
               if set (map fst values) = {''schema_version'', ''items''}
               then load_all (load_record cd) items ([], []) else None
           | _ \<Rightarrow> None)
     else load_all (load_legacy cd) values ([], [])
   }"

text \<open>\<^verbatim>\<open>_load\<close>: an absent file is an empty ledger; \<^verbatim>\<open>file_ok\<close> stands for the checks on the open file.\<close>

definition load :: "codec \<Rightarrow> bool \<Rightarrow> json option
    \<Rightarrow> ledger_error + (uuid, reservation) pydict \<times> (uuid, hold_meta) pydict" where
  "load cd file_ok file =
    (case file of
       None \<Rightarrow> Inr ([], [])
     | Some v \<Rightarrow>
         if \<not> file_ok then Inl Unavailable
         else (case load_value cd v of None \<Rightarrow> Inl Unavailable | Some r \<Rightarrow> Inr r))"

definition open_ledger :: "codec \<Rightarrow> bool \<Rightarrow> json option \<Rightarrow> ledger_error + ledger" where
  "open_ledger cd file_ok file =
    (case load cd file_ok file of
       Inl e \<Rightarrow> Inl e
     | Inr (items, meta) \<Rightarrow> Inr \<lparr>l_items = items, l_meta = meta, l_owners = [], l_unavailable = False, l_file = file\<rparr>)"

section \<open>Accounting\<close>

definition counts :: "uuid \<times> reservation \<Rightarrow> bool" where
  "counts e \<longleftrightarrow> rs_state (snd e) \<noteq> R_RELEASED"

definition meta_of :: "ledger \<Rightarrow> uuid \<Rightarrow> hold_meta" where
  "meta_of l k = the (dict_get (l_meta l) k)"

definition device_of :: "node_view \<Rightarrow> hold_meta \<Rightarrow> int option" where
  "device_of nv md =
    (case md_root md of
       None \<Rightarrow> None
     | Some p \<Rightarrow>
         (case nv_device_of nv p of
            None \<Rightarrow> None
          | Some d \<Rightarrow> if Some d = md_device md then Some d else None))"

definition on_device :: "node_view \<Rightarrow> int \<Rightarrow> hold_meta \<Rightarrow> bool" where
  "on_device nv d md \<longleftrightarrow> device_of nv md = None \<or> device_of nv md = Some d"

definition held_disk_scopes :: "node_view \<Rightarrow> int \<Rightarrow> ledger \<Rightarrow> (uuid \<times> reservation) list" where
  "held_disk_scopes nv d l = filter (\<lambda>e. counts e \<and> on_device nv d (meta_of l (fst e))) (l_items l)"

definition held_disk_bytes :: "node_view \<Rightarrow> int \<Rightarrow> bool \<Rightarrow> ledger \<Rightarrow> ledger_error + int" where
  "held_disk_bytes nv d include_external l =
    (if l_unavailable l then Inl Unavailable
     else
       (let held = sum_list (map (\<lambda>e. rs_disk (snd e) - md_credit (meta_of l (fst e))) (held_disk_scopes nv d l)) in
        if \<not> include_external then Inr held
        else (case nv_external nv of
                None \<Rightarrow> Inr held
              | Some None \<Rightarrow> Inl Unavailable
              | Some (Some x) \<Rightarrow> if x < 0 then Inl Unavailable else Inr (held + x))))"

definition measured :: "node_view \<Rightarrow> ledger \<Rightarrow> uuid \<Rightarrow> int" where
  "measured nv l k =
    (if k \<in> set (l_owners l)
     then (case nv_footprint nv k of Some v \<Rightarrow> if v \<ge> 0 then v else 0 | None \<Rightarrow> 0) else 0)"

definition held_sum :: "node_view \<Rightarrow> ledger \<Rightarrow> int" where
  "held_sum nv l =
     sum_list (map (\<lambda>e. max (rs_memory (snd e)) (measured nv l (fst e))) (filter counts (l_items l)))"

definition held_bytes :: "node_view \<Rightarrow> ledger \<Rightarrow> ledger_error + int" where
  "held_bytes nv l = (if l_unavailable l then Inl Unavailable else Inr (held_sum nv l))"

definition disk_floor :: "node_view \<Rightarrow> int \<Rightarrow> ledger \<Rightarrow> int" where
  "disk_floor nv least l =
     foldr max (map (\<lambda>e. md_floor (meta_of l (fst e))) (held_disk_scopes nv (nv_device nv) l)) least"

section \<open>Operations\<close>

text \<open>\<^verbatim>\<open>hold\<close>, in the order of its checks: the arguments, a replay, the admission of a new hold.\<close>

definition scope_unsafe ::
  "node_view \<Rightarrow> reservation_request \<Rightarrow> int \<Rightarrow> int \<Rightarrow> string list \<Rightarrow> string option \<Rightarrow> bool" where
  "scope_unsafe nv q least credit paths kind \<longleftrightarrow>
     \<not> request_valid q \<or> \<not> nv_path_ok nv \<or> least < 0 \<or> \<not> (0 \<le> credit \<and> credit \<le> rq_disk q)
   \<or> \<not> list_all is_absolute paths \<or> \<not> (kind = None \<or> kind = Some ''artifact-import'')"

definition scope_meta ::
  "codec \<Rightarrow> node_view \<Rightarrow> reservation_request \<Rightarrow> int \<Rightarrow> bool \<Rightarrow> int \<Rightarrow> string list \<Rightarrow> string option \<Rightarrow> hold_meta" where
  "scope_meta cd nv q least stop credit paths kind =
     \<lparr>md_request = cd_dump_req cd q, md_root = Some (nv_path nv), md_device = Some (nv_device nv),
      md_floor = least, md_require_stop = stop, md_credit = credit, md_paths = paths, md_owner_kind = kind\<rparr>"

definition quota_error :: "node_view \<Rightarrow> int \<Rightarrow> ledger_error option" where
  "quota_error nv disk =
    (case (nv_quota nv, nv_usage nv) of
       (Some limit, Some usage) \<Rightarrow>
         if \<not> is_relative_to (nv_path nv) (nv_training_root nv) then None
         else (case usage of
                 None \<Rightarrow> Some Unavailable
               | Some u \<Rightarrow> if u < 0 then Some Unavailable
                           else if u + disk > limit then Some (Refused False disk u limit) else None)
     | _ \<Rightarrow> None)"

definition admission_error :: "node_view \<Rightarrow> reservation_request \<Rightarrow> int \<Rightarrow> int \<Rightarrow> ledger \<Rightarrow> ledger_error option" where
  "admission_error nv q least credit l =
    (if \<not> nv_admission nv then Some Admission_denied
     else
       (let committed = nv_engines nv + held_sum nv l; disk = rq_disk q - credit; fl = disk_floor nv least l in
        case held_disk_bytes nv (nv_device nv) True l of
          Inl e \<Rightarrow> Some e
        | Inr disk_held \<Rightarrow>
            if rq_memory q > nv_budget nv then Some (Refused True (rq_memory q) committed (nv_budget nv))
            else if committed + rq_memory q > nv_budget nv
            then Some (Refused False (rq_memory q) committed (nv_budget nv))
            else (case quota_error nv disk of
                    Some e \<Rightarrow> Some e
                  | None \<Rightarrow>
                      if disk_held + disk + fl > nv_disk_free nv
                      then Some (Refused False (rq_disk q) disk_held (max 0 (nv_disk_free nv - fl)))
                      else None)))"

definition new_item :: "node_view \<Rightarrow> reservation_request \<Rightarrow> reservation" where
  "new_item nv q =
     \<lparr>rs_id = rq_key q, rs_state = R_HELD, rs_memory = rq_memory q, rs_disk = rq_disk q,
      rs_occupants = (if nv_engines nv \<noteq> 0 then [''engines:'' @ show_int (nv_engines nv)] else [])\<rparr>"

definition put_hold :: "reservation \<Rightarrow> hold_meta \<Rightarrow> ledger \<Rightarrow> ledger" where
  "put_hold r md l =
     l\<lparr>l_items := dict_set (rs_id r) r (l_items l), l_meta := dict_set (rs_id r) md (l_meta l)\<rparr>"

definition hold ::
  "codec \<Rightarrow> node_view \<Rightarrow> reservation_request \<Rightarrow> int \<Rightarrow> bool \<Rightarrow> int \<Rightarrow> string list \<Rightarrow> string option
     \<Rightarrow> ledger \<Rightarrow> (ledger_error + reservation \<times> bool) \<times> ledger" where
  "hold cd nv q least stop credit paths kind l =
    (if l_unavailable l then (Inl Unavailable, l)
     else if scope_unsafe nv q least credit paths kind then (Inl Unsafe_scope, l)
     else
       (let md = scope_meta cd nv q least stop credit paths kind in
        case dict_get (l_items l) (rq_key q) of
          Some old \<Rightarrow> if meta_of l (rs_id old) \<noteq> md then (Inl Conflict, l) else (Inr (old, False), l)
        | None \<Rightarrow>
            (case admission_error nv q least credit l of
               Some e \<Rightarrow> (Inl e, l)
             | None \<Rightarrow>
                 (case save cd nv (put_hold (new_item nv q) md l) of
                    (Some e, l') \<Rightarrow> (Inl e, l')
                  | (None, l') \<Rightarrow> (Inr (new_item nv q, True), l')))))"

definition bind_owner :: "codec \<Rightarrow> node_view \<Rightarrow> uuid \<Rightarrow> ledger \<Rightarrow> ledger_error option \<times> ledger" where
  "bind_owner cd nv k l =
    (if l_unavailable l then (Some Unavailable, l)
     else
       (let l' = l\<lparr>l_owners := List.insert k (l_owners l)\<rparr> in
        if dict_get (l_items l) k \<noteq> None \<and> \<not> md_require_stop (meta_of l k)
        then save cd nv (l'\<lparr>l_meta := dict_set k ((meta_of l k)\<lparr>md_require_stop := True\<rparr>) (l_meta l)\<rparr>)
        else (None, l')))"

definition release :: "codec \<Rightarrow> node_view \<Rightarrow> uuid \<Rightarrow> ledger \<Rightarrow> (ledger_error + bool) \<times> ledger" where
  "release cd nv k l =
    (if l_unavailable l then (Inl Unavailable, l)
     else case dict_get (l_items l) k of
       None \<Rightarrow> (Inr False, l)
     | Some item \<Rightarrow>
         if rs_state item = R_RELEASED then (Inr True, l)
         else if md_require_stop (meta_of l k) \<and> \<not> (k \<in> set (l_owners l) \<and> nv_stopped nv k)
         then (Inr False, l)
         else
           (case save cd nv (l\<lparr>l_items := dict_set k (item\<lparr>rs_state := R_RELEASED\<rparr>) (l_items l)\<rparr>) of
              (Some e, l') \<Rightarrow> (Inl e, l')
            | (None, l') \<Rightarrow> (Inr True, l')))"

definition get_hold :: "uuid \<Rightarrow> ledger \<Rightarrow> ledger_error + reservation option" where
  "get_hold k l = (if l_unavailable l then Inl Unavailable else Inr (dict_get (l_items l) k))"

definition request_workflow :: "json \<Rightarrow> json option" where
  "request_workflow v = (case v of JObj f \<Rightarrow> map_of f ''workflow_id'' | _ \<Rightarrow> None)"

definition disk_scopes ::
  "string option \<Rightarrow> ledger \<Rightarrow> ledger_error + (int \<times> string list \<times> json option \<times> int) list" where
  "disk_scopes base l =
    (if l_unavailable l then Inl Unavailable
     else Inr (map (\<lambda>e. let md = meta_of l (fst e) in
                 (rs_disk (snd e) - md_credit md, md_paths md, request_workflow (md_request md), md_credit md))
            (filter (\<lambda>e. counts e \<and> (case (base, md_root (meta_of l (fst e))) of
                 (None, _) \<Rightarrow> True | (_, None) \<Rightarrow> True | (Some b, Some p) \<Rightarrow> is_relative_to p b)) (l_items l))))"

text \<open>\<^verbatim>\<open>owner_scopes\<close>: the inner \<^const>\<open>None\<close> is the exception of a hold without a stored request.\<close>

definition owner_scopes :: "string \<Rightarrow> ledger \<Rightarrow> ledger_error + (uuid \<times> uuid) list option" where
  "owner_scopes kind l =
    (if l_unavailable l then Inl Unavailable
     else Inr (those (map (\<lambda>e. do {
             v \<leftarrow> request_workflow (md_request (meta_of l (fst e)));
             s \<leftarrow> json_str v;
             w \<leftarrow> uuid_parse s;
             Some (fst e, w)
           }) (filter (\<lambda>e. counts e \<and> md_owner_kind (meta_of l (fst e)) = Some kind) (l_items l)))))"

text \<open>Equality of dictionaries, whatever the order of their keys.\<close>

definition dict_eq :: "('k, 'v) pydict \<Rightarrow> ('k, 'v) pydict \<Rightarrow> bool" where
  "dict_eq d e \<longleftrightarrow> list_all (\<lambda>kv. dict_get e (fst kv) = dict_get d (fst kv)) d
     \<and> list_all (\<lambda>kv. dict_get d (fst kv) = dict_get e (fst kv)) e"

text \<open>\<^verbatim>\<open>upgrade_inventory\<close>: the held identifiers, provided that the file still says what memory says.\<close>

definition upgrade_inventory :: "codec \<Rightarrow> bool \<Rightarrow> ledger \<Rightarrow> ledger_error + uuid list" where
  "upgrade_inventory cd file_ok l =
    (if l_unavailable l then Inl Unavailable
     else case load cd file_ok (l_file l) of
       Inl e \<Rightarrow> Inl e
     | Inr (items, _) \<Rightarrow>
         if \<not> dict_eq items (l_items l) then Inl Unavailable
         else Inr (map (\<lambda>e. rs_id (snd e)) (filter counts (l_items l))))"

section \<open>Admission stays within the machine\<close>

lemma dict_set_fresh: "dict_get d k = None \<Longrightarrow> dict_set k v d = d @ [(k, v)]"
  by (induction k v d rule: dict_set.induct) (auto split: if_splits)

lemma dict_eq_iff: "dict_eq d e \<longleftrightarrow> dict_get d = dict_get e"
proof
  assume eq: "dict_eq d e"
  have "dict_get d k = dict_get e k" for k
  proof (cases "k \<in> fst ` set d \<or> k \<in> fst ` set e")
    case True
    then show ?thesis using eq by (auto simp: dict_eq_def list_all_iff)
  next
    case False
    then show ?thesis by (metis map_of_eq_None_iff)
  qed
  then show "dict_get d = dict_get e" by blast
qed (simp add: dict_eq_def list_all_iff)

lemma hold_cases:
  obtains (unavailable) "l_unavailable l" "hold cd nv q least stop credit paths kind l = (Inl Unavailable, l)"
  | (unsafe) "hold cd nv q least stop credit paths kind l = (Inl Unsafe_scope, l)"
      "scope_unsafe nv q least credit paths kind" "\<not> l_unavailable l"
  | (conflict) old where "dict_get (l_items l) (rq_key q) = Some old" "\<not> l_unavailable l"
      "meta_of l (rs_id old) \<noteq> scope_meta cd nv q least stop credit paths kind"
      "hold cd nv q least stop credit paths kind l = (Inl Conflict, l)"
  | (replay) old where "dict_get (l_items l) (rq_key q) = Some old" "\<not> l_unavailable l"
      "meta_of l (rs_id old) = scope_meta cd nv q least stop credit paths kind"
      "hold cd nv q least stop credit paths kind l = (Inr (old, False), l)"
  | (refused) e where "dict_get (l_items l) (rq_key q) = None" "\<not> l_unavailable l"
      "admission_error nv q least credit l = Some e" "hold cd nv q least stop credit paths kind l = (Inl e, l)"
  | (held) err l' where "dict_get (l_items l) (rq_key q) = None" "\<not> l_unavailable l"
      "\<not> scope_unsafe nv q least credit paths kind" "admission_error nv q least credit l = None"
      "save cd nv (put_hold (new_item nv q) (scope_meta cd nv q least stop credit paths kind) l) = (err, l')"
      "hold cd nv q least stop credit paths kind l =
         ((case err of Some e \<Rightarrow> Inl e | None \<Rightarrow> Inr (new_item nv q, True)), l')"
proof (cases "l_unavailable l \<or> scope_unsafe nv q least credit paths kind")
  case True
  then show ?thesis using unavailable unsafe by (cases "l_unavailable l") (simp_all add: hold_def)
next
  case ok: False
  show ?thesis
  proof (cases "dict_get (l_items l) (rq_key q)")
    case (Some old)
    then show ?thesis
      using ok conflict [OF Some] replay [OF Some]
      by (cases "meta_of l (rs_id old) = scope_meta cd nv q least stop credit paths kind") (simp_all add: hold_def)
  next
    case None
    show ?thesis
    proof (cases "admission_error nv q least credit l")
      case (Some e)
      then show ?thesis using ok None refused [OF None _ Some] by (simp add: hold_def)
    next
      case adm: None
      obtain err l' where s: "save cd nv (put_hold (new_item nv q) (scope_meta cd nv q least stop credit paths kind) l) = (err, l')"
        by (rule prod.exhaust)
      then show ?thesis
        using ok None adm by (intro held [OF None _ _ adm s]) (simp_all add: hold_def split: option.split)
    qed
  qed
qed

end
