(* ===== verification/Reservation_Guarantees.thy ===== *)
theory Reservation_Guarantees
  imports Reservation_Ledger
begin

text \<open>
  What the reservation ledger promises: an admitted hold fits the node's memory budget and the free
  disk above every floor, a replay is answered from the journal, a hold whose owner must stop is
  freed only on that owner's word, and an available ledger is exactly what a restart reads back.
\<close>

section \<open>Admission\<close>

lemma admission_errorD:
  assumes "admission_error nv q least credit l = None"
  obtains held where "held_disk_bytes nv (nv_device nv) True l = Inr held"
    "nv_engines nv + held_sum nv l + rq_memory q \<le> nv_budget nv"
    "held + (rq_disk q - credit) + disk_floor nv least l \<le> nv_disk_free nv"
    "quota_error nv (rq_disk q - credit) = None" "nv_admission nv"
  using assms
  by (cases "held_disk_bytes nv (nv_device nv) True l"; cases "quota_error nv (rq_disk q - credit)")
    (simp_all add: admission_error_def Let_def split: if_splits)

lemma put_hold_items:
  assumes "dict_get (l_items l) (rs_id r) = None"
  shows "l_items (put_hold r md l) = l_items l @ [(rs_id r, r)]"
  using assms by (simp add: put_hold_def dict_set_fresh)

lemma put_hold_meta [simp]:
  "meta_of (put_hold r md l) k = (if k = rs_id r then md else meta_of l k)"
  by (simp add: put_hold_def meta_of_def)

lemma put_hold_owners [simp]:
  "l_owners (put_hold r md l) = l_owners l" "l_unavailable (put_hold r md l) = l_unavailable l"
  by (simp_all add: put_hold_def)

lemma put_hold_scopes:
  assumes fresh: "dict_get (l_items l) (rs_id r) = None" and "counts (rs_id r, r)" "on_device nv d md"
  shows "held_disk_scopes nv d (put_hold r md l) = held_disk_scopes nv d l @ [(rs_id r, r)]"
proof -
  have "\<forall>e\<in>set (l_items l). fst e \<noteq> rs_id r"
    using fresh by (force simp: map_of_eq_None_iff)
  then show ?thesis
    using assms by (simp add: held_disk_scopes_def put_hold_items cong: filter_cong)
qed

lemma put_hold_held_sum:
  assumes "dict_get (l_items l) (rs_id r) = None" "counts (rs_id r, r)"
  shows "held_sum nv (put_hold r md l) = held_sum nv l + max (rs_memory r) (measured nv l (rs_id r))"
  using assms by (simp add: held_sum_def put_hold_items measured_def)

lemma put_hold_map:
  assumes "dict_get (l_items l) (rs_id r) = None"
  shows "map (\<lambda>e. f e (meta_of (put_hold r md l) (fst e))) (held_disk_scopes nv d l)
    = map (\<lambda>e. f e (meta_of l (fst e))) (held_disk_scopes nv d l)"
  using assms by (force simp: map_of_eq_None_iff held_disk_scopes_def)

lemma put_hold_disk_bytes:
  assumes fresh: "dict_get (l_items l) (rs_id r) = None" and c: "counts (rs_id r, r)" "on_device nv d md"
    and b: "held_disk_bytes nv d True l = Inr held"
  shows "held_disk_bytes nv d True (put_hold r md l) = Inr (held + (rs_disk r - md_credit md))"
  using b put_hold_scopes [OF fresh c] put_hold_map [OF fresh, of "\<lambda>e m. rs_disk (snd e) - md_credit m" md nv d]
  by (auto simp: held_disk_bytes_def Let_def simp del: map_eq_conv split: if_splits option.splits)

lemma put_hold_floor:
  assumes fresh: "dict_get (l_items l) (rs_id r) = None" and c: "counts (rs_id r, r)"
    "on_device nv (nv_device nv) md"
  shows "disk_floor nv least (put_hold r md l) = disk_floor nv (max (md_floor md) least) l"
  using put_hold_map [OF fresh, of "\<lambda>e. md_floor" md nv "nv_device nv"]
  by (simp add: disk_floor_def put_hold_scopes [OF fresh c] del: map_eq_conv)

lemma scope_meta_on_device: "on_device nv (nv_device nv) (scope_meta cd nv q least stop credit paths kind)"
  by (auto simp: on_device_def device_of_def scope_meta_def split: option.splits)

lemma save_cases:
  assumes "save cd nv l = (err, l')"
  shows "l' = l\<lparr>l_file := l_file l', l_unavailable := l_unavailable l'\<rparr>"
    "err = None \<longleftrightarrow> nv_save nv = Saved" "err = None \<Longrightarrow> l' = l\<lparr>l_file := Some (journal_json cd l)\<rparr>"
    "err \<noteq> None \<Longrightarrow> l_unavailable l'"
  using assms by (auto simp: save_def split: save_outcome.splits)

text \<open>The accounts do not read the file.\<close>

lemma account_file [simp]:
  "held_sum nv (l\<lparr>l_file := f\<rparr>) = held_sum nv l"
  "held_disk_bytes nv d x (l\<lparr>l_file := f\<rparr>) = held_disk_bytes nv d x l"
  "disk_floor nv least (l\<lparr>l_file := f\<rparr>) = disk_floor nv least l"
  by (simp_all add: held_sum_def held_disk_bytes_def disk_floor_def held_disk_scopes_def measured_def meta_of_def)

lemma new_item_simps [simp]:
  "rs_id (new_item nv q) = rq_key q" "rs_memory (new_item nv q) = rq_memory q"
  "rs_disk (new_item nv q) = rq_disk q" "counts (k, new_item nv q)"
  by (simp_all add: new_item_def counts_def)

text \<open>
  C20: A hold that is newly admitted leaves the node within its limits: the memory of the engines
  together with all holds, the new one included, is at most the budget, and the disk bytes of all
  holds on the device together with the largest free-space floor any of them asked for are at most
  the free space. (A hold of the new key's owner that is already measured is excluded: the owner is
  bound only after the hold exists.)\<close>

theorem hold_within_limits:
  assumes h: "hold cd nv q least stop credit paths kind l = (Inr (r, True), l')"
    and owner: "rq_key q \<notin> set (l_owners l)"
  shows "nv_engines nv + held_sum nv l' \<le> nv_budget nv
    \<and> (\<exists>held. held_disk_bytes nv (nv_device nv) True l' = Inr held
          \<and> held + disk_floor nv 0 l' \<le> nv_disk_free nv)"
proof -
  let ?md = "scope_meta cd nv q least stop credit paths kind"
  let ?l = "put_hold (new_item nv q) ?md l"
  have fresh: "dict_get (l_items l) (rs_id (new_item nv q)) = None" and adm: "admission_error nv q least credit l = None"
    and safe: "\<not> scope_unsafe nv q least credit paths kind"
    and l': "l' = ?l\<lparr>l_file := Some (journal_json cd ?l)\<rparr>"
    by (rule hold_cases [of l cd nv q least stop credit paths kind];
        use h in \<open>auto split: option.splits dest: save_cases(3)\<close>)+
  obtain held where b: "held_disk_bytes nv (nv_device nv) True l = Inr held"
    and m: "nv_engines nv + held_sum nv l + rq_memory q \<le> nv_budget nv"
    and d: "held + (rq_disk q - credit) + disk_floor nv least l \<le> nv_disk_free nv"
    using admission_errorD [OF adm] .
  have ge: "0 < rq_memory q" "0 \<le> least" "md_floor ?md = least" "md_credit ?md = credit"
    using safe by (auto simp: scope_unsafe_def request_valid_def scope_meta_def)
  have "measured nv l (rq_key q) = 0"
    using owner by (simp add: measured_def)
  then have "held_sum nv ?l = held_sum nv l + rq_memory q"
    using put_hold_held_sum [OF fresh] ge by simp
  moreover have "disk_floor nv 0 ?l = disk_floor nv least l"
    using put_hold_floor [OF fresh _ scope_meta_on_device] ge by simp
  moreover have "held_disk_bytes nv (nv_device nv) True ?l = Inr (held + (rq_disk q - credit))"
    using put_hold_disk_bytes [OF fresh _ scope_meta_on_device b] ge by simp
  ultimately show ?thesis using m d l' by simp
qed

section \<open>The journal reads back\<close>

text \<open>
  What is relied on of the wire models: validating a dump of a valid value gives that value back,
  validation only produces valid values, and a dump is an object without repeated keys.
\<close>

definition codec_ok :: "codec \<Rightarrow> bool" where
  "codec_ok cd \<longleftrightarrow>
     (\<forall>r. reservation_valid r \<longrightarrow> cd_val_res cd (cd_dump_res cd r) = Some r \<and> unique_json (cd_dump_res cd r))
   \<and> (\<forall>v r. cd_val_res cd v = Some r \<longrightarrow> reservation_valid r)
   \<and> (\<forall>q. request_valid q \<longrightarrow> cd_val_req cd (cd_dump_req cd q) = Some q \<and> unique_json (cd_dump_req cd q)
          \<and> cd_dump_req cd q \<noteq> JNull)"

text \<open>What \<^verbatim>\<open>Path.resolve\<close> and \<^verbatim>\<open>stat\<close> give for a directory: an absolute path and a device number.\<close>

definition view_ok :: "node_view \<Rightarrow> bool" where
  "view_ok nv \<longleftrightarrow> is_absolute (nv_path nv) \<and> 0 \<le> nv_device nv"

definition meta_ok :: "codec \<Rightarrow> reservation \<Rightarrow> hold_meta \<Rightarrow> bool" where
  "meta_ok cd r md \<longleftrightarrow> unique_json (md_request md)
     \<and> (md_request md = JNull \<or> (case cd_val_req cd (md_request md) of None \<Rightarrow> False
          | Some q \<Rightarrow> rq_key q = rs_id r \<and> rq_memory q = rs_memory r \<and> rq_disk q = rs_disk r))
     \<and> (md_root md = None) = (md_device md = None)
     \<and> (case md_root md of None \<Rightarrow> True | Some p \<Rightarrow> is_absolute p)
     \<and> (case md_device md of None \<Rightarrow> True | Some d \<Rightarrow> 0 \<le> d)
     \<and> 0 \<le> md_floor md \<and> 0 \<le> md_credit md \<and> md_credit md \<le> rs_disk r
     \<and> list_all is_absolute (md_paths md)
     \<and> (md_owner_kind md = None \<or> md_owner_kind md = Some ''artifact-import'')"

definition tables_ok :: "codec \<Rightarrow> (uuid, reservation) pydict \<Rightarrow> (uuid, hold_meta) pydict \<Rightarrow> bool" where
  "tables_ok cd items meta \<longleftrightarrow> dict_ok items \<and> dict_ok meta \<and> fst ` set items = fst ` set meta
     \<and> (\<forall>k r. dict_get items k = Some r \<longrightarrow>
          rs_id r = k \<and> reservation_valid r \<and> meta_ok cd r (the (dict_get meta k)))"

lemma json_paths_map: "list_all is_absolute ps \<Longrightarrow> json_paths (map JStr ps) = Some ps"
  by (induction ps) auto

lemma opt_field_json:
  "opt_field json_str (opt_json JStr x) = Some x" "opt_field json_int (opt_json JInt y) = Some y"
  by (auto simp: opt_field_def opt_json_def split: option.splits)

lemma load_record_json:
  assumes cd: "codec_ok cd" and r: "rs_id r = k" "reservation_valid r" and md: "meta_ok cd r md"
  shows "load_record cd (uuid_str k, record_json cd r md) = Some (k, r, md)"
proof -
  define q where "q = opt_field (cd_val_req cd) (md_request md)"
  obtain q' where q': "q = Some q'" "case q' of None \<Rightarrow> True
       | Some x \<Rightarrow> rq_key x = k \<and> rq_memory x = rs_memory r \<and> rq_disk x = rs_disk r"
    using md r
    by (cases "md_request md = JNull"; cases "cd_val_req cd (md_request md)")
      (auto simp: q_def opt_field_def meta_ok_def)
  have "set (map fst ((''reservation'', cd_dump_res cd r) # meta_json md)) - optional_fields = required_fields"
    by (auto simp: meta_json_def optional_fields_def required_fields_def)
  then show ?thesis
    using cd r md q' unfolding q_def
    by (auto simp: load_record_def record_json_def uuid_parse_str codec_ok_def meta_json_def json_paths_map
        opt_field_json meta_ok_def)
qed

lemma sort_key_map: "sort_key f (map g xs) = map g (sort_key (\<lambda>x. f (g x)) xs)"
proof -
  have ins: "insort_key f (g x) (map g ys) = map g (insort_key (\<lambda>x. f (g x)) x ys)" for x ys
    by (induction ys) auto
  show ?thesis by (induction xs) (simp_all add: ins)
qed

lemma dict_get_fold:
  "distinct (map fst xs) \<Longrightarrow> dict_get (fold (\<lambda>e. dict_set (fst e) (h e)) xs d) k =
     (case map_of (map (\<lambda>e. (fst e, h e)) xs) k of None \<Rightarrow> dict_get d k | Some v \<Rightarrow> Some v)"
proof (induction xs arbitrary: d)
  case (Cons x xs)
  then have "fst x \<notin> fst ` set xs" by simp
  then have "map_of (map (\<lambda>e. (fst e, h e)) xs) (fst x) = None"
    by (simp add: map_of_eq_None_iff image_image)
  then show ?case using Cons by (auto split: option.splits)
qed simp

lemma load_all_map:
  assumes "\<And>e. e \<in> set xs \<Longrightarrow> f (enc e) = Some (fst e, snd e, h e)"
  shows "load_all f (map enc xs) acc =
    Some (fold (\<lambda>e. dict_set (fst e) (snd e)) xs (fst acc), fold (\<lambda>e. dict_set (fst e) (h e)) xs (snd acc))"
  using assms by (induction xs arbitrary: acc) simp_all

lemma unique_record:
  assumes "codec_ok cd" "reservation_valid r" "meta_ok cd r md"
  shows "unique_json (record_json cd r md)"
  using assms
  by (auto simp: record_json_def meta_json_def codec_ok_def meta_ok_def opt_json_def list_all_iff split: option.splits)

lemma tables_okD:
  assumes "tables_ok cd items meta" "e \<in> set items"
  shows "rs_id (snd e) = fst e" "reservation_valid (snd e)" "meta_ok cd (snd e) (the (dict_get meta (fst e)))"
  using assms by (cases e; auto simp: tables_ok_def dict_get_iff)+

lemma journal_reads_back:
  assumes cd: "codec_ok cd" and ok: "tables_ok cd (l_items l) (l_meta l)"
  shows "\<exists>i m. load cd True (Some (journal_json cd l)) = Inr (i, m)
    \<and> dict_get i = dict_get (l_items l) \<and> dict_get m = dict_get (l_meta l)"
proof -
  define enc where "enc = (\<lambda>e. (uuid_str (fst e), record_json cd (snd e) (meta_of l (fst e))))"
  define xs where "xs = sort_key (\<lambda>e. fst (enc e)) (l_items l)"
  have items: "sort_key fst (map (\<lambda>(k, r). (uuid_str k, record_json cd r (the (dict_get (l_meta l) k)))) (l_items l)) = map enc xs"
    unfolding xs_def by (simp add: enc_def case_prod_beta meta_of_def sort_key_map)
  have dk: "dict_ok (l_items l)" "dict_ok (l_meta l)" "fst ` set (l_items l) = fst ` set (l_meta l)"
    using ok by (simp_all add: tables_ok_def)
  have "mset (map fst xs) = mset (map fst (l_items l))"
    by (simp add: xs_def)
  then have dx: "distinct (map fst xs)"
    using dk(1) unfolding dict_ok_def by (metis mset_eq_imp_distinct_iff)
  have sx: "set xs = set (l_items l)" by (simp add: xs_def)
  have eq: "map_of xs = dict_get (l_items l)"
    using dx dk(1) sx by (simp add: map_of_inject_set dict_ok_def)
  have rec: "load_record cd (enc e) = Some (fst e, snd e, meta_of l (fst e))" if "e \<in> set xs" for e
    unfolding enc_def using load_record_json [OF cd] tables_okD [OF ok] that sx by (simp add: meta_of_def)
  have "distinct (map fst (map enc xs))"
    using dx by (auto simp: enc_def distinct_map comp_def inj_on_def dest: uuid_str_inj)
  moreover have "unique_json (snd (enc e))" if "e \<in> set xs" for e
    using unique_record [OF cd] tables_okD [OF ok] that sx by (simp add: enc_def meta_of_def)
  ultimately have u: "unique_json (journal_json cd l)"
    unfolding journal_json_def items by (simp add: list_all_iff)
  let ?i = "fold (\<lambda>e. dict_set (fst e) (snd e)) xs []" and ?m = "fold (\<lambda>e. dict_set (fst e) (meta_of l (fst e))) xs []"
  have "load_value cd (journal_json cd l) = load_all (load_record cd) (map enc xs) ([], [])"
    using u unfolding load_value_def journal_json_def items by (simp add: insert_commute)
  then have "load cd True (Some (journal_json cd l)) = Inr (?i, ?m)"
    using load_all_map [of xs "load_record cd" enc "\<lambda>e. meta_of l (fst e)", OF rec] by (simp add: load_def)
  moreover have "dict_get ?i = dict_get (l_items l)"
    using dict_get_fold [OF dx, of snd "[]"] eq by (auto simp: fun_eq_iff split: option.splits)
  moreover have "dict_get ?m k = dict_get (l_meta l) k" for k
  proof -
    have "dict_get ?m k = map_of (map (\<lambda>e. (fst e, meta_of l (fst e))) xs) k"
      using dict_get_fold [OF dx, of "\<lambda>e. meta_of l (fst e)" "[]" k] by (simp split: option.splits)
    also have "\<dots> = (if k \<in> fst ` set (l_meta l) then Some (meta_of l k) else None)"
      unfolding dk(3) [symmetric] sx [symmetric] by (induction xs) auto
    also have "\<dots> = dict_get (l_meta l) k"
      using map_of_eq_None_iff [of "l_meta l" k] by (cases "dict_get (l_meta l) k") (auto simp: meta_of_def)
    finally show ?thesis .
  qed
  ultimately show ?thesis by blast
qed

section \<open>Every table the ledger can hold\<close>

lemma tables_ok_empty: "tables_ok cd [] []"
  by (simp add: tables_ok_def)

lemma tables_ok_put:
  assumes "tables_ok cd items meta" "rs_id r = k" "reservation_valid r" "meta_ok cd r md"
  shows "tables_ok cd (dict_set k r items) (dict_set k md meta)"
  using assms by (auto simp: tables_ok_def split: if_splits)

lemma json_paths_absolute: "json_paths vs = Some ps \<Longrightarrow> list_all is_absolute ps"
  by (induction vs arbitrary: ps) (auto split: option.splits if_splits)

lemma load_recordE:
  assumes "load_record cd kv = Some (k, r, md)"
  obtains f q where "snd kv = JObj f" "set (map fst f) - optional_fields = required_fields"
    "cd_val_res cd (the (map_of f ''reservation'')) = Some r" "rs_id r = k"
    "0 \<le> md_credit md" "md_credit md \<le> rs_disk r" "md_owner_kind md = None \<or> md_owner_kind md = Some ''artifact-import''"
    "(case map_of f ''materialized_paths'' of
        None \<Rightarrow> Some [] | Some (JArr vs) \<Rightarrow> json_paths vs | _ \<Rightarrow> None) = Some (md_paths md)"
    "md_request md = the (map_of f ''request'')" "opt_field (cd_val_req cd) (md_request md) = Some q"
    "case q of None \<Rightarrow> True | Some x \<Rightarrow> rq_key x = k \<and> rq_memory x = rs_memory r \<and> rq_disk x = rs_disk r"
    "case md_root md of None \<Rightarrow> True | Some p \<Rightarrow> is_absolute p"
    "case md_device md of None \<Rightarrow> True | Some d \<Rightarrow> 0 \<le> d" "0 \<le> md_floor md"
    "(md_root md = None) = (md_device md = None)"
  using assms
  by (cases "snd kv") (simp_all add: load_record_def bind_eq_Some_conv Let_def, elim exE conjE, force)

lemma load_record_ok:
  assumes cd: "codec_ok cd" and u: "unique_json (snd kv)" and e: "load_record cd kv = Some (k, r, md)"
  shows "rs_id r = k \<and> reservation_valid r \<and> meta_ok cd r md"
proof (rule load_recordE [OF e])
  fix f q
  assume f: "snd kv = JObj f" "set (map fst f) - optional_fields = required_fields"
    and val: "cd_val_res cd (the (map_of f ''reservation'')) = Some r"
    and paths: "(case map_of f ''materialized_paths'' of
        None \<Rightarrow> Some [] | Some (JArr vs) \<Rightarrow> json_paths vs | _ \<Rightarrow> None) = Some (md_paths md)"
    and rq: "md_request md = the (map_of f ''request'')" "opt_field (cd_val_req cd) (md_request md) = Some q"
    and q: "case q of None \<Rightarrow> True | Some x \<Rightarrow> rq_key x = k \<and> rq_memory x = rs_memory r \<and> rq_disk x = rs_disk r"
    and rest: "rs_id r = k" "0 \<le> md_credit md" "md_credit md \<le> rs_disk r"
      "md_owner_kind md = None \<or> md_owner_kind md = Some ''artifact-import''"
      "case md_root md of None \<Rightarrow> True | Some p \<Rightarrow> is_absolute p"
      "case md_device md of None \<Rightarrow> True | Some d \<Rightarrow> 0 \<le> d" "0 \<le> md_floor md"
      "(md_root md = None) = (md_device md = None)"
  have "map_of f ''request'' \<noteq> None"
    using f(2) by (auto simp: map_of_eq_None_iff required_fields_def)
  then have "unique_json (md_request md)"
    using u f rq(1) by (auto simp: list_all_iff dest!: map_of_SomeD)
  moreover have "list_all is_absolute (md_paths md)"
    using paths by (auto split: option.splits json.splits dest: json_paths_absolute)
  moreover have "md_request md = JNull \<or> (case cd_val_req cd (md_request md) of None \<Rightarrow> False
          | Some x \<Rightarrow> rq_key x = rs_id r \<and> rq_memory x = rs_memory r \<and> rq_disk x = rs_disk r)"
    using rq(2) q rest(1)
    by (cases "cd_val_req cd (md_request md)"; cases "md_request md = JNull"; cases q) (simp_all add: opt_field_def)
  ultimately show ?thesis using rest val cd by (simp add: meta_ok_def codec_ok_def)
qed

lemma load_legacy_ok:
  assumes cd: "codec_ok cd" and e: "load_legacy cd kv = Some (k, r, md)"
  shows "rs_id r = k \<and> reservation_valid r \<and> meta_ok cd r md"
proof -
  have r: "rs_id r = k" "reservation_valid r" "md = legacy_meta"
    using e cd by (auto simp: load_legacy_def bind_eq_Some_conv codec_ok_def)
  then show ?thesis by (auto simp: meta_ok_def legacy_meta_def reservation_valid_def)
qed

lemma load_all_ok:
  assumes "\<And>kv k r md. kv \<in> set kvs \<Longrightarrow> f kv = Some (k, r, md) \<Longrightarrow> rs_id r = k \<and> reservation_valid r \<and> meta_ok cd r md"
    and "load_all f kvs acc = Some (i, m)" "tables_ok cd (fst acc) (snd acc)"
  shows "tables_ok cd i m"
  using assms
proof (induction kvs arbitrary: acc)
  case (Cons kv kvs)
  obtain k r md where kv: "f kv = Some (k, r, md)"
    using Cons.prems(2) by (cases "f kv") auto
  then have "tables_ok cd (dict_set k r (fst acc)) (dict_set k md (snd acc))"
    using Cons.prems(1) [of kv k r md] Cons.prems(3) by (intro tables_ok_put) auto
  moreover have "load_all f kvs (dict_set k r (fst acc), dict_set k md (snd acc)) = Some (i, m)"
    using Cons.prems(2) kv by simp
  ultimately show ?case
    using Cons.IH [of "(dict_set k r (fst acc), dict_set k md (snd acc))"] Cons.prems(1) by (metis fst_conv list.set_intros(2) snd_conv)
qed simp

lemma load_ok:
  assumes cd: "codec_ok cd" and l: "load cd ok file = Inr (i, m)"
  shows "tables_ok cd i m"
proof (cases "file")
  case None
  then show ?thesis using l by (simp add: load_def tables_ok_empty)
next
  case (Some v)
  then have v: "load_value cd v = Some (i, m)"
    using l by (simp add: load_def split: if_splits option.splits)
  then obtain fields where j: "v = JObj fields" and u: "unique_json v"
    by (auto simp: load_value_def bind_eq_Some_conv split: json.splits)
  show ?thesis
  proof (cases "map_of fields ''schema_version'' = Some (JInt 2)")
    case True
    then obtain items where it: "map_of fields ''items'' = Some (JObj items)"
      and all: "load_all (load_record cd) items ([], []) = Some (i, m)"
      using v j by (auto simp: load_value_def split: option.splits json.splits if_splits)
    have "unique_json (JObj items)"
      using u j map_of_SomeD [OF it] unfolding j unique_json.simps list_all_iff by (metis snd_conv unique_json.simps(2) list_all_iff)
    then have "unique_json (snd kv)" if "kv \<in> set items" for kv
      using that by (simp add: list_all_iff)
    then show ?thesis
      using load_all_ok [OF _ all] load_record_ok [OF cd] tables_ok_empty by (metis fst_conv snd_conv)
  next
    case False
    then have "load_all (load_legacy cd) fields ([], []) = Some (i, m)"
      using v j by (simp add: load_value_def)
    then show ?thesis
      using load_all_ok [of fields "load_legacy cd"] load_legacy_ok [OF cd] tables_ok_empty by auto
  qed
qed

section \<open>Runs of a ledger\<close>

datatype ledger_op =
  Op_hold node_view reservation_request int bool int "string list" "string option"
| Op_bind node_view uuid
| Op_release node_view uuid
| Op_restart

text \<open>One call, or a restart of the node: a new object opens the file the previous one left.\<close>

definition ledger_step :: "codec \<Rightarrow> ledger_op \<Rightarrow> ledger \<Rightarrow> ledger option" where
  "ledger_step cd op l =
    (case op of
       Op_hold nv q least stop credit paths kind \<Rightarrow> Some (snd (hold cd nv q least stop credit paths kind l))
     | Op_bind nv k \<Rightarrow> Some (snd (bind_owner cd nv k l))
     | Op_release nv k \<Rightarrow> Some (snd (release cd nv k l))
     | Op_restart \<Rightarrow> (case open_ledger cd True (l_file l) of Inl _ \<Rightarrow> None | Inr l' \<Rightarrow> Some l'))"

fun ledger_run :: "codec \<Rightarrow> ledger_op list \<Rightarrow> ledger \<Rightarrow> ledger option" where
  "ledger_run cd [] l = Some l"
| "ledger_run cd (op # ops) l = (case ledger_step cd op l of None \<Rightarrow> None | Some l' \<Rightarrow> ledger_run cd ops l')"

primrec op_view_ok :: "ledger_op \<Rightarrow> bool" where
  "op_view_ok (Op_hold nv q least stop credit paths kind) = view_ok nv"
| "op_view_ok (Op_bind nv k) = True"
| "op_view_ok (Op_release nv k) = True"
| "op_view_ok Op_restart = True"

definition durable :: "codec \<Rightarrow> ledger \<Rightarrow> bool" where
  "durable cd l \<longleftrightarrow> (case load cd True (l_file l) of
      Inl _ \<Rightarrow> False
    | Inr (i, m) \<Rightarrow> dict_eq i (l_items l) \<and> dict_eq m (l_meta l))"

definition ledger_inv :: "codec \<Rightarrow> ledger \<Rightarrow> bool" where
  "ledger_inv cd l \<longleftrightarrow> tables_ok cd (l_items l) (l_meta l) \<and> (\<not> l_unavailable l \<longrightarrow> durable cd l)
     \<and> (\<exists>r. load cd True (l_file l) = Inr r)"

lemma save_inv:
  assumes cd: "codec_ok cd" and t: "tables_ok cd (l_items l) (l_meta l)"
    and prev: "\<exists>r. load cd True (l_file l) = Inr r" and s: "save cd nv l = (err, l')"
  shows "ledger_inv cd l'"
proof -
  have rb: "durable cd (l\<lparr>l_file := Some (journal_json cd l)\<rparr>)" "\<exists>r. load cd True (Some (journal_json cd l)) = Inr r"
    using journal_reads_back [OF cd t] by (auto simp: durable_def dict_eq_iff)
  then show ?thesis
    using s t prev by (auto simp: save_def ledger_inv_def split: save_outcome.splits)
qed

lemma new_hold_tables:
  assumes cd: "codec_ok cd" and v: "view_ok nv" and safe: "\<not> scope_unsafe nv q least credit paths kind"
    and t: "tables_ok cd (l_items l) (l_meta l)"
    and l': "l' = put_hold (new_item nv q) (scope_meta cd nv q least stop credit paths kind) l"
  shows "tables_ok cd (l_items l') (l_meta l')"
proof -
  have "request_valid q" using safe by (simp add: scope_unsafe_def)
  then have "reservation_valid (new_item nv q)" "meta_ok cd (new_item nv q) (scope_meta cd nv q least stop credit paths kind)"
    using safe v cd
    by (auto simp: reservation_valid_def request_valid_def meta_ok_def scope_meta_def scope_unsafe_def codec_ok_def view_ok_def)
  then show ?thesis
    unfolding l' put_hold_def using t by (simp add: tables_ok_put)
qed

lemma hold_inv:
  assumes cd: "codec_ok cd" and v: "view_ok nv" and i: "ledger_inv cd l"
  shows "ledger_inv cd (snd (hold cd nv q least stop credit paths kind l))"
proof (cases rule: hold_cases [of l cd nv q least stop credit paths kind])
  case (held err l')
  then have "ledger_inv cd l'"
    using i new_hold_tables [OF cd v held(3) _ refl] by (intro save_inv [OF cd _ _ held(5)]) (auto simp: ledger_inv_def put_hold_def)
  then show ?thesis using held by simp
qed (use i in simp_all)

lemma state_irrelevant [simp]:
  "meta_ok cd (r\<lparr>rs_state := st\<rparr>) md = meta_ok cd r md"
  "reservation_valid (r\<lparr>rs_state := st\<rparr>) = reservation_valid r"
  by (simp_all add: meta_ok_def reservation_valid_def cong: option.case_cong)

lemma stop_irrelevant [simp]: "meta_ok cd r (md\<lparr>md_require_stop := b\<rparr>) = meta_ok cd r md"
  by (simp add: meta_ok_def cong: option.case_cong)

lemma tables_ok_item:
  assumes "tables_ok cd items meta" "dict_get items k = Some r"
  shows "tables_ok cd (dict_set k (r\<lparr>rs_state := st\<rparr>) items) meta"
proof -
  have "k \<in> fst ` set meta" "rs_id r = k \<and> reservation_valid r \<and> meta_ok cd r (the (dict_get meta k))"
    using assms map_of_SomeD [of items k r] by (force simp: tables_ok_def)+
  then show ?thesis
    using assms by (auto simp: tables_ok_def insert_absorb)
qed

lemma tables_ok_meta:
  assumes "tables_ok cd items meta" "dict_get items k = Some r"
  shows "tables_ok cd items (dict_set k ((the (dict_get meta k))\<lparr>md_require_stop := b\<rparr>) meta)"
proof -
  have "k \<in> fst ` set meta" "rs_id r = k \<and> reservation_valid r \<and> meta_ok cd r (the (dict_get meta k))"
    using assms map_of_SomeD [of items k r] by (force simp: tables_ok_def)+
  then show ?thesis
    using assms by (auto simp: tables_ok_def insert_absorb)
qed

lemma release_cases:
  obtains (unavailable) "l_unavailable l" "release cd nv k l = (Inl Unavailable, l)"
  | (absent) "\<not> l_unavailable l" "dict_get (l_items l) k = None" "release cd nv k l = (Inr False, l)"
  | (again) item where "\<not> l_unavailable l" "dict_get (l_items l) k = Some item" "rs_state item = R_RELEASED"
      "release cd nv k l = (Inr True, l)"
  | (protected) item where "\<not> l_unavailable l" "dict_get (l_items l) k = Some item" "rs_state item \<noteq> R_RELEASED"
      "md_require_stop (meta_of l k)" "\<not> (k \<in> set (l_owners l) \<and> nv_stopped nv k)"
      "release cd nv k l = (Inr False, l)"
  | (released) item err l' where "\<not> l_unavailable l" "dict_get (l_items l) k = Some item" "rs_state item \<noteq> R_RELEASED"
      "md_require_stop (meta_of l k) \<longrightarrow> k \<in> set (l_owners l) \<and> nv_stopped nv k"
      "save cd nv (l\<lparr>l_items := dict_set k (item\<lparr>rs_state := R_RELEASED\<rparr>) (l_items l)\<rparr>) = (err, l')"
      "release cd nv k l = ((case err of Some e \<Rightarrow> Inl e | None \<Rightarrow> Inr True), l')"
proof (cases "l_unavailable l")
  case True
  then show ?thesis using unavailable by (simp add: release_def)
next
  case av: False
  show ?thesis
  proof (cases "dict_get (l_items l) k")
    case None
    then show ?thesis using av absent by (simp add: release_def)
  next
    case (Some item)
    obtain err l' where s: "save cd nv (l\<lparr>l_items := dict_set k (item\<lparr>rs_state := R_RELEASED\<rparr>) (l_items l)\<rparr>) = (err, l')"
      by (rule prod.exhaust)
    have rel: "release cd nv k l = ((case err of Some e \<Rightarrow> Inl e | None \<Rightarrow> Inr True), l')"
      if "rs_state item \<noteq> R_RELEASED" "md_require_stop (meta_of l k) \<longrightarrow> k \<in> set (l_owners l) \<and> nv_stopped nv k"
      using that av Some s by (auto simp: release_def split: option.split)
    consider "rs_state item = R_RELEASED"
      | "rs_state item \<noteq> R_RELEASED" "md_require_stop (meta_of l k)" "\<not> (k \<in> set (l_owners l) \<and> nv_stopped nv k)"
      | "rs_state item \<noteq> R_RELEASED" "md_require_stop (meta_of l k) \<longrightarrow> k \<in> set (l_owners l) \<and> nv_stopped nv k"
      by blast
    then show ?thesis
    proof cases
      case 1
      then show ?thesis using av Some by (intro again) (simp_all add: release_def)
    next
      case 2
      then show ?thesis using av Some by (intro protected) (simp_all add: release_def)
    next
      case 3
      then show ?thesis using released [OF av Some 3 s] rel by blast
    qed
  qed
qed

lemma release_inv:
  assumes cd: "codec_ok cd" and i: "ledger_inv cd l"
  shows "ledger_inv cd (snd (release cd nv k l))"
proof (cases rule: release_cases [of l cd nv k])
  case (released item err l')
  then have "ledger_inv cd l'"
    using i tables_ok_item [OF _ released(2)] by (intro save_inv [OF cd _ _ released(5)]) (auto simp: ledger_inv_def)
  then show ?thesis using released by simp
qed (use i in simp_all)

lemma bind_owner_inv:
  assumes cd: "codec_ok cd" and i: "ledger_inv cd l"
  shows "ledger_inv cd (snd (bind_owner cd nv k l))"
proof (cases "\<not> l_unavailable l \<and> dict_get (l_items l) k \<noteq> None \<and> \<not> md_require_stop (meta_of l k)")
  case True
  then obtain r where r: "dict_get (l_items l) k = Some r" by auto
  let ?l = "l\<lparr>l_owners := List.insert k (l_owners l), l_meta := dict_set k ((meta_of l k)\<lparr>md_require_stop := True\<rparr>) (l_meta l)\<rparr>"
  obtain err l' where s: "save cd nv ?l = (err, l')" by (rule prod.exhaust)
  have "ledger_inv cd l'"
    using i tables_ok_meta [OF _ r] by (intro save_inv [OF cd _ _ s]) (auto simp: ledger_inv_def meta_of_def)
  then show ?thesis using True r s by (simp add: bind_owner_def)
next
  case False
  then show ?thesis using i by (auto simp: bind_owner_def ledger_inv_def durable_def)
qed

lemma open_inv:
  assumes cd: "codec_ok cd" and l: "open_ledger cd True f = Inr l"
  shows "ledger_inv cd l"
proof -
  obtain i m where im: "load cd True f = Inr (i, m)"
    and l: "l = \<lparr>l_items = i, l_meta = m, l_owners = [], l_unavailable = False, l_file = f\<rparr>"
    using l by (auto simp: open_ledger_def split: sum.splits)
  then show ?thesis
    using load_ok [OF cd im] by (simp add: ledger_inv_def durable_def dict_eq_iff)
qed

lemma step_inv:
  assumes cd: "codec_ok cd" and i: "ledger_inv cd l" and v: "op_view_ok op" and s: "ledger_step cd op l = Some l'"
  shows "ledger_inv cd l'"
proof (cases op)
  case (Op_hold nv q least stop credit paths kind)
  then show ?thesis using s v hold_inv [OF cd _ i] by (auto simp: ledger_step_def)
next
  case Op_restart
  then show ?thesis using s open_inv [OF cd] by (auto simp: ledger_step_def split: sum.splits)
qed (use s release_inv [OF cd i] bind_owner_inv [OF cd i] in \<open>auto simp: ledger_step_def\<close>)

lemma run_inv:
  "codec_ok cd \<Longrightarrow> ledger_inv cd l \<Longrightarrow> list_all op_view_ok ops \<Longrightarrow> ledger_run cd ops l = Some l' \<Longrightarrow> ledger_inv cd l'"
  by (induction cd ops l rule: ledger_run.induct) (auto split: option.splits dest: step_inv)

lemma inv_restarts:
  assumes "ledger_inv cd l"
  obtains l' where "open_ledger cd True (l_file l) = Inr l'" "l_file l' = l_file l" "\<not> l_unavailable l'"
    "\<not> l_unavailable l \<Longrightarrow> dict_get (l_items l') = dict_get (l_items l) \<and> dict_get (l_meta l') = dict_get (l_meta l)"
  using assms by (force simp: ledger_inv_def durable_def open_ledger_def dict_eq_iff split: sum.splits)

lemma run_total:
  assumes cd: "codec_ok cd"
  shows "ledger_inv cd l \<Longrightarrow> list_all op_view_ok ops \<Longrightarrow> \<exists>l'. ledger_run cd ops l = Some l'"
proof (induction ops arbitrary: l)
  case (Cons op ops)
  have "\<exists>l'. ledger_step cd op l = Some l'"
  proof (cases op)
    case Op_restart
    obtain l' where "open_ledger cd True (l_file l) = Inr l'"
      using inv_restarts [OF Cons.prems(1)] .
    then show ?thesis using Op_restart by (simp add: ledger_step_def)
  qed (simp_all add: ledger_step_def)
  then obtain l' where l': "ledger_step cd op l = Some l'" by blast
  then have "ledger_inv cd l'" using step_inv [OF cd Cons.prems(1)] Cons.prems(2) by auto
  then show ?case using Cons.IH Cons.prems(2) l' by simp
qed simp

text \<open>
  C6: From any journal file that opens, every sequence of holds, owner bindings, releases and restarts runs
  to its end: no call writes a file that a later start would refuse. And whenever the ledger is available,
  a start that reads its file back gets exactly the reservations and the hold metadata it has in memory.\<close>

theorem ledger_survives_restart:
  assumes cd: "codec_ok cd" and o: "open_ledger cd True f = Inr l0" and v: "list_all op_view_ok ops"
  shows "\<exists>l l'. ledger_run cd ops l0 = Some l \<and> open_ledger cd True (l_file l) = Inr l'
    \<and> (\<not> l_unavailable l \<longrightarrow> dict_eq (l_items l') (l_items l) \<and> dict_eq (l_meta l') (l_meta l))"
proof -
  obtain l where l: "ledger_run cd ops l0 = Some l"
    using run_total [OF cd open_inv [OF cd o] v] by blast
  then have "ledger_inv cd l"
    using run_inv [OF cd open_inv [OF cd o] v] by blast
  then show ?thesis using inv_restarts [of cd l] l by (metis dict_eq_iff)
qed

section \<open>Replays\<close>

lemma hold_replay:
  assumes "dict_get (l_items l) (rq_key q) = Some r" "rs_id r = rq_key q" "\<not> l_unavailable l"
    and "meta_of l (rq_key q) = scope_meta cd nv q least stop credit paths kind"
    and "\<not> scope_unsafe nv' q least credit paths kind" "nv_path nv' = nv_path nv" "nv_device nv' = nv_device nv"
  shows "hold cd nv' q least stop credit paths kind l = (Inr (r, False), l)"
  using assms by (simp add: hold_def scope_meta_def)

text \<open>
  C21: A hold is granted once. When a new hold was admitted and the node then restarts, a retry of
  the same request (same payload, same directory) is answered with the reservation that was
  recorded, as a replay and with nothing admitted again; the same key with any other payload is a conflict.\<close>

theorem hold_once_across_restart:
  assumes cd: "codec_ok cd" and i: "ledger_inv cd l" and v: "view_ok nv" "view_ok nv'" "nv_path_ok nv'"
    and h: "hold cd nv q least stop credit paths kind l = (Inr (r, True), l')"
    and same: "nv_path nv' = nv_path nv" "nv_device nv' = nv_device nv"
  shows "\<exists>l2. open_ledger cd True (l_file l') = Inr l2
    \<and> hold cd nv' q least stop credit paths kind l2 = (Inr (r, False), l2)
    \<and> (\<forall>q' s'. rq_key q' = rq_key q \<and> \<not> scope_unsafe nv' q' least credit paths kind \<and> (q' \<noteq> q \<or> s' \<noteq> stop)
         \<longrightarrow> hold cd nv' q' least s' credit paths kind l2 = (Inl Conflict, l2))"
proof -
  let ?md = "scope_meta cd nv q least stop credit paths kind"
  let ?l = "put_hold (new_item nv q) ?md l"
  have safe: "\<not> scope_unsafe nv q least credit paths kind" and av: "\<not> l_unavailable l" and r: "r = new_item nv q"
    and l': "l' = ?l\<lparr>l_file := Some (journal_json cd ?l)\<rparr>"
    by (rule hold_cases [of l cd nv q least stop credit paths kind];
        use h in \<open>auto split: option.splits dest: save_cases(3)\<close>)+
  have "ledger_inv cd l'" using hold_inv [OF cd v(1) i, of q least stop credit paths kind] h by simp
  moreover have "\<not> l_unavailable l'" using av l' by simp
  ultimately obtain l2 where l2: "open_ledger cd True (l_file l') = Inr l2" "\<not> l_unavailable l2"
      "dict_get (l_items l2) = dict_get (l_items l')" "dict_get (l_meta l2) = dict_get (l_meta l')"
    by (metis inv_restarts)
  have it: "dict_get (l_items l2) (rq_key q) = Some r" "meta_of l2 (rq_key q) = ?md" "rs_id r = rq_key q"
    using l2 l' r by (simp_all add: put_hold_def meta_of_def)
  have safe': "\<not> scope_unsafe nv' q least credit paths kind"
    using safe v by (simp add: scope_unsafe_def)
  have "hold cd nv' q' least s' credit paths kind l2 = (Inl Conflict, l2)"
    if q': "rq_key q' = rq_key q" "\<not> scope_unsafe nv' q' least credit paths kind" "q' \<noteq> q \<or> s' \<noteq> stop" for q' s'
  proof -
    have "cd_dump_req cd q' \<noteq> cd_dump_req cd q \<or> s' \<noteq> stop"
      using q' safe' cd by (metis codec_ok_def option.inject scope_unsafe_def)
    then have "?md \<noteq> scope_meta cd nv' q' least s' credit paths kind"
      by (auto simp: scope_meta_def)
    then show ?thesis using q' it l2 by (simp add: hold_def)
  qed
  then show ?thesis
    using hold_replay [OF it(1,3) l2(2) it(2) safe' same] l2(1) by blast
qed

section \<open>Protected holds\<close>

definition protects :: "uuid \<Rightarrow> reservation \<Rightarrow> (uuid, reservation) pydict \<Rightarrow> (uuid, hold_meta) pydict \<Rightarrow> bool" where
  "protects k r items meta \<longleftrightarrow> dict_get items k = Some r \<and> rs_state r \<noteq> R_RELEASED
     \<and> md_require_stop (the (dict_get meta k))"

definition guarded :: "codec \<Rightarrow> uuid \<Rightarrow> reservation \<Rightarrow> ledger \<Rightarrow> bool" where
  "guarded cd k r l \<longleftrightarrow> ledger_inv cd l \<and> protects k r (l_items l) (l_meta l)
     \<and> (\<exists>i m. load cd True (l_file l) = Inr (i, m) \<and> protects k r i m)"

primrec frees :: "uuid \<Rightarrow> ledger_op \<Rightarrow> bool" where
  "frees k (Op_hold nv q least stop credit paths kind) = False"
| "frees k (Op_bind nv j) = False"
| "frees k (Op_release nv j) = (j = k \<and> nv_stopped nv k)"
| "frees k Op_restart = False"

lemma guarded_save:
  assumes cd: "codec_ok cd" and t: "tables_ok cd (l_items l) (l_meta l)" and p: "protects k r (l_items l) (l_meta l)"
    and f: "l_file l = l_file l0" and g: "guarded cd k r l0" and s: "save cd nv l = (err, l')"
  shows "guarded cd k r l'"
proof -
  have "ledger_inv cd l'"
    using g f by (intro save_inv [OF cd t _ s]) (auto simp: guarded_def)
  moreover have "protects k r (l_items l') (l_meta l')"
    using p s by (auto simp: save_def split: save_outcome.splits)
  moreover have "\<exists>i m. load cd True (l_file l') = Inr (i, m) \<and> protects k r i m"
    using s g f p journal_reads_back [OF cd t]
    by (cases "nv_save nv") (auto simp: save_def guarded_def protects_def)
  ultimately show ?thesis by (simp add: guarded_def)
qed

lemma guarded_step:
  assumes cd: "codec_ok cd" and g: "guarded cd k r l" and v: "op_view_ok op" and n: "\<not> frees k op"
    and s: "ledger_step cd op l = Some l'"
  shows "guarded cd k r l'"
proof -
  have i: "ledger_inv cd l" and t: "tables_ok cd (l_items l) (l_meta l)" and p: "protects k r (l_items l) (l_meta l)"
    using g by (simp_all add: guarded_def ledger_inv_def)
  show ?thesis
  proof (cases op)
    case (Op_hold nv q least stop credit paths kind)
    then have l': "l' = snd (hold cd nv q least stop credit paths kind l)" and nv: "view_ok nv"
      using s v by (simp_all add: ledger_step_def)
    show ?thesis
    proof (cases rule: hold_cases [of l cd nv q least stop credit paths kind])
      case (held err l2)
      let ?l = "put_hold (new_item nv q) (scope_meta cd nv q least stop credit paths kind) l"
      have "k \<noteq> rq_key q" using held(1) p by (auto simp: protects_def)
      then have "protects k r (l_items ?l) (l_meta ?l)" using p by (simp add: put_hold_def protects_def)
      then have "guarded cd k r l2"
        using new_hold_tables [OF cd nv held(3) t refl]
        by (intro guarded_save [OF cd _ _ _ g held(5)]) (auto simp: put_hold_def)
      then show ?thesis using l' held by simp
    qed (use g l' in simp_all)
  next
    case (Op_bind nv j)
    then have l': "l' = snd (bind_owner cd nv j l)" using s by (simp add: ledger_step_def)
    show ?thesis
    proof (cases "\<not> l_unavailable l \<and> dict_get (l_items l) j \<noteq> None \<and> \<not> md_require_stop (meta_of l j)")
      case True
      then obtain x where x: "dict_get (l_items l) j = Some x" by auto
      let ?l = "l\<lparr>l_owners := List.insert j (l_owners l), l_meta := dict_set j ((meta_of l j)\<lparr>md_require_stop := True\<rparr>) (l_meta l)\<rparr>"
      obtain err l2 where s: "save cd nv ?l = (err, l2)" by (rule prod.exhaust)
      have "guarded cd k r l2"
        using p tables_ok_meta [OF t x]
        by (intro guarded_save [OF cd _ _ _ g s]) (auto simp: protects_def meta_of_def)
      then show ?thesis using l' True x s by (simp add: bind_owner_def)
    next
      case False
      then show ?thesis using g l' by (auto simp: bind_owner_def guarded_def ledger_inv_def durable_def)
    qed
  next
    case (Op_release nv j)
    then have l': "l' = snd (release cd nv j l)" and j: "j = k \<Longrightarrow> \<not> nv_stopped nv k"
      using s n by (auto simp: ledger_step_def)
    show ?thesis
    proof (cases rule: release_cases [of l cd nv j])
      case (released item err l2)
      have "j \<noteq> k" using released(2,4) p j by (auto simp: protects_def meta_of_def)
      then have "guarded cd k r l2"
        using p tables_ok_item [OF t released(2)]
        by (intro guarded_save [OF cd _ _ _ g released(5)]) (auto simp: protects_def)
      then show ?thesis using l' released by simp
    qed (use g l' in simp_all)
  next
    case Op_restart
    then have "open_ledger cd True (l_file l) = Inr l'"
      using s by (auto simp: ledger_step_def split: sum.splits)
    then show ?thesis
      using g open_inv [OF cd] by (auto simp: guarded_def open_ledger_def)
  qed
qed

lemma guarded_run:
  assumes "codec_ok cd"
  shows "guarded cd k r l \<Longrightarrow> list_all op_view_ok ops \<Longrightarrow> list_all (\<lambda>op. \<not> frees k op) ops
    \<Longrightarrow> ledger_run cd ops l = Some l' \<Longrightarrow> guarded cd k r l'"
proof (induction ops arbitrary: l)
  case (Cons op ops)
  obtain l1 where l1: "ledger_step cd op l = Some l1" "ledger_run cd ops l1 = Some l'"
    using Cons.prems(4) by (auto split: option.splits)
  have "guarded cd k r l1"
    using guarded_step [OF assms Cons.prems(1) _ _ l1(1)] Cons.prems(2,3) by simp
  then show ?case using Cons.IH [OF _ _ _ l1(2)] Cons.prems(2,3) by simp
qed simp

text \<open>
  C22: A hold whose owner must stop is not freed behind the owner's back. Once it is recorded in an
  available ledger, then through every sequence of holds, bindings, releases, failed writes and
  restarts that contains no release of it at a moment when its owner reports having stopped, the
  reservation stays in the ledger exactly as it was and keeps counting.\<close>

theorem protected_until_stopped:
  assumes "codec_ok cd" "ledger_inv cd l" "\<not> l_unavailable l"
    and "dict_get (l_items l) k = Some r" "rs_state r = R_HELD" "md_require_stop (meta_of l k)"
    and "list_all op_view_ok ops" "list_all (\<lambda>op. \<not> frees k op) ops" "ledger_run cd ops l = Some l'"
  shows "dict_get (l_items l') k = Some r \<and> md_require_stop (meta_of l' k)"
proof -
  have "guarded cd k r l"
    using assms(2-6) by (auto simp: guarded_def protects_def ledger_inv_def durable_def dict_eq_iff meta_of_def split: sum.splits)
  then have "guarded cd k r l'"
    using guarded_run assms by blast
  then show ?thesis by (simp add: guarded_def protects_def meta_of_def)
qed


section \<open>A concrete node\<close>

text \<open>The wire form of the two models: field names and values as the models declare them.\<close>

definition state_json :: "reservation_state \<Rightarrow> json" where
  "state_json st = JStr (case st of R_HELD \<Rightarrow> ''held'' | R_RELEASED \<Rightarrow> ''released'' | R_EXPIRED \<Rightarrow> ''expired'')"

definition json_state :: "json \<Rightarrow> reservation_state option" where
  "json_state v = List.find (\<lambda>st. state_json st = v) [R_HELD, R_RELEASED, R_EXPIRED]"

fun json_strs :: "json \<Rightarrow> string list option" where
  "json_strs (JArr vs) = those (map json_str vs)"
| "json_strs _ = None"

definition lab_dump_res :: "reservation \<Rightarrow> json" where
  "lab_dump_res r = JObj [(''id'', JStr (uuid_str (rs_id r))), (''state'', state_json (rs_state r)),
     (''memory_bytes'', JInt (rs_memory r)), (''disk_bytes'', JInt (rs_disk r)),
     (''occupants'', JArr (map JStr (rs_occupants r)))]"

definition field :: "json \<Rightarrow> string \<Rightarrow> json option" where
  "field v k = (case v of JObj f \<Rightarrow> map_of f k | _ \<Rightarrow> None)"

definition lab_val_res :: "json \<Rightarrow> reservation option" where
  "lab_val_res v = do {
     k \<leftarrow> field v ''id'' \<bind> json_str \<bind> uuid_parse;
     st \<leftarrow> field v ''state'' \<bind> json_state;
     m \<leftarrow> field v ''memory_bytes'' \<bind> json_int;
     d \<leftarrow> field v ''disk_bytes'' \<bind> json_int;
     occ \<leftarrow> field v ''occupants'' \<bind> json_strs;
     require (0 < m \<and> 0 < d);
     Some \<lparr>rs_id = k, rs_state = st, rs_memory = m, rs_disk = d, rs_occupants = occ\<rparr>
   }"

definition lab_dump_req :: "reservation_request \<Rightarrow> json" where
  "lab_dump_req q = JObj [(''idempotency_key'', JStr (uuid_str (rq_key q))), (''workflow_id'', JStr (uuid_str (rq_workflow q))),
     (''variant_id'', JStr (uuid_str (rq_variant q))), (''memory_bytes'', JInt (rq_memory q)), (''disk_bytes'', JInt (rq_disk q))]"

definition lab_val_req :: "json \<Rightarrow> reservation_request option" where
  "lab_val_req v = do {
     k \<leftarrow> field v ''idempotency_key'' \<bind> json_str \<bind> uuid_parse;
     w \<leftarrow> field v ''workflow_id'' \<bind> json_str \<bind> uuid_parse;
     x \<leftarrow> field v ''variant_id'' \<bind> json_str \<bind> uuid_parse;
     m \<leftarrow> field v ''memory_bytes'' \<bind> json_int;
     d \<leftarrow> field v ''disk_bytes'' \<bind> json_int;
     require (0 < m \<and> 0 < d);
     Some \<lparr>rq_key = k, rq_workflow = w, rq_variant = x, rq_memory = m, rq_disk = d\<rparr>
   }"

definition lab_codec :: codec where
  "lab_codec = \<lparr>cd_dump_res = lab_dump_res, cd_val_res = lab_val_res,
     cd_dump_req = lab_dump_req, cd_val_req = lab_val_req\<rparr>"

lemma those_map_str: "those (map (json_str \<circ> JStr) xs) = Some xs"
  by (induction xs) simp_all

lemma lab_codec_ok: "codec_ok lab_codec"
proof -
  have st: "json_state (state_json st) = Some st" for st
    by (cases st) (simp_all add: json_state_def state_json_def)
  have u: "unique_json (state_json st)" for st
    by (simp add: state_json_def)
  have "lab_val_res (lab_dump_res r) = Some r \<and> unique_json (lab_dump_res r)" if "reservation_valid r" for r
    using that by (simp add: lab_val_res_def lab_dump_res_def field_def uuid_parse_str st u those_map_str
        reservation_valid_def list_all_iff)
  moreover have "lab_val_req (lab_dump_req q) = Some q \<and> unique_json (lab_dump_req q) \<and> lab_dump_req q \<noteq> JNull"
    if "request_valid q" for q
    using that by (simp add: lab_val_req_def lab_dump_req_def field_def uuid_parse_str request_valid_def)
  moreover have "reservation_valid r" if "lab_val_res v = Some r" for v r
    using that by (auto simp: lab_val_res_def reservation_valid_def bind_eq_Some_conv)
  ultimately show ?thesis by (simp add: codec_ok_def lab_codec_def)
qed

definition lab_node :: node_view where
  "lab_node = \<lparr>nv_path_ok = True, nv_path = ''/data'', nv_device = 7, nv_device_of = (\<lambda>_. Some 7),
     nv_budget = 100, nv_engines = 0, nv_disk_free = 1000, nv_external = None, nv_quota = None, nv_usage = None,
     nv_training_root = ''/training'', nv_admission = True, nv_stopped = (\<lambda>_. False), nv_footprint = (\<lambda>_. None),
     nv_save = Saved\<rparr>"

definition lab_request :: reservation_request where
  "lab_request = \<lparr>rq_key = 5, rq_workflow = 6, rq_variant = 8, rq_memory = 60, rq_disk = 400\<rparr>"

definition lab_empty :: ledger where
  "lab_empty = \<lparr>l_items = [], l_meta = [], l_owners = [], l_unavailable = False, l_file = None\<rparr>"

definition lab_held :: ledger where
  "lab_held = snd (hold lab_codec lab_node lab_request 300 True 0 [] None lab_empty)"

lemma lab_open: "open_ledger cd True None = Inr lab_empty"
  by (simp add: open_ledger_def load_def lab_empty_def)

lemma lab_view: "view_ok lab_node" "nv_path_ok lab_node"
  by (simp_all add: view_ok_def lab_node_def is_absolute_def)

lemma lab_empty_inv: "ledger_inv lab_codec lab_empty"
  using open_inv [OF lab_codec_ok lab_open] .

lemmas lab_defs = lab_node_def lab_request_def lab_empty_def

abbreviation lab_put :: ledger where
  "lab_put \<equiv> put_hold (new_item lab_node lab_request) (scope_meta lab_codec lab_node lab_request 300 True 0 [] None) lab_empty"

lemma lab_held_eq:
  "hold lab_codec lab_node lab_request 300 True 0 [] None lab_empty
     = (Inr (new_item lab_node lab_request, True), lab_put\<lparr>l_file := Some (journal_json lab_codec lab_put)\<rparr>)"
proof -
  have "\<not> scope_unsafe lab_node lab_request 300 0 [] None"
    by (simp add: scope_unsafe_def lab_defs request_valid_def)
  moreover have "admission_error lab_node lab_request 300 0 lab_empty = None"
    by (simp add: admission_error_def lab_defs held_sum_def held_disk_bytes_def held_disk_scopes_def disk_floor_def quota_error_def)
  moreover have "save lab_codec lab_node lab_put = (None, lab_put\<lparr>l_file := Some (journal_json lab_codec lab_put)\<rparr>)"
    by (simp add: save_def lab_node_def)
  ultimately show ?thesis
    by (simp add: hold_def lab_empty_def)
qed

lemma lab_hold:
  "hold lab_codec lab_node lab_request 300 True 0 [] None lab_empty = (Inr (new_item lab_node lab_request, True), lab_held)"
  by (simp add: lab_held_def lab_held_eq)

lemma lab_held_facts:
  "l_items lab_held = [(5, new_item lab_node lab_request)]" "md_require_stop (meta_of lab_held 5)"
  "\<not> l_unavailable lab_held" "ledger_inv lab_codec lab_held"
proof -
  show "ledger_inv lab_codec lab_held"
    unfolding lab_held_def by (rule hold_inv [OF lab_codec_ok lab_view(1) lab_empty_inv])
  have e: "lab_held = lab_put\<lparr>l_file := Some (journal_json lab_codec lab_put)\<rparr>"
    by (simp add: lab_held_def lab_held_eq)
  show "l_items lab_held = [(5, new_item lab_node lab_request)]" "md_require_stop (meta_of lab_held 5)"
    "\<not> l_unavailable lab_held"
    unfolding e by (simp_all add: put_hold_def lab_empty_def meta_of_def scope_meta_def lab_request_def)
qed

text \<open>The hypotheses of the properties hold on this node.\<close>

theorem hold_within_limits_witness:
  "nv_engines lab_node + held_sum lab_node lab_held \<le> nv_budget lab_node
    \<and> (\<exists>held. held_disk_bytes lab_node (nv_device lab_node) True lab_held = Inr held
          \<and> held + disk_floor lab_node 0 lab_held \<le> nv_disk_free lab_node)"
  using hold_within_limits [OF lab_hold] by (simp add: lab_empty_def)

theorem ledger_survives_restart_witness:
  "\<exists>l l'. ledger_run lab_codec [Op_hold lab_node lab_request 300 True 0 [] None, Op_restart, Op_release lab_node 5] lab_empty = Some l
    \<and> open_ledger lab_codec True (l_file l) = Inr l'
    \<and> (\<not> l_unavailable l \<longrightarrow> dict_eq (l_items l') (l_items l) \<and> dict_eq (l_meta l') (l_meta l))"
  by (rule ledger_survives_restart [OF lab_codec_ok lab_open]) (simp add: lab_view)

theorem hold_once_across_restart_witness:
  "\<exists>l2. open_ledger lab_codec True (l_file lab_held) = Inr l2
    \<and> hold lab_codec lab_node lab_request 300 True 0 [] None l2 = (Inr (new_item lab_node lab_request, False), l2)"
  using hold_once_across_restart [OF lab_codec_ok lab_empty_inv lab_view(1) lab_view lab_hold refl refl] by blast

theorem protected_until_stopped_witness:
  "\<exists>l'. ledger_run lab_codec [Op_release lab_node 5, Op_restart, Op_release lab_node 5] lab_held = Some l'
    \<and> dict_get (l_items l') 5 = Some (new_item lab_node lab_request) \<and> md_require_stop (meta_of l' 5)"
proof -
  let ?ops = "[Op_release lab_node 5, Op_restart, Op_release lab_node 5]"
  obtain l' where l': "ledger_run lab_codec ?ops lab_held = Some l'"
    using run_total [OF lab_codec_ok lab_held_facts(4), of ?ops] by (auto simp del: ledger_run.simps)
  have "dict_get (l_items lab_held) 5 = Some (new_item lab_node lab_request)" "rs_state (new_item lab_node lab_request) = R_HELD"
    by (simp_all add: lab_held_facts new_item_def)
  then show ?thesis
    using protected_until_stopped [OF lab_codec_ok lab_held_facts(4,3) _ _ lab_held_facts(2) _ _ l'] l'
    by (simp add: lab_node_def [THEN arg_cong, of nv_stopped] del: ledger_run.simps)
qed


end
