(* ===== verification/Disk_Budget.thy ===== *)
theory Disk_Budget
  imports Reservation_Ledger "HOL-Library.Sublist"
begin

text \<open>
  The training disk budget (\<^verbatim>\<open>TrainingDiskBudget\<close> in \<^verbatim>\<open>coire_node/reservations.py\<close>): the bytes committed
  under the training root, every envelope at its full bound and every file once. A path is the list
  of its parts below \<^verbatim>\<open>/\<close>; \<^verbatim>\<open>p.parents\<close> are its proper prefixes. The tree, the manifests found in it and the
  journals' records are a view, read once under the admission lock.
\<close>

type_synonym path = "string list"

datatype quota_failure = Quota_unavailable | Quota_invalid

record quota_view =
  qv_root :: path
  qv_linked :: bool
  qv_files :: "(path, int) pydict"
  qv_component :: "path \<Rightarrow> string option"
  qv_manifest :: "path \<Rightarrow> string option option"
  qv_json :: "path \<Rightarrow> json option"
  qv_journals :: "(path \<times> (string \<times> int) list) list"
  qv_scopes :: "(int \<times> path list \<times> string option \<times> int) list option"

definition manifest_limit :: int where
  "manifest_limit = 64 * 1024 ^ 2"

section \<open>Claims\<close>

text \<open>\<^verbatim>\<open>claim\<close>: the files not yet claimed that lie at or below one of the scopes.\<close>

definition owned :: "path list \<Rightarrow> path \<times> int \<Rightarrow> bool" where
  "owned paths f \<longleftrightarrow> list_ex (\<lambda>scope. prefix scope (fst f)) paths"

definition claim :: "path list \<Rightarrow> int \<Rightarrow> (path, int) pydict \<Rightarrow> int \<times> (path, int) pydict" where
  "claim paths bound remaining =
     (max bound (sum_list (map snd (filter (owned paths) remaining))), filter (\<lambda>f. \<not> owned paths f) remaining)"

text \<open>The artifact directories by attempt, from the manifests among the files.\<close>

definition add_owner :: "string \<Rightarrow> path \<Rightarrow> (string, path list) pydict \<Rightarrow> (string, path list) pydict" where
  "add_owner a p d = dict_set a ((case dict_get d a of None \<Rightarrow> [] | Some ps \<Rightarrow> ps) @ [p]) d"

definition component_owner ::
  "quota_view \<Rightarrow> path \<times> int \<Rightarrow> (string, path list) pydict \<Rightarrow> quota_failure + (string, path list) pydict" where
  "component_owner qv f d =
    (let p = fst f in
     if p \<noteq> [] \<and> last p = ''component.json'' \<and> prefix (qv_root qv @ [''artifacts'']) p
     then if snd f > manifest_limit then Inl Quota_unavailable
          else (case qv_component qv p of None \<Rightarrow> Inl Quota_invalid | Some a \<Rightarrow> Inr (add_owner a (butlast p) d))
     else Inr d)"

definition manifest_owner ::
  "quota_view \<Rightarrow> path \<times> int \<Rightarrow> (string, path list) pydict \<Rightarrow> quota_failure + (string, path list) pydict" where
  "manifest_owner qv f d =
    (let p = fst f in
     if p \<noteq> [] \<and> last p = ''manifest.json'' \<and> butlast (butlast p) = qv_root qv @ [''artifacts'']
     then if snd f > manifest_limit then Inl Quota_unavailable
          else (case qv_manifest qv p of
                  None \<Rightarrow> Inl Quota_invalid
                | Some None \<Rightarrow> Inr d
                | Some (Some a) \<Rightarrow> Inr (add_owner a (butlast p) d))
     else Inr d)"

fun artifact_owners ::
  "quota_view \<Rightarrow> (path, int) pydict \<Rightarrow> (string, path list) pydict \<Rightarrow> quota_failure + (string, path list) pydict" where
  "artifact_owners qv [] d = Inr d"
| "artifact_owners qv (f # fs) d =
    (case component_owner qv f d of
       Inl e \<Rightarrow> Inl e
     | Inr d1 \<Rightarrow> (case manifest_owner qv f d1 of Inl e \<Rightarrow> Inl e | Inr d2 \<Rightarrow> artifact_owners qv fs d2))"

text \<open>An envelope: its scopes, the bound it is counted at and the credit taken off afterwards.\<close>

type_synonym envelope = "path list \<times> int \<times> int"

definition record_envelope :: "quota_view \<Rightarrow> (string, path list) pydict \<Rightarrow> path \<Rightarrow> string \<times> int \<Rightarrow> envelope" where
  "record_envelope qv owners journal_root r =
     ((journal_root @ [fst r]) # (case dict_get owners (fst r) of None \<Rightarrow> [] | Some ps \<Rightarrow> ps)
       @ (if journal_root = qv_root qv @ [''measurements''] then [qv_root qv @ [''probe-artifacts'', fst r]] else []),
      snd r, 0)"

definition workflow_text :: "string option \<Rightarrow> string" where
  "workflow_text w = (case w of None \<Rightarrow> ''None'' | Some s \<Rightarrow> s)"

definition json_get :: "json \<Rightarrow> string \<Rightarrow> json option" where
  "json_get v k = (case v of JObj f \<Rightarrow> map_of f k | _ \<Rightarrow> None)"

definition adapter_id :: "json \<Rightarrow> string option" where
  "adapter_id v = do {
     r \<leftarrow> json_get v ''request'';
     a \<leftarrow> json_get r ''adapter_id'';
     s \<leftarrow> json_str a;
     u \<leftarrow> uuid_parse s;
     Some (uuid_str u)
   }"

definition scope_envelope ::
  "quota_view \<Rightarrow> int \<times> path list \<times> string option \<times> int \<Rightarrow> quota_failure + envelope" where
  "scope_envelope qv s =
    (case s of (bound, paths, workflow, credit) \<Rightarrow>
       let base = qv_root qv; w = workflow_text workflow; extraction = base @ [''extractions'', w @ ''.json''] in
       (case (paths, dict_get (qv_files qv) extraction) of
         ([], Some sz) \<Rightarrow>
           if sz > manifest_limit then Inl Quota_unavailable
           else (case qv_json qv extraction \<bind> adapter_id of
                   None \<Rightarrow> Inl Quota_invalid
                 | Some a \<Rightarrow> Inr ([base @ [''artifacts'', ''.extract-'' @ w], base @ [''artifacts'', a]], bound + credit, credit))
       | _ \<Rightarrow> Inr (paths, bound + credit, credit)))"

fun scope_envelopes ::
  "quota_view \<Rightarrow> (int \<times> path list \<times> string option \<times> int) list \<Rightarrow> quota_failure + envelope list" where
  "scope_envelopes qv [] = Inr []"
| "scope_envelopes qv (s # ss) =
    (case scope_envelope qv s of
       Inl e \<Rightarrow> Inl e
     | Inr x \<Rightarrow> (case scope_envelopes qv ss of Inl e \<Rightarrow> Inl e | Inr xs \<Rightarrow> Inr (x # xs)))"

text \<open>The two loops: each envelope claims what is left, in order.\<close>

fun claim_all :: "envelope list \<Rightarrow> (path, int) pydict \<Rightarrow> int \<times> (path, int) pydict" where
  "claim_all [] remaining = (0, remaining)"
| "claim_all ((paths, bound, credit) # es) remaining =
    (let (n, rest) = claim paths bound remaining; (total, final) = claim_all es rest in (n - credit + total, final))"

definition envelopes :: "quota_view \<Rightarrow> quota_failure + envelope list" where
  "envelopes qv =
    (case artifact_owners qv (qv_files qv) [] of
       Inl e \<Rightarrow> Inl e
     | Inr owners \<Rightarrow>
         (case scope_envelopes qv (case qv_scopes qv of None \<Rightarrow> [] | Some ss \<Rightarrow> ss) of
            Inl e \<Rightarrow> Inl e
          | Inr es \<Rightarrow> Inr (concat (map (\<lambda>j. map (record_envelope qv owners (fst j)) (snd j)) (qv_journals qv)) @ es)))"

definition committed_bytes :: "quota_view \<Rightarrow> quota_failure + int" where
  "committed_bytes qv =
    (if qv_linked qv then Inl Quota_unavailable
     else case envelopes qv of
       Inl e \<Rightarrow> Inl e
     | Inr es \<Rightarrow> (let (total, rest) = claim_all es (qv_files qv) in Inr (total + sum_list (map snd rest))))"

definition available_for :: "quota_view \<Rightarrow> int \<Rightarrow> int \<Rightarrow> quota_failure + int" where
  "available_for qv quota own =
    (case committed_bytes qv of Inl e \<Rightarrow> Inl e | Inr n \<Rightarrow> Inr (max 0 (quota - n + own)))"

section \<open>Every envelope in full, every file once\<close>

abbreviation file_bytes :: "(path, int) pydict \<Rightarrow> int" where
  "file_bytes fs \<equiv> sum_list (map snd fs)"

definition sizes_ok :: "(path, int) pydict \<Rightarrow> bool" where
  "sizes_ok fs \<longleftrightarrow> list_all (\<lambda>f. 0 \<le> snd f) fs"

lemma file_bytes_split:
  "file_bytes (filter P fs) + file_bytes (filter (\<lambda>f. \<not> P f) fs) = file_bytes fs"
  by (induction fs) auto

lemma file_bytes_nonneg: "sizes_ok fs \<Longrightarrow> 0 \<le> file_bytes fs"
  by (induction fs) (auto simp: sizes_ok_def)

lemma sizes_ok_filter: "sizes_ok fs \<Longrightarrow> sizes_ok (filter P fs)"
  by (simp add: sizes_ok_def list_all_iff)

lemma claim_bounds:
  assumes "claim paths bound fs = (n, rest)" "sizes_ok fs"
  shows "bound \<le> n" "file_bytes fs \<le> n + file_bytes rest" "0 \<le> bound \<Longrightarrow> n + file_bytes rest \<le> bound + file_bytes fs"
    "sizes_ok rest"
  using assms file_bytes_split [of "owned paths" fs] file_bytes_nonneg [OF sizes_ok_filter [OF assms(2)], of "owned paths"]
  by (auto simp: claim_def sizes_ok_filter)

lemma claim_all_bounds:
  assumes "claim_all es fs = (n, rest)" "sizes_ok fs" "\<forall>e\<in>set es. 0 \<le> fst (snd e)"
  defines "bounds \<equiv> sum_list (map (\<lambda>e. fst (snd e) - snd (snd e)) es)"
    and "credits \<equiv> sum_list (map (\<lambda>e. snd (snd e)) es)"
  shows "bounds \<le> n \<and> file_bytes fs - credits \<le> n + file_bytes rest \<and> n + file_bytes rest \<le> bounds + file_bytes fs \<and> sizes_ok rest"
  using assms(1-3) unfolding bounds_def credits_def
proof (induction es arbitrary: fs n)
  case (Cons e es)
  obtain paths bound credit where e: "e = (paths, bound, credit)" by (rule prod_cases3)
  obtain m r where c: "claim paths bound fs = (m, r)" by (rule prod.exhaust)
  obtain t where t: "claim_all es r = (t, rest)" and n: "n = m - credit + t"
    using Cons.prems(1) e c by (auto split: prod.splits)
  note b = claim_bounds [OF c Cons.prems(2)]
  have "0 \<le> bound" using Cons.prems(3) e by simp
  then show ?case
    using Cons.IH [OF t b(4)] b Cons.prems(3) e n by simp
qed simp

text \<open>
  C26: The committed bytes cover every envelope at its full bound and every file: they are at least the
  sum of the bounds that the journals and the ledger's holds asked for, at least the bytes on disk less
  the credits already given for them, and never more than the bounds and the bytes on disk together:
  no file is counted twice, however many scopes contain it.\<close>

theorem committed_bytes_bounds:
  assumes "committed_bytes qv = Inr n" "envelopes qv = Inr es" "sizes_ok (qv_files qv)"
    and "\<forall>e\<in>set es. 0 \<le> fst (snd e)"
  shows "sum_list (map (\<lambda>e. fst (snd e) - snd (snd e)) es) \<le> n
    \<and> file_bytes (qv_files qv) - sum_list (map (\<lambda>e. snd (snd e)) es) \<le> n
    \<and> n \<le> sum_list (map (\<lambda>e. fst (snd e) - snd (snd e)) es) + file_bytes (qv_files qv)"
proof -
  obtain t rest where c: "claim_all es (qv_files qv) = (t, rest)" and n: "n = t + file_bytes rest"
    using assms(1,2) by (auto simp: committed_bytes_def split: if_splits prod.splits)
  note b = claim_all_bounds [OF c assms(3,4)]
  then have "0 \<le> file_bytes rest" by (simp add: file_bytes_nonneg)
  with b n show ?thesis by simp
qed

text \<open>A tree with one training attempt whose two files lie in its directory and one stray file.\<close>

definition lab_quota :: quota_view where
  "lab_quota = \<lparr>qv_root = [''t''], qv_linked = False,
     qv_files = [([''t'', ''runs'', ''a'', ''x''], 30), ([''t'', ''runs'', ''a'', ''y''], 20), ([''t'', ''z''], 5)],
     qv_component = (\<lambda>_. None), qv_manifest = (\<lambda>_. None), qv_json = (\<lambda>_. None),
     qv_journals = [([''t'', ''runs''], [(''a'', 40)])],
     qv_scopes = Some [(7, [[''t'', ''runs'', ''a'']], None, 3)]\<rparr>"

definition lab_envelopes :: "envelope list" where
  "lab_envelopes = [([[''t'', ''runs'', ''a'']], 40, 0), ([[''t'', ''runs'', ''a'']], 10, 3)]"

lemma lab_quota_eval: "envelopes lab_quota = Inr lab_envelopes" "committed_bytes lab_quota = Inr 62"
  "sizes_ok (qv_files lab_quota)"
proof -
  show e: "envelopes lab_quota = Inr lab_envelopes"
    by (simp add: envelopes_def lab_quota_def lab_envelopes_def component_owner_def manifest_owner_def Let_def
        record_envelope_def scope_envelope_def)
  show "committed_bytes lab_quota = Inr 62"
    unfolding committed_bytes_def e by (simp add: lab_quota_def lab_envelopes_def claim_def owned_def)
  show "sizes_ok (qv_files lab_quota)" by (simp add: sizes_ok_def lab_quota_def)
qed

theorem committed_bytes_bounds_witness:
  "47 \<le> (62::int) \<and> 55 - 3 \<le> (62::int) \<and> (62::int) \<le> 47 + 55 \<and> committed_bytes lab_quota = Inr 62"
proof -
  have "\<forall>e\<in>set lab_envelopes. 0 \<le> fst (snd e)" by (simp add: lab_envelopes_def)
  from committed_bytes_bounds [OF lab_quota_eval(2,1,3) this]
  show ?thesis using lab_quota_eval(2) by (simp add: lab_envelopes_def lab_quota_def)
qed

end
