(* ===== verification/Upgrade_Models.thy ===== *)
theory Upgrade_Models
  imports Reservation_Ledger Failover_Models
begin

text \<open>
  The wire models of an upgrade (\<^verbatim>\<open>coire_core/models/upgrades.py\<close>) and the bodies of their model
  validators. The patterns and ranges of single fields are pydantic's and are left out, except the
  bounds of the timing budgets, on which deadlines rest. A dictionary is a list sorted by key, so
  that equal values are equal lists. Digests of a model (\<^verbatim>\<open>sha256\<close> of its JSON dump) are a parameter.
\<close>

section \<open>Errors, kinds and phases\<close>

datatype upgrade_error = Upgrade_conflict | Upgrade_forbidden | Upgrade_unavailable | Upgrade_not_found | Upgrade_invalid

datatype upgrade_kind = K_STUDIO | K_CONTROL_PLANE

datatype upgrade_action = A_UPGRADE | A_ROLLBACK | A_BOOTSTRAP_HANDOVER

datatype upgrade_phase =
  P_ACCEPTED | P_PREFLIGHT | P_FENCING | P_DRAINING | P_STAGED | P_SMOKE_BEFORE | P_MIGRATING
| P_ACTIVATING | P_VERIFYING | P_QUALIFYING | P_COMMITTING | P_RESTORING | P_VERIFYING_SOURCE
| P_RECOVERY_REQUIRED | P_SUCCEEDED | P_FAILED_UNCHANGED | P_CANCELLED_UNCHANGED | P_ROLLED_BACK

definition terminal_phases :: "upgrade_phase list" where
  "terminal_phases = [P_SUCCEEDED, P_FAILED_UNCHANGED, P_CANCELLED_UNCHANGED, P_ROLLED_BACK]"

abbreviation terminal :: "upgrade_phase \<Rightarrow> bool" where
  "terminal ph \<equiv> ph \<in> set terminal_phases"

definition cohort_order :: "string list" where
  "cohort_order = [''coire-file-worker'', ''coire-ops'', ''coire-mcp'', ''coire-scheduler'', ''coire-api'', ''coire-web'']"

section \<open>Releases\<close>

record upgrade_timing =
  tm_drain :: int
  tm_readiness :: int
  tm_recovery :: int
  tm_outage :: int

definition timing_valid :: "upgrade_timing \<Rightarrow> bool" where
  "timing_valid t \<longleftrightarrow> 1 \<le> tm_drain t \<and> tm_drain t \<le> 900 \<and> 1 \<le> tm_readiness t \<and> tm_readiness t \<le> 120
     \<and> 1 \<le> tm_recovery t \<and> tm_recovery t \<le> 300 \<and> 1 \<le> tm_outage t \<and> tm_outage t \<le> 300"

record upgrade_compatibility =
  cp_sources :: "string list"
  cp_schemas :: "string list"
  cp_native :: "int list"
  cp_evidence :: "string option"

definition compatibility_valid :: "upgrade_compatibility \<Rightarrow> bool" where
  "compatibility_valid c \<longleftrightarrow> distinct (cp_native c) \<and> distinct (cp_sources c) \<and> distinct (cp_schemas c)"

record service_spec =
  sv_service :: string
  sv_image :: string
  sv_configuration :: json
  sv_digest :: string

definition service_spec_valid :: "runtime \<Rightarrow> service_spec \<Rightarrow> bool" where
  "service_spec_valid rt s \<longleftrightarrow> sha256_hex rt (canonical_json (sv_configuration s)) = sv_digest s"

record release_manifest =
  mf_kind :: upgrade_kind
  mf_version :: string
  mf_revision :: string
  mf_platform :: string
  mf_prepared_at :: datetime
  mf_compatibility :: upgrade_compatibility
  mf_artifacts :: "(string \<times> string) list"
  mf_staged :: int
  mf_environment :: "string option"
  mf_environment_sha :: "string option"
  mf_project :: "string option"
  mf_services :: "service_spec list"
  mf_schema :: "string option"
  mf_compose :: "string option"
  mf_host_key :: "string option"
  mf_paired :: bool

definition manifest_valid :: "release_manifest \<Rightarrow> bool" where
  "manifest_valid m \<longleftrightarrow>
     (case mf_kind m of
        K_STUDIO \<Rightarrow> mf_platform m = ''macos-arm64'' \<and> mf_environment m \<noteq> None \<and> mf_environment_sha m \<noteq> None
          \<and> mf_project m = None \<and> mf_services m = [] \<and> mf_host_key m = None
      | K_CONTROL_PLANE \<Rightarrow> mf_platform m = ''linux-arm64'' \<and> mf_project m \<noteq> None \<and> mf_services m \<noteq> []
          \<and> mf_schema m \<noteq> None \<and> mf_compose m \<noteq> None \<and> mf_environment m = None \<and> mf_environment_sha m = None)
   \<and> distinct (map sv_service (mf_services m))
   \<and> map sv_service (mf_services m) =
       filter (\<lambda>s. list_ex (\<lambda>x. sv_service x = s) (mf_services m)) cohort_order"

record upgrade_release =
  rl_id :: uuid
  rl_sha :: string
  rl_manifest :: release_manifest
  rl_artifact :: string
  rl_prepared_by :: uuid
  rl_status :: string

text \<open>\<^verbatim>\<open>release_pair_compatible\<close>: a rollback reverses a recorded forward pair.\<close>

definition release_pair_compatible ::
  "upgrade_release \<Rightarrow> upgrade_release \<Rightarrow> upgrade_action \<Rightarrow> string option \<Rightarrow> bool" where
  "release_pair_compatible source target action parent =
    (let s = rl_manifest source; t = rl_manifest target in
     if mf_kind s \<noteq> mf_kind t \<or> mf_platform s \<noteq> mf_platform t \<or> mf_project s \<noteq> mf_project t
        \<or> 3 \<notin> set (cp_native (mf_compatibility s)) \<or> 3 \<notin> set (cp_native (mf_compatibility t))
     then False
     else if action = A_ROLLBACK
     then parent \<noteq> None \<and> rl_sha target \<in> set (cp_sources (mf_compatibility s))
     else rl_sha source \<in> set (cp_sources (mf_compatibility t)))"

text \<open>\<open>{service.service: service.image_id for ...}\<close>\<close>

definition release_images :: "upgrade_release \<Rightarrow> (string, string) pydict" where
  "release_images r = fold (\<lambda>s. dict_set (sv_service s) (sv_image s)) (mf_services (rl_manifest r)) []"

section \<open>Operations and plans\<close>

record upgrade_operation =
  op_job :: string
  op_action :: upgrade_action
  op_kind :: upgrade_kind
  op_node :: "string option"
  op_source_release :: uuid
  op_target_release :: uuid
  op_source_sha :: string
  op_target_sha :: string
  op_user :: uuid
  op_key :: "uuid option"
  op_idempotency :: uuid
  op_request_sha :: string
  op_generation :: int
  op_cohort :: "string list"
  op_timing :: upgrade_timing
  op_phase :: upgrade_phase
  op_accepted_at :: datetime
  op_updated_at :: datetime
  op_finished_at :: "datetime option"
  op_cancel_requested :: bool
  op_cancellation_allowed :: bool
  op_reason :: "string option"
  op_sequence :: int
  op_parent :: "string option"
  op_retained_schema :: "string option"

definition validate_operation :: "upgrade_operation \<Rightarrow> upgrade_operation option" where
  "validate_operation oper =
    (if (op_kind oper = K_STUDIO) \<noteq> (op_node oper \<noteq> None) \<or> op_source_sha oper = op_target_sha oper
        \<or> terminal (op_phase oper) \<noteq> (op_finished_at oper \<noteq> None) \<or> \<not> distinct (op_cohort oper)
     then None
     else if terminal (op_phase oper) \<and> op_cancellation_allowed oper
     then Some (oper\<lparr>op_cancellation_allowed := False\<rparr>) else Some oper)"

record upgrade_maintenance =
  mt_job :: string
  mt_generation :: int
  mt_targets :: "string list"
  mt_state :: string
  mt_updated_at :: datetime
  mt_drain_deadline :: datetime
  mt_initiator :: "uuid option"
  mt_acknowledged :: "(string \<times> int) list"

definition maintenance_valid :: "upgrade_maintenance \<Rightarrow> bool" where
  "maintenance_valid m \<longleftrightarrow> distinct (mt_targets m)
     \<and> list_all (\<lambda>a. fst a \<in> set (mt_targets m) \<and> snd a = mt_generation m) (mt_acknowledged m)"

record backup_evidence =
  bk_id :: string
  bk_project :: string
  bk_schema :: string
  bk_created_at :: datetime
  bk_sha :: string
  bk_size :: int
  bk_validated_at :: datetime
  bk_validation_sha :: string

record upgrade_plan =
  pl_operation :: upgrade_operation
  pl_source :: upgrade_release
  pl_target :: upgrade_release
  pl_maintenance :: upgrade_maintenance
  pl_expires_at :: datetime
  pl_model :: uuid
  pl_variant :: uuid
  pl_slug :: string
  pl_model_sha :: string
  pl_peer_sha :: "string option"
  pl_backup :: "backup_evidence option"
  pl_initial_head :: "string option"
  pl_initial_sha :: "string option"
  pl_head_after :: "string option"

definition needs_migration :: "upgrade_plan \<Rightarrow> bool" where
  "needs_migration p \<longleftrightarrow> pl_initial_head p \<noteq> pl_head_after p"

definition matches_plan :: "upgrade_maintenance \<Rightarrow> upgrade_plan \<Rightarrow> bool" where
  "matches_plan m p \<longleftrightarrow> mt_state m \<noteq> ''released''
     \<and> (mt_job m, mt_generation m, mt_targets m, mt_drain_deadline m, mt_initiator m)
       = (op_job (pl_operation p), op_generation (pl_operation p), mt_targets (pl_maintenance p),
          mt_drain_deadline (pl_maintenance p), mt_initiator (pl_maintenance p))"

definition plan_valid :: "upgrade_plan \<Rightarrow> bool" where
  "plan_valid p \<longleftrightarrow>
    (let oper = pl_operation p; s = pl_source p; t = pl_target p; m = pl_maintenance p;
         schema = [pl_initial_head p, pl_initial_sha p, pl_head_after p];
         reads = (\<lambda>r h. case h of None \<Rightarrow> False | Some x \<Rightarrow> x \<in> set (cp_schemas (mf_compatibility (rl_manifest r)))) in
     op_source_release oper = rl_id s \<and> op_target_release oper = rl_id t
   \<and> op_source_sha oper = rl_sha s \<and> op_target_sha oper = rl_sha t
   \<and> op_kind oper = mf_kind (rl_manifest s) \<and> op_kind oper = mf_kind (rl_manifest t)
   \<and> op_job oper = mt_job m \<and> op_generation oper = mt_generation m
   \<and> (case op_kind oper of
        K_CONTROL_PLANE \<Rightarrow> list_all (\<lambda>x. x \<noteq> None) schema \<and> reads s (pl_initial_head p)
          \<and> reads s (pl_head_after p) \<and> reads t (pl_head_after p)
          \<and> \<not> (op_action oper = A_ROLLBACK \<and> needs_migration p)
      | K_STUDIO \<Rightarrow> list_all (\<lambda>x. x = None) schema)
   \<and> mt_state m \<noteq> ''released''
   \<and> (case mt_initiator m of None \<Rightarrow> True | Some u \<Rightarrow> u = op_user oper)
   \<and> (case op_node oper of None \<Rightarrow> True | Some n \<Rightarrow> n \<in> set (mt_targets m) \<or> ''cluster'' \<in> set (mt_targets m))
   \<and> mf_project (rl_manifest s) = mf_project (rl_manifest t)
   \<and> release_pair_compatible s t (op_action oper) (op_parent oper)
   \<and> (mf_paired (rl_manifest s) \<or> mf_paired (rl_manifest t) \<longrightarrow> pl_peer_sha p \<noteq> None))"

definition required_owners :: "upgrade_plan \<Rightarrow> string list option" where
  "required_owners p =
    (let ts = mt_targets (pl_maintenance p) in
     if op_kind (pl_operation p) \<noteq> K_CONTROL_PLANE then None
     else if ''core'' \<in> set ts
     then Some [''requests'', ''scheduler'', ''runs'', ''mcp'', ''ops'', ''feedback'', ''files'', ''renewals'', ''failover'']
     else Some (''requests'' # map snd (filter (\<lambda>so. fst so \<in> set ts)
       [(''coire-mcp'', ''mcp''), (''coire-ops'', ''ops''), (''coire-file-worker'', ''files'')])))"

section \<open>Receipts\<close>

datatype receipt_outcome = O_INTENT | O_COMPLETE | O_FAILED | O_UNKNOWN

record upgrade_evidence =
  ev_runtime :: "string option"
  ev_release :: "string option"
  ev_schema_head :: "string option"
  ev_schema_before :: "string option"
  ev_schema_after :: "string option"
  ev_model :: "uuid option"
  ev_variant :: "uuid option"
  ev_peer :: "string option"
  ev_collective :: "bool option"
  ev_model_sha :: "string option"
  ev_output :: "string option"
  ev_backup :: "string option"
  ev_check :: "string option"
  ev_tokens :: "int option"
  ev_elapsed :: "rat option"
  ev_process :: "int option"
  ev_process_created :: "rat option"
  ev_container :: "string option"
  ev_images :: "(string, string) pydict"
  ev_source_verified :: "bool option"
  ev_artifacts :: "bool option"
  ev_configuration :: "bool option"
  ev_exit_code :: "int option"
  ev_not_started :: "string option"
  ev_cleanup :: "bool option"

definition evidence_valid :: "upgrade_evidence \<Rightarrow> bool" where
  "evidence_valid e \<longleftrightarrow> (ev_process e = None) = (ev_process_created e = None)"

text \<open>The evidence of a receipt: \<^const>\<open>None\<close> is the empty text; any other text is valid evidence.\<close>

record upgrade_receipt =
  rc_job :: string
  rc_generation :: int
  rc_sequence :: int
  rc_effect :: string
  rc_phase :: upgrade_phase
  rc_occurred_at :: datetime
  rc_outcome :: receipt_outcome
  rc_observed :: "string option"
  rc_reason :: "string option"
  rc_evidence :: "upgrade_evidence option"
  rc_restoration :: string

record receipt_ack =
  ak_job :: string
  ak_generation :: int
  ak_sequence :: int

record journal_entry =
  je_receipt :: upgrade_receipt
  je_previous :: "string option"
  je_resource :: "string option"

record activation_grant =
  gr_job :: string
  gr_generation :: int
  gr_boundary :: string
  gr_id :: uuid
  gr_expires_at :: datetime

record activation_consume =
  ac_grant :: activation_grant
  ac_intent :: upgrade_receipt

definition activation_valid :: "activation_consume \<Rightarrow> bool" where
  "activation_valid a \<longleftrightarrow>
    (let g = ac_grant a; i = ac_intent a in
     (gr_job g, gr_generation g) = (rc_job i, rc_generation i)
   \<and> rc_phase i = (if gr_boundary g = ''migration'' then P_MIGRATING else P_ACTIVATING)
   \<and> rc_outcome i = O_INTENT \<and> rc_occurred_at i < gr_expires_at g)"

record migration_not_started =
  ns_job :: string
  ns_generation :: int
  ns_plan :: string
  ns_grant :: uuid
  ns_schema :: string
  ns_schema_sha :: string
  ns_observed_at :: datetime

datatype migration_state = M_INTENT | M_COMPLETE | M_UNCERTAIN

record migration_execution =
  mx_job :: string
  mx_generation :: int
  mx_plan :: string
  mx_grant :: uuid
  mx_state :: migration_state
  mx_captured_at :: datetime
  mx_deadline_at :: datetime
  mx_before_head :: string
  mx_before_sha :: string
  mx_expected_head :: string
  mx_after_head :: "string option"
  mx_after_sha :: "string option"
  mx_exit_code :: "int option"
  mx_completed_at :: "datetime option"

definition failed_unchanged :: "migration_execution \<Rightarrow> bool" where
  "failed_unchanged m \<longleftrightarrow> mx_state m = M_UNCERTAIN \<and> mx_exit_code m \<noteq> None \<and> mx_exit_code m \<noteq> Some 0
     \<and> mx_completed_at m \<noteq> None \<and> mx_after_head m = Some (mx_before_head m) \<and> mx_after_sha m = Some (mx_before_sha m)"

definition migration_valid :: "migration_execution \<Rightarrow> bool" where
  "migration_valid m \<longleftrightarrow>
     0 < mx_deadline_at m - mx_captured_at m \<and> mx_deadline_at m - mx_captured_at m \<le> seconds 120
   \<and> (if mx_state m = M_INTENT
      then mx_after_head m = None \<and> mx_after_sha m = None \<and> mx_exit_code m = None \<and> mx_completed_at m = None
      else (case mx_completed_at m of None \<Rightarrow> False | Some t \<Rightarrow> mx_captured_at m \<le> t))
   \<and> (mx_state m = M_COMPLETE \<longrightarrow> mx_exit_code m = Some 0 \<and> mx_after_head m = Some (mx_expected_head m)
        \<and> mx_after_sha m \<noteq> None \<and> (case mx_completed_at m of None \<Rightarrow> False | Some t \<Rightarrow> t \<le> mx_deadline_at m))"

section \<open>Digests\<close>

record digests =
  dg_operation :: "upgrade_operation \<Rightarrow> string"
  dg_plan :: "upgrade_plan \<Rightarrow> string"
  dg_receipt :: "upgrade_receipt \<Rightarrow> string"
  dg_entry :: "journal_entry \<Rightarrow> string"
  dg_not_started :: "migration_not_started \<Rightarrow> string"
  dg_start_request :: "uuid \<times> string \<times> uuid \<Rightarrow> string"
  dg_evidence_bytes :: "upgrade_evidence \<Rightarrow> int"

text \<open>The fields that \<^verbatim>\<open>authority_sha256\<close> leaves out are set to fixed values before the digest is taken.\<close>

definition operation_view :: "upgrade_operation \<Rightarrow> upgrade_operation" where
  "operation_view oper = oper\<lparr>op_phase := P_ACCEPTED, op_updated_at := 0, op_finished_at := None,
     op_cancel_requested := False, op_cancellation_allowed := True, op_reason := None, op_sequence := 0,
     op_retained_schema := None\<rparr>"

definition operation_authority :: "digests \<Rightarrow> upgrade_operation \<Rightarrow> string" where
  "operation_authority dg oper = dg_operation dg (operation_view oper)"

definition plan_authority :: "digests \<Rightarrow> upgrade_plan \<Rightarrow> string" where
  "plan_authority dg p = dg_plan dg (p\<lparr>pl_expires_at := 0, pl_operation := operation_view (pl_operation p),
     pl_maintenance := (pl_maintenance p)\<lparr>mt_state := [], mt_updated_at := 0, mt_acknowledged := []\<rparr>\<rparr>)"

text \<open>Progress does not change the authority.\<close>

lemma operation_authority_progress [simp]:
  "operation_authority dg (oper\<lparr>op_phase := ph\<rparr>) = operation_authority dg oper"
  "operation_authority dg (oper\<lparr>op_updated_at := t\<rparr>) = operation_authority dg oper"
  "operation_authority dg (oper\<lparr>op_finished_at := f\<rparr>) = operation_authority dg oper"
  "operation_authority dg (oper\<lparr>op_cancel_requested := c\<rparr>) = operation_authority dg oper"
  "operation_authority dg (oper\<lparr>op_sequence := n\<rparr>) = operation_authority dg oper"
  "operation_authority dg (oper\<lparr>op_reason := r\<rparr>) = operation_authority dg oper"
  by (simp_all add: operation_authority_def operation_view_def)

end
