(* ===== verification/Upgrade_Progress.thy ===== *)
theory Upgrade_Progress
  imports Upgrade_Models
begin

text \<open>
  The progress protocol of an upgrade (\<^verbatim>\<open>coire_api/upgrades/state.py\<close>): which receipt an operation accepts
  next, given the receipts already recorded. The check returns the error it raises, if any.
\<close>

section \<open>The transition table\<close>

fun forward :: "upgrade_phase \<Rightarrow> upgrade_phase list" where
  "forward P_ACCEPTED = [P_PREFLIGHT]"
| "forward P_PREFLIGHT = [P_FENCING, P_STAGED]"
| "forward P_FENCING = [P_DRAINING]"
| "forward P_DRAINING = [P_STAGED]"
| "forward P_STAGED = [P_FENCING, P_SMOKE_BEFORE, P_MIGRATING, P_ACTIVATING]"
| "forward P_SMOKE_BEFORE = [P_ACTIVATING]"
| "forward P_MIGRATING = [P_ACTIVATING]"
| "forward P_ACTIVATING = [P_VERIFYING]"
| "forward P_VERIFYING = [P_QUALIFYING, P_COMMITTING]"
| "forward P_QUALIFYING = [P_COMMITTING]"
| "forward P_COMMITTING = [P_SUCCEEDED]"
| "forward P_RESTORING = [P_VERIFYING_SOURCE]"
| "forward P_VERIFYING_SOURCE = [P_ROLLED_BACK]"
| "forward P_RECOVERY_REQUIRED = [P_RESTORING, P_VERIFYING_SOURCE]"
| "forward _ = []"

definition has_receipt :: "upgrade_phase \<Rightarrow> receipt_outcome \<Rightarrow> upgrade_receipt list \<Rightarrow> bool" where
  "has_receipt ph out history = list_ex (\<lambda>r. rc_phase r = ph \<and> rc_outcome r = out) history"

abbreviation activated :: "upgrade_receipt list \<Rightarrow> bool" where
  "activated \<equiv> has_receipt P_ACTIVATING O_INTENT"

abbreviation migrated :: "upgrade_receipt list \<Rightarrow> bool" where
  "migrated \<equiv> has_receipt P_MIGRATING O_INTENT"

definition permitted :: "upgrade_phase \<Rightarrow> upgrade_receipt list \<Rightarrow> upgrade_phase list" where
  "permitted ph history =
     forward ph @ [ph, P_RECOVERY_REQUIRED]
     @ (if activated history then [P_RESTORING] else [P_FAILED_UNCHANGED, P_CANCELLED_UNCHANGED])"

definition starts_with :: "string \<Rightarrow> string \<Rightarrow> bool" where
  "starts_with p s \<longleftrightarrow> take (length p) s = p"

section \<open>The check\<close>

text \<open>Ownership, activation intents and the transition table.\<close>

definition transition_error ::
  "digests \<Rightarrow> upgrade_operation \<Rightarrow> upgrade_receipt \<Rightarrow> upgrade_plan \<Rightarrow> upgrade_receipt list \<Rightarrow> bool \<Rightarrow> bool" where
  "transition_error dg oper r plan history authorized \<longleftrightarrow>
     starts_with ''expired-recovery-'' (rc_effect r)
   \<or> (rc_job r, rc_generation r) \<noteq> (op_job oper, op_generation oper)
   \<or> operation_authority dg oper \<noteq> operation_authority dg (pl_operation plan) \<or> terminal (op_phase oper)
   \<or> (rc_phase r \<in> {P_ACTIVATING, P_MIGRATING} \<and> rc_outcome r = O_INTENT \<and> \<not> authorized)
   \<or> (rc_phase r \<in> {P_ACTIVATING, P_MIGRATING} \<and> rc_outcome r \<noteq> O_INTENT
        \<and> \<not> has_receipt (rc_phase r) O_INTENT history)
   \<or> (rc_phase r \<in> {P_VERIFYING, P_QUALIFYING, P_COMMITTING, P_SUCCEEDED} \<and> \<not> activated history)
   \<or> rc_phase r \<notin> set (permitted (op_phase oper) history)"

definition selection_decision :: "upgrade_operation \<Rightarrow> upgrade_receipt \<Rightarrow> bool" where
  "selection_decision oper r \<longleftrightarrow>
     op_kind oper = K_CONTROL_PLANE \<and> rc_phase r = P_COMMITTING \<and> rc_outcome r = O_COMPLETE"

definition succeeds :: "upgrade_operation \<Rightarrow> upgrade_receipt \<Rightarrow> bool" where
  "succeeds oper r \<longleftrightarrow> rc_phase r = P_SUCCEEDED \<or> selection_decision oper r"

definition expected_release :: "upgrade_operation \<Rightarrow> upgrade_receipt \<Rightarrow> upgrade_plan \<Rightarrow> upgrade_release" where
  "expected_release oper r plan = (if succeeds oper r then pl_target plan else pl_source plan)"

text \<open>What the evidence of a terminal receipt, or of the selection decision, has to say.\<close>

definition evidence_error ::
  "upgrade_operation \<Rightarrow> upgrade_receipt \<Rightarrow> upgrade_plan \<Rightarrow> upgrade_receipt list \<Rightarrow> upgrade_evidence \<Rightarrow> bool" where
  "evidence_error oper r plan history e \<longleftrightarrow>
    (let success = succeeds oper r; expected = expected_release oper r plan in
     rc_outcome r \<noteq> O_COMPLETE \<or> ev_cleanup e \<noteq> Some True
   \<or> (op_kind oper = K_CONTROL_PLANE \<and> rc_phase r = P_SUCCEEDED \<and> \<not> has_receipt P_COMMITTING O_COMPLETE history)
   \<or> (success \<and> op_cancel_requested oper)
   \<or> rc_observed r \<noteq> Some (rl_sha expected)
   \<or> (\<not> success \<and> ev_source_verified e \<noteq> Some True)
   \<or> (case op_kind oper of
        K_STUDIO \<Rightarrow> ev_runtime e \<noteq> mf_environment_sha (rl_manifest expected)
      | K_CONTROL_PLANE \<Rightarrow>
          \<not> dict_eq (ev_images e) (release_images expected)
        \<or> (case ev_schema_head e of
             None \<Rightarrow> True
           | Some h \<Rightarrow> h \<notin> set (cp_schemas (mf_compatibility (rl_manifest expected)))
               \<or> (success \<and> Some h \<noteq> pl_head_after plan))))"

text \<open>The schema evidence that lets an operation end unchanged after a migration intent.\<close>

definition migration_completed :: "upgrade_plan \<Rightarrow> upgrade_evidence \<Rightarrow> bool" where
  "migration_completed plan e \<longleftrightarrow> ev_exit_code e = Some 0 \<and> ev_schema_head e = pl_head_after plan"

definition schema_untouched :: "upgrade_plan \<Rightarrow> upgrade_evidence \<Rightarrow> bool" where
  "schema_untouched plan e \<longleftrightarrow> ev_schema_head e = pl_initial_head plan
     \<and> ev_schema_before e = pl_initial_sha plan \<and> ev_schema_after e = pl_initial_sha plan"

definition migration_unchanged :: "upgrade_plan \<Rightarrow> upgrade_evidence \<Rightarrow> bool" where
  "migration_unchanged plan e \<longleftrightarrow> ev_exit_code e \<noteq> None \<and> ev_exit_code e \<noteq> Some 0 \<and> schema_untouched plan e"

definition migration_never_started ::
  "digests \<Rightarrow> upgrade_operation \<Rightarrow> upgrade_plan \<Rightarrow> migration_not_started option \<Rightarrow> upgrade_evidence \<Rightarrow> bool" where
  "migration_never_started dg oper plan ns e \<longleftrightarrow>
    (case ns of
       None \<Rightarrow> False
     | Some n \<Rightarrow> (ns_job n, ns_generation n, ns_plan n, Some (ns_schema n), Some (ns_schema_sha n))
           = (op_job oper, op_generation oper, plan_authority dg plan, pl_initial_head plan, pl_initial_sha plan)
         \<and> ev_not_started e = Some (dg_not_started dg n) \<and> ev_exit_code e = None \<and> schema_untouched plan e)"

definition unchanged_error ::
  "digests \<Rightarrow> upgrade_operation \<Rightarrow> upgrade_plan \<Rightarrow> upgrade_receipt list \<Rightarrow> migration_not_started option
     \<Rightarrow> upgrade_evidence \<Rightarrow> bool" where
  "unchanged_error dg oper plan history ns e \<longleftrightarrow>
     activated history
   \<or> (migrated history
      \<and> (\<not> (migration_completed plan e \<or> migration_unchanged plan e \<or> migration_never_started dg oper plan ns e)
         \<or> (case ev_schema_head e of None \<Rightarrow> True
            | Some h \<Rightarrow> h \<notin> set (cp_schemas (mf_compatibility (rl_manifest (pl_source plan)))))))"

text \<open>The durable verification that the terminal evidence is bound to.\<close>

definition verification :: "upgrade_phase \<Rightarrow> string \<Rightarrow> upgrade_receipt list \<Rightarrow> upgrade_receipt option" where
  "verification ph sha history =
     List.find (\<lambda>r. rc_phase r = ph \<and> rc_outcome r = O_COMPLETE \<and> rc_observed r = Some sha \<and> rc_evidence r \<noteq> None)
       (rev history)"

definition same_binding :: "upgrade_evidence \<Rightarrow> upgrade_evidence \<Rightarrow> bool" where
  "same_binding prior e \<longleftrightarrow>
     ev_model prior = ev_model e \<and> ev_variant prior = ev_variant e \<and> ev_model_sha prior = ev_model_sha e
   \<and> ev_output prior = ev_output e \<and> ev_tokens prior = ev_tokens e \<and> ev_runtime prior = ev_runtime e
   \<and> dict_eq (ev_images prior) (ev_images e) \<and> ev_schema_head prior = ev_schema_head e \<and> ev_check prior = ev_check e
   \<and> ev_collective prior = ev_collective e \<and> ev_peer prior = ev_peer e"

definition serving_proof :: "upgrade_plan \<Rightarrow> upgrade_evidence \<Rightarrow> bool" where
  "serving_proof plan e \<longleftrightarrow> (case ev_tokens e of None \<Rightarrow> False | Some n \<Rightarrow> 10 \<le> n) \<and> ev_output e \<noteq> None
     \<and> ev_model e = Some (pl_model plan) \<and> ev_variant e = Some (pl_variant plan)
     \<and> ev_model_sha e = Some (pl_model_sha plan)"

definition verified_error ::
  "upgrade_operation \<Rightarrow> upgrade_receipt \<Rightarrow> upgrade_plan \<Rightarrow> upgrade_receipt list \<Rightarrow> upgrade_evidence \<Rightarrow> bool" where
  "verified_error oper r plan history e \<longleftrightarrow>
    (let success = succeeds oper r; expected = expected_release oper r plan in
     case verification (if success then P_VERIFYING else P_VERIFYING_SOURCE) (rl_sha expected) history of
       None \<Rightarrow> True
     | Some v \<Rightarrow>
         \<not> same_binding (the (rc_evidence v)) e
       \<or> \<not> serving_proof plan e
       \<or> (op_kind oper = K_STUDIO \<and> success
          \<and> (mf_paired (rl_manifest (pl_source plan)) \<or> mf_paired (rl_manifest (pl_target plan)))
          \<and> (ev_collective e \<noteq> Some True \<or> ev_peer e \<noteq> pl_peer_sha plan)))"

definition validate_progress ::
  "digests \<Rightarrow> upgrade_operation \<Rightarrow> upgrade_receipt \<Rightarrow> upgrade_plan \<Rightarrow> upgrade_receipt list \<Rightarrow> bool
     \<Rightarrow> migration_not_started option \<Rightarrow> upgrade_error option" where
  "validate_progress dg oper r plan history authorized ns =
    (if transition_error dg oper r plan history authorized then Some Upgrade_conflict
     else if \<not> terminal (rc_phase r) \<and> \<not> selection_decision oper r then None
     else case rc_evidence r of
       None \<Rightarrow> Some Upgrade_conflict
     | Some e \<Rightarrow>
         if evidence_error oper r plan history e then Some Upgrade_conflict
         else if rc_phase r \<in> {P_FAILED_UNCHANGED, P_CANCELLED_UNCHANGED}
         then (if unchanged_error dg oper plan history ns e then Some Upgrade_conflict else None)
         else if verified_error oper r plan history e then Some Upgrade_conflict else None)"

section \<open>What an accepted receipt proves\<close>

lemma progress_transition:
  "validate_progress dg oper r plan history authorized ns = None \<Longrightarrow> \<not> transition_error dg oper r plan history authorized"
  by (auto simp: validate_progress_def split: if_splits)

lemma progress_decision:
  assumes "validate_progress dg oper r plan history authorized ns = None" "terminal (rc_phase r) \<or> selection_decision oper r"
  obtains e where "rc_evidence r = Some e" "\<not> evidence_error oper r plan history e"
    "rc_phase r \<in> {P_FAILED_UNCHANGED, P_CANCELLED_UNCHANGED} \<Longrightarrow> \<not> unchanged_error dg oper plan history ns e"
    "rc_phase r \<notin> {P_FAILED_UNCHANGED, P_CANCELLED_UNCHANGED} \<Longrightarrow> \<not> verified_error oper r plan history e"
  using assms by (auto simp: validate_progress_def split: if_splits option.splits)

lemma verificationD:
  assumes "verification ph sha history = Some v"
  shows "v \<in> set history" "rc_phase v = ph" "rc_outcome v = O_COMPLETE" "rc_observed v = Some sha" "rc_evidence v \<noteq> None"
  using find_SomeD [OF assms [unfolded verification_def]] by auto

end
