(* ===== verification/Upgrade_Authority.thy ===== *)
theory Upgrade_Authority
  imports Upgrade_Progress
begin

text \<open>
  The upgrade authority of the control plane: acceptance, the execution plan, maintenance fences,
  activation grants, receipts and cancellation (\<^verbatim>\<open>coire_api/upgrades/persistence.py\<close>, \<^verbatim>\<open>grants.py\<close>, \<^verbatim>\<open>service.py\<close>,
  \<^verbatim>\<open>compatibility.py\<close>, \<^verbatim>\<open>releases.py\<close> and \<^verbatim>\<open>coire_scheduler/maintenance.py\<close>). The tables are a record; a call is a
  transaction under the one advisory lock, so that an exception leaves the tables as they were and an
  operation returns either an error or the new tables. What a call learns from outside the tables (clocks,
  the actor's live authorisation, the deployed schema, backups, live drain observations, the published
  host selection) is a record of the call. Audit rows and telemetry are left out.
\<close>

section \<open>Tables\<close>

datatype migration_record = Not_started migration_not_started | Executed migration_execution

record operation_row =
  ow_operation :: upgrade_operation
  ow_active :: bool
  ow_phase :: upgrade_phase
  ow_plan :: "upgrade_plan option"
  ow_migration :: "migration_record option"

record grant_row =
  gw_job :: string
  gw_generation :: int
  gw_boundary :: string
  gw_expires_at :: datetime
  gw_consumed_at :: "datetime option"

record maintenance_row =
  mw_job :: string
  mw_generation :: int
  mw_released :: bool
  mw_value :: upgrade_maintenance

type_synonym receipt_key = "string \<times> int \<times> int"

record upgrade_db =
  db_releases :: "(uuid, upgrade_release) pydict"
  db_operations :: "(string, operation_row) pydict"
  db_receipts :: "(receipt_key, string \<times> upgrade_receipt) pydict"
  db_grants :: "(uuid, grant_row) pydict"
  db_maintenance :: "(string, maintenance_row) pydict"
  db_handover :: bool
  db_ineligible :: "(string option \<times> string option \<times> datetime) list"

text \<open>What one call learns from outside the tables.\<close>

record upgrade_env =
  en_now :: datetime
  en_later :: datetime
  en_authorized :: bool
  en_owner :: uuid
  en_schema :: "string \<times> string"
  en_backup :: "upgrade_error option"
  en_drain :: "upgrade_error option"
  en_published :: "upgrade_error option"
  en_fresh_id :: uuid
  en_fresh_job :: string
  en_generation :: int

type_synonym 'a call = "upgrade_error + 'a \<times> upgrade_db"

definition set_row :: "operation_row \<Rightarrow> upgrade_db \<Rightarrow> upgrade_db" where
  "set_row row db = db\<lparr>db_operations := dict_set (op_job (ow_operation row)) row (db_operations db)\<rparr>"

section \<open>Acceptance\<close>

definition service_table :: "release_manifest \<Rightarrow> (string, service_spec) pydict" where
  "service_table m = fold (\<lambda>s. dict_set (sv_service s) s) (mf_services m) []"

definition changed_cohort :: "release_manifest \<Rightarrow> release_manifest \<Rightarrow> upgrade_error + string list" where
  "changed_cohort source target =
    (let previous = service_table source; candidate = service_table target in
     if mf_kind source \<noteq> mf_kind target \<or> mf_platform source \<noteq> mf_platform target then Inl Upgrade_conflict
     else if mf_kind target = K_STUDIO then Inr []
     else if mf_project source \<noteq> mf_project target then Inl Upgrade_conflict
     else if set (map fst previous) \<noteq> set (map fst candidate) then Inl Upgrade_conflict
     else Inr (filter (\<lambda>n. case (dict_get candidate n, dict_get previous n) of
            (Some c, Some p) \<Rightarrow> sv_image c \<noteq> sv_image p \<or> sv_digest c \<noteq> sv_digest p
          | _ \<Rightarrow> False) cohort_order))"

definition register_release :: "upgrade_env \<Rightarrow> upgrade_release \<Rightarrow> upgrade_db \<Rightarrow> upgrade_release call" where
  "register_release env rel db =
    (if \<not> en_authorized env then Inl Upgrade_forbidden
     else if rl_prepared_by rel \<noteq> en_owner env then Inl Upgrade_conflict
     else case List.find (\<lambda>x. rl_sha x = rl_sha rel) (dict_values (db_releases db)) of
       Some old \<Rightarrow> Inr (old, db)
     | None \<Rightarrow>
         if list_ex (\<lambda>x. rl_artifact x = rl_artifact rel) (dict_values (db_releases db)) then Inl Upgrade_conflict
         else if dict_get (db_releases db) (rl_id rel) \<noteq> None then Inl Upgrade_unavailable
         else Inr (rel, db\<lparr>db_releases := dict_set (rl_id rel) rel (db_releases db)\<rparr>))"

record start_request =
  st_release :: uuid
  st_expected :: string
  st_key :: uuid

definition find_request :: "uuid \<Rightarrow> uuid \<Rightarrow> upgrade_db \<Rightarrow> operation_row option" where
  "find_request owner key db =
     List.find (\<lambda>w. op_user (ow_operation w) = owner \<and> op_idempotency (ow_operation w) = key) (dict_values (db_operations db))"

definition reverses :: "string option \<Rightarrow> upgrade_release \<Rightarrow> upgrade_release \<Rightarrow> operation_row \<Rightarrow> bool" where
  "reverses node source target w \<longleftrightarrow>
    (let p = ow_operation w in
     op_phase p = P_SUCCEEDED \<and> op_node p = node \<and> op_kind p = mf_kind (rl_manifest source)
   \<and> (op_source_release p, op_target_release p) = (rl_id target, rl_id source)
   \<and> (op_source_sha p, op_target_sha p) = (rl_sha target, rl_sha source))"

definition new_operation ::
  "digests \<Rightarrow> upgrade_env \<Rightarrow> start_request \<Rightarrow> upgrade_release \<Rightarrow> upgrade_release \<Rightarrow> string option \<Rightarrow> uuid option
     \<Rightarrow> upgrade_timing \<Rightarrow> upgrade_action \<Rightarrow> string option \<Rightarrow> string list \<Rightarrow> upgrade_operation" where
  "new_operation dg env req source target node key timing action parent cohort =
     \<lparr>op_job = en_fresh_job env, op_action = action, op_kind = mf_kind (rl_manifest target), op_node = node,
      op_source_release = rl_id source, op_target_release = rl_id target,
      op_source_sha = rl_sha source, op_target_sha = rl_sha target,
      op_user = en_owner env, op_key = key, op_idempotency = st_key req,
      op_request_sha = dg_start_request dg (st_release req, st_expected req, st_key req),
      op_generation = en_generation env, op_cohort = cohort, op_timing = timing, op_phase = P_ACCEPTED,
      op_accepted_at = en_now env, op_updated_at = en_now env, op_finished_at = None,
      op_cancel_requested = False, op_cancellation_allowed = True, op_reason = None, op_sequence = 0,
      op_parent = parent, op_retained_schema = None\<rparr>"

text \<open>The refusals of a new intent: ownership, maintenance, the release pair, and the parent of a rollback.\<close>

definition accept_error ::
  "start_request \<Rightarrow> uuid \<Rightarrow> string option \<Rightarrow> upgrade_action \<Rightarrow> string option \<Rightarrow> upgrade_db \<Rightarrow> upgrade_error option" where
  "accept_error req source_id node action parent db =
    (if db_handover db \<or> list_ex ow_active (dict_values (db_operations db))
        \<or> list_ex (\<lambda>m. \<not> mw_released m) (dict_values (db_maintenance db)) then Some Upgrade_conflict
     else case (dict_get (db_releases db) source_id, dict_get (db_releases db) (st_release req)) of
       (Some source, Some target) \<Rightarrow>
         if rl_sha source \<noteq> st_expected req \<or> mf_kind (rl_manifest source) \<noteq> mf_kind (rl_manifest target)
            \<or> \<not> release_pair_compatible source target action parent \<or> rl_status target \<noteq> ''prepared''
         then Some Upgrade_conflict
         else if action \<noteq> A_ROLLBACK then None
         else (case parent of
                 None \<Rightarrow> Some Upgrade_conflict
               | Some j \<Rightarrow> (case dict_get (db_operations db) j of
                     None \<Rightarrow> Some Upgrade_not_found
                   | Some w \<Rightarrow> if reverses node source target w then None else Some Upgrade_conflict))
     | _ \<Rightarrow> Some Upgrade_not_found)"

definition accept ::
  "digests \<Rightarrow> upgrade_env \<Rightarrow> start_request \<Rightarrow> uuid \<Rightarrow> string option \<Rightarrow> uuid option \<Rightarrow> upgrade_timing
     \<Rightarrow> upgrade_action \<Rightarrow> string option \<Rightarrow> upgrade_db \<Rightarrow> (upgrade_operation \<times> bool) call" where
  "accept dg env req source_id node key timing action parent db =
    (if \<not> en_authorized env then Inl Upgrade_forbidden
     else case find_request (en_owner env) (st_key req) db of
       Some w \<Rightarrow>
         (let p = ow_operation w in
          if op_request_sha p \<noteq> dg_start_request dg (st_release req, st_expected req, st_key req)
             \<or> op_node p \<noteq> node \<or> op_action p \<noteq> action \<or> op_parent p \<noteq> parent
          then Inl Upgrade_conflict else Inr ((p, False), db))
     | None \<Rightarrow>
         (case accept_error req source_id node action parent db of
            Some e \<Rightarrow> Inl e
          | None \<Rightarrow>
              (let source = the (dict_get (db_releases db) source_id);
                   target = the (dict_get (db_releases db) (st_release req)) in
               case changed_cohort (rl_manifest source) (rl_manifest target) of
                 Inl e \<Rightarrow> Inl e
               | Inr cohort \<Rightarrow>
                   (case validate_operation (new_operation dg env req source target node key timing action parent cohort) of
                      None \<Rightarrow> Inl Upgrade_invalid
                    | Some p \<Rightarrow>
                        if dict_get (db_operations db) (op_job p) \<noteq> None
                           \<or> list_ex (\<lambda>w. op_generation (ow_operation w) = op_generation p) (dict_values (db_operations db))
                           \<or> op_generation p < 1
                        then Inl Upgrade_unavailable
                        else Inr ((p, True), set_row \<lparr>ow_operation = p, ow_active = True, ow_phase = op_phase p,
                               ow_plan = None, ow_migration = None\<rparr> db)))))"

section \<open>The execution plan\<close>

definition dependency_scope ::
  "upgrade_kind \<Rightarrow> string option \<Rightarrow> string list \<Rightarrow> bool \<Rightarrow> bool \<Rightarrow> upgrade_error + string list" where
  "dependency_scope kind node cohort schema_changed paired =
    (case kind of
       K_STUDIO \<Rightarrow>
         (case node of
            None \<Rightarrow> Inl Upgrade_conflict
          | Some n \<Rightarrow> if cohort \<noteq> [] then Inl Upgrade_conflict
                      else Inr (if paired then [''coire-edge-a'', ''coire-edge-b''] else [n]))
     | K_CONTROL_PLANE \<Rightarrow>
         if node \<noteq> None \<or> (cohort = [] \<and> \<not> schema_changed) then Inl Upgrade_conflict
         else if schema_changed \<or> list_ex (\<lambda>s. s \<in> set cohort) [''coire-api'', ''coire-scheduler'', ''coire-web'']
         then Inr (cohort @ [''core'', ''coire-edge-a'', ''coire-edge-b'']) else Inr cohort)"

text \<open>The verified smoke asset is looked up in the model registry and the backup, when none is given, selected from
  the prepared ones; their results are part of the call.\<close>

record smoke_asset =
  sa_model :: uuid
  sa_variant :: uuid
  sa_slug :: string
  sa_sha :: string

definition schema_after :: "upgrade_operation \<Rightarrow> upgrade_release \<Rightarrow> upgrade_release \<Rightarrow> string \<Rightarrow> string option" where
  "schema_after oper source target head =
    (if op_action oper = A_ROLLBACK \<or> mf_schema (rl_manifest source) = mf_schema (rl_manifest target)
     then Some head else mf_schema (rl_manifest target))"

definition prepare_plan ::
  "digests \<Rightarrow> upgrade_env \<Rightarrow> upgrade_operation \<Rightarrow> string option \<Rightarrow> backup_evidence option
     \<Rightarrow> upgrade_error + smoke_asset \<Rightarrow> upgrade_db \<Rightarrow> upgrade_plan call" where
  "prepare_plan dg env oper peer backup asset db =
    (case dict_get (db_operations db) (op_job oper) of
       None \<Rightarrow> Inl Upgrade_not_found
     | Some w \<Rightarrow>
         (let cur = ow_operation w in
          if operation_authority dg cur \<noteq> operation_authority dg oper \<or> op_finished_at cur \<noteq> None then Inl Upgrade_conflict
          else case ow_plan w of
            Some plan \<Rightarrow> Inr (plan, db)
          | None \<Rightarrow>
              if \<not> en_authorized env then Inl Upgrade_forbidden
              else (case (dict_get (db_releases db) (op_source_release cur), dict_get (db_releases db) (op_target_release cur)) of
                (Some source, Some target) \<Rightarrow>
                  (let core = (op_kind cur = K_CONTROL_PLANE);
                       head = (if core then Some (fst (en_schema env)) else None);
                       sha = (if core then Some (snd (en_schema env)) else None);
                       after = (if core then schema_after cur source target (fst (en_schema env)) else None) in
                   if core \<and> head \<noteq> after \<and> en_backup env \<noteq> None then Inl (the (en_backup env))
                   else (case dependency_scope (op_kind cur) (op_node cur) (op_cohort cur) (head \<noteq> after)
                                (mf_paired (rl_manifest source) \<or> mf_paired (rl_manifest target)) of
                     Inl e \<Rightarrow> Inl e
                   | Inr scope \<Rightarrow>
                       (case asset of
                          Inl e \<Rightarrow> Inl e
                        | Inr a \<Rightarrow>
                            (let plan = \<lparr>pl_operation = cur, pl_source = source, pl_target = target,
                               pl_maintenance = \<lparr>mt_job = op_job cur, mt_generation = op_generation cur, mt_targets = scope,
                                  mt_state = ''fencing'', mt_updated_at = en_now env,
                                  mt_drain_deadline = en_now env + seconds (tm_drain (op_timing cur)),
                                  mt_initiator = Some (op_user cur), mt_acknowledged = []\<rparr>,
                               pl_expires_at = en_now env + seconds 30, pl_model = sa_model a, pl_variant = sa_variant a,
                               pl_slug = sa_slug a, pl_model_sha = sa_sha a, pl_peer_sha = peer, pl_backup = backup,
                               pl_initial_head = head, pl_initial_sha = sha, pl_head_after = after\<rparr> in
                             if maintenance_valid (pl_maintenance plan) \<and> plan_valid plan
                             then Inr (plan, set_row (w\<lparr>ow_plan := Some plan\<rparr>) db) else Inl Upgrade_invalid))))
              | _ \<Rightarrow> Inl Upgrade_not_found)))"

section \<open>Maintenance fences\<close>

text \<open>One target: a row of the same generation is refreshed, a released older one is taken over.\<close>

definition fence_target :: "upgrade_maintenance \<Rightarrow> string \<Rightarrow> upgrade_db \<Rightarrow> upgrade_error + upgrade_db" where
  "fence_target v t db =
    (let row = \<lparr>mw_job = mt_job v, mw_generation = mt_generation v, mw_released = False, mw_value = v\<rparr> in
     case dict_get (db_maintenance db) t of
       None \<Rightarrow> Inr (db\<lparr>db_maintenance := dict_set t row (db_maintenance db)\<rparr>)
     | Some m \<Rightarrow>
         if mw_generation m > mt_generation v
            \<or> (\<not> mw_released m \<and> (mw_job m, mw_generation m) \<noteq> (mt_job v, mt_generation v))
            \<or> (mw_released m \<and> mw_generation m = mt_generation v)
         then Inl Upgrade_conflict
         else Inr (db\<lparr>db_maintenance := dict_set t row (db_maintenance db)\<rparr>))"

fun fence_targets :: "upgrade_maintenance \<Rightarrow> string list \<Rightarrow> upgrade_db \<Rightarrow> upgrade_error + upgrade_db" where
  "fence_targets v [] db = Inr db"
| "fence_targets v (t # ts) db =
    (case fence_target v t db of Inl e \<Rightarrow> Inl e | Inr db' \<Rightarrow> fence_targets v ts db')"

definition fence :: "digests \<Rightarrow> upgrade_maintenance \<Rightarrow> upgrade_db \<Rightarrow> unit call" where
  "fence dg v db =
    (case dict_get (db_operations db) (mt_job v) of
       None \<Rightarrow> Inl Upgrade_not_found
     | Some w \<Rightarrow>
         (let oper = ow_operation w in
          if op_generation oper \<noteq> mt_generation v \<or> op_finished_at oper \<noteq> None \<or> mt_state v = ''released''
          then Inl Upgrade_conflict
          else case (dict_get (db_releases db) (op_source_release oper), dict_get (db_releases db) (op_target_release oper)) of
            (Some source, Some candidate) \<Rightarrow>
              if (case ow_plan w of None \<Rightarrow> False
                  | Some plan \<Rightarrow> operation_authority dg (pl_operation plan) \<noteq> operation_authority dg oper)
              then Inl Upgrade_conflict
              else (case dependency_scope (op_kind oper) (op_node oper) (op_cohort oper)
                       (case ow_plan w of Some plan \<Rightarrow> needs_migration plan
                        | None \<Rightarrow> mf_schema (rl_manifest source) \<noteq> mf_schema (rl_manifest candidate))
                       (mf_paired (rl_manifest source) \<or> mf_paired (rl_manifest candidate)) of
                Inl e \<Rightarrow> Inl e
              | Inr scope \<Rightarrow>
                  if set (mt_targets v) \<noteq> set scope
                     \<or> (case mt_initiator v of None \<Rightarrow> False | Some u \<Rightarrow> u \<noteq> op_user oper)
                  then Inl Upgrade_conflict
                  else (case fence_targets v (sort (mt_targets v)) db of Inl e \<Rightarrow> Inl e | Inr db' \<Rightarrow> Inr ((), db')))
          | _ \<Rightarrow> Inl Upgrade_not_found))"

definition release_row :: "upgrade_env \<Rightarrow> string \<Rightarrow> int \<Rightarrow> maintenance_row \<Rightarrow> maintenance_row" where
  "release_row env job gen m =
    (if mw_job m = job \<and> mw_generation m = gen
     then m\<lparr>mw_released := True, mw_value := (mw_value m)\<lparr>mt_state := ''released'', mt_updated_at := en_now env\<rparr>\<rparr>
     else m)"

definition release_verified :: "upgrade_env \<Rightarrow> string \<Rightarrow> int \<Rightarrow> upgrade_db \<Rightarrow> unit call" where
  "release_verified env job gen db =
    (case dict_get (db_operations db) job of
       None \<Rightarrow> Inl Upgrade_not_found
     | Some w \<Rightarrow>
         if op_generation (ow_operation w) \<noteq> gen \<or> op_finished_at (ow_operation w) = None then Inl Upgrade_conflict
         else Inr ((), db\<lparr>db_maintenance := map (\<lambda>tm. (fst tm, release_row env job gen (snd tm))) (db_maintenance db)\<rparr>))"

text \<open>
  The two admission gates. The exemption is the answer for the scope of a gateway smoke, if one applies; \<^const>\<open>None\<close> of
  \<^verbatim>\<open>allows_core_work\<close> is its \<^verbatim>\<open>ValueError\<close>, and \<^verbatim>\<open>nodes\<close> the names of the node table by row id.
\<close>

definition unreleased :: "string list \<Rightarrow> upgrade_db \<Rightarrow> bool" where
  "unreleased targets db \<longleftrightarrow> list_ex (\<lambda>tm. fst tm \<in> set targets \<and> \<not> mw_released (snd tm)) (db_maintenance db)"

definition allows_admission :: "bool option \<Rightarrow> (uuid, string) pydict \<Rightarrow> uuid list \<Rightarrow> upgrade_db \<Rightarrow> bool" where
  "allows_admission exemption nodes node_ids db =
    (case exemption of
       Some b \<Rightarrow> b
     | None \<Rightarrow>
         (let names = map snd (filter (\<lambda>n. fst n \<in> set node_ids) nodes) in
          length names = card (set node_ids) \<and> \<not> unreleased (''cluster'' # names) db))"

definition allows_core_work :: "bool option \<Rightarrow> string list \<Rightarrow> upgrade_db \<Rightarrow> bool option" where
  "allows_core_work exemption services db =
    (if services = [] then None
     else case exemption of
       Some b \<Rightarrow> Some b
     | None \<Rightarrow> Some (\<not> unreleased (''cluster'' # ''core'' # services) db))"

definition verify_fenced :: "upgrade_plan \<Rightarrow> upgrade_db \<Rightarrow> bool" where
  "verify_fenced plan db \<longleftrightarrow>
    (let oper = pl_operation plan; targets = mt_targets (pl_maintenance plan);
         rows = filter (\<lambda>tm. fst tm \<in> set targets) (db_maintenance db);
         nodes = filter (\<lambda>t. t \<in> {''coire-edge-a'', ''coire-edge-b''}) targets in
     set (map fst rows) = set targets
   \<and> list_all (\<lambda>tm. let m = snd tm; v = mw_value m in
        \<not> mw_released m \<and> (mw_job m, mw_generation m) = (op_job oper, op_generation oper)
      \<and> (mt_job v, mt_generation v) = (op_job oper, op_generation oper) \<and> mt_state v = ''active''
      \<and> set (mt_targets v) = set targets \<and> mt_drain_deadline v = mt_drain_deadline (pl_maintenance plan)
      \<and> set nodes \<subseteq> set (map fst (mt_acknowledged v))) rows)"

section \<open>Receipts\<close>

definition receipt_id :: "upgrade_receipt \<Rightarrow> receipt_key" where
  "receipt_id r = (rc_job r, rc_generation r, rc_sequence r)"

definition append_receipt :: "digests \<Rightarrow> datetime \<Rightarrow> upgrade_receipt \<Rightarrow> upgrade_db \<Rightarrow> bool call" where
  "append_receipt dg now r db =
    (case dict_get (db_operations db) (rc_job r) of
       None \<Rightarrow> Inl Upgrade_not_found
     | Some w \<Rightarrow>
         (let oper = ow_operation w in
          if op_generation oper \<noteq> rc_generation r then Inl Upgrade_conflict
          else case dict_get (db_receipts db) (receipt_id r) of
            Some (sha, _) \<Rightarrow> if sha \<noteq> dg_receipt dg r then Inl Upgrade_conflict else Inr (False, db)
          | None \<Rightarrow>
              if rc_sequence r \<noteq> op_sequence oper + 1 then Inl Upgrade_conflict
              else Inr (True, set_row (w\<lparr>ow_operation := oper\<lparr>op_sequence := rc_sequence r, op_updated_at := now\<rparr>\<rparr>)
                     (db\<lparr>db_receipts := dict_set (receipt_id r) (dg_receipt dg r, r) (db_receipts db)\<rparr>))))"

definition receipt_rows :: "string \<Rightarrow> int \<Rightarrow> upgrade_db \<Rightarrow> (receipt_key \<times> string \<times> upgrade_receipt) list" where
  "receipt_rows job gen db =
     sort_key (\<lambda>kr. snd (snd (fst kr))) (filter (\<lambda>kr. fst (fst kr) = job \<and> fst (snd (fst kr)) = gen) (db_receipts db))"

definition history_of :: "string \<Rightarrow> int \<Rightarrow> upgrade_db \<Rightarrow> upgrade_receipt list" where
  "history_of job gen db = map (\<lambda>kr. snd (snd kr)) (receipt_rows job gen db)"

fun verify_rows :: "digests \<Rightarrow> int \<Rightarrow> (receipt_key \<times> string \<times> upgrade_receipt) list \<Rightarrow> bool" where
  "verify_rows dg n [] = True"
| "verify_rows dg n ((k, sha, r) # rows) = (rc_sequence r = n \<and> dg_receipt dg r = sha \<and> verify_rows dg (n + 1) rows)"

definition evidence_bytes :: "digests \<Rightarrow> upgrade_receipt list \<Rightarrow> int" where
  "evidence_bytes dg rs = sum_list (map (\<lambda>r. case rc_evidence r of None \<Rightarrow> 0 | Some e \<Rightarrow> dg_evidence_bytes dg e) rs)"

definition ingest_error ::
  "digests \<Rightarrow> upgrade_env \<Rightarrow> operation_row \<Rightarrow> upgrade_plan \<Rightarrow> upgrade_receipt \<Rightarrow> upgrade_db \<Rightarrow> upgrade_error option" where
  "ingest_error dg env w plan r db =
    (let oper = ow_operation w; rows = receipt_rows (op_job oper) (op_generation oper) db;
         history = take 4097 (history_of (op_job oper) (op_generation oper) db);
         ns = (case ow_migration w of Some (Not_started n) \<Rightarrow> Some n | _ \<Rightarrow> None) in
     if int (length history) \<noteq> op_sequence oper \<or> length history \<ge> 4096 \<or> \<not> verify_rows dg 1 (take 4097 rows)
     then Some Upgrade_unavailable
     else if evidence_bytes dg (history @ [r]) > 256 * 1024 then Some Upgrade_conflict
     else case validate_progress dg oper r plan history False ns of
       Some e \<Rightarrow> Some e
     | None \<Rightarrow>
         if selection_decision oper r \<and> \<not> en_authorized env then Some Upgrade_forbidden
         else if op_kind oper = K_CONTROL_PLANE \<and> rc_phase r = P_SUCCEEDED then en_published env else None)"

text \<open>The operation after an appended receipt: its phase follows, and a terminal phase ends it.\<close>

definition progressed :: "datetime \<Rightarrow> upgrade_receipt \<Rightarrow> upgrade_operation \<Rightarrow> upgrade_operation" where
  "progressed now r cur =
    (let c1 = cur\<lparr>op_phase := rc_phase r, op_updated_at := now\<rparr>;
         c2 = (if op_kind cur = K_CONTROL_PLANE then
                 (if rc_phase r = P_COMMITTING \<and> rc_outcome r = O_COMPLETE then c1\<lparr>op_cancellation_allowed := False\<rparr>
                  else if rc_phase r = P_RESTORING then c1\<lparr>op_cancellation_allowed := True\<rparr> else c1)
               else c1) in
     if terminal (rc_phase r)
     then (if op_kind cur = K_CONTROL_PLANE
           then c2\<lparr>op_finished_at := Some now, op_cancellation_allowed := False,
                  op_retained_schema := (case rc_evidence r of None \<Rightarrow> None | Some e \<Rightarrow> ev_schema_head e)\<rparr>
           else c2\<lparr>op_finished_at := Some now, op_cancellation_allowed := False\<rparr>)
     else c2)"

text \<open>A restored Studio source whose pair was not verified makes the link ineligible.\<close>

definition source_ineligible :: "upgrade_operation \<Rightarrow> upgrade_plan \<Rightarrow> upgrade_receipt \<Rightarrow> (string option \<times> string option \<times> datetime) list" where
  "source_ineligible oper plan r =
    (if op_kind oper = K_STUDIO \<and> rc_phase r = P_VERIFYING_SOURCE \<and> rc_outcome r = O_COMPLETE
        \<and> (mf_paired (rl_manifest (pl_source plan)) \<or> mf_paired (rl_manifest (pl_target plan)))
        \<and> (case rc_evidence r of None \<Rightarrow> True | Some e \<Rightarrow> ev_collective e \<noteq> Some True)
     then (let s = mf_environment_sha (rl_manifest (pl_source plan)) in
           [if op_node oper = Some ''coire-edge-a'' then (s, pl_peer_sha plan, rc_occurred_at r)
            else (pl_peer_sha plan, s, rc_occurred_at r)])
     else [])"

definition ingest_receipt :: "digests \<Rightarrow> upgrade_env \<Rightarrow> upgrade_receipt \<Rightarrow> upgrade_db \<Rightarrow> bool call" where
  "ingest_receipt dg env r db =
    (if starts_with ''expired-recovery-'' (rc_effect r) then Inl Upgrade_conflict
     else case dict_get (db_operations db) (rc_job r) of
       None \<Rightarrow> Inl Upgrade_not_found
     | Some w \<Rightarrow>
         if dict_get (db_receipts db) (receipt_id r) \<noteq> None then append_receipt dg (en_now env) r db
         else (case ow_plan w of
                 None \<Rightarrow> Inl Upgrade_conflict
               | Some plan \<Rightarrow>
                   (case ingest_error dg env w plan r db of
                      Some e \<Rightarrow> Inl e
                    | None \<Rightarrow>
                        (case append_receipt dg (en_now env) r db of
                           Inl e \<Rightarrow> Inl e
                         | Inr (False, db1) \<Rightarrow> Inr (False, db1)
                         | Inr (True, db1) \<Rightarrow>
                             (let w1 = the (dict_get (db_operations db1) (rc_job r)) in
                              Inr (True, set_row (w1\<lparr>ow_operation := progressed (en_later env) r (ow_operation w1),
                                    ow_phase := rc_phase r, ow_active := (ow_active w1 \<and> \<not> terminal (rc_phase r))\<rparr>)
                                (db1\<lparr>db_ineligible := db_ineligible db1 @ source_ineligible (ow_operation w) plan r\<rparr>)))))))"

section \<open>Activation grants\<close>

definition require_migration_backup :: "datetime \<Rightarrow> upgrade_plan \<Rightarrow> bool" where
  "require_migration_backup now plan \<longleftrightarrow>
    (op_kind (pl_operation plan) = K_CONTROL_PLANE \<and> needs_migration plan
   \<and> (case pl_backup plan of
        None \<Rightarrow> False
      | Some b \<Rightarrow> Some (bk_project b) = mf_project (rl_manifest (pl_source plan)) \<and> Some (bk_schema b) = pl_initial_head plan
          \<and> bk_created_at b \<le> now \<and> now - seconds (24 * 3600) \<le> bk_created_at b
          \<and> bk_created_at b \<le> bk_validated_at b \<and> bk_validated_at b \<le> now))"

definition boundary_phases :: "upgrade_phase list" where
  "boundary_phases = [P_STAGED, P_SMOKE_BEFORE, P_MIGRATING]"

definition staged_evidence :: "datetime \<Rightarrow> upgrade_operation \<Rightarrow> string \<Rightarrow> upgrade_plan \<Rightarrow> upgrade_receipt \<Rightarrow> upgrade_evidence \<Rightarrow> bool" where
  "staged_evidence now oper boundary plan proof e \<longleftrightarrow>
     rc_phase proof = P_STAGED \<and> ev_artifacts e = Some True \<and> ev_configuration e = Some True
   \<and> ev_release e = Some (op_target_sha oper) \<and> dict_eq (ev_images e) (release_images (pl_target plan))
   \<and> (boundary = ''migration'') = needs_migration plan
   \<and> (needs_migration plan \<longrightarrow> require_migration_backup now plan
        \<and> (case pl_backup plan of None \<Rightarrow> False | Some b \<Rightarrow> ev_backup e = Some (bk_validation_sha b)))"

definition smoke_evidence :: "upgrade_operation \<Rightarrow> upgrade_plan \<Rightarrow> upgrade_evidence \<Rightarrow> bool" where
  "smoke_evidence oper plan e \<longleftrightarrow>
     ev_model e = Some (pl_model plan) \<and> ev_variant e = Some (pl_variant plan) \<and> ev_model_sha e = Some (pl_model_sha plan)
   \<and> ev_output e \<noteq> None \<and> ev_runtime e \<noteq> None \<and> ev_check e = Some (if op_kind oper = K_STUDIO then ''node'' else ''gateway'')
   \<and> ev_cleanup e = Some True
   \<and> (op_kind oper = K_STUDIO \<longrightarrow> ev_runtime e = mf_environment_sha (rl_manifest (pl_target plan)))
   \<and> (case ev_tokens e of None \<Rightarrow> False | Some n \<Rightarrow> 10 \<le> n)"

definition activation_ready ::
  "digests \<Rightarrow> datetime \<Rightarrow> upgrade_operation \<Rightarrow> string \<Rightarrow> upgrade_plan \<Rightarrow> upgrade_receipt list \<Rightarrow> bool" where
  "activation_ready dg now oper boundary plan history \<longleftrightarrow>
     operation_authority dg oper = operation_authority dg (pl_operation plan)
   \<and> op_phase oper \<in> set boundary_phases
   \<and> (op_phase oper \<noteq> P_MIGRATING \<longrightarrow> now < mt_drain_deadline (pl_maintenance plan))
   \<and> history \<noteq> []
   \<and> (let proof = last history in
       rc_outcome proof = O_COMPLETE \<and> rc_observed proof = Some (op_source_sha oper)
     \<and> (case rc_evidence proof of
          None \<Rightarrow> False
        | Some e \<Rightarrow>
            (case op_kind oper of
               K_CONTROL_PLANE \<Rightarrow>
                 if op_phase oper = P_STAGED then staged_evidence now oper boundary plan proof e
                 else op_phase oper = P_MIGRATING \<and> rc_phase proof = P_MIGRATING \<and> boundary = ''runtime''
                   \<and> needs_migration plan \<and> ev_schema_head e = pl_head_after plan \<and> ev_exit_code e = Some 0
             | K_STUDIO \<Rightarrow> op_phase oper = P_SMOKE_BEFORE \<and> rc_phase proof = P_SMOKE_BEFORE \<and> smoke_evidence oper plan e)))"

definition current_schema_ok :: "digests \<Rightarrow> upgrade_env \<Rightarrow> operation_row \<Rightarrow> upgrade_plan \<Rightarrow> bool" where
  "current_schema_ok dg env w plan \<longleftrightarrow>
    (let oper = ow_operation w; head = Some (fst (en_schema env)); sha = Some (snd (en_schema env)) in
     if op_kind oper \<noteq> K_CONTROL_PLANE then True
     else if op_phase oper = P_STAGED then (head, sha) = (pl_initial_head plan, pl_initial_sha plan)
     else (case ow_migration w of
             Some (Executed m) \<Rightarrow> mx_state m = M_COMPLETE \<and> mx_job m = op_job oper \<and> mx_generation m = op_generation oper
               \<and> mx_plan m = plan_authority dg plan \<and> (head, sha) = (mx_after_head m, mx_after_sha m)
               \<and> head = pl_head_after plan
           | _ \<Rightarrow> False))"

definition backup_boundary_error :: "upgrade_env \<Rightarrow> upgrade_plan \<Rightarrow> string \<Rightarrow> upgrade_error option" where
  "backup_boundary_error env plan boundary =
    (if boundary \<noteq> ''migration'' then None
     else if \<not> require_migration_backup (en_now env) plan \<or> pl_initial_head plan = None \<or> pl_initial_sha plan = None
     then Some Upgrade_conflict else en_backup env)"

text \<open>The checks that \<^verbatim>\<open>issue\<close> and \<^verbatim>\<open>consume\<close> share.\<close>

definition activation_error :: "digests \<Rightarrow> upgrade_env \<Rightarrow> operation_row \<Rightarrow> string \<Rightarrow> upgrade_plan \<Rightarrow> upgrade_db \<Rightarrow> upgrade_error option" where
  "activation_error dg env w boundary plan db =
    (let oper = ow_operation w in
     if \<not> verify_fenced plan db
        \<or> \<not> activation_ready dg (en_now env) oper boundary plan (history_of (op_job oper) (op_generation oper) db)
        \<or> \<not> current_schema_ok dg env w plan then Some Upgrade_conflict
     else case backup_boundary_error env plan boundary of
       Some e \<Rightarrow> Some e
     | None \<Rightarrow>
         (case (if op_kind (pl_operation plan) = K_CONTROL_PLANE then en_drain env else None) of
            Some e \<Rightarrow> Some e
          | None \<Rightarrow> if en_authorized env then None else Some Upgrade_forbidden))"

record activation_request =
  ar_generation :: int
  ar_source :: string
  ar_boundary :: string

definition find_grant :: "string \<Rightarrow> int \<Rightarrow> string \<Rightarrow> upgrade_db \<Rightarrow> (uuid \<times> grant_row) option" where
  "find_grant job gen boundary db =
     List.find (\<lambda>g. (gw_job (snd g), gw_generation (snd g), gw_boundary (snd g)) = (job, gen, boundary)) (db_grants db)"

definition grant_of :: "uuid \<Rightarrow> grant_row \<Rightarrow> activation_grant" where
  "grant_of k g = \<lparr>gr_job = gw_job g, gr_generation = gw_generation g, gr_boundary = gw_boundary g,
     gr_id = k, gr_expires_at = gw_expires_at g\<rparr>"

definition issue :: "digests \<Rightarrow> upgrade_env \<Rightarrow> string \<Rightarrow> activation_request \<Rightarrow> upgrade_db \<Rightarrow> activation_grant call" where
  "issue dg env job req db =
    (case dict_get (db_operations db) job of
       None \<Rightarrow> Inl Upgrade_not_found
     | Some w \<Rightarrow>
         (let oper = ow_operation w in
          if ar_generation req \<noteq> op_generation oper \<or> ar_source req \<noteq> op_source_sha oper \<or> op_finished_at oper \<noteq> None
             \<or> op_cancel_requested oper \<or> op_phase oper \<notin> set boundary_phases
             \<or> (ar_boundary req = ''migration'' \<and> op_kind oper \<noteq> K_CONTROL_PLANE)
          then Inl Upgrade_conflict
          else case ow_plan w of
            None \<Rightarrow> Inl Upgrade_conflict
          | Some plan \<Rightarrow>
              (case activation_error dg env w (ar_boundary req) plan db of
                 Some e \<Rightarrow> Inl e
               | None \<Rightarrow>
                   (case find_grant job (op_generation oper) (ar_boundary req) db of
                      Some (k, g) \<Rightarrow>
                        if gw_consumed_at g \<noteq> None then Inl Upgrade_conflict
                        else (let g' = g\<lparr>gw_expires_at := en_later env + seconds 30\<rparr> in
                              Inr (grant_of k g', db\<lparr>db_grants := dict_set k g' (db_grants db)\<rparr>))
                    | None \<Rightarrow>
                        if dict_get (db_grants db) (en_fresh_id env) \<noteq> None then Inl Upgrade_unavailable
                        else (let g' = \<lparr>gw_job = job, gw_generation = op_generation oper, gw_boundary = ar_boundary req,
                                   gw_expires_at = en_later env + seconds 30, gw_consumed_at = None\<rparr> in
                              Inr (grant_of (en_fresh_id env) g', db\<lparr>db_grants := dict_set (en_fresh_id env) g' (db_grants db)\<rparr>))))))"

definition boundary_phase :: "string \<Rightarrow> upgrade_phase" where
  "boundary_phase b = (if b = ''migration'' then P_MIGRATING else P_ACTIVATING)"

text \<open>A repeated \<^verbatim>\<open>consume\<close> is an acknowledgment of the retained intent, and nothing else.\<close>

definition replay_matches :: "digests \<Rightarrow> upgrade_env \<Rightarrow> activation_grant \<Rightarrow> upgrade_receipt \<Rightarrow> grant_row \<Rightarrow> upgrade_operation \<Rightarrow> upgrade_db \<Rightarrow> bool" where
  "replay_matches dg env g r row oper db \<longleftrightarrow>
     gw_expires_at row = gr_expires_at g
   \<and> (gw_job row, gw_generation row, gw_boundary row) = (gr_job g, gr_generation g, gr_boundary g)
   \<and> op_generation oper = gr_generation g \<and> (rc_job r, rc_generation r) = (op_job oper, op_generation oper)
   \<and> rc_phase r = boundary_phase (gr_boundary g) \<and> rc_outcome r = O_INTENT
   \<and> dict_get (db_receipts db) (receipt_id r) = Some (dg_receipt dg r, r)
   \<and> (case gw_consumed_at row of None \<Rightarrow> False
      | Some c \<Rightarrow> c < gw_expires_at row \<and> c \<le> en_now env \<and> rc_occurred_at r \<le> c)"

definition grant_current :: "datetime \<Rightarrow> activation_grant \<Rightarrow> upgrade_receipt \<Rightarrow> grant_row \<Rightarrow> upgrade_operation \<Rightarrow> bool" where
  "grant_current now g r row oper \<longleftrightarrow>
     gw_consumed_at row = None \<and> now < gw_expires_at row \<and> gw_expires_at row = gr_expires_at g
   \<and> (gw_job row, gw_generation row, gw_boundary row) = (gr_job g, gr_generation g, gr_boundary g)
   \<and> op_generation oper = gr_generation g \<and> op_finished_at oper = None \<and> \<not> op_cancel_requested oper
   \<and> (rc_job r, rc_generation r) = (op_job oper, op_generation oper)
   \<and> rc_phase r = boundary_phase (gr_boundary g) \<and> rc_outcome r = O_INTENT
   \<and> 0 \<le> now - rc_occurred_at r \<and> now - rc_occurred_at r \<le> seconds 30"

definition consume :: "digests \<Rightarrow> upgrade_env \<Rightarrow> activation_grant \<Rightarrow> upgrade_receipt \<Rightarrow> upgrade_db \<Rightarrow> unit call" where
  "consume dg env g r db =
    (case dict_get (db_operations db) (gr_job g) of
       None \<Rightarrow> Inl Upgrade_not_found
     | Some w \<Rightarrow>
         (let oper = ow_operation w in
          case dict_get (db_grants db) (gr_id g) of
            None \<Rightarrow> Inl Upgrade_conflict
          | Some row \<Rightarrow>
              if gw_consumed_at row \<noteq> None
              then (if replay_matches dg env g r row oper db then Inr ((), db) else Inl Upgrade_conflict)
              else if \<not> grant_current (en_now env) g r row oper then Inl Upgrade_conflict
              else (case ow_plan w of
                      None \<Rightarrow> Inl Upgrade_conflict
                    | Some plan \<Rightarrow>
                        (case activation_error dg env w (gr_boundary g) plan db of
                           Some e \<Rightarrow> Inl e
                         | None \<Rightarrow>
                             if \<not> (en_later env < gw_expires_at row \<and> 0 \<le> en_later env - rc_occurred_at r
                                   \<and> en_later env - rc_occurred_at r \<le> seconds 30) then Inl Upgrade_conflict
                             else (case append_receipt dg (en_later env) r db of
                                     Inl e \<Rightarrow> Inl e
                                   | Inr (_, db1) \<Rightarrow>
                                       (let w1 = the (dict_get (db_operations db1) (gr_job g)) in
                                        Inr ((), set_row (w1\<lparr>ow_operation := (ow_operation w1)\<lparr>op_phase := boundary_phase (gr_boundary g),
                                                op_updated_at := en_later env\<rparr>, ow_phase := boundary_phase (gr_boundary g)\<rparr>)
                                          (db1\<lparr>db_grants := dict_set (gr_id g) (row\<lparr>gw_consumed_at := Some (en_later env)\<rparr>) (db_grants db1)\<rparr>))))))))"

section \<open>Cancellation\<close>

fun ingest_all :: "digests \<Rightarrow> upgrade_env \<Rightarrow> upgrade_receipt list \<Rightarrow> upgrade_db \<Rightarrow> unit call" where
  "ingest_all dg env [] db = Inr ((), db)"
| "ingest_all dg env (r # rs) db = (case ingest_receipt dg env r db of Inl e \<Rightarrow> Inl e | Inr (_, db') \<Rightarrow> ingest_all dg env rs db')"

definition decision_recorded :: "upgrade_operation \<Rightarrow> upgrade_db \<Rightarrow> bool" where
  "decision_recorded cur db \<longleftrightarrow>
    (case dict_get (db_receipts db) (op_job cur, op_generation cur, op_sequence cur) of
       None \<Rightarrow> False | Some (_, d) \<Rightarrow> rc_phase d = P_COMMITTING \<and> rc_outcome d = O_COMPLETE)"

definition mark_cancelled :: "upgrade_env \<Rightarrow> operation_row \<Rightarrow> upgrade_db \<Rightarrow> upgrade_operation call" where
  "mark_cancelled env w db =
    (let v = (ow_operation w)\<lparr>op_cancel_requested := True, op_reason := Some ''administrator_cancelled'', op_updated_at := en_later env\<rparr> in
     Inr (v, set_row (w\<lparr>ow_operation := v\<rparr>) db))"

text \<open>A Studio node answers with its phase and receipts, which are ingested before the request is recorded.\<close>

definition request_cancel ::
  "digests \<Rightarrow> upgrade_env \<Rightarrow> string \<Rightarrow> (upgrade_phase \<times> upgrade_receipt list) option \<Rightarrow> upgrade_db \<Rightarrow> upgrade_operation call" where
  "request_cancel dg env job node db =
    (case dict_get (db_operations db) job of
       None \<Rightarrow> Inl Upgrade_not_found
     | Some w \<Rightarrow>
         (let cur = ow_operation w in
          if \<not> en_authorized env then Inl Upgrade_forbidden
          else if op_finished_at cur \<noteq> None \<or> op_cancel_requested cur then Inr (cur, db)
          else if op_kind cur = K_CONTROL_PLANE
          then (if \<not> op_cancellation_allowed cur \<or> (op_phase cur = P_COMMITTING \<and> decision_recorded cur db)
                then Inl Upgrade_conflict else mark_cancelled env w db)
          else if op_node cur = None \<or> ow_plan w = None then Inl Upgrade_unavailable
          else (case node of
                  None \<Rightarrow> Inl Upgrade_unavailable
                | Some (ph, rs) \<Rightarrow>
                    (case ingest_all dg env rs db of
                       Inl e \<Rightarrow> Inl e
                     | Inr (_, db1) \<Rightarrow>
                         (let w1 = the (dict_get (db_operations db1) job) in
                          if terminal ph
                          then (if op_finished_at (ow_operation w1) = None then Inl Upgrade_unavailable else Inr (ow_operation w1, db1))
                          else mark_cancelled env w1 db1)))))"

end
