(* ===== verification/Upgrade_Tables.thy ===== *)
theory Upgrade_Tables
  imports Upgrade_Authority
begin

text \<open>
  The upgrade authority as a state machine: every interleaving of its calls from empty tables. The receipts
  of an operation always form a run of the progress protocol, given here as an inductive relation, and what
  the protocol promises about terminal phases and activations carries over to the tables.
\<close>

section \<open>Runs of the progress protocol\<close>

text \<open>A run ends in a phase and has recorded a history; a receipt is either ingested or an activation intent.\<close>

inductive progress :: "digests \<Rightarrow> upgrade_plan \<Rightarrow> upgrade_kind \<Rightarrow> upgrade_phase \<Rightarrow> upgrade_receipt list \<Rightarrow> bool"
  for dg plan kind where
  start: "progress dg plan kind P_ACCEPTED []"
| ingested: "progress dg plan kind (op_phase oper) h \<Longrightarrow> op_kind oper = kind
    \<Longrightarrow> validate_progress dg oper r plan h False ns = None \<Longrightarrow> progress dg plan kind (rc_phase r) (h @ [r])"
| consumed: "progress dg plan kind (op_phase oper) h \<Longrightarrow> op_kind oper = kind
    \<Longrightarrow> activation_ready dg now oper b plan h \<Longrightarrow> rc_phase r = boundary_phase b \<Longrightarrow> rc_outcome r = O_INTENT
    \<Longrightarrow> progress dg plan kind (boundary_phase b) (h @ [r])"

inductive_cases progress_snocE: "progress dg plan kind ph (h @ [r])"

lemma has_receipt_append [simp]:
  "has_receipt ph out (h @ [r]) \<longleftrightarrow> has_receipt ph out h \<or> rc_phase r = ph \<and> rc_outcome r = out"
  by (auto simp: has_receipt_def)

lemma has_receipt_Nil [simp]: "\<not> has_receipt ph out []"
  by (simp add: has_receipt_def)

definition early_phases :: "upgrade_phase list" where
  "early_phases = [P_ACCEPTED, P_PREFLIGHT, P_FENCING, P_DRAINING, P_STAGED, P_SMOKE_BEFORE]"

definition candidate_phases :: "upgrade_phase list" where
  "candidate_phases = [P_ACTIVATING, P_VERIFYING, P_QUALIFYING, P_COMMITTING, P_SUCCEEDED]"

text \<open>Where an operation can be, by what it has already consumed.\<close>

definition located :: "upgrade_phase \<Rightarrow> upgrade_receipt list \<Rightarrow> bool" where
  "located ph h \<longleftrightarrow>
     (ph \<in> set early_phases \<longrightarrow> \<not> migrated h \<and> \<not> activated h)
   \<and> (ph = P_MIGRATING \<longrightarrow> \<not> activated h)
   \<and> (ph \<in> set candidate_phases \<longrightarrow> activated h)
   \<and> (ph \<in> {P_FAILED_UNCHANGED, P_CANCELLED_UNCHANGED} \<longrightarrow> \<not> activated h)"

lemma permitted_cases:
  assumes "q \<in> set (permitted ph h)"
  obtains "q \<in> set (forward ph)" | "q = ph" | "q = P_RECOVERY_REQUIRED"
  | "activated h" "q = P_RESTORING" | "\<not> activated h" "q = P_FAILED_UNCHANGED \<or> q = P_CANCELLED_UNCHANGED"
  using assms by (auto simp: permitted_def split: if_splits)

lemma forward_early:
  "q \<in> set (forward ph) \<Longrightarrow> q \<in> set early_phases \<Longrightarrow> ph \<in> set early_phases"
  "P_MIGRATING \<in> set (forward ph) \<Longrightarrow> ph = P_STAGED"
  "P_FAILED_UNCHANGED \<notin> set (forward ph)" "P_CANCELLED_UNCHANGED \<notin> set (forward ph)"
  by (cases ph; auto simp: early_phases_def)+

lemma located_ingest:
  assumes l: "located (op_phase oper) h" and n: "\<not> transition_error dg oper r plan h False"
  shows "located (rc_phase r) (h @ [r])"
proof -
  let ?ph = "op_phase oper" and ?q = "rc_phase r"
  have perm: "?q \<in> set (permitted ?ph h)" and nt: "\<not> terminal ?ph"
    and act: "?q \<in> {P_ACTIVATING, P_MIGRATING} \<Longrightarrow> rc_outcome r \<noteq> O_INTENT \<and> has_receipt ?q O_INTENT h"
    and cand: "?q \<in> {P_VERIFYING, P_QUALIFYING, P_COMMITTING, P_SUCCEEDED} \<Longrightarrow> activated h"
    using n by (auto simp: transition_error_def)
  have intent: "\<not> (?q = P_ACTIVATING \<and> rc_outcome r = O_INTENT)" "\<not> (?q = P_MIGRATING \<and> rc_outcome r = O_INTENT)"
    using act by auto
  have ne: "P_RECOVERY_REQUIRED \<notin> set early_phases" "P_RESTORING \<notin> set early_phases"
    "P_FAILED_UNCHANGED \<notin> set early_phases" "P_CANCELLED_UNCHANGED \<notin> set early_phases"
    by (simp_all add: early_phases_def)
  have "?ph \<in> set early_phases" if "?q \<in> set early_phases"
    by (rule permitted_cases [OF perm]) (use that ne forward_early(1) [of ?q ?ph] in auto)
  then have "?q \<in> set early_phases \<longrightarrow> \<not> migrated h \<and> \<not> activated h"
    using l by (auto simp: located_def)
  moreover have "?q = P_MIGRATING \<longrightarrow> \<not> activated h"
    by (rule permitted_cases [OF perm])
      (use l forward_early(2) in \<open>auto simp: located_def early_phases_def\<close>)
  moreover have "?q \<in> set candidate_phases \<longrightarrow> activated h"
    using act cand by (auto simp: candidate_phases_def)
  moreover have "?q \<in> {P_FAILED_UNCHANGED, P_CANCELLED_UNCHANGED} \<longrightarrow> \<not> activated h"
    by (rule permitted_cases [OF perm]) (use nt forward_early(3,4) in \<open>auto simp: terminal_phases_def\<close>)
  ultimately show ?thesis using intent by (auto simp: located_def)
qed

lemma boundary_not_activated:
  assumes "located ph h" "ph \<in> set boundary_phases"
  shows "\<not> activated h" "ph \<noteq> P_MIGRATING \<Longrightarrow> \<not> migrated h"
  using assms by (auto simp: located_def boundary_phases_def early_phases_def)

lemma progress_located: "progress dg plan kind ph h \<Longrightarrow> located ph h"
proof (induction rule: progress.induct)
  case start
  then show ?case by (simp add: located_def early_phases_def candidate_phases_def)
next
  case (ingested oper h r ns)
  then show ?case using located_ingest progress_transition by blast
next
  case (consumed oper h now b r)
  have "op_phase oper \<in> set boundary_phases"
    using consumed.hyps by (simp add: activation_ready_def)
  from boundary_not_activated [OF consumed.IH this] consumed.hyps show ?case
    by (auto simp: located_def boundary_phase_def early_phases_def candidate_phases_def)
qed

definition intents :: "upgrade_phase \<Rightarrow> upgrade_receipt list \<Rightarrow> nat" where
  "intents ph h = length (filter (\<lambda>r. rc_phase r = ph \<and> rc_outcome r = O_INTENT) h)"

lemma intents_none: "\<not> has_receipt ph O_INTENT h \<Longrightarrow> intents ph h = 0"
  by (auto simp: intents_def has_receipt_def list_ex_iff filter_empty_conv)

lemma progress_intents:
  "progress dg plan kind ph h \<Longrightarrow> intents P_ACTIVATING h \<le> 1 \<and> intents P_MIGRATING h \<le> 1"
proof (induction rule: progress.induct)
  case start
  then show ?case by (simp add: intents_def)
next
  case (ingested oper h r ns)
  have "rc_phase r \<in> {P_ACTIVATING, P_MIGRATING} \<Longrightarrow> rc_outcome r \<noteq> O_INTENT"
    using progress_transition [OF ingested.hyps(3)] by (auto simp: transition_error_def)
  then show ?case using ingested.IH by (auto simp: intents_def)
next
  case (consumed oper h now b r)
  have b: "op_phase oper \<in> set boundary_phases" and l: "located (op_phase oper) h"
    using consumed.hyps progress_located by (simp_all add: activation_ready_def)
  have "intents P_ACTIVATING h = 0"
    using boundary_not_activated(1) [OF l b] by (rule intents_none)
  moreover have "b = ''migration'' \<Longrightarrow> intents P_MIGRATING h = 0"
  proof -
    assume "b = ''migration''"
    then have "op_phase oper \<noteq> P_MIGRATING"
      using consumed.hyps(3) by (auto simp: activation_ready_def Let_def split: option.splits upgrade_kind.splits if_splits)
    from boundary_not_activated(2) [OF l b this] show ?thesis by (rule intents_none)
  qed
  ultimately show ?case using consumed.IH consumed.hyps(4,5) by (auto simp: intents_def boundary_phase_def)
qed

lemma progress_last: "progress dg plan kind ph h \<Longrightarrow> h \<noteq> [] \<Longrightarrow> rc_phase (last h) = ph"
  by (induction rule: progress.induct) simp_all

lemma progress_prefix_live:
  "progress dg plan kind ph h \<Longrightarrow> x \<in> set (butlast h) \<Longrightarrow> \<not> terminal (rc_phase x)"
proof (induction arbitrary: x rule: progress.induct)
  case (ingested oper h r ns)
  have "\<not> terminal (op_phase oper)"
    using progress_transition [OF ingested.hyps(3)] by (simp add: transition_error_def)
  moreover have "x \<in> set h" using ingested.prems by simp
  ultimately show ?case
    using ingested.IH progress_last [OF ingested.hyps(1)] by (cases h rule: rev_cases) auto
next
  case (consumed oper h now b r)
  have "\<not> terminal (op_phase oper)"
    using consumed.hyps(3) by (auto simp: activation_ready_def boundary_phases_def terminal_phases_def)
  moreover have "x \<in> set h" using consumed.prems by simp
  ultimately show ?case
    using consumed.IH progress_last [OF consumed.hyps(1)] by (cases h rule: rev_cases) auto
qed simp

lemma progress_terminalE:
  assumes "progress dg plan kind ph h" "terminal ph"
  obtains h0 r oper ns where "h = h0 @ [r]" "rc_phase r = ph" "op_kind oper = kind"
    "validate_progress dg oper r plan h0 False ns = None" "progress dg plan kind (op_phase oper) h0"
  using assms
proof (cases rule: progress.cases)
  case (consumed oper h now b r)
  then show ?thesis using assms(2) by (auto simp: boundary_phase_def terminal_phases_def split: if_splits)
qed (auto simp: terminal_phases_def)

text \<open>A release was observed serving the plan's model, in a receipt that is part of the history.\<close>

definition served :: "upgrade_plan \<Rightarrow> upgrade_phase \<Rightarrow> upgrade_release \<Rightarrow> upgrade_receipt list \<Rightarrow> bool" where
  "served plan ph rel h \<longleftrightarrow>
     list_ex (\<lambda>v. rc_phase v = ph \<and> rc_outcome v = O_COMPLETE \<and> rc_observed v = Some (rl_sha rel)
        \<and> (case rc_evidence v of None \<Rightarrow> False | Some e \<Rightarrow> serving_proof plan e)) h"

lemma verified_served:
  assumes "\<not> verified_error oper r plan h e"
  shows "served plan (if succeeds oper r then P_VERIFYING else P_VERIFYING_SOURCE) (expected_release oper r plan) h"
proof -
  obtain v where v: "verification (if succeeds oper r then P_VERIFYING else P_VERIFYING_SOURCE)
      (rl_sha (expected_release oper r plan)) h = Some v"
    and b: "same_binding (the (rc_evidence v)) e" and s: "serving_proof plan e"
    using assms by (auto simp: verified_error_def Let_def split: option.splits)
  have "serving_proof plan (the (rc_evidence v))"
    using b s by (simp add: same_binding_def serving_proof_def)
  then show ?thesis
    using verificationD [OF v] by (auto simp: served_def list_ex_iff)
qed

lemma served_append: "served plan ph rel h \<Longrightarrow> served plan ph rel (h @ xs)"
  by (auto simp: served_def list_ex_iff)

lemma progress_terminal:
  assumes p: "progress dg plan kind ph h" and t: "terminal ph"
  shows "(ph = P_SUCCEEDED \<longrightarrow> activated h \<and> served plan P_VERIFYING (pl_target plan) h)
    \<and> (ph = P_ROLLED_BACK \<longrightarrow> served plan P_VERIFYING_SOURCE (pl_source plan) h)
    \<and> (activated h \<longrightarrow> ph = P_SUCCEEDED \<or> ph = P_ROLLED_BACK)
    \<and> rc_observed (last h) = Some (rl_sha (if ph = P_SUCCEEDED then pl_target plan else pl_source plan))"
proof (rule progress_terminalE [OF p t])
  fix h0 r oper ns
  assume h: "h = h0 @ [r]" and ph: "rc_phase r = ph"
    and v: "validate_progress dg oper r plan h0 False ns = None"
  have sd: "\<not> selection_decision oper r" and su: "succeeds oper r \<longleftrightarrow> ph = P_SUCCEEDED"
    using t ph by (auto simp: selection_decision_def succeeds_def terminal_phases_def)
  obtain e where ev: "\<not> evidence_error oper r plan h0 e"
    and ver: "ph \<notin> {P_FAILED_UNCHANGED, P_CANCELLED_UNCHANGED} \<Longrightarrow> \<not> verified_error oper r plan h0 e"
    using progress_decision [OF v] t ph by auto
  have obs: "rc_observed r = Some (rl_sha (expected_release oper r plan))"
    using ev by (simp add: evidence_error_def Let_def)
  have l: "located ph h" using progress_located [OF p] .
  have "ph = P_SUCCEEDED \<longrightarrow> activated h \<and> served plan P_VERIFYING (pl_target plan) h"
    using l ver verified_served [of oper r plan h0 e] su h
    by (auto simp: located_def candidate_phases_def expected_release_def served_append)
  moreover have "ph = P_ROLLED_BACK \<longrightarrow> served plan P_VERIFYING_SOURCE (pl_source plan) h"
    using ver verified_served [of oper r plan h0 e] su h
    by (auto simp: expected_release_def served_append)
  moreover have "activated h \<longrightarrow> ph = P_SUCCEEDED \<or> ph = P_ROLLED_BACK"
    using l t by (auto simp: located_def terminal_phases_def)
  ultimately show ?thesis
    using obs h su by (simp add: expected_release_def)
qed

section \<open>Tables\<close>

definition seq_ok :: "upgrade_operation \<Rightarrow> upgrade_receipt list \<Rightarrow> bool" where
  "seq_ok oper h \<longleftrightarrow> map rc_sequence h = map int [1..<Suc (length h)] \<and> op_sequence oper = int (length h)"

definition row_ok :: "digests \<Rightarrow> upgrade_db \<Rightarrow> string \<Rightarrow> operation_row \<Rightarrow> bool" where
  "row_ok dg db job w \<longleftrightarrow>
    (let oper = ow_operation w; h = history_of job (op_generation oper) db in
     op_job oper = job \<and> ow_phase w = op_phase oper \<and> ow_active w = (\<not> terminal (op_phase oper))
   \<and> (op_finished_at oper \<noteq> None) = terminal (op_phase oper) \<and> seq_ok oper h
   \<and> (case ow_plan w of
        None \<Rightarrow> h = [] \<and> op_phase oper = P_ACCEPTED
      | Some plan \<Rightarrow> progress dg plan (op_kind oper) (op_phase oper) h))"

definition receipts_ok :: "digests \<Rightarrow> upgrade_db \<Rightarrow> bool" where
  "receipts_ok dg db \<longleftrightarrow> dict_ok (db_receipts db)
     \<and> (\<forall>k sha r. (k, sha, r) \<in> set (db_receipts db) \<longrightarrow> receipt_id r = k \<and> sha = dg_receipt dg r
          \<and> (\<exists>w. dict_get (db_operations db) (rc_job r) = Some w \<and> op_generation (ow_operation w) = rc_generation r))"

definition db_ok :: "digests \<Rightarrow> upgrade_db \<Rightarrow> bool" where
  "db_ok dg db \<longleftrightarrow> dict_ok (db_operations db) \<and> receipts_ok dg db
     \<and> (\<forall>job w. dict_get (db_operations db) job = Some w \<longrightarrow> row_ok dg db job w)
     \<and> (\<forall>j1 j2 w1 w2. dict_get (db_operations db) j1 = Some w1 \<and> ow_active w1
          \<and> dict_get (db_operations db) j2 = Some w2 \<and> ow_active w2 \<longrightarrow> j1 = j2)"

lemma db_okD:
  assumes "db_ok dg db"
  shows "dict_ok (db_operations db)" "receipts_ok dg db"
    "\<And>job w. dict_get (db_operations db) job = Some w \<Longrightarrow> row_ok dg db job w"
    "\<And>j1 j2 w1 w2. dict_get (db_operations db) j1 = Some w1 \<Longrightarrow> ow_active w1
       \<Longrightarrow> dict_get (db_operations db) j2 = Some w2 \<Longrightarrow> ow_active w2 \<Longrightarrow> j1 = j2"
  using assms unfolding db_ok_def by blast+

lemma sort_key_snoc:
  assumes "\<And>y. y \<in> set xs \<Longrightarrow> f y \<le> f x"
  shows "sort_key f (xs @ [x]) = sort_key f xs @ [x]"
proof (rule properties_for_sort_key)
  fix k
  show "filter (\<lambda>y. f k = f y) (sort_key f xs @ [x]) = filter (\<lambda>y. f k = f y) (xs @ [x])"
    using sort_key_stable [of f "f k" xs] by (simp add: eq_commute)
  show "sorted (map f (sort_key f xs @ [x]))"
    using assms by (auto simp: sorted_append)
qed simp

lemma receipt_rows_frame:
  assumes "db_receipts db' = db_receipts db"
  shows "receipt_rows job gen db' = receipt_rows job gen db" "history_of job gen db' = history_of job gen db"
  using assms by (simp_all add: receipt_rows_def history_of_def)

lemma set_row_simps [simp]:
  "db_receipts (set_row w db) = db_receipts db" "db_grants (set_row w db) = db_grants db"
  "db_maintenance (set_row w db) = db_maintenance db" "db_releases (set_row w db) = db_releases db"
  "db_operations (set_row w db) = dict_set (op_job (ow_operation w)) w (db_operations db)"
  by (simp_all add: set_row_def)

lemma history_set_row [simp]: "history_of job gen (set_row w db) = history_of job gen db"
  by (rule receipt_rows_frame) simp

text \<open>Replacing one row by another that is in order keeps the tables in order.\<close>

lemma db_ok_set_row:
  assumes ok: "db_ok dg db" and w: "dict_get (db_operations db) job = Some w"
    and new: "op_job (ow_operation w') = job" "op_generation (ow_operation w') = op_generation (ow_operation w)"
      "row_ok dg db job w'" "ow_active w' \<longrightarrow> ow_active w"
  shows "db_ok dg (set_row w' db)"
proof -
  have row: "row_ok dg (set_row w' db) j x" if "row_ok dg db j x" for j x
    using that by (simp add: row_ok_def)
  have "receipts_ok dg (set_row w' db)"
    using ok w new(1,2) by (fastforce simp: db_ok_def receipts_ok_def)
  then show ?thesis
    using ok w new row unfolding db_ok_def by (auto split: if_splits)
qed

lemma dict_set_twice [simp]: "dict_set k v (dict_set k u d) = dict_set k v d"
  by (induction d) auto

lemma db_ok_cong:
  assumes "db_operations db' = db_operations db" "db_receipts db' = db_receipts db"
  shows "db_ok dg db' = db_ok dg db"
  using receipt_rows_frame [OF assms(2)] by (simp add: db_ok_def receipts_ok_def row_ok_def assms)

lemma history_row:
  assumes "receipts_ok dg db" "x \<in> set (receipt_rows job gen db)"
  shows "fst x = (job, gen, rc_sequence (snd (snd x)))"
proof -
  obtain k sha r where x: "x = (k, sha, r)" by (rule prod_cases3)
  then have "(k, sha, r) \<in> set (db_receipts db)" and k: "fst k = job" "fst (snd k) = gen"
    using assms(2) by (auto simp: receipt_rows_def)
  then have "receipt_id r = k" using assms(1) unfolding receipts_ok_def by blast
  then show ?thesis using x k by (auto simp: receipt_id_def)
qed

lemma history_append:
  fixes sha :: string
  assumes ok: "receipts_ok dg db" and s: "seq_ok oper (history_of job gen db)"
    and r: "rc_job r = job" "rc_generation r = gen" "rc_sequence r = op_sequence oper + 1"
    and fresh: "dict_get (db_receipts db) (receipt_id r) = None"
  defines "db' \<equiv> db\<lparr>db_receipts := dict_set (receipt_id r) (sha, r) (db_receipts db)\<rparr>"
  shows "history_of job gen db' = history_of job gen db @ [r]"
    "(job2, gen2) \<noteq> (job, gen) \<Longrightarrow> history_of job2 gen2 db' = history_of job2 gen2 db"
proof -
  have rec: "db_receipts db' = db_receipts db @ [(receipt_id r, sha, r)]"
    using dict_set_fresh [OF fresh] by (simp add: db'_def)
  have id: "receipt_id r = (job, gen, rc_sequence r)" using r by (simp add: receipt_id_def)
  let ?P = "\<lambda>kr. fst (fst kr) = job \<and> fst (snd (fst kr)) = gen"
  have le: "snd (snd (fst x)) \<le> rc_sequence r" if x: "x \<in> set (filter ?P (db_receipts db))" for x
  proof -
    have row: "x \<in> set (receipt_rows job gen db)" using x by (simp add: receipt_rows_def)
    then have "rc_sequence (snd (snd x)) \<in> set (map rc_sequence (history_of job gen db))"
      by (auto simp: history_of_def)
    moreover have "set (map rc_sequence (history_of job gen db)) = int ` {1..<Suc (length (history_of job gen db))}"
      using s by (simp only: seq_ok_def set_map set_upt)
    ultimately have "rc_sequence (snd (snd x)) \<le> int (length (history_of job gen db))"
      by auto
    then show ?thesis using history_row [OF ok row] s r(3) by (simp add: seq_ok_def)
  qed
  have "receipt_rows job gen db' = receipt_rows job gen db @ [(receipt_id r, sha, r)]"
    unfolding receipt_rows_def rec
    using sort_key_snoc [of "filter ?P (db_receipts db)" "\<lambda>kr. snd (snd (fst kr))" "(receipt_id r, sha, r)"] le id by simp
  then show "history_of job gen db' = history_of job gen db @ [r]" by (simp add: history_of_def)
  show "history_of job2 gen2 db' = history_of job2 gen2 db" if "(job2, gen2) \<noteq> (job, gen)"
    using that id by (auto simp: history_of_def receipt_rows_def rec)
qed

text \<open>The tables after a receipt was recorded and the operation moved on.\<close>

lemma record_receipt:
  assumes ok: "db_ok dg db" and w: "dict_get (db_operations db) job = Some w" and plan: "ow_plan w = Some plan"
    and r: "rc_job r = job" "rc_generation r = op_generation (ow_operation w)"
      "rc_sequence r = op_sequence (ow_operation w) + 1" "dict_get (db_receipts db) (receipt_id r) = None"
    and w': "op_job (ow_operation w') = job" "op_generation (ow_operation w') = op_generation (ow_operation w)"
      "op_kind (ow_operation w') = op_kind (ow_operation w)" "op_sequence (ow_operation w') = rc_sequence r"
      "ow_plan w' = Some plan" "ow_phase w' = op_phase (ow_operation w')"
      "ow_active w' = (\<not> terminal (op_phase (ow_operation w')))"
      "(op_finished_at (ow_operation w') \<noteq> None) = terminal (op_phase (ow_operation w'))" "ow_active w"
    and prog: "progress dg plan (op_kind (ow_operation w)) (op_phase (ow_operation w'))
      (history_of job (op_generation (ow_operation w)) db @ [r])"
    and db': "db_operations db' = dict_set job w' (db_operations db)"
      "db_receipts db' = dict_set (receipt_id r) (dg_receipt dg r, r) (db_receipts db)"
  shows "db_ok dg db'"
proof -
  let ?sha = "dg_receipt dg r"
  let ?h = "history_of job (op_generation (ow_operation w)) db"
  let ?db = "db\<lparr>db_receipts := dict_set (receipt_id r) (?sha, r) (db_receipts db)\<rparr>"
  have rok: "receipts_ok dg db" and rows: "\<And>j x. dict_get (db_operations db) j = Some x \<Longrightarrow> row_ok dg db j x"
    using ok by (auto simp: db_ok_def)
  have sq: "seq_ok (ow_operation w) ?h" using rows [OF w] by (simp add: row_ok_def Let_def)
  note ha = history_append [where sha = ?sha, OF rok sq r(1,2,3,4)]
  have hist: "history_of j g db' = history_of j g ?db" for j g
    by (rule receipt_rows_frame) (simp add: db'(2))
  have "row_ok dg db' job w'"
    using w' prog sq r(3) by (simp add: row_ok_def Let_def hist ha(1) seq_ok_def)
  moreover have "row_ok dg db' j x" if "j \<noteq> job" "dict_get (db_operations db) j = Some x" for j x
  proof -
    have "history_of j g db' = history_of j g db" for g
      using hist ha(2) that(1) by simp
    then show ?thesis using rows [OF that(2)] by (simp add: row_ok_def)
  qed
  ultimately have "row_ok dg db' j x" if "dict_get (db_operations db') j = Some x" for j x
    using that by (auto simp: db'(1) split: if_splits)
  moreover have "receipts_ok dg db'"
  proof -
    have "set (db_receipts db') \<subseteq> insert (receipt_id r, ?sha, r) (set (db_receipts db))"
      unfolding db'(2) by (rule set_dict_set_subset)
    moreover have "\<exists>x. dict_get (db_operations db') j = Some x \<and> op_generation (ow_operation x) = g"
      if "dict_get (db_operations db) j = Some y" "op_generation (ow_operation y) = g" for j y g
      using that w w'(2) by (auto simp: db'(1))
    ultimately show ?thesis
      using rok w r(1,2) w'(2) unfolding receipts_ok_def db'(2) by (fastforce simp: db'(1))
  qed
  moreover have "dict_ok (db_operations db')" using ok by (simp add: db_ok_def db'(1))
  moreover have "j1 = j2" if "dict_get (db_operations db') j1 = Some x1" "ow_active x1"
      "dict_get (db_operations db') j2 = Some x2" "ow_active x2" for j1 j2 x1 x2
  proof -
    have "\<exists>y. dict_get (db_operations db) j = Some y \<and> ow_active y" if "dict_get (db_operations db') j = Some x" "ow_active x" for j x
      using that w w'(9) by (auto simp: db'(1) split: if_splits)
    then show ?thesis using that db_okD(4) [OF ok] by metis
  qed
  ultimately show ?thesis unfolding db_ok_def by blast
qed

lemma append_receiptE:
  assumes "append_receipt dg now r db = Inr (b, db1)"
  obtains (replay) "\<not> b" "db1 = db" "dict_get (db_receipts db) (receipt_id r) \<noteq> None"
  | (fresh) w where "b" "dict_get (db_operations db) (rc_job r) = Some w" "op_generation (ow_operation w) = rc_generation r"
      "dict_get (db_receipts db) (receipt_id r) = None" "rc_sequence r = op_sequence (ow_operation w) + 1"
      "db1 = set_row (w\<lparr>ow_operation := (ow_operation w)\<lparr>op_sequence := rc_sequence r, op_updated_at := now\<rparr>\<rparr>)
         (db\<lparr>db_receipts := dict_set (receipt_id r) (dg_receipt dg r, r) (db_receipts db)\<rparr>)"
  using assms by (auto simp: append_receipt_def Let_def split: option.splits if_splits prod.splits)

lemma progressed_simps [simp]:
  "op_job (progressed now r c) = op_job c" "op_generation (progressed now r c) = op_generation c"
  "op_kind (progressed now r c) = op_kind c" "op_sequence (progressed now r c) = op_sequence c"
  "op_phase (progressed now r c) = rc_phase r"
  "op_finished_at (progressed now r c) = (if terminal (rc_phase r) then Some now else op_finished_at c)"
  by (auto simp: progressed_def Let_def)

lemma ingest_errorD:
  assumes "ingest_error dg env w plan r db = None" "seq_ok (ow_operation w) (history_of (op_job (ow_operation w)) (op_generation (ow_operation w)) db)"
  obtains ns where "validate_progress dg (ow_operation w) r plan (history_of (op_job (ow_operation w)) (op_generation (ow_operation w)) db) False ns = None"
proof -
  let ?h = "history_of (op_job (ow_operation w)) (op_generation (ow_operation w)) db"
  have "length (take 4097 ?h) < 4096"
    using assms(1) by (auto simp: ingest_error_def Let_def split: if_splits)
  then have "take 4097 ?h = ?h" by simp
  then show ?thesis
    using assms(1) that by (auto simp: ingest_error_def Let_def split: if_splits option.splits)
qed

lemma ingest_ok:
  assumes ok: "db_ok dg db" and i: "ingest_receipt dg env r db = Inr (b, db')"
  shows "db_ok dg db'"
proof -
  obtain w where w: "dict_get (db_operations db) (rc_job r) = Some w"
    using i by (auto simp: ingest_receipt_def split: if_splits option.splits)
  note row = db_okD(3) [OF ok w]
  show ?thesis
  proof (cases "dict_get (db_receipts db) (receipt_id r)")
    case (Some x)
    then have "append_receipt dg (en_now env) r db = Inr (b, db')"
      using i w by (simp add: ingest_receipt_def split: if_splits)
    then show ?thesis using Some ok by (cases rule: append_receiptE) auto
  next
    case None
    then obtain plan db1 where plan: "ow_plan w = Some plan" and e: "ingest_error dg env w plan r db = None"
      and a: "append_receipt dg (en_now env) r db = Inr (True, db1)"
      and db': "db' = set_row ((the (dict_get (db_operations db1) (rc_job r)))\<lparr>ow_operation := progressed (en_later env) r
            (ow_operation (the (dict_get (db_operations db1) (rc_job r)))), ow_phase := rc_phase r,
            ow_active := (ow_active (the (dict_get (db_operations db1) (rc_job r))) \<and> \<not> terminal (rc_phase r))\<rparr>)
          (db1\<lparr>db_ineligible := db_ineligible db1 @ source_ineligible (ow_operation w) plan r\<rparr>)"
      using i w by (auto simp: ingest_receipt_def Let_def split: if_splits option.splits sum.splits bool.splits
          elim: append_receiptE)
    have job: "op_job (ow_operation w) = rc_job r" using row by (simp add: row_ok_def Let_def)
    have sq: "seq_ok (ow_operation w) (history_of (rc_job r) (op_generation (ow_operation w)) db)"
      and pr: "progress dg plan (op_kind (ow_operation w)) (op_phase (ow_operation w)) (history_of (rc_job r) (op_generation (ow_operation w)) db)"
      and act: "ow_active w = (\<not> terminal (op_phase (ow_operation w)))"
        "(op_finished_at (ow_operation w) \<noteq> None) = terminal (op_phase (ow_operation w))"
      using row plan by (simp_all add: row_ok_def Let_def)
    obtain ns where v: "validate_progress dg (ow_operation w) r plan (history_of (rc_job r) (op_generation (ow_operation w)) db) False ns = None"
      using ingest_errorD [OF e] sq job by auto
    have live: "\<not> terminal (op_phase (ow_operation w))"
      using progress_transition [OF v] by (simp add: transition_error_def)
    from a show ?thesis
    proof (cases rule: append_receiptE)
      case (fresh w0)
      then have w0: "w0 = w" using w by simp
      let ?w1 = "w\<lparr>ow_operation := (ow_operation w)\<lparr>op_sequence := rc_sequence r, op_updated_at := en_now env\<rparr>\<rparr>"
      let ?w' = "?w1\<lparr>ow_operation := progressed (en_later env) r (ow_operation ?w1), ow_phase := rc_phase r,
            ow_active := (ow_active w \<and> \<not> terminal (rc_phase r))\<rparr>"
      have get: "the (dict_get (db_operations db1) (rc_job r)) = ?w1"
        using fresh(6) w0 job by simp
      show ?thesis
      proof (rule record_receipt [OF ok w plan _ _ _ fresh(4), where w' = ?w'])
        show "progress dg plan (op_kind (ow_operation w)) (op_phase (ow_operation ?w'))
            (history_of (rc_job r) (op_generation (ow_operation w)) db @ [r])"
          using progress.ingested [OF pr refl v] by simp
        show "db_operations db' = dict_set (rc_job r) ?w' (db_operations db)"
          unfolding db' get using fresh(6) w0 job by simp
        show "db_receipts db' = dict_set (receipt_id r) (dg_receipt dg r, r) (db_receipts db)"
          unfolding db' get using fresh(6) w0 by simp
      qed (use fresh w0 job plan act live in auto)
    qed auto
  qed
qed

lemma consumeE:
  assumes "consume dg env g r db = Inr ((), db')"
  obtains (replay) "db' = db"
  | (fresh) w row plan b db1 where "dict_get (db_operations db) (gr_job g) = Some w" "dict_get (db_grants db) (gr_id g) = Some row"
      "ow_plan w = Some plan" "grant_current (en_now env) g r row (ow_operation w)"
      "activation_error dg env w (gr_boundary g) plan db = None"
      "append_receipt dg (en_later env) r db = Inr (b, db1)" "en_later env < gw_expires_at row"
      "db' = set_row ((the (dict_get (db_operations db1) (gr_job g)))\<lparr>ow_operation :=
            (ow_operation (the (dict_get (db_operations db1) (gr_job g))))\<lparr>op_phase := boundary_phase (gr_boundary g),
              op_updated_at := en_later env\<rparr>, ow_phase := boundary_phase (gr_boundary g)\<rparr>)
          (db1\<lparr>db_grants := dict_set (gr_id g) (row\<lparr>gw_consumed_at := Some (en_later env)\<rparr>) (db_grants db1)\<rparr>)"
proof -
  obtain w row where w: "dict_get (db_operations db) (gr_job g) = Some w" "dict_get (db_grants db) (gr_id g) = Some row"
    using assms by (auto simp: consume_def Let_def split: option.splits)
  show ?thesis
  proof (cases "gw_consumed_at row = None")
    case False
    then show ?thesis using assms w replay by (auto simp: consume_def Let_def split: if_splits)
  next
    case True
    then have gc: "grant_current (en_now env) g r row (ow_operation w)"
      using assms w by (auto simp: consume_def Let_def split: if_splits)
    obtain plan where p: "ow_plan w = Some plan"
      using assms w True gc by (auto simp: consume_def Let_def split: option.splits)
    have ae: "activation_error dg env w (gr_boundary g) plan db = None"
      using assms w True gc p by (auto simp: consume_def Let_def split: option.splits)
    have t: "en_later env < gw_expires_at row \<and> 0 \<le> en_later env - rc_occurred_at r \<and> en_later env - rc_occurred_at r \<le> seconds 30"
      using assms w True gc p ae by (auto simp: consume_def Let_def split: if_splits)
    obtain b db1 where a: "append_receipt dg (en_later env) r db = Inr (b, db1)"
      using assms w True gc p ae t by (auto simp: consume_def Let_def split: sum.splits)
    show ?thesis
      by (rule fresh [OF w p gc ae a]) (use assms w True gc p ae t a in \<open>simp_all add: consume_def Let_def\<close>)
  qed
qed

text \<open>An intent that the grant names is never recorded yet: an ingested receipt cannot be one.\<close>

lemma activation_errorD:
  assumes "activation_error dg env w b plan db = None"
  shows "activation_ready dg (en_now env) (ow_operation w) b plan (history_of (op_job (ow_operation w)) (op_generation (ow_operation w)) db)"
    "verify_fenced plan db" "en_authorized env"
  using assms by (auto simp: activation_error_def Let_def split: if_splits option.splits)

text \<open>Idealised collision resistance of the receipt digest.\<close>

definition collision_free :: "digests \<Rightarrow> bool" where
  "collision_free dg \<longleftrightarrow> (\<forall>r s. dg_receipt dg r = dg_receipt dg s \<longrightarrow> r = s)"

lemma recorded_in_history:
  assumes ok: "receipts_ok dg db" and cf: "collision_free dg"
    and rec: "dict_get (db_receipts db) (receipt_id r) = Some (dg_receipt dg r, x)"
  shows "r \<in> set (history_of (rc_job r) (rc_generation r) db)"
proof -
  have m: "(receipt_id r, dg_receipt dg r, x) \<in> set (db_receipts db)" using rec by (rule map_of_SomeD)
  then have "dg_receipt dg r = dg_receipt dg x" using ok unfolding receipts_ok_def by blast
  then have "x = r" using cf unfolding collision_free_def by metis
  then show ?thesis using m by (force simp: history_of_def receipt_rows_def receipt_id_def)
qed

lemma append_replayD:
  assumes "append_receipt dg now r db = Inr (False, db1)"
  shows "db1 = db" "\<exists>x. dict_get (db_receipts db) (receipt_id r) = Some (dg_receipt dg r, x)"
  using assms by (auto simp: append_receipt_def Let_def split: option.splits if_splits prod.splits)

lemma intent_not_recorded:
  assumes l: "located (op_phase oper) h" and a: "activation_ready dg now oper b plan h"
  shows "\<not> has_receipt (boundary_phase b) O_INTENT h"
proof -
  have bp: "op_phase oper \<in> set boundary_phases" using a by (simp add: activation_ready_def)
  have "op_phase oper \<noteq> P_MIGRATING" if "b = ''migration''"
    using a that by (auto simp: activation_ready_def Let_def split: option.splits upgrade_kind.splits if_splits)
  then show ?thesis
    using boundary_not_activated [OF l bp] by (auto simp: boundary_phase_def)
qed

lemma consume_ok:
  assumes ok: "db_ok dg db" and cf: "collision_free dg" and c: "consume dg env g r db = Inr ((), db')"
  shows "db_ok dg db'"
  using c
proof (cases rule: consumeE)
  case replay
  then show ?thesis using ok by simp
next
  case (fresh w row plan b db1)
  let ?oper = "ow_operation w" and ?q = "boundary_phase (gr_boundary g)"
  note row = db_okD(3) [OF ok fresh(1)]
  have r: "rc_job r = gr_job g" "rc_generation r = op_generation ?oper" "rc_phase r = ?q" "rc_outcome r = O_INTENT"
      "op_job ?oper = gr_job g" "op_finished_at ?oper = None"
    using fresh(4) row by (auto simp: grant_current_def row_ok_def Let_def)
  let ?h = "history_of (gr_job g) (op_generation ?oper) db"
  have ready: "activation_ready dg (en_now env) ?oper (gr_boundary g) plan ?h"
    using activation_errorD(1) [OF fresh(5)] r(5) by simp
  have pr: "progress dg plan (op_kind ?oper) (op_phase ?oper) ?h"
    and act: "ow_active w = (\<not> terminal (op_phase ?oper))" "(op_finished_at ?oper \<noteq> None) = terminal (op_phase ?oper)"
    using row fresh(3) by (simp_all add: row_ok_def Let_def)
  have nt: "\<not> terminal ?q" by (simp add: boundary_phase_def terminal_phases_def)
  have new: "b"
  proof (rule ccontr)
    assume "\<not> b"
    then have "append_receipt dg (en_later env) r db = Inr (False, db1)" using fresh(6) by simp
    from append_replayD(2) [OF this] have "r \<in> set ?h"
      using recorded_in_history [OF db_okD(2) [OF ok] cf] r(1,2) by metis
    then show False
      using intent_not_recorded [OF progress_located [OF pr] ready] r(3,4) by (auto simp: has_receipt_def list_ex_iff)
  qed
  from fresh(6) show ?thesis
  proof (cases rule: append_receiptE)
    case (fresh w0)
    then have w0: "w0 = w" using \<open>dict_get (db_operations db) (gr_job g) = Some w\<close> r(1) by simp
    let ?w1 = "w\<lparr>ow_operation := ?oper\<lparr>op_sequence := rc_sequence r, op_updated_at := en_later env\<rparr>\<rparr>"
    let ?w' = "?w1\<lparr>ow_operation := (ow_operation ?w1)\<lparr>op_phase := ?q, op_updated_at := en_later env\<rparr>, ow_phase := ?q\<rparr>"
    have get: "the (dict_get (db_operations db1) (gr_job g)) = ?w1"
      using fresh(6) w0 r(5) by simp
    note db' = \<open>db' = _\<close>
    show ?thesis
    proof (rule record_receipt [OF ok \<open>dict_get (db_operations db) (gr_job g) = Some w\<close> \<open>ow_plan w = Some plan\<close> _ _ _ fresh(4), where w' = ?w'])
      show "progress dg plan (op_kind ?oper) (op_phase (ow_operation ?w')) (?h @ [r])"
        using progress.consumed [OF pr refl ready r(3,4)] by simp
      show "db_operations db' = dict_set (gr_job g) ?w' (db_operations db)"
        unfolding db' get using fresh(6) w0 r(5) by simp
      show "db_receipts db' = dict_set (receipt_id r) (dg_receipt dg r, r) (db_receipts db)"
        unfolding db' get using fresh(6) w0 by simp
    qed (use fresh w0 r \<open>ow_plan w = Some plan\<close> act nt in auto)
  qed (use new in auto)
qed

lemma issue_tables:
  assumes "issue dg env job req db = Inr (g, db')"
  shows "db_operations db' = db_operations db" "db_receipts db' = db_receipts db" "db_maintenance db' = db_maintenance db"
  using assms by (auto simp: issue_def Let_def split: option.splits if_splits)

lemma row_ok_fields:
  assumes "row_ok dg db job w" "op_job (ow_operation w') = op_job (ow_operation w)"
    "op_generation (ow_operation w') = op_generation (ow_operation w)" "op_kind (ow_operation w') = op_kind (ow_operation w)"
    "op_phase (ow_operation w') = op_phase (ow_operation w)" "op_sequence (ow_operation w') = op_sequence (ow_operation w)"
    "op_finished_at (ow_operation w') = op_finished_at (ow_operation w)" "ow_phase w' = ow_phase w" "ow_active w' = ow_active w"
    "ow_plan w' = ow_plan w"
  shows "row_ok dg db job w'"
  using assms(1) unfolding row_ok_def Let_def seq_ok_def assms(2-10) .

lemma ingest_all_ok:
  "db_ok dg db \<Longrightarrow> ingest_all dg env rs db = Inr ((), db') \<Longrightarrow> db_ok dg db'"
  by (induction rs arbitrary: db) (auto split: sum.splits dest: ingest_ok)

lemma mark_cancelled_ok:
  assumes ok: "db_ok dg db" and w: "dict_get (db_operations db) job = Some w" and m: "mark_cancelled env w db = Inr (v, db')"
  shows "db_ok dg db'"
proof -
  have job: "op_job (ow_operation w) = job" using db_okD(3) [OF ok w] by (simp add: row_ok_def Let_def)
  let ?w = "w\<lparr>ow_operation := (ow_operation w)\<lparr>op_cancel_requested := True, op_reason := Some ''administrator_cancelled'', op_updated_at := en_later env\<rparr>\<rparr>"
  have "db' = set_row ?w db" using m by (auto simp: mark_cancelled_def Let_def)
  moreover have "row_ok dg db job ?w" by (rule row_ok_fields [OF db_okD(3) [OF ok w]]) simp_all
  ultimately show ?thesis using db_ok_set_row [OF ok w, of ?w] job by simp
qed

lemma ingest_keeps_rows:
  assumes "ingest_receipt dg env r db = Inr (b, db')" "db_ok dg db" "dict_get (db_operations db) job \<noteq> None"
  shows "dict_get (db_operations db') job \<noteq> None"
proof -
  have a: "dict_get (db_operations db1) job \<noteq> None" if "append_receipt dg t r db = Inr (c, db1)" for t c db1
    using that assms(3) by (cases rule: append_receiptE) auto
  show ?thesis
    using assms(1,3) a
    by (auto simp: ingest_receipt_def Let_def split: if_splits option.splits sum.splits bool.splits prod.splits)
qed

lemma ingest_all_keeps_rows:
  "ingest_all dg env rs db = Inr ((), db') \<Longrightarrow> db_ok dg db \<Longrightarrow> dict_get (db_operations db) job \<noteq> None
    \<Longrightarrow> dict_get (db_operations db') job \<noteq> None"
proof (induction rs arbitrary: db)
  case (Cons r rs)
  obtain b db1 where i: "ingest_receipt dg env r db = Inr (b, db1)" "ingest_all dg env rs db1 = Inr ((), db')"
    using Cons.prems(1) by (auto split: sum.splits)
  then show ?case
    using Cons.IH [OF i(2)] ingest_ok [OF Cons.prems(2) i(1)] ingest_keeps_rows [OF i(1) Cons.prems(2,3)] by blast
qed simp

lemma cancel_ok:
  assumes ok: "db_ok dg db" and c: "request_cancel dg env job node db = Inr (v, db')"
  shows "db_ok dg db'"
proof -
  obtain w where w: "dict_get (db_operations db) job = Some w"
    using c by (auto simp: request_cancel_def split: option.splits)
  consider "db' = db" | "mark_cancelled env w db = Inr (v, db')"
    | rs db1 where "ingest_all dg env rs db = Inr ((), db1)"
        "db' = db1 \<or> mark_cancelled env (the (dict_get (db_operations db1) job)) db1 = Inr (v, db')"
    using c w by (auto simp: request_cancel_def Let_def split: if_splits option.splits sum.splits prod.splits)
  then show ?thesis
  proof cases
    case 3
    then have "db_ok dg db1" using ingest_all_ok [OF ok] by blast
    moreover obtain w1 where "dict_get (db_operations db1) job = Some w1"
      using ingest_all_keeps_rows [OF 3(1) ok, of job] w by auto
    ultimately show ?thesis using 3(2) mark_cancelled_ok by auto
  qed (use ok w mark_cancelled_ok in auto)
qed

lemma validate_new:
  assumes "validate_operation p = Some q" "op_phase p = P_ACCEPTED"
  shows "q = p" "op_finished_at p = None"
  using assms by (auto simp: validate_operation_def terminal_phases_def split: if_splits)

lemma acceptE:
  assumes "accept dg env req source_id node key timing action parent db = Inr ((p, b), db')"
  obtains (replay) w where "\<not> b" "db' = db" "find_request (en_owner env) (st_key req) db = Some w" "p = ow_operation w"
  | (fresh) source target cohort where "b" "accept_error req source_id node action parent db = None"
      "p = new_operation dg env req source target node key timing action parent cohort"
      "dict_get (db_operations db) (op_job p) = None"
      "db' = set_row \<lparr>ow_operation = p, ow_active = True, ow_phase = P_ACCEPTED, ow_plan = None, ow_migration = None\<rparr> db"
proof (cases "find_request (en_owner env) (st_key req) db")
  case (Some w)
  then show ?thesis using assms replay by (auto simp: accept_def Let_def split: if_splits)
next
  case None
  let ?s = "the (dict_get (db_releases db) source_id)" and ?t = "the (dict_get (db_releases db) (st_release req))"
  have e: "accept_error req source_id node action parent db = None"
    using assms None by (auto simp: accept_def Let_def split: if_splits option.splits)
  obtain cohort where c: "changed_cohort (rl_manifest ?s) (rl_manifest ?t) = Inr cohort"
    using assms None e by (auto simp: accept_def Let_def split: if_splits sum.splits)
  let ?p = "new_operation dg env req ?s ?t node key timing action parent cohort"
  have ph: "op_phase ?p = P_ACCEPTED" by (simp add: new_operation_def)
  obtain q where q: "validate_operation ?p = Some q"
    using assms None e c by (auto simp: accept_def Let_def split: if_splits option.splits)
  then have "q = ?p" using validate_new(1) ph by blast
  then show ?thesis
    using assms None e c q ph by (intro fresh [OF _ e]) (auto simp: accept_def Let_def split: if_splits)
qed

lemma accept_ok:
  assumes ok: "db_ok dg db" and a: "accept dg env req source_id node key timing action parent db = Inr ((p, b), db')"
  shows "db_ok dg db'"
  using a
proof (cases rule: acceptE)
  case replay
  then show ?thesis using ok by simp
next
  case (fresh source target cohort)
  have p: "op_phase p = P_ACCEPTED" "op_finished_at p = None" "op_sequence p = 0"
    using fresh(3) by (simp_all add: new_operation_def)
  have none: "\<not> ow_active x" if "dict_get (db_operations db) j = Some x" for j x
    using fresh(2) map_of_SomeD [OF that]
    by (auto simp: accept_error_def dict_values_def list_ex_iff split: if_splits)
  have "history_of (op_job p) g db = []" for g
  proof -
    have "\<not> (fst (fst x) = op_job p)" if "x \<in> set (db_receipts db)" for x
      using that db_okD(2) [OF ok] fresh(4) unfolding receipts_ok_def
      by (metis fst_conv option.distinct(1) prod_cases3 receipt_id_def)
    then show ?thesis by (simp add: history_of_def receipt_rows_def filter_empty_conv)
  qed
  then have "row_ok dg db' (op_job p) \<lparr>ow_operation = p, ow_active = True, ow_phase = P_ACCEPTED, ow_plan = None, ow_migration = None\<rparr>"
    using p fresh(5) by (simp add: row_ok_def Let_def seq_ok_def terminal_phases_def)
  moreover have "row_ok dg db' j x" if "dict_get (db_operations db) j = Some x" for j x
    using db_okD(3) [OF ok that] fresh(5) by (simp add: row_ok_def)
  moreover have "receipts_ok dg db'"
    using db_okD(2) [OF ok] fresh(4,5) unfolding receipts_ok_def by fastforce
  ultimately show ?thesis
    using db_okD(1) [OF ok] none fresh(5) unfolding db_ok_def by (auto split: if_splits)
qed

lemma prepareE:
  assumes "prepare_plan dg env oper peer backup asset db = Inr (plan, db')"
  obtains w where "dict_get (db_operations db) (op_job oper) = Some w"
    "db' = db \<and> ow_plan w = Some plan \<or> db' = set_row (w\<lparr>ow_plan := Some plan\<rparr>) db \<and> ow_plan w = None \<and> plan_valid plan
       \<and> pl_operation plan = ow_operation w"
  using assms
  by (auto simp: prepare_plan_def Let_def split: if_splits option.splits sum.splits)

lemma prepare_ok:
  assumes ok: "db_ok dg db" and p: "prepare_plan dg env oper peer backup asset db = Inr (plan, db')"
  shows "db_ok dg db'"
proof (rule prepareE [OF p])
  fix w
  assume w: "dict_get (db_operations db) (op_job oper) = Some w"
    and d: "db' = db \<and> ow_plan w = Some plan \<or> db' = set_row (w\<lparr>ow_plan := Some plan\<rparr>) db \<and> ow_plan w = None
      \<and> plan_valid plan \<and> pl_operation plan = ow_operation w"
  note row = db_okD(3) [OF ok w]
  have "row_ok dg db (op_job oper) (w\<lparr>ow_plan := Some plan\<rparr>)" if "ow_plan w = None"
    using row that progress.start by (auto simp: row_ok_def Let_def)
  moreover have "op_job (ow_operation w) = op_job oper" using row by (simp add: row_ok_def Let_def)
  ultimately show ?thesis
    using d ok db_ok_set_row [OF ok w, of "w\<lparr>ow_plan := Some plan\<rparr>"] by auto
qed

lemma fence_target_tables:
  assumes "fence_target v t db = Inr db'"
  shows "db_operations db' = db_operations db \<and> db_receipts db' = db_receipts db \<and> db_grants db' = db_grants db"
  using assms by (auto simp: fence_target_def Let_def split: option.splits if_splits)

lemma fence_targets_tables:
  "fence_targets v ts db = Inr db' \<Longrightarrow>
    db_operations db' = db_operations db \<and> db_receipts db' = db_receipts db \<and> db_grants db' = db_grants db"
  by (induction ts arbitrary: db) (auto split: sum.splits dest: fence_target_tables)

lemma fenceE:
  assumes "fence dg v db = Inr (u, db')"
  obtains w where "dict_get (db_operations db) (mt_job v) = Some w" "op_generation (ow_operation w) = mt_generation v"
    "op_finished_at (ow_operation w) = None" "fence_targets v (sort (mt_targets v)) db = Inr db'"
  using assms by (auto simp: fence_def Let_def split: option.splits if_splits sum.splits)

lemma release_verifiedE:
  assumes "release_verified env job gen db = Inr (u, db')"
  obtains w where "dict_get (db_operations db) job = Some w" "op_generation (ow_operation w) = gen"
    "op_finished_at (ow_operation w) \<noteq> None"
    "db' = db\<lparr>db_maintenance := map (\<lambda>tm. (fst tm, release_row env job gen (snd tm))) (db_maintenance db)\<rparr>"
  using assms by (auto simp: release_verified_def split: option.splits if_splits)

section \<open>Every interleaving of calls\<close>

datatype upgrade_cmd =
  C_register upgrade_env upgrade_release
| C_accept upgrade_env start_request uuid "string option" "uuid option" upgrade_timing upgrade_action "string option"
| C_prepare upgrade_env upgrade_operation "string option" "backup_evidence option" "upgrade_error + smoke_asset"
| C_fence upgrade_maintenance
| C_release upgrade_env string int
| C_issue upgrade_env string activation_request
| C_consume upgrade_env activation_grant upgrade_receipt
| C_ingest upgrade_env upgrade_receipt
| C_cancel upgrade_env string "(upgrade_phase \<times> upgrade_receipt list) option"
| C_migration string "migration_record option"
| C_handover bool

definition committed :: "'a call \<Rightarrow> upgrade_db \<Rightarrow> upgrade_db" where
  "committed c db = (case c of Inl _ \<Rightarrow> db | Inr (_, db') \<Rightarrow> db')"

text \<open>
  The migration runner's record of an operation and the handover table belong to other components: any change of
  them is a step.
\<close>

definition upgrade_exec :: "digests \<Rightarrow> upgrade_cmd \<Rightarrow> upgrade_db \<Rightarrow> upgrade_db" where
  "upgrade_exec dg c db =
    (case c of
       C_register env rel \<Rightarrow> committed (register_release env rel db) db
     | C_accept env req src node key timing action parent \<Rightarrow> committed (accept dg env req src node key timing action parent db) db
     | C_prepare env oper peer backup asset \<Rightarrow> committed (prepare_plan dg env oper peer backup asset db) db
     | C_fence v \<Rightarrow> committed (fence dg v db) db
     | C_release env job gen \<Rightarrow> committed (release_verified env job gen db) db
     | C_issue env job req \<Rightarrow> committed (issue dg env job req db) db
     | C_consume env g r \<Rightarrow> committed (consume dg env g r db) db
     | C_ingest env r \<Rightarrow> committed (ingest_receipt dg env r db) db
     | C_cancel env job node \<Rightarrow> committed (request_cancel dg env job node db) db
     | C_migration job m \<Rightarrow>
         (case dict_get (db_operations db) job of
            None \<Rightarrow> db
          | Some w \<Rightarrow> set_row (w\<lparr>ow_migration := m\<rparr>) db)
     | C_handover b \<Rightarrow> db\<lparr>db_handover := b\<rparr>)"

definition empty_db :: upgrade_db where
  "empty_db = \<lparr>db_releases = [], db_operations = [], db_receipts = [], db_grants = [], db_maintenance = [],
     db_handover = False, db_ineligible = []\<rparr>"

definition upgrade_run :: "digests \<Rightarrow> upgrade_cmd list \<Rightarrow> upgrade_db" where
  "upgrade_run dg cs = fold (upgrade_exec dg) cs empty_db"

lemma register_tables:
  assumes "register_release env rel db = Inr (r, db')"
  shows "db_operations db' = db_operations db" "db_receipts db' = db_receipts db" "db_maintenance db' = db_maintenance db"
    "db_grants db' = db_grants db"
  using assms by (auto simp: register_release_def split: if_splits option.splits)

lemma committed_ok:
  assumes "db_ok dg db" "\<And>x db'. c = Inr (x, db') \<Longrightarrow> db_ok dg db'"
  shows "db_ok dg (committed c db)"
  using assms by (auto simp: committed_def split: sum.splits)

lemma db_ok_frame:
  "db_ok dg db \<Longrightarrow> db_operations db' = db_operations db \<Longrightarrow> db_receipts db' = db_receipts db \<Longrightarrow> db_ok dg db'"
  by (rule iffD2 [OF db_ok_cong])

lemma fence_ok: "db_ok dg db \<Longrightarrow> fence dg v db = Inr (u, db') \<Longrightarrow> db_ok dg db'"
  by (erule fenceE) (blast dest: fence_targets_tables intro: db_ok_frame)

lemma release_ok: "db_ok dg db \<Longrightarrow> release_verified env job gen db = Inr (u, db') \<Longrightarrow> db_ok dg db'"
  by (erule release_verifiedE) (auto intro: db_ok_frame)

lemma issue_ok: "db_ok dg db \<Longrightarrow> issue dg env job req db = Inr (g, db') \<Longrightarrow> db_ok dg db'"
  by (erule db_ok_frame) (auto dest: issue_tables)

lemma register_ok: "db_ok dg db \<Longrightarrow> register_release env rel db = Inr (r, db') \<Longrightarrow> db_ok dg db'"
  by (erule db_ok_frame) (auto dest: register_tables)

lemma accept_pair_ok:
  "db_ok dg db \<Longrightarrow> accept dg env req source_id node key timing action parent db = Inr (x, db') \<Longrightarrow> db_ok dg db'"
  by (cases x) (simp add: accept_ok)

lemma consume_unit_ok:
  "db_ok dg db \<Longrightarrow> collision_free dg \<Longrightarrow> consume dg env g r db = Inr (x, db') \<Longrightarrow> db_ok dg db'"
  by (cases x) (simp add: consume_ok)

lemma exec_ok:
  assumes cf: "collision_free dg" and ok: "db_ok dg db"
  shows "db_ok dg (upgrade_exec dg c db)"
proof (cases c)
  case (C_register env rel)
  have "db_ok dg (committed (register_release env rel db) db)"
    by (rule committed_ok [OF ok]) (rule register_ok [OF ok])
  then show ?thesis by (simp add: C_register upgrade_exec_def)
next
  case (C_accept env req src node key timing action parent)
  have "db_ok dg (committed (accept dg env req src node key timing action parent db) db)"
    by (rule committed_ok [OF ok]) (rule accept_pair_ok [OF ok])
  then show ?thesis by (simp add: C_accept upgrade_exec_def)
next
  case (C_prepare env oper peer backup asset)
  have "db_ok dg (committed (prepare_plan dg env oper peer backup asset db) db)"
    by (rule committed_ok [OF ok]) (rule prepare_ok [OF ok])
  then show ?thesis by (simp add: C_prepare upgrade_exec_def)
next
  case (C_fence v)
  have "db_ok dg (committed (fence dg v db) db)"
    by (rule committed_ok [OF ok]) (rule fence_ok [OF ok])
  then show ?thesis by (simp add: C_fence upgrade_exec_def)
next
  case (C_release env job gen)
  have "db_ok dg (committed (release_verified env job gen db) db)"
    by (rule committed_ok [OF ok]) (rule release_ok [OF ok])
  then show ?thesis by (simp add: C_release upgrade_exec_def)
next
  case (C_issue env job req)
  have "db_ok dg (committed (issue dg env job req db) db)"
    by (rule committed_ok [OF ok]) (rule issue_ok [OF ok])
  then show ?thesis by (simp add: C_issue upgrade_exec_def)
next
  case (C_consume env g r)
  have "db_ok dg (committed (consume dg env g r db) db)"
    by (rule committed_ok [OF ok]) (rule consume_unit_ok [OF ok cf])
  then show ?thesis by (simp add: C_consume upgrade_exec_def)
next
  case (C_ingest env r)
  have "db_ok dg (committed (ingest_receipt dg env r db) db)"
    by (rule committed_ok [OF ok]) (rule ingest_ok [OF ok])
  then show ?thesis by (simp add: C_ingest upgrade_exec_def)
next
  case (C_cancel env job node)
  have "db_ok dg (committed (request_cancel dg env job node db) db)"
    by (rule committed_ok [OF ok]) (rule cancel_ok [OF ok])
  then show ?thesis by (simp add: C_cancel upgrade_exec_def)
next
  case (C_migration job m)
  show ?thesis
  proof (cases "dict_get (db_operations db) job")
    case (Some w)
    have "row_ok dg db job (w\<lparr>ow_migration := m\<rparr>)" by (rule row_ok_fields [OF db_okD(3) [OF ok Some]]) simp_all
    moreover have "op_job (ow_operation w) = job" using db_okD(3) [OF ok Some] by (simp add: row_ok_def Let_def)
    ultimately show ?thesis
      using db_ok_set_row [OF ok Some, of "w\<lparr>ow_migration := m\<rparr>"] C_migration Some by (simp add: upgrade_exec_def)
  qed (use ok C_migration in \<open>simp add: upgrade_exec_def\<close>)
next
  case (C_handover b)
  then show ?thesis using db_ok_frame [OF ok, of "db\<lparr>db_handover := b\<rparr>"] by (simp add: upgrade_exec_def)
qed

lemma run_ok: "collision_free dg \<Longrightarrow> db_ok dg (upgrade_run dg cs)"
proof -
  assume cf: "collision_free dg"
  have "db_ok dg empty_db" by (simp add: db_ok_def receipts_ok_def empty_db_def)
  moreover have "db_ok dg db \<Longrightarrow> db_ok dg (fold (upgrade_exec dg) cs db)" for db
    using exec_ok [OF cf] by (induction cs arbitrary: db) auto
  ultimately show ?thesis by (simp add: upgrade_run_def)
qed

section \<open>Rows and histories only grow\<close>

definition extends :: "upgrade_db \<Rightarrow> upgrade_db \<Rightarrow> bool" where
  "extends db db' \<longleftrightarrow>
     (\<forall>job gen. \<exists>xs. history_of job gen db' = history_of job gen db @ xs)
   \<and> (\<forall>job w. dict_get (db_operations db) job = Some w \<longrightarrow>
        (\<exists>w'. dict_get (db_operations db') job = Some w' \<and> op_generation (ow_operation w') = op_generation (ow_operation w)
           \<and> (ow_plan w \<noteq> None \<longrightarrow> ow_plan w' = ow_plan w)))"

lemma extends_refl: "extends db db"
  unfolding extends_def by auto

lemma extends_trans: "extends a b \<Longrightarrow> extends b c \<Longrightarrow> extends a c"
proof -
  assume ab: "extends a b" and bc: "extends b c"
  have "\<exists>xs. history_of job gen c = history_of job gen a @ xs" for job gen
    using ab bc unfolding extends_def by (metis append.assoc)
  moreover have "\<exists>w'. dict_get (db_operations c) job = Some w' \<and> op_generation (ow_operation w') = op_generation (ow_operation w)
           \<and> (ow_plan w \<noteq> None \<longrightarrow> ow_plan w' = ow_plan w)" if "dict_get (db_operations a) job = Some w" for job w
    using ab bc that unfolding extends_def by metis
  ultimately show ?thesis unfolding extends_def by blast
qed

lemma extends_frame:
  assumes "db_operations db' = db_operations db" "db_receipts db' = db_receipts db"
  shows "extends db db'"
  unfolding extends_def using receipt_rows_frame [OF assms(2)] assms(1) by auto

lemma extends_set_row:
  assumes "db_receipts db' = db_receipts db" "db_operations db' = dict_set job w' (db_operations db)"
    and "\<And>w. dict_get (db_operations db) job = Some w \<Longrightarrow>
      op_generation (ow_operation w') = op_generation (ow_operation w) \<and> (ow_plan w \<noteq> None \<longrightarrow> ow_plan w' = ow_plan w)"
  shows "extends db db'"
  unfolding extends_def using receipt_rows_frame [OF assms(1)] assms(2,3) by auto

lemma append_extends:
  assumes ok: "db_ok dg db" and a: "append_receipt dg now r db = Inr (b, db')"
  shows "extends db db'"
  using a
proof (cases rule: append_receiptE)
  case replay
  then show ?thesis by (simp add: extends_refl)
next
  case (fresh w)
  let ?db = "db\<lparr>db_receipts := dict_set (receipt_id r) (dg_receipt dg r, r) (db_receipts db)\<rparr>"
  have row: "op_job (ow_operation w) = rc_job r" "seq_ok (ow_operation w) (history_of (rc_job r) (rc_generation r) db)"
    using db_okD(3) [OF ok fresh(2)] fresh(3) by (simp_all add: row_ok_def Let_def)
  note ha = history_append [where sha = "dg_receipt dg r", OF db_okD(2) [OF ok] row(2) refl refl fresh(5,4)]
  have "\<exists>xs. history_of j g ?db = history_of j g db @ xs" for j g
    using ha by (cases "(j, g) = (rc_job r, rc_generation r)") auto
  then have "extends db ?db" unfolding extends_def by auto
  moreover have "extends ?db db'"
    using fresh row(1) by (intro extends_set_row [where job = "rc_job r"]) auto
  ultimately show ?thesis by (rule extends_trans)
qed

lemma ingest_extends:
  assumes ok: "db_ok dg db" and i: "ingest_receipt dg env r db = Inr (b, db')"
  shows "extends db db'"
proof -
  obtain w where w: "dict_get (db_operations db) (rc_job r) = Some w"
    using i by (auto simp: ingest_receipt_def split: if_splits option.splits)
  have job: "op_job (ow_operation w) = rc_job r" using db_okD(3) [OF ok w] by (simp add: row_ok_def Let_def)
  consider "append_receipt dg (en_now env) r db = Inr (b, db')"
    | plan db1 where "append_receipt dg (en_now env) r db = Inr (True, db1)"
        "db' = set_row ((the (dict_get (db_operations db1) (rc_job r)))\<lparr>ow_operation := progressed (en_later env) r
            (ow_operation (the (dict_get (db_operations db1) (rc_job r)))), ow_phase := rc_phase r,
            ow_active := (ow_active (the (dict_get (db_operations db1) (rc_job r))) \<and> \<not> terminal (rc_phase r))\<rparr>)
          (db1\<lparr>db_ineligible := db_ineligible db1 @ source_ineligible (ow_operation w) plan r\<rparr>)"
    using i w by (auto simp: ingest_receipt_def Let_def split: if_splits option.splits sum.splits bool.splits prod.splits)
  then show ?thesis
  proof cases
    case 1
    then show ?thesis using append_extends [OF ok] by blast
  next
    case (2 plan db1)
    have e: "extends db db1" using append_extends [OF ok 2(1)] .
    have "\<exists>w1. dict_get (db_operations db1) (rc_job r) = Some w1 \<and> op_job (ow_operation w1) = rc_job r"
      using 2(1) w job by (cases rule: append_receiptE) auto
    then obtain w1 where w1: "dict_get (db_operations db1) (rc_job r) = Some w1" "op_job (ow_operation w1) = rc_job r"
      by blast
    have "extends db1 db'"
      using 2(2) w1 by (intro extends_set_row [where job = "rc_job r"]) auto
    with e show ?thesis by (rule extends_trans)
  qed
qed

lemma consume_extends:
  assumes ok: "db_ok dg db" and c: "consume dg env g r db = Inr (u, db')"
  shows "extends db db'"
proof -
  have "consume dg env g r db = Inr ((), db')" using c by (cases u) simp
  then show ?thesis
  proof (cases rule: consumeE)
    case replay
    then show ?thesis by (simp add: extends_refl)
  next
    case (fresh w row plan b db1)
    have e: "extends db db1" using append_extends [OF ok fresh(6)] .
    have r: "rc_job r = gr_job g" "op_job (ow_operation w) = gr_job g"
      using fresh(4) db_okD(3) [OF ok fresh(1)] by (auto simp: grant_current_def row_ok_def Let_def)
    have "\<exists>w1. dict_get (db_operations db1) (gr_job g) = Some w1 \<and> op_job (ow_operation w1) = gr_job g"
      using fresh(6) fresh(1) r by (cases rule: append_receiptE) auto
    then obtain w1 where w1: "dict_get (db_operations db1) (gr_job g) = Some w1" "op_job (ow_operation w1) = gr_job g"
      by blast
    have "extends db1 db'"
      using fresh(8) w1 by (intro extends_set_row [where job = "gr_job g"]) auto
    with e show ?thesis by (rule extends_trans)
  qed
qed

lemma ingest_all_extends:
  "db_ok dg db \<Longrightarrow> ingest_all dg env rs db = Inr (u, db') \<Longrightarrow> extends db db'"
proof (induction rs arbitrary: db)
  case (Cons r rs)
  obtain b db1 where i: "ingest_receipt dg env r db = Inr (b, db1)" "ingest_all dg env rs db1 = Inr (u, db')"
    using Cons.prems(2) by (auto split: sum.splits)
  show ?case
    using Cons.IH [OF ingest_ok [OF Cons.prems(1) i(1)] i(2)] ingest_extends [OF Cons.prems(1) i(1)] extends_trans by blast
qed (simp add: extends_refl)

lemma mark_cancelled_extends:
  assumes ok: "db_ok dg db" and w: "dict_get (db_operations db) job = Some w" and m: "mark_cancelled env w db = Inr (v, db')"
  shows "extends db db'"
proof -
  have "op_job (ow_operation w) = job" using db_okD(3) [OF ok w] by (simp add: row_ok_def Let_def)
  then show ?thesis
    using m w by (intro extends_set_row [where job = job]) (auto simp: mark_cancelled_def Let_def)
qed

lemma cancel_extends:
  assumes ok: "db_ok dg db" and c: "request_cancel dg env job node db = Inr (v, db')"
  shows "extends db db'"
proof -
  obtain w where w: "dict_get (db_operations db) job = Some w"
    using c by (auto simp: request_cancel_def split: option.splits)
  consider "db' = db" | "mark_cancelled env w db = Inr (v, db')"
    | rs db1 where "ingest_all dg env rs db = Inr ((), db1)"
        "db' = db1 \<or> mark_cancelled env (the (dict_get (db_operations db1) job)) db1 = Inr (v, db')"
    using c w by (auto simp: request_cancel_def Let_def split: if_splits option.splits sum.splits prod.splits)
  then show ?thesis
  proof cases
    case 3
    have e: "extends db db1" using ingest_all_extends [OF ok 3(1)] .
    moreover obtain w1 where "dict_get (db_operations db1) job = Some w1"
      using ingest_all_keeps_rows [OF 3(1) ok, of job] w by auto
    ultimately show ?thesis
      using 3(2) mark_cancelled_extends [OF ingest_all_ok [OF ok 3(1)]] extends_trans by auto
  qed (use extends_refl mark_cancelled_extends [OF ok w] in auto)
qed

end
