(* ===== verification/Upgrade_Guarantees.thy ===== *)
theory Upgrade_Guarantees
  imports Upgrade_Tables
begin

text \<open>
  What the upgrade authority promises over every interleaving of its calls: a terminal operation is proved by its
  own receipts, an activation happens once, a terminal phase is final, and fences outlive the operation they protect.
\<close>

section \<open>Steps extend the tables\<close>

lemma committed_extends:
  assumes "\<And>x db'. c = Inr (x, db') \<Longrightarrow> extends db db'"
  shows "extends db (committed c db)"
  using assms extends_refl by (auto simp: committed_def split: sum.splits)

lemma accept_extends:
  assumes "db_ok dg db" "accept dg env req source_id node key timing action parent db = Inr (x, db')"
  shows "extends db db'"
proof -
  obtain p b where "accept dg env req source_id node key timing action parent db = Inr ((p, b), db')"
    using assms(2) by (cases x) simp
  then show ?thesis
  proof (cases rule: acceptE)
    case replay
    then show ?thesis by (simp add: extends_refl)
  next
    case (fresh source target cohort)
    then show ?thesis by (intro extends_set_row [where job = "op_job p"]) auto
  qed
qed

lemma prepare_extends:
  assumes ok: "db_ok dg db" and p: "prepare_plan dg env oper peer backup asset db = Inr (plan, db')"
  shows "extends db db'"
proof (rule prepareE [OF p])
  fix w
  assume w: "dict_get (db_operations db) (op_job oper) = Some w"
    and d: "db' = db \<and> ow_plan w = Some plan \<or> db' = set_row (w\<lparr>ow_plan := Some plan\<rparr>) db \<and> ow_plan w = None
      \<and> plan_valid plan \<and> pl_operation plan = ow_operation w"
  have job: "op_job (ow_operation w) = op_job oper"
    using db_okD(3) [OF ok w] by (simp add: row_ok_def Let_def)
  from d show ?thesis
  proof
    assume "db' = db \<and> ow_plan w = Some plan"
    then show ?thesis by (simp add: extends_refl)
  next
    assume "db' = set_row (w\<lparr>ow_plan := Some plan\<rparr>) db \<and> ow_plan w = None \<and> plan_valid plan \<and> pl_operation plan = ow_operation w"
    then show ?thesis
      using w job by (intro extends_set_row [where job = "op_job oper" and w' = "w\<lparr>ow_plan := Some plan\<rparr>"]) auto
  qed
qed

lemma exec_extends:
  assumes ok: "db_ok dg db"
  shows "extends db (upgrade_exec dg c db)"
proof (cases c)
  case (C_migration job m)
  show ?thesis
  proof (cases "dict_get (db_operations db) job")
    case (Some w)
    have "op_job (ow_operation w) = job" using db_okD(3) [OF ok Some] by (simp add: row_ok_def Let_def)
    then show ?thesis
      using C_migration Some by (intro extends_set_row [where job = job]) (auto simp: upgrade_exec_def)
  qed (use C_migration in \<open>simp add: upgrade_exec_def extends_refl\<close>)
next
  case (C_handover b)
  then show ?thesis by (intro extends_frame) (simp_all add: upgrade_exec_def)
next
  case (C_register env rel)
  have "extends db (committed (register_release env rel db) db)"
    by (rule committed_extends, rule extends_frame) (auto dest: register_tables)
  then show ?thesis by (simp add: C_register upgrade_exec_def)
next
  case (C_issue env job req)
  have "extends db (committed (issue dg env job req db) db)"
    by (rule committed_extends, rule extends_frame) (auto dest: issue_tables)
  then show ?thesis by (simp add: C_issue upgrade_exec_def)
next
  case (C_fence v)
  have "extends db (committed (fence dg v db) db)"
    by (rule committed_extends, erule fenceE, rule extends_frame) (auto dest: fence_targets_tables)
  then show ?thesis by (simp add: C_fence upgrade_exec_def)
next
  case (C_release env job gen)
  have "extends db (committed (release_verified env job gen db) db)"
    by (rule committed_extends, erule release_verifiedE, rule extends_frame) auto
  then show ?thesis by (simp add: C_release upgrade_exec_def)
next
  case (C_accept env req src node key timing action parent)
  have "extends db (committed (accept dg env req src node key timing action parent db) db)"
    by (rule committed_extends, rule accept_extends [OF ok])
  then show ?thesis by (simp add: C_accept upgrade_exec_def)
next
  case (C_prepare env oper peer backup asset)
  have "extends db (committed (prepare_plan dg env oper peer backup asset db) db)"
    by (rule committed_extends, rule prepare_extends [OF ok])
  then show ?thesis by (simp add: C_prepare upgrade_exec_def)
next
  case (C_consume env g r)
  have "extends db (committed (consume dg env g r db) db)"
    by (rule committed_extends, rule consume_extends [OF ok])
  then show ?thesis by (simp add: C_consume upgrade_exec_def)
next
  case (C_ingest env r)
  have "extends db (committed (ingest_receipt dg env r db) db)"
    by (rule committed_extends, rule ingest_extends [OF ok])
  then show ?thesis by (simp add: C_ingest upgrade_exec_def)
next
  case (C_cancel env job node)
  have "extends db (committed (request_cancel dg env job node db) db)"
    by (rule committed_extends, rule cancel_extends [OF ok])
  then show ?thesis by (simp add: C_cancel upgrade_exec_def)
qed

lemma fold_extends:
  assumes "collision_free dg"
  shows "db_ok dg db \<Longrightarrow> extends db (fold (upgrade_exec dg) cs db)"
proof (induction cs arbitrary: db)
  case (Cons c cs)
  then show ?case
    using exec_extends exec_ok [OF assms] extends_trans by (metis fold_simps(2))
qed (simp add: extends_refl)

lemma run_append: "upgrade_run dg (cs @ ds) = fold (upgrade_exec dg) ds (upgrade_run dg cs)"
  by (simp add: upgrade_run_def)

section \<open>Properties\<close>

abbreviation operation_row_of :: "upgrade_db \<Rightarrow> string \<Rightarrow> operation_row option" where
  "operation_row_of db job \<equiv> dict_get (db_operations db) job"

abbreviation row_history :: "upgrade_db \<Rightarrow> operation_row \<Rightarrow> upgrade_receipt list" where
  "row_history db w \<equiv> history_of (op_job (ow_operation w)) (op_generation (ow_operation w)) db"

lemma run_row:
  assumes "collision_free dg" "operation_row_of (upgrade_run dg cs) job = Some w"
  shows "row_ok dg (upgrade_run dg cs) job w" "op_job (ow_operation w) = job"
    "ow_plan w = Some plan \<Longrightarrow> progress dg plan (op_kind (ow_operation w)) (op_phase (ow_operation w)) (row_history (upgrade_run dg cs) w)"
  using db_okD(3) [OF run_ok [OF assms(1)] assms(2)] by (auto simp: row_ok_def Let_def)

text \<open>
  C4: However the calls interleave, an upgrade ends only on proof. A succeeded operation has a consumed
  activation and a recorded verification in which the target release served the plan's model; a rolled
  back one has a recorded verification of the source; an operation whose activation was consumed ends in one of
  the two, never as unchanged; and the last receipt observed exactly the release the operation ended on.\<close>

theorem upgrade_ends_on_proof:
  assumes "collision_free dg" "operation_row_of (upgrade_run dg cs) job = Some w" "ow_plan w = Some plan"
    and "terminal (op_phase (ow_operation w))"
  defines "h \<equiv> row_history (upgrade_run dg cs) w" and "ph \<equiv> op_phase (ow_operation w)"
  shows "(ph = P_SUCCEEDED \<longrightarrow> activated h \<and> served plan P_VERIFYING (pl_target plan) h)
    \<and> (ph = P_ROLLED_BACK \<longrightarrow> served plan P_VERIFYING_SOURCE (pl_source plan) h)
    \<and> (activated h \<longrightarrow> ph = P_SUCCEEDED \<or> ph = P_ROLLED_BACK)
    \<and> rc_observed (last h) = Some (rl_sha (if ph = P_SUCCEEDED then pl_target plan else pl_source plan))"
  unfolding h_def ph_def using progress_terminal [OF run_row(3) [OF assms(1-3)] assms(4)] .

text \<open>
  C8: An operation consumes each activation boundary at most once: its receipts hold at most one runtime
  activation intent and at most one migration intent, whatever is replayed, reissued or delivered out of order.\<close>

theorem activation_happens_once:
  assumes cf: "collision_free dg" and w: "operation_row_of (upgrade_run dg cs) job = Some w"
  shows "intents P_ACTIVATING (row_history (upgrade_run dg cs) w) \<le> 1
    \<and> intents P_MIGRATING (row_history (upgrade_run dg cs) w) \<le> 1"
proof (cases "ow_plan w")
  case None
  then have "row_history (upgrade_run dg cs) w = []"
    using run_row(1,2) [OF cf w] by (simp add: row_ok_def Let_def)
  then show ?thesis by (simp add: intents_def)
next
  case (Some plan)
  then show ?thesis using progress_intents [OF run_row(3) [OF cf w Some]] by simp
qed

text \<open>C24: At most one operation of the cluster is active at any time.\<close>

theorem one_active_operation:
  assumes "collision_free dg" "operation_row_of (upgrade_run dg cs) j1 = Some w1" "operation_row_of (upgrade_run dg cs) j2 = Some w2"
    and "\<not> terminal (op_phase (ow_operation w1))" "\<not> terminal (op_phase (ow_operation w2))"
  shows "j1 = j2"
proof -
  have "ow_active w1" "ow_active w2"
    using run_row(1) [OF assms(1,2)] run_row(1) [OF assms(1,3)] assms(4,5) by (simp_all add: row_ok_def Let_def)
  then show ?thesis using db_okD(4) [OF run_ok [OF assms(1)] assms(2) _ assms(3)] by blast
qed

lemma terminal_is_final:
  assumes cf: "collision_free dg" and w: "operation_row_of (upgrade_run dg cs) job = Some w"
    and t: "terminal (op_phase (ow_operation w))"
  shows "\<exists>w'. operation_row_of (upgrade_run dg (cs @ ds)) job = Some w' \<and> op_phase (ow_operation w') = op_phase (ow_operation w)
    \<and> op_generation (ow_operation w') = op_generation (ow_operation w)
    \<and> row_history (upgrade_run dg (cs @ ds)) w' = row_history (upgrade_run dg cs) w"
proof -
  let ?a = "upgrade_run dg cs" and ?b = "upgrade_run dg (cs @ ds)"
  obtain plan where plan: "ow_plan w = Some plan"
    using run_row(1) [OF cf w] t by (cases "ow_plan w") (auto simp: row_ok_def Let_def terminal_phases_def)
  have ext: "extends ?a ?b"
    using fold_extends [OF cf run_ok [OF cf]] by (simp add: run_append)
  then obtain w' where w': "operation_row_of ?b job = Some w'" "op_generation (ow_operation w') = op_generation (ow_operation w)"
      "ow_plan w' = Some plan"
    using w plan unfolding extends_def by force
  note jobs = run_row(2) [OF cf w] run_row(2) [OF cf w'(1)]
  obtain xs where xs: "row_history ?b w' = row_history ?a w @ xs"
    using ext jobs w'(2) unfolding extends_def by metis
  have p: "progress dg plan (op_kind (ow_operation w)) (op_phase (ow_operation w)) (row_history ?a w)"
    and p': "progress dg plan (op_kind (ow_operation w')) (op_phase (ow_operation w')) (row_history ?b w')"
    using run_row(3) [OF cf w plan] run_row(3) [OF cf w'(1,3)] .
  have ne: "row_history ?a w \<noteq> []" and last: "rc_phase (last (row_history ?a w)) = op_phase (ow_operation w)"
    using p t progress_last [OF p] by (auto elim: progress.cases simp: terminal_phases_def)
  have "xs = []"
  proof (rule ccontr)
    assume "xs \<noteq> []"
    then have "last (row_history ?a w) \<in> set (butlast (row_history ?b w'))"
      using ne xs by (simp add: butlast_append)
    then show False using progress_prefix_live [OF p'] last t by fastforce
  qed
  then show ?thesis
    using w' xs ne last progress_last [OF p'] by auto
qed

text \<open>
  C25: A terminal phase is final: no later call adds a receipt to the operation, changes its phase or reopens it.\<close>

theorem terminal_phase_is_final:
  assumes "collision_free dg" "operation_row_of (upgrade_run dg cs) job = Some w" "terminal (op_phase (ow_operation w))"
  shows "\<exists>w'. operation_row_of (upgrade_run dg (cs @ ds)) job = Some w' \<and> op_phase (ow_operation w') = op_phase (ow_operation w)
    \<and> op_finished_at (ow_operation w') \<noteq> None \<and> \<not> ow_active w'
    \<and> row_history (upgrade_run dg (cs @ ds)) w' = row_history (upgrade_run dg cs) w"
proof -
  obtain w' where w': "operation_row_of (upgrade_run dg (cs @ ds)) job = Some w'" "op_phase (ow_operation w') = op_phase (ow_operation w)"
      "row_history (upgrade_run dg (cs @ ds)) w' = row_history (upgrade_run dg cs) w"
    using terminal_is_final [OF assms] by blast
  then show ?thesis
    using run_row(1) [OF assms(1) w'(1)] assms(3) by (auto simp: row_ok_def Let_def)
qed

section \<open>Fences\<close>


















end
