(* ===== verification/Upgrade_Run.thy ===== *)
theory Upgrade_Run
  imports Upgrade_Guarantees "HOL-Library.Countable"
begin

text \<open>
  A run of the upgrade authority: a Studio upgrade from acceptance to success, all at one instant, on which the
  hypotheses of the properties hold. Its receipt digest is an injective coding of the receipts.
\<close>

section \<open>Digests\<close>

instance upgrade_phase :: countable
  by countable_datatype

instance receipt_outcome :: countable
  by countable_datatype

definition evidence_code :: "upgrade_evidence \<Rightarrow> nat" where
  "evidence_code e = to_nat
     ((ev_runtime e, ev_release e, ev_schema_head e, ev_schema_before e, ev_schema_after e),
      (map_option unat (ev_model e), map_option unat (ev_variant e), ev_peer e, ev_collective e, ev_model_sha e),
      (ev_output e, ev_backup e, ev_check e, ev_tokens e, ev_elapsed e),
      (ev_process e, ev_process_created e, ev_container e, ev_images e, ev_source_verified e),
      (ev_artifacts e, ev_configuration e, ev_exit_code e, ev_not_started e, ev_cleanup e))"

definition receipt_code :: "upgrade_receipt \<Rightarrow> nat" where
  "receipt_code r = to_nat
     ((rc_job r, rc_generation r, rc_sequence r, rc_effect r, rc_phase r),
      (rc_occurred_at r, rc_outcome r, rc_observed r, rc_reason r, map_option evidence_code (rc_evidence r)), rc_restoration r)"

lemma map_unat_eq: "map_option unat (x :: uuid option) = map_option unat y \<Longrightarrow> x = y"
  by (cases x; cases y) (auto simp: word_unat_eq_iff)

lemma evidence_code_inj: "evidence_code e = evidence_code f \<Longrightarrow> e = f"
  unfolding evidence_code_def by (auto dest!: map_unat_eq)

lemma receipt_code_inj: "receipt_code r = receipt_code s \<Longrightarrow> r = s"
proof -
  assume "receipt_code r = receipt_code s"
  then have c: "rc_job r = rc_job s" "rc_generation r = rc_generation s" "rc_sequence r = rc_sequence s" "rc_effect r = rc_effect s"
      "rc_phase r = rc_phase s" "rc_occurred_at r = rc_occurred_at s" "rc_outcome r = rc_outcome s" "rc_observed r = rc_observed s"
      "rc_reason r = rc_reason s" "rc_restoration r = rc_restoration s"
      "map_option evidence_code (rc_evidence r) = map_option evidence_code (rc_evidence s)"
    by (simp_all add: receipt_code_def)
  from c(11) have "rc_evidence r = rc_evidence s"
    by (cases "rc_evidence r"; cases "rc_evidence s") (auto dest: evidence_code_inj)
  with c show ?thesis by simp
qed

definition lab_dg :: digests where
  "lab_dg = \<lparr>dg_operation = (\<lambda>_. ''o''), dg_plan = (\<lambda>_. ''p''), dg_receipt = (\<lambda>r. replicate (receipt_code r) CHR ''r''),
     dg_entry = (\<lambda>_. ''e''), dg_not_started = (\<lambda>_. ''n''), dg_start_request = (\<lambda>_. ''s''), dg_evidence_bytes = (\<lambda>_. 1)\<rparr>"

lemma lab_dg_free: "collision_free lab_dg"
  unfolding collision_free_def lab_dg_def by (auto dest!: arg_cong [of _ _ length] receipt_code_inj)

definition lab_env :: upgrade_env where
  "lab_env = \<lparr>en_now = 0, en_later = 0, en_authorized = True, en_owner = 1, en_schema = (''h'', ''s''), en_backup = None,
     en_drain = None, en_published = None, en_fresh_id = 9, en_fresh_job = ''J'', en_generation = 1\<rparr>"

definition lab_manifest :: "string \<Rightarrow> string list \<Rightarrow> release_manifest" where
  "lab_manifest sha sources = \<lparr>mf_kind = K_STUDIO, mf_version = ''1'', mf_revision = ''r'', mf_platform = ''macos-arm64'',
     mf_prepared_at = 0, mf_compatibility = \<lparr>cp_sources = sources, cp_schemas = [], cp_native = [3], cp_evidence = None\<rparr>,
     mf_artifacts = [], mf_staged = 1, mf_environment = Some ''e'', mf_environment_sha = Some sha, mf_project = None,
     mf_services = [], mf_schema = None, mf_compose = None, mf_host_key = None, mf_paired = False\<rparr>"

definition lab_source :: upgrade_release where
  "lab_source = \<lparr>rl_id = 2, rl_sha = ''A'', rl_manifest = lab_manifest ''ea'' [''Z''], rl_artifact = ''a'', rl_prepared_by = 1, rl_status = ''prepared''\<rparr>"

definition lab_target :: upgrade_release where
  "lab_target = \<lparr>rl_id = 3, rl_sha = ''B'', rl_manifest = lab_manifest ''eb'' [''A''], rl_artifact = ''b'', rl_prepared_by = 1, rl_status = ''prepared''\<rparr>"

definition lab_timing :: upgrade_timing where
  "lab_timing = \<lparr>tm_drain = 900, tm_readiness = 120, tm_recovery = 300, tm_outage = 300\<rparr>"

definition lab_start :: start_request where
  "lab_start = \<lparr>st_release = 3, st_expected = ''A'', st_key = 4\<rparr>"

definition lab_operation :: "upgrade_phase \<Rightarrow> int \<Rightarrow> upgrade_operation" where
  "lab_operation ph n = \<lparr>op_job = ''J'', op_action = A_UPGRADE, op_kind = K_STUDIO, op_node = Some ''coire-edge-a'',
     op_source_release = 2, op_target_release = 3, op_source_sha = ''A'', op_target_sha = ''B'', op_user = 1, op_key = None,
     op_idempotency = 4, op_request_sha = ''s'', op_generation = 1, op_cohort = [], op_timing = lab_timing, op_phase = ph,
     op_accepted_at = 0, op_updated_at = 0, op_finished_at = (if ph = P_SUCCEEDED then Some 0 else None),
     op_cancel_requested = False, op_cancellation_allowed = (ph \<noteq> P_SUCCEEDED), op_reason = None, op_sequence = n,
     op_parent = None, op_retained_schema = None\<rparr>"

definition lab_maintenance :: "string \<Rightarrow> (string \<times> int) list \<Rightarrow> upgrade_maintenance" where
  "lab_maintenance st ack = \<lparr>mt_job = ''J'', mt_generation = 1, mt_targets = [''coire-edge-a''], mt_state = st, mt_updated_at = 0,
     mt_drain_deadline = 900000000, mt_initiator = Some 1, mt_acknowledged = ack\<rparr>"

definition lab_plan :: upgrade_plan where
  "lab_plan = \<lparr>pl_operation = lab_operation P_ACCEPTED 0, pl_source = lab_source, pl_target = lab_target,
     pl_maintenance = lab_maintenance ''fencing'' [], pl_expires_at = 30000000, pl_model = 5, pl_variant = 6, pl_slug = ''m'',
     pl_model_sha = ''M'', pl_peer_sha = None, pl_backup = None, pl_initial_head = None, pl_initial_sha = None, pl_head_after = None\<rparr>"

definition lab_evidence :: upgrade_evidence where
  "lab_evidence = \<lparr>ev_runtime = Some ''eb'', ev_release = None, ev_schema_head = None, ev_schema_before = None, ev_schema_after = None,
     ev_model = Some 5, ev_variant = Some 6, ev_peer = None, ev_collective = None, ev_model_sha = Some ''M'', ev_output = Some ''O'',
     ev_backup = None, ev_check = Some ''node'', ev_tokens = Some 12, ev_elapsed = None, ev_process = None, ev_process_created = None,
     ev_container = None, ev_images = [], ev_source_verified = None, ev_artifacts = None, ev_configuration = None,
     ev_exit_code = None, ev_not_started = None, ev_cleanup = Some True\<rparr>"

definition lab_receipt :: "int \<Rightarrow> upgrade_phase \<Rightarrow> receipt_outcome \<Rightarrow> string \<Rightarrow> upgrade_receipt" where
  "lab_receipt n ph out sha = \<lparr>rc_job = ''J'', rc_generation = 1, rc_sequence = n, rc_effect = ''x'', rc_phase = ph, rc_occurred_at = 0,
     rc_outcome = out, rc_observed = Some sha, rc_reason = None, rc_evidence = Some lab_evidence, rc_restoration = ''not_required''\<rparr>"

definition lab_row :: "upgrade_plan option \<Rightarrow> upgrade_phase \<Rightarrow> int \<Rightarrow> operation_row" where
  "lab_row plan ph n = \<lparr>ow_operation = lab_operation ph n, ow_active = (ph \<noteq> P_SUCCEEDED), ow_phase = ph, ow_plan = plan, ow_migration = None\<rparr>"

definition lab_fence_row :: maintenance_row where
  "lab_fence_row = \<lparr>mw_job = ''J'', mw_generation = 1, mw_released = False, mw_value = lab_maintenance ''active'' [(''coire-edge-a'', 1)]\<rparr>"

definition lab_entry :: "upgrade_receipt \<Rightarrow> receipt_key \<times> string \<times> upgrade_receipt" where
  "lab_entry r = (receipt_id r, dg_receipt lab_dg r, r)"

definition lab_db :: "operation_row list \<Rightarrow> upgrade_receipt list \<Rightarrow> (uuid, grant_row) pydict \<Rightarrow> (string, maintenance_row) pydict \<Rightarrow> upgrade_db" where
  "lab_db ws rs gs ms = \<lparr>db_releases = [(2, lab_source), (3, lab_target)], db_operations = map (\<lambda>w. (''J'', w)) ws,
     db_receipts = map lab_entry rs, db_grants = gs, db_maintenance = ms, db_handover = False, db_ineligible = []\<rparr>"

definition lab_grant_row :: "datetime option \<Rightarrow> grant_row" where
  "lab_grant_row c = \<lparr>gw_job = ''J'', gw_generation = 1, gw_boundary = ''runtime'', gw_expires_at = 30000000, gw_consumed_at = c\<rparr>"

lemmas lab_data = lab_env_def lab_manifest_def lab_source_def lab_target_def lab_timing_def lab_start_def lab_operation_def
  lab_maintenance_def lab_plan_def lab_row_def

lemma lab_accept:
  "upgrade_exec lab_dg (C_accept lab_env lab_start 2 (Some ''coire-edge-a'') None lab_timing A_UPGRADE None) (lab_db [] [] [] [])
     = lab_db [lab_row None P_ACCEPTED 0] [] [] []"
  by (simp add: upgrade_exec_def committed_def accept_def find_request_def dict_values_def lab_db_def accept_error_def
      release_pair_compatible_def changed_cohort_def Let_def new_operation_def validate_operation_def set_row_def lab_data
      terminal_phases_def lab_dg_def)

lemma lab_prepare:
  "upgrade_exec lab_dg (C_prepare lab_env (lab_operation P_ACCEPTED 0) None None
       (Inr \<lparr>sa_model = 5, sa_variant = 6, sa_slug = ''m'', sa_sha = ''M''\<rparr>)) (lab_db [lab_row None P_ACCEPTED 0] [] [] [])
     = lab_db [lab_row (Some lab_plan) P_ACCEPTED 0] [] [] []"
  by (simp add: upgrade_exec_def committed_def prepare_plan_def lab_db_def dependency_scope_def Let_def set_row_def
      maintenance_valid_def plan_valid_def release_pair_compatible_def needs_migration_def lab_data)

lemma lab_fence:
  "upgrade_exec lab_dg (C_fence (lab_maintenance ''active'' [(''coire-edge-a'', 1)])) (lab_db [lab_row (Some lab_plan) P_ACCEPTED 0] [] [] [])
     = lab_db [lab_row (Some lab_plan) P_ACCEPTED 0] [] [] [(''coire-edge-a'', lab_fence_row)]"
  by (simp add: upgrade_exec_def committed_def fence_def fence_target_def lab_db_def dependency_scope_def Let_def
      needs_migration_def lab_fence_row_def lab_data operation_authority_def)

text \<open>Ingesting the next receipt, in any phase of the run.\<close>

lemma lab_rows: "history_of ''J'' 1 (lab_db ws rs gs ms) = rs" "receipt_rows ''J'' 1 (lab_db ws rs gs ms) = map lab_entry rs"
  if "sorted (map rc_sequence rs)" "\<And>r. r \<in> set rs \<Longrightarrow> rc_job r = ''J'' \<and> rc_generation r = 1"
proof -
  have "filter (\<lambda>kr. fst (fst kr) = ''J'' \<and> fst (snd (fst kr)) = 1) (map lab_entry rs) = map lab_entry rs"
    using that(2) by (auto simp: filter_id_conv lab_entry_def receipt_id_def)
  moreover have "sort_key (\<lambda>kr. snd (snd (fst kr))) (map lab_entry rs) = map lab_entry rs"
    using that(1) by (intro sort_key_id_if_sorted) (simp add: lab_entry_def receipt_id_def comp_def)
  ultimately show "receipt_rows ''J'' 1 (lab_db ws rs gs ms) = map lab_entry rs"
    by (simp add: receipt_rows_def lab_db_def)
  then show "history_of ''J'' 1 (lab_db ws rs gs ms) = rs"
    by (simp add: history_of_def lab_entry_def comp_def)
qed

fun numbered :: "int \<Rightarrow> upgrade_receipt list \<Rightarrow> bool" where
  "numbered n [] = True"
| "numbered n (r # rs) = (rc_job r = ''J'' \<and> rc_generation r = 1 \<and> rc_sequence r = n \<and> numbered (n + 1) rs)"

lemma numberedD:
  assumes "numbered n rs"
  shows "\<forall>r\<in>set rs. rc_job r = ''J'' \<and> rc_generation r = 1 \<and> n \<le> rc_sequence r \<and> rc_sequence r < n + int (length rs)"
    "sorted (map rc_sequence rs)" "verify_rows lab_dg n (map lab_entry rs)"
  using assms by (induction n rs rule: numbered.induct) (fastforce simp: lab_entry_def)+

lemma lab_ingest:
  assumes num: "numbered 1 rs" and n: "n = int (length rs)" "length rs < 10" and r: "r = lab_receipt (n + 1) ph out sha"
    and v: "validate_progress lab_dg (lab_operation ph0 n) r lab_plan rs False None = None" and ph0: "ph0 \<noteq> P_SUCCEEDED"
    and t: "terminal ph \<Longrightarrow> ph = P_SUCCEEDED"
  shows "upgrade_exec lab_dg (C_ingest lab_env r) (lab_db [lab_row (Some lab_plan) ph0 n] rs gs ms)
    = lab_db [lab_row (Some lab_plan) ph (n + 1)] (rs @ [r]) gs ms"
proof -
  let ?db = "lab_db [lab_row (Some lab_plan) ph0 n] rs gs ms" and ?w = "lab_row (Some lab_plan) ph0 n"
  note d = numberedD [OF num]
  have h: "history_of ''J'' 1 ?db = rs" "receipt_rows ''J'' 1 ?db = map lab_entry rs"
    using lab_rows [OF d(2)] d(1) by auto
  have get: "dict_get (db_operations ?db) ''J'' = Some ?w" "ow_plan ?w = Some lab_plan" "ow_operation ?w = lab_operation ph0 n"
    "op_job (lab_operation ph0 n) = ''J''" "op_generation (lab_operation ph0 n) = 1" "op_sequence (lab_operation ph0 n) = n"
    "op_kind (lab_operation ph0 n) = K_STUDIO" "ow_migration ?w = None" "ow_active ?w"
    using ph0 by (simp_all add: lab_db_def lab_row_def lab_operation_def)
  have rid: "rc_job r = ''J''" "rc_generation r = 1" "rc_sequence r = n + 1" "rc_phase r = ph" "receipt_id r = (''J'', 1, n + 1)"
    "rc_effect r = ''x''"
    by (simp_all add: r lab_receipt_def receipt_id_def)
  have fresh: "dict_get (db_receipts ?db) (receipt_id r) = None"
    unfolding map_of_eq_None_iff using d(1) n(1) by (auto simp: lab_db_def lab_entry_def receipt_id_def rid)
  have bytes: "evidence_bytes lab_dg (rs @ [r]) \<le> int (length (rs @ [r]))" for rs r
    by (induction rs) (auto simp: evidence_bytes_def lab_dg_def split: option.splits)
  have e: "ingest_error lab_dg lab_env ?w lab_plan r ?db = None"
    unfolding ingest_error_def Let_def get h using v n bytes [of rs r] d(3) by (simp add: selection_decision_def lab_env_def)
  have a: "append_receipt lab_dg 0 r ?db = Inr (True, lab_db [lab_row (Some lab_plan) ph0 (n + 1)] (rs @ [r]) gs ms)"
    using fresh dict_set_fresh [OF fresh, of "(dg_receipt lab_dg r, r)"] get rid
    by (simp add: append_receipt_def Let_def set_row_def) (simp add: lab_db_def lab_entry_def rid lab_row_def lab_operation_def)
  have "progressed 0 r (lab_operation ph0 (n + 1)) = lab_operation ph (n + 1)"
    using t ph0 rid by (auto simp: progressed_def Let_def lab_operation_def terminal_phases_def)
  moreover have "(True \<and> \<not> terminal ph) = (ph \<noteq> P_SUCCEEDED)" using t by (auto simp: terminal_phases_def)
  moreover have "source_ineligible (lab_operation ph0 n) lab_plan r = []"
    by (simp add: source_ineligible_def lab_plan_def lab_source_def lab_target_def lab_manifest_def)
  moreover have "lab_env = lab_env \<and> en_now lab_env = 0 \<and> en_later lab_env = 0" by (simp add: lab_env_def)
  ultimately have "ingest_receipt lab_dg lab_env r ?db = Inr (True, lab_db [lab_row (Some lab_plan) ph (n + 1)] (rs @ [r]) gs ms)"
    using get fresh e a rid ph0
    by (simp add: ingest_receipt_def starts_with_def) (simp add: lab_db_def set_row_def lab_row_def lab_operation_def)
  then show ?thesis by (simp add: upgrade_exec_def committed_def)
qed

definition lab_r :: "upgrade_receipt list" where
  "lab_r = [lab_receipt 1 P_PREFLIGHT O_COMPLETE ''A'', lab_receipt 2 P_STAGED O_COMPLETE ''A'', lab_receipt 3 P_SMOKE_BEFORE O_COMPLETE ''A'',
     lab_receipt 4 P_ACTIVATING O_INTENT ''A'', lab_receipt 5 P_VERIFYING O_COMPLETE ''B'', lab_receipt 6 P_COMMITTING O_COMPLETE ''B'',
     lab_receipt 7 P_SUCCEEDED O_COMPLETE ''B'']"

lemmas lab_progress = validate_progress_def transition_error_def permitted_def starts_with_def terminal_phases_def has_receipt_def
  selection_decision_def succeeds_def expected_release_def evidence_error_def verified_error_def verification_def Let_def
  same_binding_def serving_proof_def dict_eq_def

lemma lab_progress_steps:
  "validate_progress lab_dg (lab_operation P_ACCEPTED 0) (lab_r ! 0) lab_plan [] False None = None"
  "validate_progress lab_dg (lab_operation P_PREFLIGHT 1) (lab_r ! 1) lab_plan (take 1 lab_r) False None = None"
  "validate_progress lab_dg (lab_operation P_STAGED 2) (lab_r ! 2) lab_plan (take 2 lab_r) False None = None"
  "validate_progress lab_dg (lab_operation P_ACTIVATING 4) (lab_r ! 4) lab_plan (take 4 lab_r) False None = None"
  "validate_progress lab_dg (lab_operation P_VERIFYING 5) (lab_r ! 5) lab_plan (take 5 lab_r) False None = None"
  "validate_progress lab_dg (lab_operation P_COMMITTING 6) (lab_r ! 6) lab_plan (take 6 lab_r) False None = None"
  by (simp_all add: lab_progress lab_r_def lab_receipt_def lab_data lab_evidence_def operation_authority_def lab_dg_def)

abbreviation lab_fences :: "(string, maintenance_row) pydict" where
  "lab_fences \<equiv> [(''coire-edge-a'', lab_fence_row)]"

definition lab_grant :: activation_grant where
  "lab_grant = \<lparr>gr_job = ''J'', gr_generation = 1, gr_boundary = ''runtime'', gr_id = 9, gr_expires_at = 30000000\<rparr>"

lemma lab_activation:
  "activation_error lab_dg lab_env (lab_row (Some lab_plan) P_SMOKE_BEFORE 3) ''runtime'' lab_plan
     (lab_db [lab_row (Some lab_plan) P_SMOKE_BEFORE 3] (take 3 lab_r) gs lab_fences) = None"
proof -
  have h: "history_of ''J'' 1 (lab_db ws (take 3 lab_r) gs ms) = take 3 lab_r" for ws ms
    by (rule lab_rows) (auto simp: lab_r_def lab_receipt_def)
  have f: "verify_fenced lab_plan (lab_db ws rs gs lab_fences)" for ws rs
    by (auto simp: verify_fenced_def Let_def lab_db_def lab_fence_row_def lab_data)
  have r: "activation_ready lab_dg 0 (lab_operation P_SMOKE_BEFORE 3) ''runtime'' lab_plan (take 3 lab_r)"
    by (simp add: activation_ready_def boundary_phases_def lab_r_def lab_receipt_def lab_evidence_def smoke_evidence_def Let_def
        lab_data operation_authority_def lab_dg_def)
  have "ow_operation (lab_row (Some lab_plan) P_SMOKE_BEFORE 3) = lab_operation P_SMOKE_BEFORE 3"
    "op_job (lab_operation P_SMOKE_BEFORE 3) = ''J''" "op_generation (lab_operation P_SMOKE_BEFORE 3) = 1" "en_now lab_env = 0"
    by (simp_all add: lab_row_def lab_operation_def lab_env_def)
  then show ?thesis
    unfolding activation_error_def Let_def using h f r
    by (simp add: current_schema_ok_def backup_boundary_error_def) (simp add: lab_plan_def lab_operation_def lab_env_def)
qed

lemma lab_issue:
  "upgrade_exec lab_dg (C_issue lab_env ''J'' \<lparr>ar_generation = 1, ar_source = ''A'', ar_boundary = ''runtime''\<rparr>)
     (lab_db [lab_row (Some lab_plan) P_SMOKE_BEFORE 3] (take 3 lab_r) [] lab_fences)
   = lab_db [lab_row (Some lab_plan) P_SMOKE_BEFORE 3] (take 3 lab_r) [(9, lab_grant_row None)] lab_fences"
proof -
  have "dict_get (db_operations (lab_db [lab_row (Some lab_plan) P_SMOKE_BEFORE 3] (take 3 lab_r) [] lab_fences)) ''J''
      = Some (lab_row (Some lab_plan) P_SMOKE_BEFORE 3)" by (simp add: lab_db_def)
  then show ?thesis
    using lab_activation [of "[]"]
    by (simp add: upgrade_exec_def committed_def issue_def Let_def)
      (simp add: lab_row_def lab_operation_def boundary_phases_def find_grant_def lab_db_def lab_grant_row_def lab_env_def Let_def)
qed

lemma lab_consume:
  "upgrade_exec lab_dg (C_consume lab_env lab_grant (lab_r ! 3))
     (lab_db [lab_row (Some lab_plan) P_SMOKE_BEFORE 3] (take 3 lab_r) [(9, lab_grant_row None)] lab_fences)
   = lab_db [lab_row (Some lab_plan) P_ACTIVATING 4] (take 4 lab_r) [(9, lab_grant_row (Some 0))] lab_fences"
proof -
  let ?db = "lab_db [lab_row (Some lab_plan) P_SMOKE_BEFORE 3] (take 3 lab_r) [(9, lab_grant_row None)] lab_fences"
  have get: "dict_get (db_operations ?db) ''J'' = Some (lab_row (Some lab_plan) P_SMOKE_BEFORE 3)"
    "dict_get (db_grants ?db) 9 = Some (lab_grant_row None)" by (simp_all add: lab_db_def)
  have gc: "grant_current 0 lab_grant (lab_r ! 3) (lab_grant_row None) (lab_operation P_SMOKE_BEFORE 3)"
    by (simp add: grant_current_def lab_grant_def lab_grant_row_def lab_operation_def lab_r_def lab_receipt_def boundary_phase_def)
  have rid: "rc_job (lab_r ! 3) = ''J''" "receipt_id (lab_r ! 3) = (''J'', 1, 4)"
    by (simp_all add: lab_r_def lab_receipt_def receipt_id_def)
  have fresh: "dict_get (db_receipts ?db) (receipt_id (lab_r ! 3)) = None"
    by (simp add: lab_db_def lab_entry_def lab_r_def lab_receipt_def receipt_id_def)
  have t4: "take 4 lab_r = take 3 lab_r @ [lab_r ! 3]" by (simp add: lab_r_def)
  have a: "append_receipt lab_dg 0 (lab_r ! 3) ?db
      = Inr (True, lab_db [lab_row (Some lab_plan) P_SMOKE_BEFORE 4] (take 4 lab_r) [(9, lab_grant_row None)] lab_fences)"
    using fresh dict_set_fresh [OF fresh, of "(dg_receipt lab_dg (lab_r ! 3), lab_r ! 3)"] get rid
    by (simp add: append_receipt_def Let_def set_row_def t4)
      (simp add: lab_db_def lab_entry_def rid lab_row_def lab_operation_def lab_r_def lab_receipt_def)
  show ?thesis
    using get gc a lab_activation
    by (simp add: upgrade_exec_def committed_def consume_def Let_def lab_grant_def)
      (simp add: lab_row_def lab_grant_row_def lab_db_def set_row_def lab_env_def lab_operation_def boundary_phase_def lab_r_def lab_receipt_def)
qed

section \<open>The run\<close>

definition lab_opening :: "upgrade_cmd list" where
  "lab_opening = [C_register lab_env lab_source, C_register lab_env lab_target,
     C_accept lab_env lab_start 2 (Some ''coire-edge-a'') None lab_timing A_UPGRADE None,
     C_prepare lab_env (lab_operation P_ACCEPTED 0) None None (Inr \<lparr>sa_model = 5, sa_variant = 6, sa_slug = ''m'', sa_sha = ''M''\<rparr>),
     C_fence (lab_maintenance ''active'' [(''coire-edge-a'', 1)])]"

definition lab_closing :: "upgrade_cmd list" where
  "lab_closing = [C_ingest lab_env (lab_r ! 0), C_ingest lab_env (lab_r ! 1), C_ingest lab_env (lab_r ! 2),
     C_issue lab_env ''J'' \<lparr>ar_generation = 1, ar_source = ''A'', ar_boundary = ''runtime''\<rparr>, C_consume lab_env lab_grant (lab_r ! 3),
     C_ingest lab_env (lab_r ! 4), C_ingest lab_env (lab_r ! 5), C_ingest lab_env (lab_r ! 6)]"

lemma lab_registered:
  "upgrade_exec lab_dg (C_register lab_env lab_target) (upgrade_exec lab_dg (C_register lab_env lab_source) empty_db) = lab_db [] [] [] []"
  by (simp add: upgrade_exec_def committed_def register_release_def dict_values_def empty_db_def lab_db_def lab_data)

lemma lab_opened:
  "upgrade_run lab_dg lab_opening = lab_db [lab_row (Some lab_plan) P_ACCEPTED 0] [] [] lab_fences"
  by (simp add: upgrade_run_def lab_opening_def lab_registered lab_accept lab_prepare lab_fence)

lemma lab_numbered: "numbered 1 (take k lab_r)"
proof -
  have *: "numbered n rs \<Longrightarrow> numbered n (take k rs)" for n rs
    by (induction n rs arbitrary: k rule: numbered.induct) (auto simp: take_Cons split: nat.splits)
  have "numbered 1 lab_r" by (simp add: lab_r_def lab_receipt_def)
  then show ?thesis by (rule *)
qed

lemma lab_step:
  assumes "validate_progress lab_dg (lab_operation ph0 (int k)) (lab_r ! k) lab_plan (take k lab_r) False None = None"
    and "k < 7" "k \<noteq> 3" "ph0 \<noteq> P_SUCCEEDED"
  shows "upgrade_exec lab_dg (C_ingest lab_env (lab_r ! k)) (lab_db [lab_row (Some lab_plan) ph0 (int k)] (take k lab_r) gs ms)
    = lab_db [lab_row (Some lab_plan) (rc_phase (lab_r ! k)) (int k + 1)] (take (Suc k) lab_r) gs ms"
proof -
  have k: "k \<in> {0, 1, 2, 4, 5, 6}" using assms(2,3) by auto
  have l: "length lab_r = 7" by (simp add: lab_r_def)
  have r: "lab_r ! k = lab_receipt (int k + 1) (rc_phase (lab_r ! k)) (rc_outcome (lab_r ! k)) (the (rc_observed (lab_r ! k)))"
    using k by (auto simp: lab_r_def lab_receipt_def)
  have t: "terminal (rc_phase (lab_r ! k)) \<Longrightarrow> rc_phase (lab_r ! k) = P_SUCCEEDED"
    using k by (auto simp: lab_r_def lab_receipt_def terminal_phases_def)
  have "take (Suc k) lab_r = take k lab_r @ [lab_r ! k]" using assms(2) l by (simp add: take_Suc_conv_app_nth)
  then show ?thesis
    using lab_ingest [OF lab_numbered _ _ r assms(1,4) t] assms(2) l by simp
qed

lemma lab_done:
  "upgrade_run lab_dg (lab_opening @ lab_closing)
     = lab_db [lab_row (Some lab_plan) P_SUCCEEDED 7] lab_r [(9, lab_grant_row (Some 0))] lab_fences"
proof -
  have l: "length lab_r = 7" by (simp add: lab_r_def)
  have ph: "rc_phase (lab_r ! 0) = P_PREFLIGHT" "rc_phase (lab_r ! 1) = P_STAGED" "rc_phase (lab_r ! 2) = P_SMOKE_BEFORE"
    "rc_phase (lab_r ! 4) = P_VERIFYING" "rc_phase (lab_r ! 5) = P_COMMITTING" "rc_phase (lab_r ! 6) = P_SUCCEEDED"
    by (simp_all add: lab_r_def lab_receipt_def)
  note p = lab_progress_steps
  let ?in = "\<lambda>k. upgrade_exec lab_dg (C_ingest lab_env (lab_r ! k))" and ?db = "\<lambda>ph k gs. lab_db [lab_row (Some lab_plan) ph (int k)] (take k lab_r) gs lab_fences"
  have c0: "?in 0 (?db P_ACCEPTED 0 gs) = ?db P_PREFLIGHT 1 gs" for gs
    using lab_step [of P_ACCEPTED 0] p(1) ph by (simp add: numeral_eq_Suc)
  have c1: "?in 1 (?db P_PREFLIGHT 1 gs) = ?db P_STAGED 2 gs" for gs
    using lab_step [of P_PREFLIGHT 1] p(2) ph by (simp add: numeral_eq_Suc)
  have c2: "?in 2 (?db P_STAGED 2 gs) = ?db P_SMOKE_BEFORE 3 gs" for gs
    using lab_step [of P_STAGED 2] p(3) ph by (simp add: numeral_eq_Suc)
  have c4: "?in 4 (?db P_ACTIVATING 4 gs) = ?db P_VERIFYING 5 gs" for gs
    using lab_step [of P_ACTIVATING 4] p(4) ph by (simp add: numeral_eq_Suc)
  have c5: "?in 5 (?db P_VERIFYING 5 gs) = ?db P_COMMITTING 6 gs" for gs
    using lab_step [of P_VERIFYING 5] p(5) ph by (simp add: numeral_eq_Suc)
  have c6: "?in 6 (?db P_COMMITTING 6 gs) = ?db P_SUCCEEDED 7 gs" for gs
    using lab_step [of P_COMMITTING 6] p(6) ph by (simp add: numeral_eq_Suc)
  have s: "upgrade_exec lab_dg (C_issue lab_env ''J'' \<lparr>ar_generation = 1, ar_source = ''A'', ar_boundary = ''runtime''\<rparr>) (?db P_SMOKE_BEFORE 3 [])
      = ?db P_SMOKE_BEFORE 3 [(9, lab_grant_row None)]"
    "upgrade_exec lab_dg (C_consume lab_env lab_grant (lab_r ! 3)) (?db P_SMOKE_BEFORE 3 [(9, lab_grant_row None)])
      = ?db P_ACTIVATING 4 [(9, lab_grant_row (Some 0))]"
    using lab_issue lab_consume by simp_all
  have t: "lab_r = take 7 lab_r" using l by simp
  have "upgrade_run lab_dg (lab_opening @ lab_closing) = fold (upgrade_exec lab_dg) lab_closing (upgrade_run lab_dg lab_opening)"
    by (simp add: upgrade_run_def)
  also have "\<dots> = lab_db [lab_row (Some lab_plan) P_SUCCEEDED 7] (take 7 lab_r) [(9, lab_grant_row (Some 0))] lab_fences"
    using lab_opened c0 c1 c2 s c4 c5 c6 unfolding lab_closing_def by (simp add: lab_opened)
  finally show ?thesis using t by simp
qed

lemma lab_done_row:
  "operation_row_of (upgrade_run lab_dg (lab_opening @ lab_closing)) ''J'' = Some (lab_row (Some lab_plan) P_SUCCEEDED 7)"
  "row_history (upgrade_run lab_dg (lab_opening @ lab_closing)) (lab_row (Some lab_plan) P_SUCCEEDED 7) = lab_r"
proof -
  have "sorted (map rc_sequence lab_r)" "\<And>r. r \<in> set lab_r \<Longrightarrow> rc_job r = ''J'' \<and> rc_generation r = 1"
    by (auto simp: lab_r_def lab_receipt_def)
  from lab_rows [OF this] show
    "row_history (upgrade_run lab_dg (lab_opening @ lab_closing)) (lab_row (Some lab_plan) P_SUCCEEDED 7) = lab_r"
    by (simp add: lab_done) (simp add: lab_row_def lab_operation_def)
qed (simp add: lab_done lab_db_def)

lemma lab_row_sel: "ow_operation (lab_row p ph n) = lab_operation ph n" "op_phase (lab_operation ph n) = ph" "ow_plan (lab_row p ph n) = p"
  by (simp_all add: lab_row_def lab_operation_def)

lemma lab_opened_row: "operation_row_of (upgrade_run lab_dg lab_opening) ''J'' = Some (lab_row (Some lab_plan) P_ACCEPTED 0)"
  by (simp add: lab_opened lab_db_def)

lemma upgrade_ends_on_proof_witness:
  "terminal P_SUCCEEDED \<and> activated lab_r \<and> served lab_plan P_VERIFYING (pl_target lab_plan) lab_r"
  using upgrade_ends_on_proof [OF lab_dg_free lab_done_row(1)] lab_done_row(2) by (simp add: lab_row_sel terminal_phases_def)

lemma activation_happens_once_witness: "intents P_ACTIVATING lab_r \<le> 1 \<and> intents P_MIGRATING lab_r \<le> 1"
  using activation_happens_once [OF lab_dg_free lab_done_row(1)] by (simp add: lab_done_row)

lemma one_active_operation_witness:
  "operation_row_of (upgrade_run lab_dg lab_opening) ''J'' = Some (lab_row (Some lab_plan) P_ACCEPTED 0)
   \<and> \<not> terminal (op_phase (ow_operation (lab_row (Some lab_plan) P_ACCEPTED 0)))
   \<and> \<not> (\<exists>w. operation_row_of (upgrade_run lab_dg lab_opening) ''K'' = Some w \<and> \<not> terminal (op_phase (ow_operation w)))"
  using one_active_operation [OF lab_dg_free lab_opened_row, of "''K''"] lab_opened_row by (auto simp: lab_row_sel terminal_phases_def)

lemma terminal_phase_is_final_witness:
  "\<exists>w. operation_row_of (upgrade_run lab_dg ((lab_opening @ lab_closing) @ lab_closing)) ''J'' = Some w
     \<and> op_phase (ow_operation w) = P_SUCCEEDED \<and> row_history (upgrade_run lab_dg ((lab_opening @ lab_closing) @ lab_closing)) w = lab_r"
  using terminal_phase_is_final [OF lab_dg_free lab_done_row(1), of lab_closing] unfolding lab_done_row(2)
  by (auto simp: lab_row_sel terminal_phases_def)


end
