(* ===== verification/Private_Store.thy ===== *)
theory Private_Store
  imports Upgrade_Models
begin

text \<open>
  The private document store of the upgrade owners (\<^verbatim>\<open>PrivateUpgradeStore\<close> in
  \<^verbatim>\<open>coire_core/upgrade_journal.py\<close>). A directory is a dictionary from file names to documents, \<^const>\<open>None\<close> for a
  file that a read refuses: linked, foreign, oversized, or not a document. A write goes through a pending
  file; its outcome, which the environment decides, is one of those of \<open>write_outcome\<close>, a process that dies in
  the middle included. Shown: a write that replaces is atomic, a write that creates never changes an existing
  document, and neither touches another name.
\<close>

type_synonym 'd store = "(string, 'd option) pydict"

text \<open>
  \<open>W_failed\<close>: an error before the name is taken, the size bound included; \<open>W_unsynced\<close>: the name is in place but
  syncing the directory failed; \<open>W_killed\<close>: the process died, before or after the name was taken, and its
  pending file may be left. A dead process sees no result; the model gives it the error.
\<close>

datatype write_outcome = W_done | W_failed | W_unsynced | W_killed bool

record store_env =
  se_lock :: "upgrade_error option"
  se_write :: "string \<Rightarrow> write_outcome"
  se_suffix :: string

definition key_char :: "char \<Rightarrow> bool" where
  "key_char c \<longleftrightarrow> (let n = of_char c :: nat in 48 \<le> n \<and> n \<le> 57 \<or> 65 \<le> n \<and> n \<le> 90 \<or> 97 \<le> n \<and> n \<le> 122)"

definition key_ok :: "string \<Rightarrow> bool" where
  "key_ok k \<longleftrightarrow> (case k of [] \<Rightarrow> False
     | c # cs \<Rightarrow> key_char c \<and> length cs \<le> 127 \<and> list_all (\<lambda>x. key_char x \<or> x \<in> {CHR ''.'', CHR ''_'', CHR ''-''}) cs)"

text \<open>\<^verbatim>\<open>read\<close>, with the model class as a partial function on documents.\<close>

definition store_read :: "string \<Rightarrow> ('d \<Rightarrow> 'a option) \<Rightarrow> 'd store \<Rightarrow> upgrade_error + 'a option" where
  "store_read key model st =
    (if \<not> key_ok key then Inl Upgrade_conflict
     else case dict_get st key of
       None \<Rightarrow> Inr None
     | Some None \<Rightarrow> Inl Upgrade_unavailable
     | Some (Some d) \<Rightarrow> (case model d of None \<Rightarrow> Inl Upgrade_unavailable | Some x \<Rightarrow> Inr (Some x)))"

definition pending_name :: "store_env \<Rightarrow> string \<Rightarrow> string" where
  "pending_name env key = ''.'' @ key @ ''.'' @ se_suffix env @ ''.pending''"

definition store_write :: "store_env \<Rightarrow> string \<Rightarrow> 'd \<Rightarrow> bool \<Rightarrow> 'd store \<Rightarrow> upgrade_error option \<times> 'd store" where
  "store_write env key d replace st =
    (if \<not> key_ok key then (Some Upgrade_conflict, st)
     else case se_write env key of
       W_failed \<Rightarrow> (Some Upgrade_unavailable, st)
     | W_killed False \<Rightarrow> (Some Upgrade_unavailable, dict_set (pending_name env key) None st)
     | w \<Rightarrow>
         if \<not> replace \<and> dict_get st key \<noteq> None then (Some Upgrade_conflict, st)
         else (case w of
             W_done \<Rightarrow> (None, dict_set key (Some d) st)
           | W_killed _ \<Rightarrow>
               if replace then (Some Upgrade_unavailable, dict_set key (Some d) st)
               else (Some Upgrade_unavailable, dict_set (pending_name env key) None (dict_set key None st))
           | _ \<Rightarrow> (Some Upgrade_unavailable, dict_set key (Some d) st)))"

section \<open>Laws\<close>

lemma pending_not_key: "key_ok k \<Longrightarrow> pending_name env key \<noteq> k"
  by (cases k) (auto simp: pending_name_def key_ok_def key_char_def)

lemma store_write_ok: "dict_ok st \<Longrightarrow> dict_ok (snd (store_write env key d replace st))"
  by (simp add: store_write_def split: write_outcome.splits bool.splits if_splits)

lemma store_read_ok: "store_read key model st = Inr x \<Longrightarrow> key_ok key"
  by (simp add: store_read_def split: if_splits)

lemma store_read_Some:
  "store_read key model st = Inr (Some x) \<longleftrightarrow> key_ok key \<and> (\<exists>d. dict_get st key = Some (Some d) \<and> model d = Some x)"
  by (cases "dict_get st key"; auto simp: store_read_def split: option.splits)

lemma store_read_None: "store_read key model st = Inr None \<longleftrightarrow> key_ok key \<and> dict_get st key = None"
  by (cases "dict_get st key"; auto simp: store_read_def split: option.splits)

lemma store_read_cong: "dict_get st' key = dict_get st key \<Longrightarrow> store_read key model st' = store_read key model st"
  by (simp add: store_read_def)

text \<open>The states a write can leave: the old one, the new document in place, or a pending file.\<close>

lemma store_write_cases:
  obtains "snd (store_write env key d replace st) = st"
  | "snd (store_write env key d replace st) = dict_set key (Some d) st" "replace \<or> dict_get st key = None"
  | st0 where "snd (store_write env key d replace st) = dict_set (pending_name env key) None st0"
proof (cases "key_ok key")
  case True
  consider "se_write env key = W_failed" | "se_write env key = W_killed False" | "se_write env key \<noteq> W_failed"
      "se_write env key \<noteq> W_killed False" "\<not> (replace \<or> dict_get st key = None)"
    | "se_write env key = W_killed True" "replace \<or> dict_get st key = None"
    | "se_write env key = W_done \<or> se_write env key = W_unsynced" "replace \<or> dict_get st key = None"
    by (metis write_outcome.exhaust)
  then show ?thesis
    by cases (use True that in \<open>cases replace; auto simp: store_write_def split: write_outcome.splits bool.splits\<close>)+
qed (use that in \<open>simp add: store_write_def\<close>)

text \<open>The interface of the owners: what a name holds after a write.\<close>

locale document_store =
  fixes cell :: "'s \<Rightarrow> string \<Rightarrow> 'c"
    and wr :: "store_env \<Rightarrow> string \<Rightarrow> 'd \<Rightarrow> bool \<Rightarrow> 's \<Rightarrow> upgrade_error option \<times> 's"
    and present :: "'d \<Rightarrow> 'c" and absent :: "'c" and refused :: "'c"
    and proper :: "string \<Rightarrow> bool"
  assumes write_replace: "cell (snd (wr env key d True st)) key = present d \<or> cell (snd (wr env key d True st)) key = cell st key"
    and write_create: "cell (snd (wr env key d False st)) key = cell st key
      \<or> cell st key = absent \<and> cell (snd (wr env key d False st)) key \<in> {present d, refused}"
    and write_done: "fst (wr env key d replace st) = None \<Longrightarrow> cell (snd (wr env key d replace st)) key = present d"
    and write_frame: "proper k \<Longrightarrow> k \<noteq> key \<Longrightarrow> cell (snd (wr env key d replace st)) k = cell st k"
    and apart: "present d \<noteq> absent" "present d \<noteq> refused" "absent \<noteq> refused"
begin

text \<open>A document that is there is never lost by a write, and is changed only by a write that replaces it.\<close>

lemma write_keeps:
  assumes "proper k" "cell st k = present x"
  shows "\<exists>y. cell (snd (wr env key d replace st)) k = present y \<and> (y = x \<or> k = key \<and> replace \<and> y = d)"
proof (cases "k = key")
  case True
  then show ?thesis
    using write_replace [of env key d st] write_create [of env key d st] assms(2) apart by (cases replace) force+
next
  case False
  then show ?thesis using write_frame [OF assms(1)] assms(2) by auto
qed

lemma write_changes:
  assumes "proper k" "cell (snd (wr env key d replace st)) k \<noteq> cell st k"
  shows "k = key \<and> (cell (snd (wr env key d replace st)) k = present d \<or> cell st k = absent \<and> \<not> replace)"
proof (cases "k = key")
  case True
  then show ?thesis
    using write_replace [of env key d st] write_create [of env key d st] assms(2) by (cases replace) auto
next
  case False
  then show ?thesis using write_frame [OF assms(1)] assms(2) by auto
qed

end

interpretation ps: document_store dict_get store_write "\<lambda>d. Some (Some d)" None "Some None" key_ok
proof unfold_locales
  fix env :: store_env and key k :: string and d :: 'a and st :: "'a store" and replace
  show "dict_get (snd (store_write env key d True st)) key = Some (Some d)
      \<or> dict_get (snd (store_write env key d True st)) key = dict_get st key"
    using pending_not_key [of key env key] by (auto simp: store_write_def split: write_outcome.splits bool.splits)
  show "dict_get (snd (store_write env key d False st)) key = dict_get st key
      \<or> dict_get st key = None \<and> dict_get (snd (store_write env key d False st)) key \<in> {Some (Some d), Some None}"
    using pending_not_key [of key env key] by (auto simp: store_write_def split: write_outcome.splits bool.splits)
  show "fst (store_write env key d replace st) = None \<Longrightarrow> dict_get (snd (store_write env key d replace st)) key = Some (Some d)"
    by (auto simp: store_write_def split: write_outcome.splits bool.splits if_splits)
  show "key_ok k \<Longrightarrow> k \<noteq> key \<Longrightarrow> dict_get (snd (store_write env key d replace st)) k = dict_get st k"
    using pending_not_key [of k env key] by (auto simp: store_write_def split: write_outcome.splits bool.splits)
qed auto

end
