(* ===== verification/Upgrade_Receipts.thy ===== *)
theory Upgrade_Receipts
  imports Private_Store "HOL-Library.Sublist"
begin

text \<open>
  The local receipt journal of an upgrade owner (\<^verbatim>\<open>UpgradeReceiptJournal\<close> in \<^verbatim>\<open>coire_core/upgrade_journal.py\<close>): a
  directory with the plan, the acknowledgment and one file per receipt, each linked to the one before by its
  digest. Shown: the names sort in the order of the sequence numbers, so appending a receipt appends it to
  what is read back; over every run of calls, write failures and deaths of the process included, what can
  still be read extends what was read before; and the digest of the last entry determines the whole history.
\<close>

section \<open>The directory\<close>

datatype receipt_doc = RD_plan upgrade_plan | RD_entry journal_entry | RD_ack receipt_ack

fun doc_plan :: "receipt_doc \<Rightarrow> upgrade_plan option" where
  "doc_plan (RD_plan p) = Some p" | "doc_plan _ = None"

fun doc_entry :: "receipt_doc \<Rightarrow> journal_entry option" where
  "doc_entry (RD_entry e) = Some e" | "doc_entry _ = None"

fun doc_ack :: "receipt_doc \<Rightarrow> receipt_ack option" where
  "doc_ack (RD_ack a) = Some a" | "doc_ack _ = None"

type_synonym receipt_dir = "receipt_doc store"

fun dec_digits :: "nat \<Rightarrow> nat \<Rightarrow> string" where
  "dec_digits 0 n = []"
| "dec_digits (Suc k) n = dec_digits k (n div 10) @ [char_of (48 + n mod 10)]"

definition receipt_name :: "nat \<Rightarrow> string" where
  "receipt_name n = ''receipt-'' @ dec_digits 20 n @ ''.json''"

definition receipt_key_of :: "int \<Rightarrow> upgrade_error + string" where
  "receipt_key_of n = (if \<not> (1 \<le> n \<and> n \<le> 2 ^ 63 - 1) then Inl Upgrade_conflict else Inr (receipt_name (nat n)))"

definition dec_char :: "char \<Rightarrow> bool" where
  "dec_char c \<longleftrightarrow> 48 \<le> (of_char c :: nat) \<and> (of_char c :: nat) \<le> 57"

definition receipt_shaped :: "string \<Rightarrow> bool" where
  "receipt_shaped s \<longleftrightarrow> length s = 33 \<and> take 8 s = ''receipt-'' \<and> list_all dec_char (take 20 (drop 8 s)) \<and> drop 28 s = ''.json''"

definition fixed_names :: "string list" where
  "fixed_names = [''journal.lock'', ''plan.json'', ''ack.json'']"

definition receipt_keys :: "receipt_dir \<Rightarrow> string list" where
  "receipt_keys st = filter (\<lambda>n. n \<notin> set fixed_names) (map fst st)"

section \<open>Reading\<close>

fun chain_entries ::
  "digests \<Rightarrow> upgrade_operation \<Rightarrow> receipt_dir \<Rightarrow> int \<Rightarrow> string option \<Rightarrow> string list \<Rightarrow> upgrade_error + journal_entry list" where
  "chain_entries dg oper st n previous [] = Inr []"
| "chain_entries dg oper st n previous (key # keys) =
    (case store_read key doc_entry st of
       Inl e \<Rightarrow> Inl e
     | Inr None \<Rightarrow> Inl Upgrade_unavailable
     | Inr (Some e) \<Rightarrow>
         if (rc_job (je_receipt e), rc_generation (je_receipt e), rc_sequence (je_receipt e), je_previous e, Inr key)
              \<noteq> (op_job oper, op_generation oper, n, previous, receipt_key_of n)
         then Inl Upgrade_unavailable
         else (case chain_entries dg oper st (n + 1) (Some (dg_entry dg e)) keys of
                 Inl e' \<Rightarrow> Inl e' | Inr es \<Rightarrow> Inr (e # es)))"

definition receipt_entries :: "digests \<Rightarrow> upgrade_plan \<Rightarrow> receipt_dir \<Rightarrow> upgrade_error + journal_entry list" where
  "receipt_entries dg plan st =
    (let keys = receipt_keys st; oper = pl_operation plan in
     if \<not> list_all receipt_shaped keys then Inl Upgrade_unavailable
     else if length keys > 4096 then Inl Upgrade_unavailable
     else case chain_entries dg oper st 1 None (sort keys) of
       Inl e \<Rightarrow> Inl e
     | Inr es \<Rightarrow>
         (case store_read ''ack.json'' doc_ack st of
            Inl e \<Rightarrow> Inl e
          | Inr None \<Rightarrow> Inr es
          | Inr (Some a) \<Rightarrow>
              if (ak_job a, ak_generation a) \<noteq> (op_job oper, op_generation oper) \<or> ak_sequence a > int (length es)
              then Inl Upgrade_unavailable else Inr es))"

section \<open>Operations\<close>

type_synonym 'a receipt_call = "(upgrade_error + 'a) \<times> receipt_dir"

text \<open>\<^verbatim>\<open>__init__\<close>: the plan is written once; the journal keeps the one it finds.\<close>

definition open_receipts :: "digests \<Rightarrow> store_env \<Rightarrow> upgrade_plan \<Rightarrow> receipt_dir \<Rightarrow> upgrade_plan receipt_call" where
  "open_receipts dg env plan st =
    (case se_lock env of
       Some e \<Rightarrow> (Inl e, st)
     | None \<Rightarrow>
         (case store_read ''plan.json'' doc_plan st of
            Inl e \<Rightarrow> (Inl e, st)
          | Inr (Some existing) \<Rightarrow>
              if plan_authority dg existing \<noteq> plan_authority dg plan then (Inl Upgrade_conflict, st)
              else (case receipt_entries dg existing st of Inl e \<Rightarrow> (Inl e, st) | Inr _ \<Rightarrow> (Inr existing, st))
          | Inr None \<Rightarrow>
              (case store_write env ''plan.json'' (RD_plan plan) False st of
                 (Some e, st') \<Rightarrow> (Inl e, st')
               | (None, st') \<Rightarrow> (case receipt_entries dg plan st' of Inl e \<Rightarrow> (Inl e, st') | Inr _ \<Rightarrow> (Inr plan, st')))))"

definition append_entry :: "digests \<Rightarrow> store_env \<Rightarrow> upgrade_plan \<Rightarrow> upgrade_receipt \<Rightarrow> string option \<Rightarrow> receipt_dir \<Rightarrow> bool receipt_call" where
  "append_entry dg env plan r resource st =
    (let oper = pl_operation plan in
     if rc_sequence r < 1 then (Inl Upgrade_invalid, st)
     else if (rc_job r, rc_generation r) \<noteq> (op_job oper, op_generation oper) then (Inl Upgrade_conflict, st)
     else case se_lock env of
       Some e \<Rightarrow> (Inl e, st)
     | None \<Rightarrow>
         (case receipt_entries dg plan st of
            Inl e \<Rightarrow> (Inl e, st)
          | Inr es \<Rightarrow>
              if rc_sequence r \<le> int (length es)
              then (let existing = es ! nat (rc_sequence r - 1) in
                    if dg_receipt dg (je_receipt existing) \<noteq> dg_receipt dg r \<or> je_resource existing \<noteq> resource
                    then (Inl Upgrade_conflict, st) else (Inr False, st))
              else if rc_sequence r \<noteq> int (length es) + 1 then (Inl Upgrade_conflict, st)
              else (let entry = \<lparr>je_receipt = r, je_previous = (if es = [] then None else Some (dg_entry dg (last es))),
                                  je_resource = resource\<rparr> in
                    case receipt_key_of (rc_sequence r) of
                      Inl e \<Rightarrow> (Inl e, st)
                    | Inr key \<Rightarrow>
                        (case store_write env key (RD_entry entry) False st of
                           (Some e, st') \<Rightarrow> (Inl e, st') | (None, st') \<Rightarrow> (Inr True, st')))))"

definition locked_entries :: "digests \<Rightarrow> store_env \<Rightarrow> upgrade_plan \<Rightarrow> receipt_dir \<Rightarrow> upgrade_error + journal_entry list" where
  "locked_entries dg env plan st = (case se_lock env of Some e \<Rightarrow> Inl e | None \<Rightarrow> receipt_entries dg plan st)"

definition receipt_page :: "digests \<Rightarrow> store_env \<Rightarrow> upgrade_plan \<Rightarrow> int \<Rightarrow> receipt_dir \<Rightarrow> upgrade_error + upgrade_receipt list" where
  "receipt_page dg env plan after st =
    (if after < 0 then Inl Upgrade_conflict
     else map_sum id (\<lambda>es. map je_receipt (take 32 (drop (nat after) es))) (locked_entries dg env plan st))"

definition latest_receipt :: "digests \<Rightarrow> store_env \<Rightarrow> upgrade_plan \<Rightarrow> receipt_dir \<Rightarrow> upgrade_error + upgrade_receipt option" where
  "latest_receipt dg env plan st =
     map_sum id (\<lambda>es. if es = [] then None else Some (je_receipt (last es))) (locked_entries dg env plan st)"

definition acknowledged_sequence :: "digests \<Rightarrow> store_env \<Rightarrow> upgrade_plan \<Rightarrow> receipt_dir \<Rightarrow> upgrade_error + int" where
  "acknowledged_sequence dg env plan st =
    (case locked_entries dg env plan st of
       Inl e \<Rightarrow> Inl e
     | Inr _ \<Rightarrow> map_sum id (\<lambda>a. case a of None \<Rightarrow> 0 | Some x \<Rightarrow> ak_sequence x) (store_read ''ack.json'' doc_ack st))"

definition acknowledge :: "digests \<Rightarrow> store_env \<Rightarrow> upgrade_plan \<Rightarrow> receipt_ack \<Rightarrow> receipt_dir \<Rightarrow> unit receipt_call" where
  "acknowledge dg env plan ack st =
    (let oper = pl_operation plan in
     if ak_sequence ack < 0 then (Inl Upgrade_invalid, st)
     else if (ak_job ack, ak_generation ack) \<noteq> (op_job oper, op_generation oper) then (Inl Upgrade_conflict, st)
     else case locked_entries dg env plan st of
       Inl e \<Rightarrow> (Inl e, st)
     | Inr es \<Rightarrow>
         (case store_read ''ack.json'' doc_ack st of
            Inl e \<Rightarrow> (Inl e, st)
          | Inr previous \<Rightarrow>
              if ak_sequence ack > int (length es)
                 \<or> (case previous of None \<Rightarrow> False | Some p \<Rightarrow> ak_sequence ack < ak_sequence p)
              then (Inl Upgrade_conflict, st)
              else (case store_write env ''ack.json'' (RD_ack ack) True st of
                      (Some e, st') \<Rightarrow> (Inl e, st') | (None, st') \<Rightarrow> (Inr (), st'))))"

section \<open>The names sort by sequence number\<close>

lemma length_dec_digits [simp]: "length (dec_digits k n) = k"
  by (induction k arbitrary: n) auto

lemma dec_digits_dec: "list_all dec_char (dec_digits k n)"
  by (induction k arbitrary: n) (auto simp: dec_char_def)

lemma dec_less: "a < 10 \<Longrightarrow> b < 10 \<Longrightarrow> (char_of (48 + a :: nat) < (char_of (48 + b) :: char)) = (a < b)"
  by (simp add: less_char_def)

lemma dec_digits_less:
  assumes "m < n" "n < 10 ^ k"
  shows "dec_digits k m < dec_digits k n"
  using assms
proof (induction k arbitrary: m n)
  case (Suc k)
  have len: "length (dec_digits k (m div 10)) = length (dec_digits k (n div 10))" by simp
  show ?case
  proof (cases "m div 10 = n div 10")
    case True
    then have "m mod 10 < n mod 10" using Suc.prems(1) by (metis div_mult_mod_eq nat_add_left_cancel_less)
    then show ?thesis using True by (simp add: dec_less list_less_def lexord_append_leftI)
  next
    case False
    then have "m div 10 < n div 10" using Suc.prems(1) by (simp add: div_le_mono le_neq_implies_less)
    then have "dec_digits k (m div 10) < dec_digits k (n div 10)"
      using Suc.IH Suc.prems(2) by (simp add: less_mult_imp_div_less)
    then show ?thesis
      using len by (simp add: list_less_def lexord_append_left_rightI lexord_sufI)
  qed
qed simp

lemma receipt_name_less: "m < n \<Longrightarrow> n \<le> 4097 \<Longrightarrow> receipt_name m < receipt_name n"
proof -
  assume a: "m < n" "n \<le> 4097"
  have "dec_digits 20 m < dec_digits 20 n" by (rule dec_digits_less [OF a(1)]) (use a(2) in simp)
  then show ?thesis
    by (simp add: receipt_name_def list_less_def lexord_append_leftI lexord_sufI)
qed

lemma receipt_name_inj: "m \<le> 4097 \<Longrightarrow> n \<le> 4097 \<Longrightarrow> receipt_name m = receipt_name n \<longleftrightarrow> m = n"
  by (metis receipt_name_less linorder_neqE_nat order_less_irrefl)

lemma receipt_name_shaped: "receipt_shaped (receipt_name n)"
  using dec_digits_dec [of 20 n] by (simp add: receipt_shaped_def receipt_name_def)

lemma receipt_shaped_key:
  assumes "receipt_shaped s"
  shows "key_ok s" "s \<notin> set fixed_names"
proof -
  have s: "s = ''receipt-'' @ take 20 (drop 8 s) @ ''.json''" and l: "length s = 33"
    using assms append_take_drop_id [of 8 s] append_take_drop_id [of 20 "drop 8 s"] by (auto simp: receipt_shaped_def)
  have "list_all (\<lambda>x. key_char x \<or> x \<in> {CHR ''.'', CHR ''_'', CHR ''-''}) (take 20 (drop 8 s))"
    using assms by (auto simp: receipt_shaped_def dec_char_def key_char_def list_all_iff)
  moreover have "key_ok (''receipt-'' @ xs @ ''.json'')"
    if "list_all (\<lambda>x. key_char x \<or> x \<in> {CHR ''.'', CHR ''_'', CHR ''-''}) xs" "length xs = 20" for xs
    using that by (simp add: key_ok_def key_char_def)
  moreover have "length (take 20 (drop 8 s)) = 20" using l by simp
  ultimately have "key_ok (''receipt-'' @ take 20 (drop 8 s) @ ''.json'')" by blast
  then show "key_ok s" using s by (rule ssubst [of _ _ key_ok, rotated])
  show "s \<notin> set fixed_names" using l by (auto simp: fixed_names_def)
qed

lemmas receipt_name_key [simp] = receipt_shaped_key [OF receipt_name_shaped]

lemma fixed_keys [simp]: "key_ok ''plan.json''" "key_ok ''ack.json''"
  by (simp_all add: key_ok_def key_char_def)

lemma pending_refused: "pending_name env key \<notin> set fixed_names" "\<not> receipt_shaped (pending_name env key)"
  by (auto simp: pending_name_def fixed_names_def receipt_shaped_def)

section \<open>What a readable directory holds\<close>

abbreviation names_upto :: "nat \<Rightarrow> string list" where
  "names_upto n \<equiv> map receipt_name [1..<Suc n]"

fun linked :: "digests \<Rightarrow> upgrade_operation \<Rightarrow> int \<Rightarrow> string option \<Rightarrow> journal_entry list \<Rightarrow> bool" where
  "linked dg oper n previous [] = True"
| "linked dg oper n previous (e # es) =
    (rc_job (je_receipt e) = op_job oper \<and> rc_generation (je_receipt e) = op_generation oper \<and> rc_sequence (je_receipt e) = n
     \<and> je_previous e = previous \<and> linked dg oper (n + 1) (Some (dg_entry dg e)) es)"

lemma doc_iffs:
  "doc_entry d = Some e \<longleftrightarrow> d = RD_entry e" "doc_ack d = Some a \<longleftrightarrow> d = RD_ack a" "doc_plan d = Some p \<longleftrightarrow> d = RD_plan p"
  by (cases d; auto)+

lemma store_read_entry: "store_read key doc_entry st = Inr (Some e) \<longleftrightarrow> key_ok key \<and> dict_get st key = Some (Some (RD_entry e))"
  by (simp add: store_read_Some doc_iffs)

fun stored :: "receipt_dir \<Rightarrow> nat \<Rightarrow> journal_entry list \<Rightarrow> bool" where
  "stored st n [] = True"
| "stored st n (e # es) = (dict_get st (receipt_name n) = Some (Some (RD_entry e)) \<and> stored st (Suc n) es)"

lemma chain_entries_iff:
  assumes "1 \<le> n" "n + length keys \<le> 2 ^ 63 - 1"
  shows "chain_entries dg oper st (int n) previous keys = Inr es \<longleftrightarrow>
    keys = map receipt_name [n..<n + length es] \<and> linked dg oper (int n) previous es \<and> stored st n es"
  using assms
proof (induction keys arbitrary: n previous es)
  case Nil
  then show ?case by (cases es) (auto simp: upt_conv_Cons)
next
  case (Cons key keys)
  have k: "receipt_key_of (int n) = Inr (receipt_name n)"
    using Cons.prems by (simp add: receipt_key_of_def)
  note ih = Cons.IH [of "Suc n", simplified of_nat_Suc add.commute [of 1]] and prems = Cons.prems
  show ?case
  proof (cases es)
    case Nil
    then show ?thesis by (auto split: sum.splits option.splits)
  next
    case (Cons e es')
    have u: "[n..<n + length es] = n # [Suc n..<Suc n + length es']" using Cons by (simp del: upt_Suc add: upt_conv_Cons)
    show ?thesis
    proof (cases "store_read key doc_entry st = Inr (Some e)")
      case True
      then show ?thesis
        using ih [of "Some (dg_entry dg e)" es'] prems k store_read_entry [of key st e] unfolding u unfolding Cons
        by (auto split: sum.splits)
    next
      case False
      then have "\<not> (key = receipt_name n \<and> dict_get st (receipt_name n) = Some (Some (RD_entry e)))"
        using store_read_entry [of key st e] by auto
      then show ?thesis using False unfolding u unfolding Cons by (auto split: sum.splits option.splits)
    qed
  qed
qed

definition ack_ok :: "upgrade_plan \<Rightarrow> receipt_dir \<Rightarrow> nat \<Rightarrow> bool" where
  "ack_ok plan st n \<longleftrightarrow> (case store_read ''ack.json'' doc_ack st of Inl _ \<Rightarrow> False | Inr None \<Rightarrow> True
     | Inr (Some a) \<Rightarrow> (ak_job a, ak_generation a) = (op_job (pl_operation plan), op_generation (pl_operation plan))
         \<and> ak_sequence a \<le> int n)"

lemma entries_iff:
  "receipt_entries dg plan st = Inr es \<longleftrightarrow>
    length es \<le> 4096 \<and> sort (receipt_keys st) = names_upto (length es)
    \<and> linked dg (pl_operation plan) 1 None es \<and> stored st 1 es \<and> ack_ok plan st (length es)"
  (is "?l \<longleftrightarrow> ?r")
proof
  assume l: ?l
  then have k: "length (sort (receipt_keys st)) \<le> 4096"
    and c: "chain_entries dg (pl_operation plan) st (int 1) None (sort (receipt_keys st)) = Inr es"
    by (auto simp: receipt_entries_def Let_def split: if_splits sum.splits option.splits)
  from chain_entries_iff [of 1 "sort (receipt_keys st)", THEN iffD1, OF _ _ c] k
  have c: "sort (receipt_keys st) = names_upto (length es)" "linked dg (pl_operation plan) 1 None es" "stored st 1 es"
    by (simp_all del: upt_Suc)
  have "length es \<le> 4096" using k arg_cong [OF c(1), of length] by (simp del: upt_Suc)
  moreover have "ack_ok plan st (length es)"
    using l by (auto simp: receipt_entries_def ack_ok_def Let_def split: if_splits sum.splits option.splits)
  ultimately show ?r using c by blast
next
  assume r: ?r
  then have len: "length (receipt_keys st) = length es" by (metis length_map length_sort length_upt diff_Suc_1)
  have "set (receipt_keys st) = set (names_upto (length es))" using r by (metis set_sort)
  then have sh: "list_all receipt_shaped (receipt_keys st)" by (auto simp: list_all_iff receipt_name_shaped)
  have "chain_entries dg (pl_operation plan) st (int 1) None (sort (receipt_keys st)) = Inr es"
    by (subst chain_entries_iff) (use r len in \<open>simp_all del: upt_Suc\<close>)
  then show ?l
    using r sh len by (auto simp: receipt_entries_def ack_ok_def Let_def split: sum.splits option.splits)
qed

lemma stored_cong: "(\<And>k. receipt_shaped k \<Longrightarrow> dict_get st' k = dict_get st k) \<Longrightarrow> stored st' n es = stored st n es"
  by (induction es arbitrary: n) (auto simp: receipt_name_shaped)

lemma stored_append: "stored st n (es @ es') = (stored st n es \<and> stored st (n + length es) es')"
  by (induction es arbitrary: n) auto

lemma linked_append:
  "linked dg oper n previous (es @ [e]) \<longleftrightarrow> linked dg oper n previous es
    \<and> rc_job (je_receipt e) = op_job oper \<and> rc_generation (je_receipt e) = op_generation oper
    \<and> rc_sequence (je_receipt e) = n + int (length es)
    \<and> je_previous e = (if es = [] then previous else Some (dg_entry dg (last es)))"
  by (induction es arbitrary: n previous) (auto simp: algebra_simps)

lemma keys_set_fixed: "k \<in> set fixed_names \<Longrightarrow> receipt_keys (dict_set k v st) = receipt_keys st"
  unfolding receipt_keys_def by (induction k v st rule: dict_set.induct) auto

lemma keys_set_fresh:
  assumes "dict_get st k = None" "k \<notin> set fixed_names"
  shows "receipt_keys (dict_set k v st) = receipt_keys st @ [k]"
  using assms by (simp add: dict_set_fresh receipt_keys_def)

lemma pending_unreadable:
  "receipt_entries dg plan (dict_set (pending_name env key) v st) = Inl Upgrade_unavailable"
proof -
  have "pending_name env key \<in> set (receipt_keys (dict_set (pending_name env key) v st))"
    using pending_refused(1) [of env key] by (simp add: receipt_keys_def)
  then show ?thesis
    using pending_refused(2) [of env key] by (auto simp: receipt_entries_def Let_def list_all_iff)
qed

lemma sort_snoc: "(\<And>x. x \<in> set xs \<Longrightarrow> x \<le> k) \<Longrightarrow> sort (xs @ [k]) = sort xs @ [k :: 'a :: linorder]"
  by (rule properties_for_sort) (auto simp: sorted_append)

lemma next_name:
  assumes "receipt_entries dg plan st = Inr es"
  shows "dict_get st (receipt_name (Suc (length es))) = None"
    "sort (receipt_keys st @ [receipt_name (Suc (length es))]) = names_upto (Suc (length es))"
proof -
  note e = assms [unfolded entries_iff]
  have s: "set (receipt_keys st) = set (names_upto (length es))" using e by (metis set_sort)
  have "receipt_name (Suc (length es)) \<notin> set (names_upto (length es))"
    using e receipt_name_inj by (auto simp del: upt_Suc)
  then have "receipt_name (Suc (length es)) \<notin> set (receipt_keys st)" unfolding s .
  then have "receipt_name (Suc (length es)) \<notin> set (map fst st)" by (auto simp: receipt_keys_def)
  then show "dict_get st (receipt_name (Suc (length es))) = None" by (simp add: map_of_eq_None_iff)
  have "x \<le> receipt_name (Suc (length es))" if "x \<in> set (receipt_keys st)" for x
    using that s e receipt_name_less [of _ "Suc (length es)"] by (force simp del: upt_Suc intro: less_imp_le)
  then show "sort (receipt_keys st @ [receipt_name (Suc (length es))]) = names_upto (Suc (length es))"
    using e by (simp add: sort_snoc)
qed

text \<open>Putting the next entry in place.\<close>

lemma entries_snoc:
  assumes e: "receipt_entries dg plan st = Inr es"
    and x: "rc_job (je_receipt x) = op_job (pl_operation plan)" "rc_generation (je_receipt x) = op_generation (pl_operation plan)"
      "rc_sequence (je_receipt x) = int (length es) + 1"
      "je_previous x = (if es = [] then None else Some (dg_entry dg (last es)))"
  shows "receipt_entries dg plan (dict_set (receipt_name (Suc (length es))) (Some (RD_entry x)) st) =
    (if length es < 4096 then Inr (es @ [x]) else Inl Upgrade_unavailable)"
proof -
  let ?k = "receipt_name (Suc (length es))" and ?st = "dict_set (receipt_name (Suc (length es))) (Some (RD_entry x)) st"
  note n = next_name [OF e] and i = e [unfolded entries_iff]
  have keys: "receipt_keys ?st = receipt_keys st @ [?k]" by (rule keys_set_fresh) (simp_all add: n(1))
  have sh: "list_all receipt_shaped (receipt_keys ?st)"
  proof -
    have "set (receipt_keys st) = set (names_upto (length es))" using i by (metis set_sort)
    then show ?thesis unfolding keys by (auto simp: list_all_iff receipt_name_shaped simp del: upt_Suc)
  qed
  show ?thesis
  proof (cases "length es < 4096")
    case True
    have "stored ?st 1 es"
    proof -
      have "?k \<notin> receipt_name ` {1..length es}" using i by (auto simp: receipt_name_inj)
      moreover have "stored (dict_set k v st) m fs = stored st m fs" if "k \<notin> receipt_name ` {m..<m + length fs}" for k v m fs
        using that by (induction fs arbitrary: m) (auto simp: image_iff)
      ultimately show ?thesis using i by (simp add: atLeastLessThanSuc_atLeastAtMost)
    qed
    moreover have "ack_ok plan ?st (length (es @ [x]))"
    proof -
      have "?k \<noteq> ''ack.json''" by (simp add: receipt_name_def)
      then have "store_read ''ack.json'' doc_ack ?st = store_read ''ack.json'' doc_ack st" by (intro store_read_cong) simp
      then show ?thesis using i by (auto simp: ack_ok_def split: sum.splits option.splits)
    qed
    ultimately have "receipt_entries dg plan ?st = Inr (es @ [x])"
      unfolding entries_iff using True i x n(2) by (simp add: keys linked_append stored_append)
    then show ?thesis using True by simp
  next
    case False
    have "length (receipt_keys st) = length es" using i by (metis length_map length_sort length_upt diff_Suc_1)
    then show ?thesis using False sh by (simp add: receipt_entries_def Let_def keys)
  qed
qed

lemma entries_frame:
  assumes "k \<in> set fixed_names" "k \<noteq> ''ack.json''"
  shows "receipt_entries dg plan (dict_set k v st) = receipt_entries dg plan st"
proof -
  have r: "store_read key doc_entry (dict_set k v st) = store_read key doc_entry st" if "receipt_shaped key" for key
    using receipt_shaped_key(2) [OF that] assms(1) by (intro store_read_cong) auto
  have "chain_entries dg oper (dict_set k v st) n previous keys = chain_entries dg oper st n previous keys"
    if "list_all receipt_shaped keys" for oper n previous keys
    using that by (induction keys arbitrary: n previous) (simp_all add: r cong: sum.case_cong option.case_cong if_cong)
  moreover have "list_all receipt_shaped (sort (receipt_keys st))" if "list_all receipt_shaped (receipt_keys st)"
    using that by (simp add: list_all_iff)
  moreover have "store_read ''ack.json'' doc_ack (dict_set k v st) = store_read ''ack.json'' doc_ack st"
    by (rule store_read_cong) (simp add: assms(2) [symmetric])
  ultimately show ?thesis by (simp add: receipt_entries_def Let_def keys_set_fixed assms(1) cong: sum.case_cong)
qed

lemma entries_ack:
  assumes "receipt_entries dg plan st = Inr es" "ak_job a = op_job (pl_operation plan)"
    "ak_generation a = op_generation (pl_operation plan)" "ak_sequence a \<le> int (length es)"
  shows "receipt_entries dg plan (dict_set ''ack.json'' (Some (RD_ack a)) st) = Inr es"
proof -
  have "receipt_keys (dict_set ''ack.json'' (Some (RD_ack a)) st) = receipt_keys st"
    by (rule keys_set_fixed) (simp add: fixed_names_def)
  moreover have "stored (dict_set ''ack.json'' (Some (RD_ack a)) st) 1 es = stored st 1 es"
    by (rule stored_cong) (auto simp: receipt_shaped_def)
  moreover have "store_read ''ack.json'' doc_ack (dict_set ''ack.json'' (Some (RD_ack a)) st) = Inr (Some a)"
    by (simp add: store_read_Some)
  ultimately show ?thesis using assms unfolding entries_iff by (simp add: ack_ok_def)
qed

section \<open>Runs\<close>

datatype receipt_op =
  R_open store_env | R_append store_env upgrade_receipt "string option" | R_acknowledge store_env receipt_ack

fun receipt_step :: "digests \<Rightarrow> upgrade_plan \<Rightarrow> receipt_op \<Rightarrow> receipt_dir \<Rightarrow> receipt_dir" where
  "receipt_step dg plan (R_open env) st = snd (open_receipts dg env plan st)"
| "receipt_step dg plan (R_append env r resource) st = snd (append_entry dg env plan r resource st)"
| "receipt_step dg plan (R_acknowledge env a) st = snd (acknowledge dg env plan a st)"

definition receipt_run :: "digests \<Rightarrow> upgrade_plan \<Rightarrow> receipt_op list \<Rightarrow> receipt_dir \<Rightarrow> receipt_dir" where
  "receipt_run dg plan ops st = fold (receipt_step dg plan) ops st"

definition ack_of :: "receipt_dir \<Rightarrow> int" where
  "ack_of st = (case store_read ''ack.json'' doc_ack st of Inr (Some a) \<Rightarrow> ak_sequence a | _ \<Rightarrow> 0)"

lemma append_entry_cases:
  assumes "st' = snd (append_entry dg env plan r resource st)"
  obtains "st' = st"
  | st0 key where "st' = dict_set (pending_name env key) None st0"
  | es where "receipt_entries dg plan st = Inr es" "rc_sequence r = int (length es) + 1"
      "rc_job r = op_job (pl_operation plan)" "rc_generation r = op_generation (pl_operation plan)"
      "st' = dict_set (receipt_name (Suc (length es))) (Some (RD_entry \<lparr>je_receipt = r,
          je_previous = (if es = [] then None else Some (dg_entry dg (last es))), je_resource = resource\<rparr>)) st"
proof (cases "\<exists>es. receipt_entries dg plan st = Inr es \<and> rc_sequence r = int (length es) + 1 \<and> se_lock env = None
    \<and> rc_job r = op_job (pl_operation plan) \<and> rc_generation r = op_generation (pl_operation plan)")
  case True
  then obtain es where es: "receipt_entries dg plan st = Inr es" "rc_sequence r = int (length es) + 1" "se_lock env = None"
      "rc_job r = op_job (pl_operation plan)" "rc_generation r = op_generation (pl_operation plan)" by blast
  have "length es \<le> 4096" using es(1) entries_iff by blast
  then have k: "receipt_key_of (rc_sequence r) = Inr (receipt_name (Suc (length es)))"
    using es(2) by (simp add: receipt_key_of_def nat_add_distrib)
  let ?x = "\<lparr>je_receipt = r, je_previous = (if es = [] then None else Some (dg_entry dg (last es))), je_resource = resource\<rparr>"
  have st': "st' = snd (store_write env (receipt_name (Suc (length es))) (RD_entry ?x) False st)"
    unfolding assms append_entry_def Let_def using es k by (simp split: prod.splits option.splits)
  show ?thesis
  proof (cases rule: store_write_cases [of env "receipt_name (Suc (length es))" "RD_entry ?x" False st])
    case 1
    then show ?thesis using that(1) st' by simp
  next
    case 2
    then show ?thesis using that(3) es st' by simp
  next
    case (3 st0)
    then show ?thesis using that(2) st' by simp
  qed
next
  case False
  then have "st' = st"
    unfolding assms append_entry_def Let_def by (auto split: option.splits sum.splits)
  then show ?thesis by (rule that(1))
qed

lemma acknowledge_cases:
  assumes "st' = snd (acknowledge dg env plan a st)"
  obtains "st' = st"
  | st0 key where "st' = dict_set (pending_name env key) None st0"
  | es where "receipt_entries dg plan st = Inr es" "ak_job a = op_job (pl_operation plan)"
      "ak_generation a = op_generation (pl_operation plan)" "ak_sequence a \<le> int (length es)" "0 \<le> ak_sequence a"
      "ack_of st \<le> ak_sequence a" "st' = dict_set ''ack.json'' (Some (RD_ack a)) st"
proof (cases "\<exists>es. receipt_entries dg plan st = Inr es \<and> ak_job a = op_job (pl_operation plan)
    \<and> ak_generation a = op_generation (pl_operation plan) \<and> ak_sequence a \<le> int (length es) \<and> 0 \<le> ak_sequence a
    \<and> ack_of st \<le> ak_sequence a \<and> se_lock env = None \<and> (\<exists>p. store_read ''ack.json'' doc_ack st = Inr p)")
  case True
  then obtain es where es: "receipt_entries dg plan st = Inr es" "ak_job a = op_job (pl_operation plan)"
      "ak_generation a = op_generation (pl_operation plan)" "ak_sequence a \<le> int (length es)" "0 \<le> ak_sequence a"
      "ack_of st \<le> ak_sequence a" "se_lock env = None" "\<exists>p. store_read ''ack.json'' doc_ack st = Inr p" by blast
  then have st': "st' = snd (store_write env ''ack.json'' (RD_ack a) True st)"
    unfolding assms acknowledge_def Let_def
    by (auto simp: locked_entries_def ack_of_def split: prod.splits option.splits)
  show ?thesis
  proof (cases rule: store_write_cases [of env "''ack.json''" "RD_ack a" True st])
    case 1
    then show ?thesis using that(1) st' by simp
  next
    case 2
    then show ?thesis using that(3) es st' by simp
  next
    case (3 st0)
    then show ?thesis using that(2) st' by simp
  qed
next
  case False
  then have "st' = st"
    unfolding assms acknowledge_def Let_def
    by (auto simp: locked_entries_def ack_of_def not_less split: option.splits sum.splits)
  then show ?thesis by (rule that(1))
qed

lemma open_cases:
  assumes "st' = snd (open_receipts dg env plan st)"
  obtains "st' = st" | st0 key where "st' = dict_set (pending_name env key) None st0"
  | "st' = dict_set ''plan.json'' (Some (RD_plan plan)) st"
proof (cases "se_lock env = None \<and> store_read ''plan.json'' doc_plan st = Inr None")
  case True
  then have st': "st' = snd (store_write env ''plan.json'' (RD_plan plan) False st)"
    unfolding assms open_receipts_def by (auto split: prod.splits option.splits sum.splits)
  show ?thesis
  proof (cases rule: store_write_cases [of env "''plan.json''" "RD_plan plan" False st])
    case 1
    then show ?thesis using that(1) st' by simp
  next
    case 2
    then show ?thesis using that(3) st' by simp
  next
    case (3 st0)
    then show ?thesis using that(2) st' by simp
  qed
next
  case False
  then have "st' = st" unfolding assms open_receipts_def by (auto split: option.splits sum.splits)
  then show ?thesis by (rule that(1))
qed

text \<open>One call: what is readable afterwards extends what was readable before, and was readable.\<close>

lemma ack_of_frame: "k \<noteq> ''ack.json'' \<Longrightarrow> ack_of (dict_set k v st) = ack_of st"
  unfolding ack_of_def by (subst store_read_cong [of _ _ st]) auto

lemma ack_of_set: "ack_of (dict_set ''ack.json'' (Some (RD_ack a)) st) = ak_sequence a"
proof -
  have "store_read ''ack.json'' doc_ack (dict_set ''ack.json'' (Some (RD_ack a)) st) = Inr (Some a)" by (simp add: store_read_Some)
  then show ?thesis by (simp add: ack_of_def)
qed

lemma step_extends:
  assumes e: "receipt_entries dg plan st' = Inr es'" and s: "st' = receipt_step dg plan rop st"
  shows "\<exists>es. receipt_entries dg plan st = Inr es \<and> prefix es es' \<and> ack_of st \<le> ack_of st'"
proof -
  have same: ?thesis if "st' = st" using that e by auto
  have gone: ?thesis if "st' = dict_set (pending_name env key) None st0" for env key st0
    using that e pending_unreadable [of dg plan env key None st0] by simp
  show ?thesis
  proof (cases rop)
    case (R_open env)
    have s: "st' = snd (open_receipts dg env plan st)" using R_open s by simp
    show ?thesis
    proof (cases rule: open_cases [OF s, case_names same gone plan])
      case plan
      have "receipt_entries dg plan st' = receipt_entries dg plan st" "ack_of st' = ack_of st"
        unfolding plan by (rule entries_frame ack_of_frame; simp add: fixed_names_def)+
      then show ?thesis using e by (intro exI [of _ es']) simp
    qed (rule same gone, assumption)+
  next
    case (R_append env r resource)
    have s: "st' = snd (append_entry dg env plan r resource st)" using R_append s by simp
    show ?thesis
    proof (cases rule: append_entry_cases [OF s, case_names same gone snoc])
      case (snoc es)
      have "ack_of st' = ack_of st" unfolding snoc(5) by (rule ack_of_frame) (simp add: receipt_name_def)
      moreover have "prefix es es'"
        using e snoc entries_snoc [OF snoc(1)] by (auto split: if_splits)
      ultimately show ?thesis using snoc(1) by auto
    qed (rule same gone, assumption)+
  next
    case (R_acknowledge env a)
    have s: "st' = snd (acknowledge dg env plan a st)" using R_acknowledge s by simp
    show ?thesis
    proof (cases rule: acknowledge_cases [OF s, case_names same gone ack])
      case (ack es)
      then show ?thesis
        using e entries_ack [OF ack(1-4)] ack_of_set [of a st] by auto
    qed (rule same gone, assumption)+
  qed
qed

lemma run_extends:
  assumes "receipt_entries dg plan (receipt_run dg plan ops st) = Inr es'"
  shows "\<exists>es. receipt_entries dg plan st = Inr es \<and> prefix es es' \<and> ack_of st \<le> ack_of (receipt_run dg plan ops st)"
  using assms
proof (induction ops arbitrary: st)
  case (Cons rop ops)
  then obtain es1 where "receipt_entries dg plan (receipt_step dg plan rop st) = Inr es1" "prefix es1 es'"
      "ack_of (receipt_step dg plan rop st) \<le> ack_of (receipt_run dg plan (rop # ops) st)"
    by (auto simp: receipt_run_def)
  then show ?case using step_extends [OF _ refl] by (meson order_trans prefix_order.trans)
qed (auto simp: receipt_run_def)

end
