(* ===== verification/Executor_Models.thy ===== *)
theory Executor_Models
  imports Upgrade_Receipts
begin

text \<open>
  The wire models of the core upgrade executor and of the deployment it owns
  (\<^verbatim>\<open>coire_core/models/upgrades.py\<close>), with the bodies of their model validators: the epoch and its effects, observed
  containers, the selected runtime and the source snapshot, and the ownership documents of the deployment
  directory.
\<close>

section \<open>Epoch and effects\<close>

record service_window =
  sw_service :: string
  sw_captured_at :: datetime
  sw_deadline_at :: datetime

definition window_valid :: "service_window \<Rightarrow> bool" where
  "window_valid w \<longleftrightarrow> 0 < sw_deadline_at w - sw_captured_at w \<and> sw_deadline_at w - sw_captured_at w \<le> seconds 120"

record executor_epoch =
  ep_job :: string
  ep_generation :: int
  ep_plan :: string
  ep_activations :: "activation_consume list"
  ep_readiness :: "datetime option"
  ep_windows :: "service_window list"
  ep_outage_at :: "datetime option"
  ep_outage :: "datetime option"
  ep_recovery_at :: "datetime option"
  ep_recovery :: "datetime option"

definition captured_pair :: "datetime option \<Rightarrow> datetime option \<Rightarrow> bool" where
  "captured_pair capture deadline \<longleftrightarrow> (case (capture, deadline) of
     (None, None) \<Rightarrow> True | (Some c, Some d) \<Rightarrow> 0 < d - c \<and> d - c \<le> seconds 300 | _ \<Rightarrow> False)"

abbreviation boundaries :: "executor_epoch \<Rightarrow> string list" where
  "boundaries s \<equiv> map (\<lambda>a. gr_boundary (ac_grant a)) (ep_activations s)"

definition epoch_valid :: "executor_epoch \<Rightarrow> bool" where
  "epoch_valid s \<longleftrightarrow>
     length (ep_activations s) \<le> 2 \<and> length (ep_windows s) \<le> 6
   \<and> list_all activation_valid (ep_activations s) \<and> list_all window_valid (ep_windows s)
   \<and> distinct (map sw_service (ep_windows s)) \<and> (ep_windows s \<noteq> [] \<longrightarrow> ''runtime'' \<in> set (boundaries s))
   \<and> distinct (boundaries s)
   \<and> list_all (\<lambda>a. (gr_job (ac_grant a), gr_generation (ac_grant a)) = (ep_job s, ep_generation s)) (ep_activations s)
   \<and> captured_pair (ep_outage_at s) (ep_outage s) \<and> captured_pair (ep_recovery_at s) (ep_recovery s)
   \<and> (''runtime'' \<in> set (boundaries s)) = (ep_readiness s \<noteq> None)"

datatype effect_action =
  X_MIGRATION | X_CREATE_MIGRATION | X_START_MIGRATION | X_STOP_SOURCE | X_CREATE_CANDIDATE | X_START_CANDIDATE
| X_STOP_CANDIDATE | X_REMOVE_CANDIDATE | X_REMOVE_MIGRATION | X_START_SOURCE

datatype effect_outcome = E_INTENT | E_COMPLETE | E_UNKNOWN

record executor_effect =
  ef_job :: string
  ef_generation :: int
  ef_plan :: string
  ef_id :: string
  ef_action :: effect_action
  ef_service :: "string option"
  ef_container :: "string option"
  ef_image :: string
  ef_captured_at :: datetime
  ef_deadline :: datetime
  ef_outcome :: effect_outcome
  ef_observed :: "string option"

definition effect_valid :: "executor_effect \<Rightarrow> bool" where
  "effect_valid e \<longleftrightarrow>
     (ef_action e \<in> {X_MIGRATION, X_CREATE_MIGRATION, X_START_MIGRATION, X_REMOVE_MIGRATION}) = (ef_service e = None)
   \<and> ef_captured_at e < ef_deadline e
   \<and> (ef_action e \<in> {X_STOP_SOURCE, X_START_CANDIDATE, X_STOP_CANDIDATE, X_REMOVE_CANDIDATE, X_REMOVE_MIGRATION,
        X_START_SOURCE, X_START_MIGRATION} \<longrightarrow> ef_container e \<noteq> None)"

record docker_execution =
  dc_id :: string
  dc_name :: string
  dc_project :: string
  dc_image :: string
  dc_observed_at :: datetime
  dc_running :: bool
  dc_health :: string
  dc_exit_code :: int
  dc_mounts :: "(string \<times> string \<times> string \<times> bool \<times> string) list"
  dc_networks :: "(string, string) pydict"

record docker_container = docker_execution +
  dc_service :: string

record docker_migration = docker_execution +
  dc_status :: string

section \<open>Selections\<close>

text \<open>\<^verbatim>\<open>CoreSelectedService\<close> and \<^verbatim>\<open>CoreSelectedMigration\<close>; the compose configuration is kept as its image and its dump.\<close>

record selection_origin =
  or_job :: "string option"
  or_generation :: "int option"
  or_plan :: "string option"

definition origin_complete :: "selection_origin \<Rightarrow> bool" where
  "origin_complete r \<longleftrightarrow> (or_job r = None) = (or_generation r = None) \<and> (or_job r = None) = (or_plan r = None)"

text \<open>\<^verbatim>\<open>str.lower()\<close>, on the characters of an identifier.\<close>

definition lower_char :: "char \<Rightarrow> char" where
  "lower_char c = (let n = of_char c :: nat in if 65 \<le> n \<and> n \<le> 90 then char_of (n + 32) else c)"

definition upgrade_name :: "string \<Rightarrow> string \<Rightarrow> string \<Rightarrow> string" where
  "upgrade_name project job service = project @ ''-upgrade-'' @ map lower_char job @ ''-'' @ service"

definition origin_name :: "string \<Rightarrow> selection_origin \<Rightarrow> string \<Rightarrow> string" where
  "origin_name project r service =
    (case or_job r of None \<Rightarrow> project @ ''-'' @ service @ ''-1'' | Some job \<Rightarrow> upgrade_name project job service)"

record selected_service =
  ss_container :: docker_container
  ss_origin :: selection_origin

definition selected_service_valid :: "selected_service \<Rightarrow> bool" where
  "selected_service_valid x \<longleftrightarrow> origin_complete (ss_origin x)
     \<and> dc_name (ss_container x) = origin_name (dc_project (ss_container x)) (ss_origin x) (dc_service (ss_container x))"

record selected_migration =
  sm_container :: docker_migration
  sm_release :: upgrade_release
  sm_image :: string
  sm_configuration :: string
  sm_origin :: selection_origin

definition selected_migration_valid :: "selected_migration \<Rightarrow> bool" where
  "selected_migration_valid x \<longleftrightarrow>
    (let c = sm_container x; m = rl_manifest (sm_release x) in
     origin_complete (sm_origin x) \<and> mf_kind m = K_CONTROL_PLANE \<and> mf_project m = Some (dc_project c)
   \<and> mf_host_key m \<noteq> None \<and> mf_compose m \<noteq> None \<and> dc_name c = origin_name (dc_project c) (sm_origin x) ''coire-migrate''
   \<and> dc_image c = sm_image x \<and> \<not> dc_running c \<and> dc_status c = ''exited'' \<and> dc_exit_code c = 0)"

record runtime_selection =
  ru_project :: string
  ru_release :: uuid
  ru_manifest :: string
  ru_compose :: string
  ru_host_key :: string
  ru_owner :: string
  ru_generation :: int
  ru_selected_at :: datetime
  ru_services :: "selected_service list"
  ru_migration :: "selected_migration option"

definition runtime_selection_valid :: "runtime_selection \<Rightarrow> bool" where
  "runtime_selection_valid s \<longleftrightarrow>
     list_all selected_service_valid (ru_services s) \<and> ru_services s \<noteq> [] \<and> length (ru_services s) \<le> 6
   \<and> distinct (map (\<lambda>x. dc_service (ss_container x)) (ru_services s)) \<and> distinct (map (\<lambda>x. dc_id (ss_container x)) (ru_services s))
   \<and> list_all (\<lambda>x. dc_project (ss_container x) = ru_project s \<and> dc_running (ss_container x) \<and> dc_health (ss_container x) = ''healthy''
        \<and> dc_observed_at (ss_container x) \<le> ru_selected_at s) (ru_services s)
   \<and> (case ru_migration s of None \<Rightarrow> True
      | Some x \<Rightarrow> selected_migration_valid x \<and> dc_project (sm_container x) = ru_project s
          \<and> dc_observed_at (sm_container x) \<le> ru_selected_at s)"

record source_snapshot =
  sn_job :: string
  sn_generation :: int
  sn_plan :: string
  sn_project :: string
  sn_source :: string
  sn_captured_at :: datetime
  sn_services :: "docker_container list"

definition snapshot_valid :: "source_snapshot \<Rightarrow> bool" where
  "snapshot_valid s \<longleftrightarrow> sn_services s \<noteq> [] \<and> length (sn_services s) \<le> 6
   \<and> distinct (map dc_service (sn_services s)) \<and> distinct (map dc_id (sn_services s))
   \<and> list_all (\<lambda>c. dc_project c = sn_project s \<and> dc_running c \<and> dc_health c = ''healthy'') (sn_services s)"

section \<open>Deployment ownership\<close>

record ownership =
  do_project :: string
  do_state :: string
  do_owner_kind :: string
  do_stage :: string
  do_owner :: string
  do_runtime :: "string option"
  do_container :: "string option"
  do_boot :: string
  do_job :: "string option"
  do_op_generation :: "int option"
  do_generation :: int
  do_source :: "string option"
  do_committed :: "string option"

definition ownership_valid :: "ownership \<Rightarrow> bool" where
  "ownership_valid c \<longleftrightarrow> (do_runtime c = None) = (do_container c = None)
   \<and> (do_owner_kind c \<noteq> ''executor'' \<longrightarrow> do_runtime c = None)
   \<and> (do_job c = None) = (do_op_generation c = None) \<and> (do_owner_kind c = ''host'' \<longrightarrow> do_job c = None)"

record deployment_lease =
  dl_project :: string
  dl_owner :: string
  dl_platform :: string
  dl_boot :: string
  dl_created_at :: datetime

record operation_hold =
  oh_project :: string
  oh_job :: string
  oh_generation :: int
  oh_plan :: string
  oh_source :: string
  oh_released :: bool
  oh_created_at :: datetime

record handover_hold =
  hh_project :: string
  hh_preparation :: string
  hh_generation :: int
  hh_incumbent :: string
  hh_incumbent_container :: string
  hh_candidate :: string
  hh_updated_at :: datetime
  hh_released :: bool

definition handover_hold_valid :: "handover_hold \<Rightarrow> bool" where
  "handover_hold_valid h \<longleftrightarrow> hh_incumbent h \<noteq> hh_candidate h"

record selection_receipt =
  sr_project :: string
  sr_owner :: string
  sr_boot :: string
  sr_generation :: int
  sr_release_key :: string
  sr_compose :: string
  sr_protected_keys :: "string list"
  sr_protected :: "(string, string) pydict"
  sr_selected_at :: datetime
  sr_managed :: "uuid option"
  sr_manifest :: "string option"

definition selection_receipt_valid :: "selection_receipt \<Rightarrow> bool" where
  "selection_receipt_valid r \<longleftrightarrow> sr_release_key r \<in> set (sr_protected_keys r) \<and> distinct (sr_protected_keys r)
   \<and> length (sr_protected_keys r) \<le> 512 \<and> length (sr_protected r) \<le> 512
   \<and> set (map fst (sr_protected r)) = set (sr_protected_keys r) \<and> dict_get (sr_protected r) (sr_release_key r) = Some (sr_compose r)
   \<and> (sr_managed r = None) = (sr_manifest r = None)"

end
