(* ===== verification/Executor_Journal.thy ===== *)
theory Executor_Journal
  imports Executor_Models
begin

text \<open>
  The journal of the core upgrade executor (\<^verbatim>\<open>ExecutorJournal\<close> in \<^verbatim>\<open>coire_upgrade_executor/journal.py\<close>): the epoch
  with its captured deadlines and the effects with their outcomes. Every call takes the directories and what the environment
  answers (the clock, the locks, the outcome of each write, the prepared compose file) and gives a result and the
  directories it leaves. The calls share a shape, read, decide, write at most one document, which
  \<open>with_epoch\<close> and \<open>with_effect\<close> hold; the decision is a function of what was read.
\<close>

section \<open>Directories and environment\<close>

datatype executor_doc =
  XD_epoch executor_epoch | XD_proof migration_execution | XD_snapshot source_snapshot | XD_selection runtime_selection

fun doc_epoch :: "executor_doc \<Rightarrow> executor_epoch option" where
  "doc_epoch (XD_epoch s) = Some s" | "doc_epoch _ = None"

fun doc_snapshot :: "executor_doc \<Rightarrow> source_snapshot option" where
  "doc_snapshot (XD_snapshot s) = Some s" | "doc_snapshot _ = None"

fun doc_selection :: "executor_doc \<Rightarrow> runtime_selection option" where
  "doc_selection (XD_selection s) = Some s" | "doc_selection _ = None"

fun doc_proof :: "executor_doc \<Rightarrow> migration_execution option" where
  "doc_proof (XD_proof m) = Some m" | "doc_proof _ = None"

record executor_dir =
  xd_store :: "executor_doc store"
  xd_effects :: "executor_effect store"
  xd_receipts :: receipt_dir

text \<open>
  \<open>xv_migration\<close>: the image and restart policy of the migration service in the prepared compose file of the
  target, or why it cannot be had. \<open>xv_prepared\<close>: why the prepared compose file of a release cannot be read, if so.
\<close>

record executor_env =
  xv_now :: datetime
  xv_store :: store_env
  xv_effects :: store_env
  xv_receipts :: store_env
  xv_migration :: "upgrade_error + string \<times> string"
  xv_prepared :: "upgrade_release \<Rightarrow> upgrade_error option"

type_synonym 'a executor_call = "(upgrade_error + 'a) \<times> executor_dir"

datatype ('d, 'r) verdict = Fail upgrade_error | Keep 'r | Put 'd 'r

definition owns :: "digests \<Rightarrow> upgrade_plan \<Rightarrow> string \<Rightarrow> int \<Rightarrow> string \<Rightarrow> bool" where
  "owns dg plan job gen sha \<longleftrightarrow>
     (job, gen, sha) = (op_job (pl_operation plan), op_generation (pl_operation plan), plan_authority dg plan)"

abbreviation owns_epoch :: "digests \<Rightarrow> upgrade_plan \<Rightarrow> executor_epoch \<Rightarrow> bool" where
  "owns_epoch dg plan s \<equiv> owns dg plan (ep_job s) (ep_generation s) (ep_plan s)"

abbreviation owns_effect :: "digests \<Rightarrow> upgrade_plan \<Rightarrow> executor_effect \<Rightarrow> bool" where
  "owns_effect dg plan e \<equiv> owns dg plan (ef_job e) (ef_generation e) (ef_plan e)"

definition epoch_state :: "digests \<Rightarrow> upgrade_plan \<Rightarrow> executor_dir \<Rightarrow> upgrade_error + executor_epoch" where
  "epoch_state dg plan d =
    (case store_read ''epoch.json'' doc_epoch (xd_store d) of
       Inl e \<Rightarrow> Inl e
     | Inr None \<Rightarrow> Inl Upgrade_unavailable
     | Inr (Some s) \<Rightarrow> if owns_epoch dg plan s then Inr s else Inl Upgrade_conflict)"

definition effect_key :: "string \<Rightarrow> string" where
  "effect_key eid = eid @ ''.json''"

definition read_effect :: "string \<Rightarrow> executor_dir \<Rightarrow> upgrade_error + executor_effect option" where
  "read_effect eid d = store_read (effect_key eid) Some (xd_effects d)"

definition read_proof :: "executor_dir \<Rightarrow> upgrade_error + migration_execution option" where
  "read_proof d = store_read ''migration-proof.json'' doc_proof (xd_store d)"

text \<open>Read the epoch under the lock, decide, and replace it if the decision says so.\<close>

definition with_epoch ::
  "digests \<Rightarrow> upgrade_plan \<Rightarrow> executor_env \<Rightarrow> (executor_epoch \<Rightarrow> (executor_epoch, 'r) verdict) \<Rightarrow> executor_dir \<Rightarrow> 'r executor_call" where
  "with_epoch dg plan env decide d =
    (case se_lock (xv_store env) of
       Some e \<Rightarrow> (Inl e, d)
     | None \<Rightarrow>
         (case epoch_state dg plan d of
            Inl e \<Rightarrow> (Inl e, d)
          | Inr s \<Rightarrow>
              (case decide s of
                 Fail e \<Rightarrow> (Inl e, d)
               | Keep r \<Rightarrow> (Inr r, d)
               | Put s' r \<Rightarrow>
                   if \<not> epoch_valid s' then (Inl Upgrade_invalid, d)
                   else (case store_write (xv_store env) ''epoch.json'' (XD_epoch s') True (xd_store d) of
                           (Some e, st) \<Rightarrow> (Inl e, d\<lparr>xd_store := st\<rparr>)
                         | (None, st) \<Rightarrow> (Inr r, d\<lparr>xd_store := st\<rparr>)))))"

text \<open>
  The same for the effect of an identifier, with what is done between the decision and the write; a new effect
  is created, an existing one replaced.
\<close>

definition with_effect ::
  "executor_env \<Rightarrow> string \<Rightarrow> bool \<Rightarrow> (executor_effect option \<Rightarrow> (executor_effect, executor_effect) verdict)
     \<Rightarrow> (executor_dir \<Rightarrow> upgrade_error option \<times> executor_dir) \<Rightarrow> executor_dir \<Rightarrow> executor_effect executor_call" where
  "with_effect env eid replace decide before d =
    (case se_lock (xv_store env) of
       Some e \<Rightarrow> (Inl e, d)
     | None \<Rightarrow>
         (case read_effect eid d of
            Inl e \<Rightarrow> (Inl e, d)
          | Inr previous \<Rightarrow>
              (case decide previous of
                 Fail e \<Rightarrow> (Inl e, d)
               | Keep r \<Rightarrow> (Inr r, d)
               | Put x r \<Rightarrow>
                   (case before d of
                      (Some e, d') \<Rightarrow> (Inl e, d')
                    | (None, d') \<Rightarrow>
                        (case store_write (xv_effects env) (effect_key eid) x replace (xd_effects d') of
                           (Some e, st) \<Rightarrow> (Inl e, d'\<lparr>xd_effects := st\<rparr>)
                         | (None, st) \<Rightarrow> (Inr r, d'\<lparr>xd_effects := st\<rparr>))))))"

abbreviation at_once :: "executor_dir \<Rightarrow> upgrade_error option \<times> executor_dir" where
  "at_once d \<equiv> (None, d)"

section \<open>Opening\<close>

definition fresh_epoch :: "digests \<Rightarrow> upgrade_plan \<Rightarrow> executor_epoch" where
  "fresh_epoch dg plan = \<lparr>ep_job = op_job (pl_operation plan), ep_generation = op_generation (pl_operation plan),
     ep_plan = plan_authority dg plan, ep_activations = [], ep_readiness = None, ep_windows = [],
     ep_outage_at = None, ep_outage = None, ep_recovery_at = None, ep_recovery = None\<rparr>"

definition open_journal :: "digests \<Rightarrow> upgrade_plan \<Rightarrow> executor_env \<Rightarrow> executor_dir \<Rightarrow> upgrade_plan executor_call" where
  "open_journal dg plan env d =
    (if op_kind (pl_operation plan) \<noteq> K_CONTROL_PLANE then (Inl Upgrade_forbidden, d)
     else case open_receipts dg (xv_receipts env) plan (xd_receipts d) of
       (Inl e, rs) \<Rightarrow> (Inl e, d\<lparr>xd_receipts := rs\<rparr>)
     | (Inr plan', rs) \<Rightarrow>
         (let d' = d\<lparr>xd_receipts := rs\<rparr> in
          case se_lock (xv_store env) of
            Some e \<Rightarrow> (Inl e, d')
          | None \<Rightarrow>
              (case store_read ''epoch.json'' doc_epoch (xd_store d') of
                 Inl e \<Rightarrow> (Inl e, d')
               | Inr (Some s) \<Rightarrow> (if owns_epoch dg plan' s then Inr plan' else Inl Upgrade_conflict, d')
               | Inr None \<Rightarrow>
                   (case store_write (xv_store env) ''epoch.json'' (XD_epoch (fresh_epoch dg plan)) False (xd_store d') of
                      (Some e, st) \<Rightarrow> (Inl e, d'\<lparr>xd_store := st\<rparr>)
                    | (None, st) \<Rightarrow> (if owns_epoch dg plan' (fresh_epoch dg plan) then Inr plan' else Inl Upgrade_conflict,
                        d'\<lparr>xd_store := st\<rparr>)))))"

section \<open>Activation and deadlines\<close>

definition capture_at :: "upgrade_plan \<Rightarrow> datetime \<Rightarrow> executor_epoch \<Rightarrow> executor_epoch" where
  "capture_at plan t s = s\<lparr>ep_recovery_at := Some t,
     ep_recovery := Some (t + seconds (tm_recovery (op_timing (pl_operation plan))))\<rparr>"

definition migration_evidence :: "upgrade_plan \<Rightarrow> upgrade_error + upgrade_receipt option \<Rightarrow> upgrade_error option" where
  "migration_evidence plan latest =
    (case latest of
       Inl e \<Rightarrow> Some e
     | Inr None \<Rightarrow> Some Upgrade_conflict
     | Inr (Some r) \<Rightarrow>
         if rc_phase r \<noteq> P_MIGRATING \<or> rc_outcome r \<noteq> O_COMPLETE then Some Upgrade_conflict
         else (case rc_evidence r of
                 None \<Rightarrow> Some Upgrade_conflict
               | Some e \<Rightarrow> if ev_exit_code e \<noteq> Some 0 \<or> ev_schema_head e \<noteq> pl_head_after plan \<or> ev_schema_after e = None
                           then Some Upgrade_conflict else None))"

definition activated_epoch :: "upgrade_plan \<Rightarrow> activation_consume \<Rightarrow> executor_epoch \<Rightarrow> executor_epoch" where
  "activated_epoch plan consumed s =
    (let oper = pl_operation plan; t = rc_occurred_at (ac_intent consumed);
         s' = s\<lparr>ep_activations := ep_activations s @ [consumed]\<rparr>; ready = tm_readiness (op_timing oper) in
     if gr_boundary (ac_grant consumed) \<noteq> ''runtime'' then s'
     else s'\<lparr>ep_readiness := Some (t + seconds (ready * max 1 (int (length (op_cohort oper))))),
            ep_windows := (case op_cohort oper of [] \<Rightarrow> ep_windows s
              | c # _ \<Rightarrow> [\<lparr>sw_service = c, sw_captured_at = t, sw_deadline_at = t + seconds ready\<rparr>])\<rparr>)"

definition activation_verdict ::
  "upgrade_plan \<Rightarrow> datetime \<Rightarrow> bool \<Rightarrow> activation_consume \<Rightarrow> upgrade_error + upgrade_receipt option \<Rightarrow> executor_epoch
     \<Rightarrow> (executor_epoch, executor_epoch) verdict" where
  "activation_verdict plan now acked consumed latest s =
    (let g = ac_grant consumed; i = ac_intent consumed; runtime = (gr_boundary g = ''runtime'');
         recover = (\<lambda>x. if acked \<and> ep_recovery_at s = None then capture_at plan (min now (gr_expires_at g)) x else x) in
     if (gr_job g, gr_generation g) \<noteq> (ep_job s, ep_generation s) then Fail Upgrade_conflict
     else case List.find (\<lambda>a. gr_boundary (ac_grant a) = gr_boundary g) (ep_activations s) of
       Some existing \<Rightarrow>
         if existing \<noteq> consumed then Fail Upgrade_conflict
         else if acked \<and> ep_recovery_at s = None then Put (recover s) (recover s) else Keep s
     | None \<Rightarrow>
         if rc_observed i \<noteq> Some (op_source_sha (pl_operation plan)) then Fail Upgrade_conflict
         else if rc_occurred_at i > now \<or> (now \<ge> gr_expires_at g \<and> \<not> acked) then Fail Upgrade_forbidden
         else if ep_recovery_at s \<noteq> None \<and> \<not> acked then Fail Upgrade_forbidden
         else if runtime \<and> needs_migration plan \<and> ''migration'' \<notin> set (boundaries s) then Fail Upgrade_conflict
         else (case (if runtime \<and> needs_migration plan then migration_evidence plan latest else None) of
                 Some e \<Rightarrow> Fail e
               | None \<Rightarrow> (let s' = recover (activated_epoch plan consumed s) in Put s' s')))"

text \<open>\<^verbatim>\<open>activation\<close>, with the acknowledgment of the consumed intent when recovery replays it.\<close>

definition activation ::
  "digests \<Rightarrow> upgrade_plan \<Rightarrow> executor_env \<Rightarrow> activation_consume \<Rightarrow> receipt_ack option \<Rightarrow> executor_dir \<Rightarrow> executor_epoch executor_call" where
  "activation dg plan env consumed ack d =
    (let i = ac_intent consumed in
     if (case ack of None \<Rightarrow> False
         | Some a \<Rightarrow> (ak_job a, ak_generation a, ak_sequence a) \<noteq> (rc_job i, rc_generation i, rc_sequence i))
     then (Inl Upgrade_conflict, d)
     else with_epoch dg plan env
       (activation_verdict plan (xv_now env) (ack \<noteq> None) consumed (latest_receipt dg (xv_receipts env) plan (xd_receipts d))) d)"

definition window_verdict :: "upgrade_plan \<Rightarrow> datetime \<Rightarrow> string \<Rightarrow> executor_epoch \<Rightarrow> (executor_epoch, service_window) verdict" where
  "window_verdict plan now service s =
    (if service \<notin> set (op_cohort (pl_operation plan)) then Fail Upgrade_forbidden
     else case List.find (\<lambda>w. sw_service w = service) (ep_windows s) of
       Some w \<Rightarrow> Keep w
     | None \<Rightarrow>
         (case ep_readiness s of
            None \<Rightarrow> Fail Upgrade_forbidden
          | Some ready \<Rightarrow>
              if now \<ge> ready \<or> ep_recovery_at s \<noteq> None then Fail Upgrade_forbidden
              else (let d0 = min (now + seconds (tm_readiness (op_timing (pl_operation plan)))) ready;
                        deadline = (case ep_outage s of None \<Rightarrow> d0 | Some t \<Rightarrow> min d0 t);
                        w = \<lparr>sw_service = service, sw_captured_at = now, sw_deadline_at = deadline\<rparr> in
                    if deadline \<le> now then Fail Upgrade_forbidden
                    else if \<not> window_valid w then Fail Upgrade_invalid
                    else Put (s\<lparr>ep_windows := ep_windows s @ [w]\<rparr>) w)))"

definition service_window_call :: "digests \<Rightarrow> upgrade_plan \<Rightarrow> executor_env \<Rightarrow> string \<Rightarrow> executor_dir \<Rightarrow> service_window executor_call" where
  "service_window_call dg plan env service d = with_epoch dg plan env (window_verdict plan (xv_now env) service) d"

definition outage_verdict :: "upgrade_plan \<Rightarrow> datetime \<Rightarrow> executor_epoch \<Rightarrow> (executor_epoch, executor_epoch) verdict" where
  "outage_verdict plan now s =
    (if ep_outage_at s \<noteq> None then Keep s
     else if (case ep_readiness s of None \<Rightarrow> True | Some t \<Rightarrow> now \<ge> t) \<or> ep_recovery_at s \<noteq> None then Fail Upgrade_forbidden
     else (let s' = s\<lparr>ep_outage_at := Some now, ep_outage := Some (now + seconds (tm_outage (op_timing (pl_operation plan))))\<rparr> in
           Put s' s'))"

definition capture_outage :: "digests \<Rightarrow> upgrade_plan \<Rightarrow> executor_env \<Rightarrow> executor_dir \<Rightarrow> executor_epoch executor_call" where
  "capture_outage dg plan env d = with_epoch dg plan env (outage_verdict plan (xv_now env)) d"

section \<open>Recovery\<close>

definition discharged :: "upgrade_receipt option \<Rightarrow> bool" where
  "discharged latest \<longleftrightarrow> (case latest of None \<Rightarrow> False
     | Some r \<Rightarrow> (rc_phase r = P_VERIFYING \<and> rc_outcome r = O_COMPLETE) \<or> rc_phase r = P_COMMITTING)"

definition migration_deadlines :: "upgrade_plan \<Rightarrow> datetime \<Rightarrow> executor_epoch \<Rightarrow> executor_dir \<Rightarrow> upgrade_error + datetime list" where
  "migration_deadlines plan now s d =
    (case List.find (\<lambda>a. gr_boundary (ac_grant a) = ''migration'') (ep_activations s) of
       None \<Rightarrow> Inr []
     | Some a \<Rightarrow>
         (case read_proof d of
            Inl e \<Rightarrow> Inl e
          | Inr proof \<Rightarrow>
              (let limit = rc_occurred_at (ac_intent a) + seconds (tm_readiness (op_timing (pl_operation plan))) in
               if (case proof of None \<Rightarrow> False
                   | Some m \<Rightarrow> (mx_job m, mx_generation m, mx_plan m) \<noteq> (ep_job s, ep_generation s, ep_plan s))
               then Inl Upgrade_conflict
               else if (case proof of None \<Rightarrow> False | Some m \<Rightarrow> mx_state m = M_COMPLETE) then Inr []
               else (let failed_at = min (case proof of None \<Rightarrow> limit
                           | Some m \<Rightarrow> (case mx_completed_at m of None \<Rightarrow> limit | Some t \<Rightarrow> t)) limit in
                     Inr (if failed_at \<le> now then [failed_at] else [])))))"

definition start_candidate_id :: "string \<Rightarrow> string" where
  "start_candidate_id service = ''core-start-candidate-'' @ service"

fun window_deadlines ::
  "digests \<Rightarrow> upgrade_plan \<Rightarrow> datetime \<Rightarrow> executor_dir \<Rightarrow> service_window list \<Rightarrow> upgrade_error + datetime list" where
  "window_deadlines dg plan now d [] = Inr []"
| "window_deadlines dg plan now d (w # ws) =
    (case read_effect (start_candidate_id (sw_service w)) d of
       Inl e \<Rightarrow> Inl e
     | Inr completion \<Rightarrow>
         if (case completion of None \<Rightarrow> False
             | Some x \<Rightarrow> \<not> owns_effect dg plan x \<or> ef_action x \<noteq> X_START_CANDIDATE \<or> ef_service x \<noteq> Some (sw_service w))
         then Inl Upgrade_conflict
         else (case List.find (\<lambda>s. s \<in> set (op_cohort (pl_operation plan))) (rev cohort_order) of
             None \<Rightarrow> Inl Upgrade_invalid
           | Some last_service \<Rightarrow>
               (let missed = sw_deadline_at w \<le> now
                  \<and> ((case completion of None \<Rightarrow> True | Some x \<Rightarrow> ef_outcome x \<noteq> E_COMPLETE) \<or> sw_service w = last_service) in
                case window_deadlines dg plan now d ws of
                  Inl e \<Rightarrow> Inl e
                | Inr ts \<Rightarrow> Inr (if missed then sw_deadline_at w # ts else ts))))"

definition expired_forward_deadlines ::
  "digests \<Rightarrow> upgrade_plan \<Rightarrow> executor_env \<Rightarrow> executor_dir \<Rightarrow> upgrade_error + datetime list" where
  "expired_forward_deadlines dg plan env d =
    (case epoch_state dg plan d of
       Inl e \<Rightarrow> Inl e
     | Inr s \<Rightarrow>
         (case latest_receipt dg (xv_receipts env) plan (xd_receipts d) of
            Inl e \<Rightarrow> Inl e
          | Inr latest \<Rightarrow>
              if discharged latest then Inr []
              else (let own = filter (\<lambda>t. t \<le> xv_now env) (List.map_filter id [ep_readiness s, ep_outage s]) in
                    case migration_deadlines plan (xv_now env) s d of
                      Inl e \<Rightarrow> Inl e
                    | Inr ms \<Rightarrow>
                        (case window_deadlines dg plan (xv_now env) d (ep_windows s) of
                           Inl e \<Rightarrow> Inl e
                         | Inr ws \<Rightarrow> Inr (own @ ms @ ws)))))"

definition recovery_verdict :: "upgrade_plan \<Rightarrow> datetime \<Rightarrow> upgrade_error + datetime list \<Rightarrow> executor_epoch \<Rightarrow> (executor_epoch, executor_epoch) verdict" where
  "recovery_verdict plan now deadlines s =
    (if ep_recovery_at s \<noteq> None then Keep s
     else case deadlines of
       Inl e \<Rightarrow> Fail e
     | Inr ts \<Rightarrow> (let s' = capture_at plan (fold min ts now) s in Put s' s'))"

definition capture_recovery :: "digests \<Rightarrow> upgrade_plan \<Rightarrow> executor_env \<Rightarrow> executor_dir \<Rightarrow> executor_epoch executor_call" where
  "capture_recovery dg plan env d =
     with_epoch dg plan env (recovery_verdict plan (xv_now env) (expired_forward_deadlines dg plan env d)) d"

end
