(* ===== verification/Executor_Effects.thy ===== *)
theory Executor_Effects
  imports Executor_Journal
begin

text \<open>
  The effects of the executor journal (\<^verbatim>\<open>ExecutorJournal.intent\<close> to \<^verbatim>\<open>dispatch_intent\<close> in
  \<^verbatim>\<open>coire_upgrade_executor/journal.py\<close>): the intent of an effect on Docker is durable before its transport, its
  transport is recorded as unknown before it is dispatched, and only an observation of the exact container
  completes it.
\<close>

section \<open>Intent\<close>

definition fresh :: "datetime \<Rightarrow> datetime \<Rightarrow> bool" where
  "fresh now t \<longleftrightarrow> 0 \<le> now - t \<and> now - t \<le> seconds 5"

definition recovery_action :: "effect_action \<Rightarrow> bool" where
  "recovery_action a \<longleftrightarrow> a \<in> {X_STOP_CANDIDATE, X_REMOVE_CANDIDATE, X_REMOVE_MIGRATION, X_START_SOURCE}"

definition migration_activation :: "executor_epoch \<Rightarrow> activation_consume option" where
  "migration_activation s = List.find (\<lambda>a. gr_boundary (ac_grant a) = ''migration'') (ep_activations s)"

definition expected_deadline :: "upgrade_plan \<Rightarrow> executor_epoch \<Rightarrow> executor_effect \<Rightarrow> datetime option" where
  "expected_deadline plan s e =
    (if ef_action e \<in> {X_MIGRATION, X_CREATE_MIGRATION, X_START_MIGRATION}
     then map_option (\<lambda>a. rc_occurred_at (ac_intent a) + seconds (tm_readiness (op_timing (pl_operation plan)))) (migration_activation s)
     else if recovery_action (ef_action e) then ep_recovery s
     else case ef_service e of None \<Rightarrow> ep_readiness s
       | Some v \<Rightarrow> map_option sw_deadline_at (List.find (\<lambda>w. sw_service w = v) (ep_windows s)))"

definition strip_effect :: "executor_effect \<Rightarrow> executor_effect" where
  "strip_effect e = e\<lparr>ef_outcome := E_INTENT, ef_observed := None\<rparr>"

definition configuration_error :: "executor_env \<Rightarrow> executor_effect \<Rightarrow> upgrade_error option" where
  "configuration_error env e =
    (if ef_action e \<in> {X_MIGRATION, X_CREATE_MIGRATION, X_START_MIGRATION, X_REMOVE_MIGRATION}
     then case xv_migration env of
       Inl x \<Rightarrow> Some x
     | Inr (img, restart) \<Rightarrow> if img \<noteq> ef_image e \<or> restart \<noteq> ''no'' then Some Upgrade_conflict else None
     else None)"

definition role_error :: "upgrade_plan \<Rightarrow> executor_effect \<Rightarrow> upgrade_error option" where
  "role_error plan e =
    (case ef_service e of
       None \<Rightarrow> None
     | Some v \<Rightarrow>
         if v \<notin> set (op_cohort (pl_operation plan)) then Some Upgrade_forbidden
         else (let release = (if ef_action e \<in> {X_STOP_SOURCE, X_START_SOURCE} then pl_source plan else pl_target plan) in
               case List.find (\<lambda>x. sv_service x = v) (mf_services (rl_manifest release)) of
                 None \<Rightarrow> Some Upgrade_invalid
               | Some x \<Rightarrow> if ef_image e \<noteq> sv_image x then Some Upgrade_conflict else None))"

definition intent_error :: "upgrade_plan \<Rightarrow> executor_env \<Rightarrow> executor_epoch \<Rightarrow> executor_effect \<Rightarrow> upgrade_error option" where
  "intent_error plan env s e =
    (if expected_deadline plan s e \<noteq> Some (ef_deadline e) \<or> xv_now env \<ge> ef_deadline e \<or> ef_captured_at e > xv_now env
        \<or> ef_outcome e \<noteq> E_INTENT then Some Upgrade_forbidden
     else if \<not> recovery_action (ef_action e) \<and> ep_recovery_at s \<noteq> None then Some Upgrade_forbidden
     else case configuration_error env e of Some x \<Rightarrow> Some x | None \<Rightarrow> role_error plan e)"

definition intent_verdict ::
  "digests \<Rightarrow> upgrade_plan \<Rightarrow> executor_env \<Rightarrow> executor_dir \<Rightarrow> executor_effect \<Rightarrow> executor_effect option
     \<Rightarrow> (executor_effect, executor_effect) verdict" where
  "intent_verdict dg plan env d e previous =
    (case previous of
       Some p \<Rightarrow> if owns_effect dg plan p \<and> strip_effect p = strip_effect e then Keep p else Fail Upgrade_conflict
     | None \<Rightarrow>
         (case epoch_state dg plan d of
            Inl x \<Rightarrow> Fail x
          | Inr s \<Rightarrow> (case intent_error plan env s e of Some x \<Rightarrow> Fail x | None \<Rightarrow> Put e e)))"

definition intent :: "digests \<Rightarrow> upgrade_plan \<Rightarrow> executor_env \<Rightarrow> executor_effect \<Rightarrow> executor_dir \<Rightarrow> executor_effect executor_call" where
  "intent dg plan env e d =
    (if \<not> owns_effect dg plan e then (Inl Upgrade_conflict, d)
     else with_effect env (ef_id e) False (intent_verdict dg plan env d e) at_once d)"

section \<open>Observation\<close>

definition complete_effect :: "string \<Rightarrow> executor_effect \<Rightarrow> executor_effect" where
  "complete_effect container e = e\<lparr>ef_outcome := E_COMPLETE, ef_observed := Some container\<rparr>"

text \<open>What every observation asks first: an intent of the accepted plan.\<close>

definition on_intent ::
  "digests \<Rightarrow> upgrade_plan \<Rightarrow> (executor_effect \<Rightarrow> (executor_effect, executor_effect) verdict) \<Rightarrow> executor_effect option
     \<Rightarrow> (executor_effect, executor_effect) verdict" where
  "on_intent dg plan decide previous =
    (case previous of None \<Rightarrow> Fail Upgrade_conflict
     | Some e \<Rightarrow> if owns_effect dg plan e then decide e else Fail Upgrade_conflict)"

definition other_container :: "executor_effect \<Rightarrow> string \<Rightarrow> bool" where
  "other_container e container \<longleftrightarrow> ef_container e \<noteq> None \<and> ef_container e \<noteq> Some container"

definition observe_verdict :: "upgrade_plan \<Rightarrow> docker_container \<Rightarrow> executor_effect \<Rightarrow> (executor_effect, executor_effect) verdict" where
  "observe_verdict plan c e =
    (let a = ef_action e; x = complete_effect (dc_id c) e in
     if a \<in> {X_MIGRATION, X_REMOVE_CANDIDATE, X_REMOVE_MIGRATION} then Fail Upgrade_conflict
     else if (Some (dc_service c), Some (dc_project c), dc_image c)
           \<noteq> (ef_service e, mf_project (rl_manifest (pl_source plan)), ef_image e) \<or> other_container e (dc_id c)
     then Fail Upgrade_conflict
     else if a \<in> {X_STOP_SOURCE, X_STOP_CANDIDATE} \<and> dc_running c then Fail Upgrade_conflict
     else if a \<in> {X_START_SOURCE, X_START_CANDIDATE} \<and> (\<not> dc_running c \<or> dc_health c \<noteq> ''healthy'') then Fail Upgrade_conflict
     else if ef_outcome e = E_COMPLETE then (if ef_observed e \<noteq> Some (dc_id c) then Fail Upgrade_conflict else Keep e)
     else if \<not> effect_valid x then Fail Upgrade_invalid else Put x x)"

definition observe_container ::
  "digests \<Rightarrow> upgrade_plan \<Rightarrow> executor_env \<Rightarrow> string \<Rightarrow> docker_container \<Rightarrow> executor_dir \<Rightarrow> executor_effect executor_call" where
  "observe_container dg plan env eid c d =
    (if \<not> fresh (xv_now env) (dc_observed_at c) then (Inl Upgrade_conflict, d)
     else with_effect env eid True (on_intent dg plan (observe_verdict plan c)) at_once d)"

definition stop_candidate_id :: "string option \<Rightarrow> string" where
  "stop_candidate_id service = ''core-stop-candidate-'' @ (case service of None \<Rightarrow> ''None'' | Some v \<Rightarrow> v)"

definition removed_verdict ::
  "digests \<Rightarrow> upgrade_plan \<Rightarrow> executor_dir \<Rightarrow> string \<Rightarrow> executor_effect \<Rightarrow> (executor_effect, executor_effect) verdict" where
  "removed_verdict dg plan d container e =
    (case read_effect (stop_candidate_id (ef_service e)) d of
       Inl x \<Rightarrow> Fail x
     | Inr None \<Rightarrow> Fail Upgrade_conflict
     | Inr (Some stopped) \<Rightarrow>
         if ef_action e \<noteq> X_REMOVE_CANDIDATE \<or> ef_container e \<noteq> Some container \<or> ef_action stopped \<noteq> X_STOP_CANDIDATE
            \<or> ef_service stopped \<noteq> ef_service e \<or> ef_outcome stopped \<noteq> E_COMPLETE \<or> ef_observed stopped \<noteq> Some container
            \<or> ef_image stopped \<noteq> ef_image e then Fail Upgrade_conflict
         else if \<not> owns_effect dg plan stopped then Fail Upgrade_conflict
         else Put (complete_effect container e) (complete_effect container e))"

definition observe_removed ::
  "digests \<Rightarrow> upgrade_plan \<Rightarrow> executor_env \<Rightarrow> string \<Rightarrow> string \<Rightarrow> datetime \<Rightarrow> executor_dir \<Rightarrow> executor_effect executor_call" where
  "observe_removed dg plan env eid container observed_at d =
    (if \<not> fresh (xv_now env) observed_at then (Inl Upgrade_conflict, d)
     else with_effect env eid True (on_intent dg plan (removed_verdict dg plan d container)) at_once d)"

definition initial_schema :: "upgrade_plan \<Rightarrow> migration_execution \<Rightarrow> bool" where
  "initial_schema plan m \<longleftrightarrow> (Some (mx_before_head m), Some (mx_before_sha m)) = (pl_initial_head plan, pl_initial_sha plan)"

definition migration_removed_verdict ::
  "digests \<Rightarrow> upgrade_plan \<Rightarrow> executor_dir \<Rightarrow> string \<Rightarrow> executor_effect option \<Rightarrow> (executor_effect, executor_effect) verdict" where
  "migration_removed_verdict dg plan d container previous =
    (case read_effect ''core-migration'' d of
       Inl x \<Rightarrow> Fail x
     | Inr ended \<Rightarrow>
         (case read_proof d of
            Inl x \<Rightarrow> Fail x
          | Inr proof \<Rightarrow>
              (case (previous, ended, proof) of
                 (Some e, Some t, Some m) \<Rightarrow>
                   if \<not> owns_effect dg plan e \<or> \<not> owns_effect dg plan t then Fail Upgrade_conflict
                   else if ef_action e \<noteq> X_REMOVE_MIGRATION \<or> ef_container e \<noteq> Some container \<or> ef_action t \<noteq> X_MIGRATION
                     \<or> ef_outcome t \<noteq> E_COMPLETE \<or> ef_observed t \<noteq> Some container \<or> ef_image t \<noteq> ef_image e
                     \<or> \<not> failed_unchanged m \<or> \<not> initial_schema plan m
                     \<or> (mx_job m, mx_generation m, mx_plan m) \<noteq> (ef_job e, ef_generation e, ef_plan e)
                   then Fail Upgrade_conflict
                   else (case epoch_state dg plan d of
                           Inl x \<Rightarrow> Fail x
                         | Inr s \<Rightarrow> if ep_recovery_at s = None then Fail Upgrade_conflict
                             else Put (complete_effect container e) (complete_effect container e))
               | _ \<Rightarrow> Fail Upgrade_conflict)))"

definition observe_migration_removed ::
  "digests \<Rightarrow> upgrade_plan \<Rightarrow> executor_env \<Rightarrow> string \<Rightarrow> string \<Rightarrow> datetime \<Rightarrow> executor_dir \<Rightarrow> executor_effect executor_call" where
  "observe_migration_removed dg plan env eid container observed_at d =
    (if \<not> fresh (xv_now env) observed_at then (Inl Upgrade_conflict, d)
     else with_effect env eid True (migration_removed_verdict dg plan d container) at_once d)"

definition uncertain_verdict :: "executor_effect \<Rightarrow> (executor_effect, executor_effect) verdict" where
  "uncertain_verdict e = (if ef_outcome e \<noteq> E_INTENT then Keep e else Put (e\<lparr>ef_outcome := E_UNKNOWN\<rparr>) (e\<lparr>ef_outcome := E_UNKNOWN\<rparr>))"

definition uncertain :: "digests \<Rightarrow> upgrade_plan \<Rightarrow> executor_env \<Rightarrow> string \<Rightarrow> executor_dir \<Rightarrow> executor_effect executor_call" where
  "uncertain dg plan env eid d = with_effect env eid True (on_intent dg plan uncertain_verdict) at_once d"

section \<open>Migration\<close>

definition foreign_migration :: "upgrade_plan \<Rightarrow> docker_migration \<Rightarrow> executor_effect \<Rightarrow> bool" where
  "foreign_migration plan c e \<longleftrightarrow> Some (dc_project c) \<noteq> mf_project (rl_manifest (pl_source plan))
     \<or> dc_name c \<noteq> upgrade_name (dc_project c) (ef_job e) ''coire-migrate''
     \<or> other_container e (dc_id c) \<or> dc_image c \<noteq> ef_image e"

definition unproved :: "upgrade_plan \<Rightarrow> datetime \<Rightarrow> migration_execution \<Rightarrow> activation_consume \<Rightarrow> executor_effect \<Rightarrow> bool" where
  "unproved plan now m a e \<longleftrightarrow> \<not> (mx_state m = M_COMPLETE \<or> failed_unchanged m)
     \<or> (case mx_completed_at m of None \<Rightarrow> True | Some t \<Rightarrow> t > now)
     \<or> (mx_job m, mx_generation m, mx_plan m) \<noteq> (ef_job e, ef_generation e, ef_plan e)
     \<or> (mx_grant m, mx_captured_at m, mx_deadline_at m) \<noteq> (gr_id (ac_grant a), rc_occurred_at (ac_intent a), ef_deadline e)
     \<or> \<not> initial_schema plan m \<or> Some (mx_expected_head m) \<noteq> pl_head_after plan"

definition complete_verdict ::
  "digests \<Rightarrow> upgrade_plan \<Rightarrow> datetime \<Rightarrow> executor_dir \<Rightarrow> docker_migration \<Rightarrow> migration_execution \<Rightarrow> executor_effect
     \<Rightarrow> (executor_effect, executor_effect) verdict" where
  "complete_verdict dg plan now d c m e =
    (case epoch_state dg plan d of
       Inl x \<Rightarrow> Fail x
     | Inr s \<Rightarrow>
         (case migration_activation s of
            None \<Rightarrow> Fail Upgrade_conflict
          | Some a \<Rightarrow>
              if ef_action e \<noteq> X_MIGRATION \<or> foreign_migration plan c e \<or> dc_running c \<or> dc_status c \<noteq> ''exited''
                 \<or> Some (dc_exit_code c) \<noteq> mx_exit_code m \<or> unproved plan now m a e then Fail Upgrade_conflict
              else (case read_proof d of
                      Inl x \<Rightarrow> Fail x
                    | Inr retained \<Rightarrow>
                        if retained \<noteq> None \<and> retained \<noteq> Some m then Fail Upgrade_conflict
                        else if ef_outcome e = E_COMPLETE
                        then (if ef_observed e \<noteq> Some (dc_id c) \<or> retained = None then Fail Upgrade_conflict else Keep e)
                        else Put (complete_effect (dc_id c) e) (complete_effect (dc_id c) e))))"

text \<open>The proof is in place before the effect is complete.\<close>

definition retain_proof :: "executor_env \<Rightarrow> migration_execution \<Rightarrow> executor_dir \<Rightarrow> upgrade_error option \<times> executor_dir" where
  "retain_proof env m d =
    (if read_proof d = Inr None
     then (case store_write (xv_store env) ''migration-proof.json'' (XD_proof m) False (xd_store d) of
             (r, st) \<Rightarrow> (r, d\<lparr>xd_store := st\<rparr>))
     else (None, d))"

definition complete_migration ::
  "digests \<Rightarrow> upgrade_plan \<Rightarrow> executor_env \<Rightarrow> string \<Rightarrow> docker_migration \<Rightarrow> migration_execution \<Rightarrow> executor_dir \<Rightarrow> executor_effect executor_call" where
  "complete_migration dg plan env eid c m d =
    (if \<not> fresh (xv_now env) (dc_observed_at c) then (Inl Upgrade_conflict, d)
     else with_effect env eid True (on_intent dg plan (complete_verdict dg plan (xv_now env) d c m)) (retain_proof env m) d)"

definition migration_container_verdict ::
  "upgrade_plan \<Rightarrow> docker_migration \<Rightarrow> executor_effect \<Rightarrow> (executor_effect, executor_effect) verdict" where
  "migration_container_verdict plan c e =
    (if ef_action e \<notin> {X_CREATE_MIGRATION, X_START_MIGRATION} \<or> foreign_migration plan c e
        \<or> (ef_action e = X_START_MIGRATION \<and> dc_status c \<notin> {''running'', ''exited''}) then Fail Upgrade_conflict
     else if ef_outcome e = E_COMPLETE then (if ef_observed e \<noteq> Some (dc_id c) then Fail Upgrade_conflict else Keep e)
     else Put (complete_effect (dc_id c) e) (complete_effect (dc_id c) e))"

definition observe_migration_container ::
  "digests \<Rightarrow> upgrade_plan \<Rightarrow> executor_env \<Rightarrow> string \<Rightarrow> docker_migration \<Rightarrow> executor_dir \<Rightarrow> executor_effect executor_call" where
  "observe_migration_container dg plan env eid c d =
    (if \<not> fresh (xv_now env) (dc_observed_at c) then (Inl Upgrade_conflict, d)
     else with_effect env eid True (on_intent dg plan (migration_container_verdict plan c)) at_once d)"

end
