(* ===== verification/Deployment_Ownership.thy ===== *)
theory Deployment_Ownership
  imports Executor_Effects
begin

text \<open>
  Who may change the deployment of a project (\<^verbatim>\<open>deployment_mutex\<close>, \<^verbatim>\<open>deployment_ownership\<close>,
  \<^verbatim>\<open>run_host_deployment\<close> in \<^verbatim>\<open>coire_core/deploy.py\<close>; \<^verbatim>\<open>executor_ownership\<close> and \<^verbatim>\<open>ExecutorAuthority\<close> in
  \<^verbatim>\<open>coire_upgrade_executor/ownership.py\<close>). The state is the coordination directory with the lease, the ownership
  document and the holds, and the process that holds the kernel lock, as its \<open>session\<close>. A context manager is
  two operations, entering and leaving; a process that dies leaves the lock and nothing else.
\<close>

section \<open>State\<close>

datatype host_doc =
  HD_owner ownership | HD_lease deployment_lease | HD_operation operation_hold | HD_handover handover_hold
| HD_selection selection_receipt | HD_runtime runtime_selection | HD_epoch executor_epoch

fun doc_owner :: "host_doc \<Rightarrow> ownership option" where
  "doc_owner (HD_owner x) = Some x" | "doc_owner _ = None"

fun doc_lease :: "host_doc \<Rightarrow> deployment_lease option" where
  "doc_lease (HD_lease x) = Some x" | "doc_lease _ = None"

fun doc_operation :: "host_doc \<Rightarrow> operation_hold option" where
  "doc_operation (HD_operation x) = Some x" | "doc_operation _ = None"

fun doc_handover :: "host_doc \<Rightarrow> handover_hold option" where
  "doc_handover (HD_handover x) = Some x" | "doc_handover _ = None"

fun doc_receipt :: "host_doc \<Rightarrow> selection_receipt option" where
  "doc_receipt (HD_selection x) = Some x" | "doc_receipt _ = None"

fun doc_runtime :: "host_doc \<Rightarrow> runtime_selection option" where
  "doc_runtime (HD_runtime x) = Some x" | "doc_runtime _ = None"

record authority =
  au_claim :: ownership
  au_plan :: upgrade_plan
  au_hold :: "operation_hold option"

datatype mutex_use = Use_control | Use_deployment ownership | Use_host ownership | Use_executor authority

record session =
  ms_owner :: string
  ms_claimed :: deployment_lease
  ms_previous :: "ownership option"
  ms_use :: mutex_use

record host =
  ho_store :: "host_doc store"
  ho_lock :: "session option"
  ho_current :: "string option"

text \<open>
  What the environment answers during a call: the admission lock (\<open>se_lock\<close>) and the writes, whether the lock
  file is the one expected, how the two removals of the lease end, the platform and boot of the kernel, the
  digests of the retained releases, and whether the pointer to the current one can be switched.
\<close>

datatype unlink_outcome = U_done | U_failed | U_unsynced

record host_env =
  hv_now :: datetime
  hv_store :: store_env
  hv_file :: "upgrade_error option"
  hv_unlink :: unlink_outcome
  hv_cleanup :: unlink_outcome
  hv_platform :: string
  hv_boot :: string
  hv_release :: "string \<Rightarrow> string option"
  hv_pointer :: bool

definition read_owner :: "host \<Rightarrow> upgrade_error + ownership option" where
  "read_owner h = store_read ''ownership.json'' doc_owner (ho_store h)"

definition read_lease :: "host \<Rightarrow> upgrade_error + deployment_lease option" where
  "read_lease h = store_read ''deployment.lease'' doc_lease (ho_store h)"

definition read_operation :: "host \<Rightarrow> upgrade_error + operation_hold option" where
  "read_operation h = store_read ''operation-hold.json'' doc_operation (ho_store h)"

definition read_handover :: "host \<Rightarrow> upgrade_error + handover_hold option" where
  "read_handover h = store_read ''handover-hold.json'' doc_handover (ho_store h)"

definition read_receipt :: "host \<Rightarrow> upgrade_error + selection_receipt option" where
  "read_receipt h = store_read ''selection.json'' doc_receipt (ho_store h)"

definition read_runtime :: "host \<Rightarrow> upgrade_error + runtime_selection option" where
  "read_runtime h = store_read ''runtime-selection.json'' doc_runtime (ho_store h)"

definition host_write :: "host_env \<Rightarrow> string \<Rightarrow> host_doc \<Rightarrow> bool \<Rightarrow> host \<Rightarrow> upgrade_error option \<times> host" where
  "host_write env key doc replace h =
    (case store_write (hv_store env) key doc replace (ho_store h) of (r, st) \<Rightarrow> (r, h\<lparr>ho_store := st\<rparr>))"

definition unlink_lease :: "unlink_outcome \<Rightarrow> host \<Rightarrow> upgrade_error option \<times> host" where
  "unlink_lease u h =
    (let gone = h\<lparr>ho_store := dict_pop ''deployment.lease'' (ho_store h)\<rparr> in
     case u of U_done \<Rightarrow> (None, gone) | U_failed \<Rightarrow> (Some Upgrade_unavailable, h) | U_unsynced \<Rightarrow> (Some Upgrade_unavailable, gone))"

section \<open>The mutex\<close>

definition lease_blocks :: "host_env \<Rightarrow> string \<Rightarrow> ownership option \<Rightarrow> ownership option \<Rightarrow> deployment_lease \<Rightarrow> bool" where
  "lease_blocks env project prior previous lease \<longleftrightarrow>
     dl_project lease \<noteq> project \<or> dl_platform lease \<noteq> hv_platform env
   \<or> (case previous of None \<Rightarrow> True
      | Some p \<Rightarrow> do_project p \<noteq> project \<or> do_owner p \<noteq> dl_owner lease \<or> (do_state p \<noteq> ''committed'' \<and> previous \<noteq> prior))"

definition holds_error :: "string \<Rightarrow> (string \<times> int) option \<Rightarrow> (string \<times> int) option \<Rightarrow> host \<Rightarrow> upgrade_error option" where
  "holds_error project operation handover h =
    (case read_handover h of
       Inl e \<Rightarrow> Some e
     | Inr hh \<Rightarrow>
         if (case hh of None \<Rightarrow> False
             | Some x \<Rightarrow> hh_project x \<noteq> project \<or> (\<not> hh_released x \<and> Some (hh_preparation x, hh_generation x) \<noteq> handover))
         then Some Upgrade_conflict
         else (case read_operation h of
                 Inl e \<Rightarrow> Some e
               | Inr oh \<Rightarrow>
                   if (case oh of None \<Rightarrow> False
                       | Some x \<Rightarrow> oh_project x \<noteq> project \<or> (\<not> oh_released x \<and> Some (oh_job x, oh_generation x) \<noteq> operation))
                   then Some Upgrade_conflict else None))"

definition may_unlink :: "session \<Rightarrow> ownership option \<Rightarrow> deployment_lease option \<Rightarrow> bool" where
  "may_unlink s latest current \<longleftrightarrow> current = Some (ms_claimed s)
     \<and> (latest = ms_previous s
        \<or> (case latest of None \<Rightarrow> False | Some c \<Rightarrow> do_owner c = ms_owner s \<and> do_state c = ''committed''))"

text \<open>Leaving the mutex: the \<^verbatim>\<open>finally\<close> block, then the kernel lock.\<close>

definition mutex_exit :: "host_env \<Rightarrow> session \<Rightarrow> host \<Rightarrow> upgrade_error option \<times> host" where
  "mutex_exit env s h =
    (let free = (\<lambda>(r, h'). (r, h'\<lparr>ho_lock := None\<rparr>)) in
     case read_owner h of
       Inl e \<Rightarrow> free (Some e, h)
     | Inr latest \<Rightarrow>
         (case read_lease h of
            Inl e \<Rightarrow> free (Some e, h)
          | Inr current \<Rightarrow> free (if may_unlink s latest current then unlink_lease (hv_cleanup env) h else (None, h))))"

type_synonym 'a host_call = "(upgrade_error + 'a) \<times> host"

definition leave :: "host_env \<Rightarrow> session \<Rightarrow> upgrade_error \<Rightarrow> host \<Rightarrow> upgrade_error \<times> host" where
  "leave env s e h = (case mutex_exit env s h of (r, h') \<Rightarrow> (case r of None \<Rightarrow> e | Some e' \<Rightarrow> e', h'))"

definition killed :: "host_env \<Rightarrow> string \<Rightarrow> bool" where
  "killed env key \<longleftrightarrow> (case se_write (hv_store env) key of W_killed _ \<Rightarrow> True | _ \<Rightarrow> False)"

text \<open>A failed write: a process that is still alive leaves the mutex in order.\<close>

definition give_up :: "host_env \<Rightarrow> string \<Rightarrow> session \<Rightarrow> upgrade_error \<Rightarrow> host \<Rightarrow> upgrade_error \<times> host" where
  "give_up env key s e h = (if killed env key then (e, h\<lparr>ho_lock := None\<rparr>) else leave env s e h)"

abbreviation failing :: "upgrade_error \<times> host \<Rightarrow> 'a host_call" where
  "failing x \<equiv> map_prod Inl id x"

text \<open>The new lease, and the holds of others.\<close>

definition take_lease ::
  "host_env \<Rightarrow> string \<Rightarrow> string \<Rightarrow> ownership option \<Rightarrow> (string \<times> int) option \<Rightarrow> (string \<times> int) option \<Rightarrow> host \<Rightarrow> session host_call" where
  "take_lease env project owner previous operation handover h =
    (let claimed = \<lparr>dl_project = project, dl_owner = owner, dl_platform = hv_platform env, dl_boot = hv_boot env,
           dl_created_at = hv_now env\<rparr>;
         s = \<lparr>ms_owner = owner, ms_claimed = claimed, ms_previous = previous, ms_use = Use_control\<rparr> in
     case host_write env ''deployment.lease'' (HD_lease claimed) False h of
       (Some e, h') \<Rightarrow> failing (give_up env ''deployment.lease'' s e h')
     | (None, h') \<Rightarrow>
         (case holds_error project operation handover h' of
            Some e \<Rightarrow> failing (leave env s e h')
          | None \<Rightarrow> (Inr s, h'\<lparr>ho_lock := Some s\<rparr>)))"

definition mutex_enter ::
  "host_env \<Rightarrow> string \<Rightarrow> string \<Rightarrow> ownership option \<Rightarrow> (string \<times> int) option \<Rightarrow> (string \<times> int) option \<Rightarrow> host \<Rightarrow> session host_call" where
  "mutex_enter env project owner prior operation handover h =
    (case (se_lock (hv_store env), hv_file env, ho_lock h) of
       (Some e, _, _) \<Rightarrow> (Inl e, h)
     | (None, Some e, _) \<Rightarrow> (Inl e, h)
     | (None, None, Some _) \<Rightarrow> (Inl Upgrade_conflict, h)
     | (None, None, None) \<Rightarrow>
         (case (read_owner h, read_lease h) of
            (Inl e, _) \<Rightarrow> (Inl e, h)
          | (Inr _, Inl e) \<Rightarrow> (Inl e, h)
          | (Inr previous, Inr None) \<Rightarrow> take_lease env project owner previous operation handover h
          | (Inr previous, Inr (Some lease)) \<Rightarrow>
              if lease_blocks env project prior previous lease then (Inl Upgrade_conflict, h)
              else (case unlink_lease (hv_unlink env) h of
                  (Some e, h') \<Rightarrow> (Inl e, h')
                | (None, h') \<Rightarrow> take_lease env project owner previous operation handover h')))"

text \<open>Inside the mutex: decide on the recorded owner, prepare, and record the new one.\<close>

definition claim_ownership ::
  "host_env \<Rightarrow> session \<Rightarrow> (ownership option \<Rightarrow> upgrade_error + ownership) \<Rightarrow> (host \<Rightarrow> upgrade_error option \<times> host)
     \<Rightarrow> (ownership \<Rightarrow> mutex_use) \<Rightarrow> host \<Rightarrow> session host_call" where
  "claim_ownership env s decide prepare intended h =
    (case read_owner h of
       Inl e \<Rightarrow> failing (leave env s e h)
     | Inr previous \<Rightarrow>
         (case decide previous of
            Inl e \<Rightarrow> failing (leave env s e h)
          | Inr claim \<Rightarrow>
              (case prepare h of
                 (Some e, h1) \<Rightarrow> failing (leave env s e h1)
               | (None, h1) \<Rightarrow>
                   (case host_write env ''ownership.json'' (HD_owner claim) True h1 of
                      (Some e, h2) \<Rightarrow> failing (give_up env ''ownership.json'' s e h2)
                    | (None, h2) \<Rightarrow> (let s' = s\<lparr>ms_use := intended claim\<rparr> in (Inr s', h2\<lparr>ho_lock := Some s'\<rparr>))))))"

text \<open>Record that the owner is done, and leave the mutex.\<close>

definition commit_ownership :: "host_env \<Rightarrow> session \<Rightarrow> ownership \<Rightarrow> host \<Rightarrow> upgrade_error option \<times> host" where
  "commit_ownership env s latest h =
    (case host_write env ''ownership.json'' (HD_owner (latest\<lparr>do_state := ''committed''\<rparr>)) True h of
       (Some e, h') \<Rightarrow> map_prod Some id (give_up env ''ownership.json'' s e h')
     | (None, h') \<Rightarrow> mutex_exit env s h')"

section \<open>\<^verbatim>\<open>deployment_ownership\<close>\<close>

definition deployment_decide :: "ownership \<Rightarrow> ownership option \<Rightarrow> ownership option \<Rightarrow> upgrade_error + ownership" where
  "deployment_decide claim prior previous =
    (if (case previous of
           Some p \<Rightarrow> do_project p \<noteq> do_project claim \<or> do_generation claim \<le> do_generation p \<or> (do_state p = ''active'' \<and> previous \<noteq> prior)
         | None \<Rightarrow> prior \<noteq> None)
     then Inl Upgrade_conflict
     else if do_state claim \<noteq> ''active'' then Inl Upgrade_conflict else Inr claim)"

definition deployment_enter :: "host_env \<Rightarrow> ownership \<Rightarrow> ownership option \<Rightarrow> host \<Rightarrow> session host_call" where
  "deployment_enter env claim prior h =
    (case mutex_enter env (do_project claim) (do_owner claim) prior None None h of
       (Inl e, h') \<Rightarrow> (Inl e, h')
     | (Inr s, h') \<Rightarrow> claim_ownership env s (deployment_decide claim prior) (\<lambda>h. (None, h)) Use_deployment h')"

definition same_owner :: "ownership \<Rightarrow> ownership \<Rightarrow> bool" where
  "same_owner p c \<longleftrightarrow> do_owner p = do_owner c \<and> do_generation p = do_generation c \<and> do_project p = do_project c
     \<and> do_owner_kind p = do_owner_kind c \<and> do_boot p = do_boot c \<and> do_job p = do_job c \<and> do_op_generation p = do_op_generation c"

definition deployment_exit :: "host_env \<Rightarrow> session \<Rightarrow> ownership \<Rightarrow> host \<Rightarrow> upgrade_error option \<times> host" where
  "deployment_exit env s claim h =
    (case read_owner h of
       Inl e \<Rightarrow> map_prod Some id (leave env s e h)
     | Inr latest \<Rightarrow>
         (case latest of
            Some c \<Rightarrow> if same_owner c claim then commit_ownership env s c h else map_prod Some id (leave env s Upgrade_conflict h)
          | None \<Rightarrow> map_prod Some id (leave env s Upgrade_conflict h)))"

section \<open>The host scripts\<close>

definition project_name_ok :: "string \<Rightarrow> bool" where
  "project_name_ok p \<longleftrightarrow>
    (let lower = (\<lambda>c. let n = of_char c :: nat in 97 \<le> n \<and> n \<le> 122) in
     case p of [] \<Rightarrow> False
     | c # cs \<Rightarrow> lower c \<and> 1 \<le> length cs \<and> length cs \<le> 62
         \<and> list_all (\<lambda>x. lower x \<or> dec_char x \<or> x \<in> {CHR ''_'', CHR ''-''}) cs)"

definition host_arguments_ok :: "string \<Rightarrow> string list \<Rightarrow> bool" where
  "host_arguments_ok action arguments \<longleftrightarrow> action \<in> {''up'', ''down''}
     \<and> set arguments \<subseteq> (if action = ''up''
          then {''--secrets-from-env'', ''--build'', ''--no-build'', ''--recover-db-role'', ''-h'', ''--help''} else {''--purge''})"

text \<open>\<^verbatim>\<open>reconcile_release_selection\<close>: the retained releases have their recorded content, and the pointer names the selected one.\<close>

definition switch_pointer :: "host_env \<Rightarrow> string \<Rightarrow> host \<Rightarrow> upgrade_error option \<times> host" where
  "switch_pointer env key h = (if hv_pointer env then (None, h\<lparr>ho_current := Some key\<rparr>) else (Some Upgrade_unavailable, h))"

definition reconcile_selection :: "host_env \<Rightarrow> string \<Rightarrow> host \<Rightarrow> upgrade_error option \<times> host" where
  "reconcile_selection env project h =
    (case read_receipt h of
       Inl e \<Rightarrow> (Some e, h)
     | Inr None \<Rightarrow> (None, h)
     | Inr (Some r) \<Rightarrow>
         if sr_project r \<noteq> project then (Some Upgrade_invalid, h)
         else if list_ex (\<lambda>(key, digest). hv_release env key \<noteq> Some digest) (sr_protected r) then (Some Upgrade_invalid, h)
         else if ho_current h \<noteq> Some (sr_release_key r) then switch_pointer env (sr_release_key r) h else (None, h))"

definition host_claim :: "host_env \<Rightarrow> string \<Rightarrow> string \<Rightarrow> ownership option \<Rightarrow> ownership" where
  "host_claim env project owner previous =
    \<lparr>do_project = project, do_state = ''active'', do_owner_kind = ''host'', do_stage = ''preparing'', do_owner = owner,
     do_runtime = None, do_container = None, do_boot = hv_boot env, do_job = None, do_op_generation = None,
     do_generation = (case previous of None \<Rightarrow> 1 | Some p \<Rightarrow> do_generation p + 1), do_source = None, do_committed = None\<rparr>"

definition host_decide :: "host_env \<Rightarrow> string \<Rightarrow> string \<Rightarrow> ownership option \<Rightarrow> upgrade_error + ownership" where
  "host_decide env project owner previous =
    (if (case previous of None \<Rightarrow> False | Some p \<Rightarrow> do_state p = ''active'' \<or> do_project p \<noteq> project) then Inl Upgrade_conflict
     else Inr (host_claim env project owner previous))"

text \<open>\<^verbatim>\<open>run_host_deployment\<close> up to the script, and after it.\<close>

definition host_enter :: "host_env \<Rightarrow> string \<Rightarrow> string list \<Rightarrow> string \<Rightarrow> string \<Rightarrow> bool \<Rightarrow> host \<Rightarrow> session host_call" where
  "host_enter env action arguments project nonce legacy h =
    (if \<not> host_arguments_ok action arguments \<or> \<not> project_name_ok project \<or> legacy then (Inl Upgrade_invalid, h)
     else (let owner = ''host-'' @ action @ ''-'' @ nonce in
       case mutex_enter env project owner None None None h of
         (Inl e, h') \<Rightarrow> (Inl e, h')
       | (Inr s, h') \<Rightarrow> claim_ownership env s (host_decide env project owner) (reconcile_selection env project) Use_host h'))"

definition host_exit :: "host_env \<Rightarrow> session \<Rightarrow> ownership \<Rightarrow> int \<Rightarrow> host \<Rightarrow> upgrade_error option \<times> host" where
  "host_exit env s claim returncode h =
    (case read_owner h of
       Inl e \<Rightarrow> map_prod Some id (leave env s e h)
     | Inr None \<Rightarrow> map_prod Some id (leave env s Upgrade_conflict h)
     | Inr (Some latest) \<Rightarrow>
         if do_owner latest \<noteq> do_owner claim \<or> do_generation latest \<noteq> do_generation claim
         then map_prod Some id (leave env s Upgrade_conflict h)
         else if returncode = 0 \<or> do_stage latest = ''preparing'' then commit_ownership env s latest h
         else mutex_exit env s h)"

text \<open>The scripts inherit the descriptor and the identity of their owner.\<close>

definition verify_host :: "host_env \<Rightarrow> string \<Rightarrow> string \<Rightarrow> host \<Rightarrow> upgrade_error + ownership" where
  "verify_host env project ident h =
    (if \<not> project_name_ok project \<or> hv_file env \<noteq> None \<or> ho_lock h = None then Inl Upgrade_invalid
     else case (read_owner h, read_lease h) of
       (Inl e, _) \<Rightarrow> Inl e
     | (Inr None, _) \<Rightarrow> Inl Upgrade_invalid
     | (Inr (Some c), lease) \<Rightarrow>
         if do_state c \<noteq> ''active'' \<or> do_owner_kind c \<noteq> ''host'' \<or> do_project c \<noteq> project \<or> do_boot c \<noteq> hv_boot env \<or> do_owner c \<noteq> ident
         then Inl Upgrade_invalid
         else (case lease of
             Inl e \<Rightarrow> Inl e
           | Inr None \<Rightarrow> Inl Upgrade_invalid
           | Inr (Some l) \<Rightarrow>
               if dl_owner l \<noteq> do_owner c \<or> dl_project l \<noteq> project \<or> dl_platform l \<noteq> hv_platform env \<or> dl_boot l \<noteq> hv_boot env
               then Inl Upgrade_invalid else Inr c))"

definition mark_host_mutation :: "host_env \<Rightarrow> string \<Rightarrow> string \<Rightarrow> host \<Rightarrow> upgrade_error option \<times> host" where
  "mark_host_mutation env project ident h =
    (case verify_host env project ident h of
       Inl e \<Rightarrow> (Some e, h)
     | Inr c \<Rightarrow> host_write env ''ownership.json'' (HD_owner (c\<lparr>do_stage := ''mutating''\<rparr>)) True h)"

definition host_protected :: "host_env \<Rightarrow> string \<Rightarrow> selection_receipt option \<Rightarrow> host \<Rightarrow> upgrade_error + (string, string) pydict" where
  "host_protected env key previous h =
    (let kept = (case previous of None \<Rightarrow> [] | Some r \<Rightarrow> sr_protected r) in
     case (case ho_current h of None \<Rightarrow> Some kept
           | Some k \<Rightarrow> map_option (\<lambda>digest. dict_setdefault k digest kept) (hv_release env k)) of
       None \<Rightarrow> Inl Upgrade_invalid
     | Some protected \<Rightarrow>
         (case hv_release env key of
            None \<Rightarrow> Inl Upgrade_invalid
          | Some chosen \<Rightarrow>
              if dict_get protected key \<noteq> None \<and> dict_get protected key \<noteq> Some chosen then Inl Upgrade_invalid
              else Inr (dict_set key chosen protected)))"

definition host_receipt :: "host_env \<Rightarrow> ownership \<Rightarrow> string \<Rightarrow> (string, string) pydict \<Rightarrow> selection_receipt" where
  "host_receipt env c key protected =
    \<lparr>sr_project = do_project c, sr_owner = do_owner c, sr_boot = do_boot c, sr_generation = do_generation c, sr_release_key = key,
     sr_compose = (case dict_get protected key of None \<Rightarrow> '''' | Some digest \<Rightarrow> digest), sr_protected_keys = sort (map fst protected), sr_protected = protected,
     sr_selected_at = hv_now env, sr_managed = None, sr_manifest = None\<rparr>"

definition record_host_selection :: "host_env \<Rightarrow> string \<Rightarrow> string \<Rightarrow> string \<Rightarrow> host \<Rightarrow> upgrade_error option \<times> host" where
  "record_host_selection env project ident key h =
    (case verify_host env project ident h of
       Inl e \<Rightarrow> (Some e, h)
     | Inr c \<Rightarrow>
         if do_stage c \<noteq> ''mutating'' then (Some Upgrade_invalid, h)
         else (case read_receipt h of
             Inl e \<Rightarrow> (Some e, h)
           | Inr previous \<Rightarrow>
               (case host_protected env key previous h of
                  Inl e \<Rightarrow> (Some e, h)
                | Inr protected \<Rightarrow>
                    if \<not> selection_receipt_valid (host_receipt env c key protected) then (Some Upgrade_invalid, h)
                    else (case host_write env ''selection.json'' (HD_selection (host_receipt env c key protected)) True h of
                        (Some e, h1) \<Rightarrow> (Some e, h1)
                      | (None, h1) \<Rightarrow>
                          (case switch_pointer env key h1 of
                             (Some e, h2) \<Rightarrow> (Some e, h2)
                           | (None, h2) \<Rightarrow> host_write env ''ownership.json'' (HD_owner (c\<lparr>do_stage := ''selected''\<rparr>)) True h2)))))"

section \<open>The executor\<close>

definition verify_held :: "host_env \<Rightarrow> ownership \<Rightarrow> host \<Rightarrow> upgrade_error option" where
  "verify_held env claim h =
    (if hv_file env \<noteq> None \<or> ho_lock h = None then Some Upgrade_unavailable
     else case (read_owner h, read_lease h) of
       (Inl e, _) \<Rightarrow> Some e
     | (Inr _, Inl e) \<Rightarrow> Some e
     | (Inr current, Inr lease) \<Rightarrow>
         if current \<noteq> Some claim
            \<or> (case lease of None \<Rightarrow> True
               | Some l \<Rightarrow> (dl_project l, dl_owner l, dl_platform l, dl_boot l)
                   \<noteq> (do_project claim, do_owner claim, hv_platform env, hv_boot env))
         then Some Upgrade_conflict else None)"

definition hold_differs :: "digests \<Rightarrow> authority \<Rightarrow> operation_hold option \<Rightarrow> bool" where
  "hold_differs dg a held \<longleftrightarrow> held \<noteq> au_hold a
     \<or> (case held of None \<Rightarrow> False
        | Some x \<Rightarrow> oh_released x
            \<or> (oh_project x, oh_job x, oh_generation x, oh_plan x, oh_source x)
              \<noteq> (do_project (au_claim a), op_job (pl_operation (au_plan a)), op_generation (pl_operation (au_plan a)),
                 plan_authority dg (au_plan a), op_source_sha (pl_operation (au_plan a))))"

definition verify_authority :: "digests \<Rightarrow> host_env \<Rightarrow> authority \<Rightarrow> host \<Rightarrow> upgrade_error option" where
  "verify_authority dg env a h =
    (case verify_held env (au_claim a) h of
       Some e \<Rightarrow> Some e
     | None \<Rightarrow>
         (case read_operation h of
            Inl e \<Rightarrow> Some e
          | Inr held \<Rightarrow> if hold_differs dg a held then Some Upgrade_conflict else None))"

definition binds_plan :: "ownership \<Rightarrow> upgrade_plan \<Rightarrow> bool" where
  "binds_plan c plan \<longleftrightarrow>
     (do_job c, do_op_generation c, do_source c, Some (do_project c), do_state c)
     = (Some (op_job (pl_operation plan)), Some (op_generation (pl_operation plan)), Some (op_source_sha (pl_operation plan)),
        mf_project (rl_manifest (pl_source plan)), ''active'')"

definition executor_decide :: "ownership \<Rightarrow> upgrade_plan \<Rightarrow> ownership option \<Rightarrow> ownership option \<Rightarrow> upgrade_error + ownership" where
  "executor_decide claim plan prior previous =
    (if (case previous of
           Some p \<Rightarrow> do_project p \<noteq> do_project claim \<or> do_generation claim \<le> do_generation p \<or> (do_state p = ''active'' \<and> previous \<noteq> prior)
         | None \<Rightarrow> prior \<noteq> None)
     then Inl Upgrade_conflict
     else if (case previous of None \<Rightarrow> False
              | Some p \<Rightarrow> do_runtime p \<noteq> None \<and> (do_runtime claim, do_container claim) \<noteq> (do_runtime p, do_container p))
     then Inl Upgrade_conflict
     else if \<not> binds_plan claim plan then Inl Upgrade_forbidden else Inr claim)"

text \<open>\<^verbatim>\<open>ExecutorAuthority.__init__\<close>: it keeps the hold it finds.\<close>

definition new_authority :: "digests \<Rightarrow> host_env \<Rightarrow> ownership \<Rightarrow> upgrade_plan \<Rightarrow> host \<Rightarrow> upgrade_error + authority" where
  "new_authority dg env claim plan h =
    (case read_operation h of
       Inl e \<Rightarrow> Inl e
     | Inr held \<Rightarrow>
         (let a = \<lparr>au_claim = claim, au_plan = plan, au_hold = held\<rparr> in
          if do_owner_kind claim \<noteq> ''executor'' \<or> \<not> binds_plan claim plan then Inl Upgrade_forbidden
          else (case verify_authority dg env a h of Some e \<Rightarrow> Inl e | None \<Rightarrow> Inr a)))"

definition executor_enter ::
  "digests \<Rightarrow> host_env \<Rightarrow> ownership \<Rightarrow> upgrade_plan \<Rightarrow> ownership option \<Rightarrow> host \<Rightarrow> authority host_call" where
  "executor_enter dg env claim plan prior h =
    (if do_owner_kind claim \<noteq> ''executor'' \<or> do_boot claim \<noteq> hv_boot env then (Inl Upgrade_forbidden, h)
     else case mutex_enter env (do_project claim) (do_owner claim) prior
         (Some (op_job (pl_operation plan), op_generation (pl_operation plan))) None h of
       (Inl e, h') \<Rightarrow> (Inl e, h')
     | (Inr s, h') \<Rightarrow>
         (case claim_ownership env s (executor_decide claim plan prior) (\<lambda>h. (None, h)) (\<lambda>_. Use_control) h' of
            (Inl e, h'') \<Rightarrow> (Inl e, h'')
          | (Inr s', h'') \<Rightarrow>
              (case new_authority dg env claim plan h'' of
                 Inl e \<Rightarrow> failing (leave env s' e h'')
               | Inr a \<Rightarrow> (Inr a, h''\<lparr>ho_lock := Some (s'\<lparr>ms_use := Use_executor a\<rparr>)\<rparr>))))"

text \<open>\<^verbatim>\<open>idle_executor_owner\<close>: an effect-free executor of this kernel that holds the lock.\<close>

definition idle_executor :: "host_env \<Rightarrow> string \<Rightarrow> string \<Rightarrow> host \<Rightarrow> upgrade_error + ownership option" where
  "idle_executor env project executor h =
    (case read_owner h of
       Inl e \<Rightarrow> Inl e
     | Inr None \<Rightarrow> Inr None
     | Inr (Some c) \<Rightarrow>
         if do_state c \<noteq> ''active'' \<or> do_owner_kind c \<noteq> ''executor'' \<or> do_job c \<noteq> None then Inr None
         else (case read_lease h of
             Inl e \<Rightarrow> Inl e
           | Inr lease \<Rightarrow>
               if do_project c \<noteq> project \<or> do_owner c \<noteq> executor \<or> do_stage c \<noteq> ''preparing'' \<or> do_runtime c = None
                  \<or> do_container c = None \<or> do_boot c \<noteq> hv_boot env
                  \<or> (case lease of None \<Rightarrow> True
                     | Some l \<Rightarrow> (dl_project l, dl_owner l, dl_platform l, dl_boot l) \<noteq> (project, executor, hv_platform env, hv_boot env))
               then Inl Upgrade_conflict
               else if hv_file env \<noteq> None \<or> ho_lock h = None then Inl Upgrade_unavailable else Inr (Some c)))"

end
