(* ===== verification/Deployment_Hold.thy ===== *)
theory Deployment_Hold
  imports Deployment_Ownership
begin

text \<open>
  The cluster's side of the coordination directory (\<^verbatim>\<open>coire_api/upgrades/host_hold.py\<close>): the hold that keeps host
  scripts away while an accepted operation runs, the readiness of the deployment, and what the API asks of the
  published selection before it records success.
\<close>

record coordination_settings =
  cs_project :: string
  cs_executor :: string
  cs_present :: bool

text \<open>\<^verbatim>\<open>admission_hold_owner\<close> around a body: under an idle executor with the admission lock only, else under the mutex.\<close>

definition with_admission ::
  "host_env \<Rightarrow> coordination_settings \<Rightarrow> string \<times> int \<Rightarrow> (host \<Rightarrow> upgrade_error option \<times> host) \<Rightarrow> host \<Rightarrow> upgrade_error option \<times> host" where
  "with_admission env cfg ident body h =
    (case se_lock (hv_store env) of
       Some e \<Rightarrow> (Some e, h)
     | None \<Rightarrow>
         (case idle_executor env (cs_project cfg) (cs_executor cfg) h of
            Inl e \<Rightarrow> (Some e, h)
          | Inr (Some c) \<Rightarrow>
              (case body h of
                 (Some e, h1) \<Rightarrow> (Some e, h1)
               | (None, h1) \<Rightarrow>
                   (case idle_executor env (cs_project cfg) (cs_executor cfg) h1 of
                      Inl e \<Rightarrow> (Some e, h1)
                    | Inr c' \<Rightarrow> (if c' \<noteq> Some c then Some Upgrade_conflict else None, h1)))
          | Inr None \<Rightarrow>
              (case mutex_enter env (cs_project cfg) (''control-'' @ fst ident) None (Some ident) None h of
                 (Inl e, h1) \<Rightarrow> (Some e, h1)
               | (Inr s, h1) \<Rightarrow>
                   (case read_owner h1 of
                      Inl e \<Rightarrow> map_prod Some id (leave env s e h1)
                    | Inr c \<Rightarrow>
                        if (case c of None \<Rightarrow> True | Some x \<Rightarrow> do_project x \<noteq> cs_project cfg \<or> do_state x \<noteq> ''committed'')
                        then map_prod Some id (leave env s Upgrade_conflict h1)
                        else (case body h1 of
                            (Some e, h2) \<Rightarrow> map_prod Some id (give_up env ''operation-hold.json'' s e h2)
                          | (None, h2) \<Rightarrow> mutex_exit env s h2)))))"

definition write_hold :: "host_env \<Rightarrow> operation_hold \<Rightarrow> host \<Rightarrow> upgrade_error option \<times> host" where
  "write_hold env x h = host_write env ''operation-hold.json'' (HD_operation x) True h"

definition plan_identity :: "upgrade_plan \<Rightarrow> string \<times> int" where
  "plan_identity plan = (op_job (pl_operation plan), op_generation (pl_operation plan))"

definition new_hold :: "digests \<Rightarrow> host_env \<Rightarrow> coordination_settings \<Rightarrow> upgrade_plan \<Rightarrow> operation_hold" where
  "new_hold dg env cfg plan =
    \<lparr>oh_project = cs_project cfg, oh_job = op_job (pl_operation plan), oh_generation = op_generation (pl_operation plan),
     oh_plan = plan_authority dg plan, oh_source = op_source_sha (pl_operation plan), oh_released = False, oh_created_at = hv_now env\<rparr>"

definition hold_body ::
  "digests \<Rightarrow> host_env \<Rightarrow> coordination_settings \<Rightarrow> upgrade_plan \<Rightarrow> bool \<Rightarrow> host \<Rightarrow> upgrade_error option \<times> host" where
  "hold_body dg env cfg plan releasing h =
    (case read_operation h of
       Inl e \<Rightarrow> (Some e, h)
     | Inr previous \<Rightarrow>
         (case previous of
            Some x \<Rightarrow>
              if (oh_job x, oh_generation x) = plan_identity plan
              then if oh_plan x \<noteq> plan_authority dg plan \<or> oh_source x \<noteq> op_source_sha (pl_operation plan) then (Some Upgrade_conflict, h)
                   else if oh_released x then (if releasing then None else Some Upgrade_conflict, h)
                   else if releasing then write_hold env (x\<lparr>oh_released := True\<rparr>) h
                   else (None, h)
              else if releasing \<or> \<not> oh_released x \<or> oh_generation x \<ge> op_generation (pl_operation plan) then (Some Upgrade_conflict, h)
              else write_hold env (new_hold dg env cfg plan) h
          | None \<Rightarrow> if releasing then (Some Upgrade_conflict, h) else write_hold env (new_hold dg env cfg plan) h))"

definition operation_hold_call ::
  "digests \<Rightarrow> host_env \<Rightarrow> coordination_settings \<Rightarrow> upgrade_plan \<Rightarrow> bool \<Rightarrow> host \<Rightarrow> upgrade_error option \<times> host" where
  "operation_hold_call dg env cfg plan releasing h =
    (if \<not> cs_present cfg then (Some Upgrade_unavailable, h)
     else with_admission env cfg (plan_identity plan) (hold_body dg env cfg plan releasing) h)"

text \<open>\<^verbatim>\<open>reconcile_orphan_hold\<close>, with whether the database knows the operation of a job.\<close>

definition orphan_body :: "host_env \<Rightarrow> operation_hold \<Rightarrow> host \<Rightarrow> upgrade_error option \<times> host" where
  "orphan_body env x h =
    (case read_operation h of
       Inl e \<Rightarrow> (Some e, h)
     | Inr current \<Rightarrow> if current \<noteq> Some x then (Some Upgrade_conflict, h) else write_hold env (x\<lparr>oh_released := True\<rparr>) h)"

definition reconcile_orphan_hold ::
  "host_env \<Rightarrow> coordination_settings \<Rightarrow> (string \<Rightarrow> bool) \<Rightarrow> host \<Rightarrow> upgrade_error option \<times> host" where
  "reconcile_orphan_hold env cfg known h =
    (if \<not> cs_present cfg then (None, h)
     else case read_operation h of
       Inl e \<Rightarrow> (Some e, h)
     | Inr None \<Rightarrow> (None, h)
     | Inr (Some x) \<Rightarrow>
         if oh_released x \<or> known (oh_job x) then (None, h)
         else with_admission env cfg (oh_job x, oh_generation x) (orphan_body env x) h)"

section \<open>Readiness\<close>

datatype readiness = Ready | Maintenance | Not_ready

definition hold_readiness :: "coordination_settings \<Rightarrow> host \<Rightarrow> readiness" where
  "hold_readiness cfg h =
    (case read_handover h of
       Inl _ \<Rightarrow> Not_ready
     | Inr hh \<Rightarrow>
         if (case hh of None \<Rightarrow> False | Some x \<Rightarrow> hh_project x \<noteq> cs_project cfg) then Not_ready
         else if (case hh of None \<Rightarrow> False | Some x \<Rightarrow> \<not> hh_released x) then Maintenance
         else (case read_operation h of
                 Inl _ \<Rightarrow> Not_ready
               | Inr oh \<Rightarrow>
                   if (case oh of None \<Rightarrow> False | Some x \<Rightarrow> oh_project x \<noteq> cs_project cfg) then Not_ready
                   else if (case oh of None \<Rightarrow> False | Some x \<Rightarrow> \<not> oh_released x) then Maintenance else Ready))"

definition deployment_readiness :: "host_env \<Rightarrow> coordination_settings \<Rightarrow> host \<Rightarrow> readiness" where
  "deployment_readiness env cfg h =
    (if \<not> cs_present cfg then Not_ready
     else case read_owner h of
       Inl _ \<Rightarrow> Not_ready
     | Inr None \<Rightarrow> Not_ready
     | Inr (Some c) \<Rightarrow>
         if do_project c \<noteq> cs_project cfg then Not_ready
         else if do_state c \<noteq> ''committed''
         then (case idle_executor env (cs_project cfg) (cs_executor cfg) h of Inr (Some _) \<Rightarrow> hold_readiness cfg h | _ \<Rightarrow> Not_ready)
         else (case read_lease h of Inr None \<Rightarrow> hold_readiness cfg h | _ \<Rightarrow> Not_ready))"

section \<open>The published selection\<close>

definition owner_publishes :: "coordination_settings \<Rightarrow> upgrade_plan \<Rightarrow> ownership \<Rightarrow> bool" where
  "owner_publishes cfg plan c \<longleftrightarrow>
     do_state c = ''committed'' \<and> do_stage c = ''selected'' \<and> do_owner_kind c = ''executor'' \<and> do_owner c = cs_executor cfg
   \<and> do_project c = cs_project cfg
   \<and> (do_job c, do_op_generation c, do_source c)
     = (Some (op_job (pl_operation plan)), Some (op_generation (pl_operation plan)), Some (rl_sha (pl_source plan)))
   \<and> do_committed c = mf_compose (rl_manifest (pl_target plan))"

definition retained_release :: "selection_receipt \<Rightarrow> upgrade_release \<Rightarrow> bool" where
  "retained_release r rel \<longleftrightarrow>
     dict_get (sr_protected r) (case mf_host_key (rl_manifest rel) of None \<Rightarrow> '''' | Some k \<Rightarrow> k) = mf_compose (rl_manifest rel)"

definition receipt_publishes :: "upgrade_plan \<Rightarrow> ownership \<Rightarrow> selection_receipt \<Rightarrow> bool" where
  "receipt_publishes plan c r \<longleftrightarrow>
     (sr_project r, sr_owner r, sr_boot r, sr_generation r) = (do_project c, do_owner c, do_boot c, do_generation c)
   \<and> (sr_managed r, sr_manifest r, Some (sr_release_key r), Some (sr_compose r))
     = (Some (rl_id (pl_target plan)), Some (rl_sha (pl_target plan)), mf_host_key (rl_manifest (pl_target plan)),
        mf_compose (rl_manifest (pl_target plan)))
   \<and> retained_release r (pl_source plan) \<and> retained_release r (pl_target plan)"

definition plan_origin :: "digests \<Rightarrow> upgrade_plan \<Rightarrow> selection_origin" where
  "plan_origin dg plan = \<lparr>or_job = Some (op_job (pl_operation plan)), or_generation = Some (op_generation (pl_operation plan)),
     or_plan = Some (plan_authority dg plan)\<rparr>"

definition runtime_images :: "selected_service list \<Rightarrow> (string, string) pydict" where
  "runtime_images xs = fold (\<lambda>x. dict_set (dc_service (ss_container x)) (dc_image (ss_container x))) xs []"

definition runtime_publishes :: "digests \<Rightarrow> upgrade_plan \<Rightarrow> ownership \<Rightarrow> selection_receipt \<Rightarrow> runtime_selection \<Rightarrow> bool" where
  "runtime_publishes dg plan c r x \<longleftrightarrow>
     (ru_project x, ru_owner x, ru_generation x) = (do_project c, do_owner c, do_generation c)
   \<and> (ru_release x, ru_manifest x, Some (ru_host_key x), Some (ru_compose x))
     = (rl_id (pl_target plan), rl_sha (pl_target plan), mf_host_key (rl_manifest (pl_target plan)), mf_compose (rl_manifest (pl_target plan)))
   \<and> dict_eq (runtime_images (ru_services x)) (release_images (pl_target plan))
   \<and> list_all (\<lambda>i. dc_service (ss_container i) \<in> set (op_cohort (pl_operation plan)) \<longrightarrow> ss_origin i = plan_origin dg plan) (ru_services x)
   \<and> (case ru_migration x of None \<Rightarrow> \<not> needs_migration plan
      | Some m \<Rightarrow> retained_release r (sm_release m)
          \<and> (needs_migration plan \<longrightarrow> rl_id (sm_release m) = rl_id (pl_target plan) \<and> rl_sha (sm_release m) = rl_sha (pl_target plan)
               \<and> sm_origin m = plan_origin dg plan))"

definition require_published_target :: "digests \<Rightarrow> coordination_settings \<Rightarrow> upgrade_plan \<Rightarrow> host \<Rightarrow> upgrade_error option" where
  "require_published_target dg cfg plan h =
    (if \<not> cs_present cfg then Some Upgrade_unavailable
     else case (read_owner h, read_receipt h, read_runtime h) of
       (Inl e, _, _) \<Rightarrow> Some e
     | (Inr _, Inl e, _) \<Rightarrow> Some e
     | (Inr _, Inr _, Inl e) \<Rightarrow> Some e
     | (Inr (Some c), Inr (Some r), Inr (Some x)) \<Rightarrow>
         if owner_publishes cfg plan c \<and> receipt_publishes plan c r \<and> runtime_publishes dg plan c r x then None else Some Upgrade_conflict
     | _ \<Rightarrow> Some Upgrade_conflict)"

end
