(* ===== verification/Executor_Selection.thy ===== *)
theory Executor_Selection
  imports Deployment_Hold
begin

text \<open>
  The operations of the executor journal that act under the held deployment
  (\<^verbatim>\<open>coire_upgrade_executor/journal.py\<close>): the dispatch of an effect, the source snapshot, and the publication of
  the selected runtime. The authority is verified again and again; each verification and write has its own
  answers of the environment, by position.
\<close>

section \<open>Dispatch\<close>

definition gateway_services :: "string list" where
  "gateway_services = [''coire-api'', ''coire-scheduler'', ''coire-web'']"

definition dispatch_verdict :: "digests \<Rightarrow> upgrade_plan \<Rightarrow> datetime \<Rightarrow> executor_dir \<Rightarrow> executor_effect \<Rightarrow> (executor_effect, executor_effect) verdict" where
  "dispatch_verdict dg plan now d e =
    (if ef_outcome e \<noteq> E_INTENT then Fail Upgrade_conflict
     else case epoch_state dg plan d of
       Inl x \<Rightarrow> Fail x
     | Inr s \<Rightarrow>
         if now \<ge> ef_deadline e \<or> ef_captured_at e > now \<or> (ep_recovery_at s \<noteq> None \<and> \<not> recovery_action (ef_action e))
         then Fail Upgrade_forbidden
         else if ef_action e = X_STOP_SOURCE \<and> (case ef_service e of None \<Rightarrow> False | Some v \<Rightarrow> v \<in> set gateway_services)
             \<and> ep_outage s = None
         then Fail Upgrade_conflict
         else if \<not> recovery_action (ef_action e) \<and> (case ep_outage s of None \<Rightarrow> False | Some t \<Rightarrow> now \<ge> t) then Fail Upgrade_forbidden
         else Put (e\<lparr>ef_outcome := E_UNKNOWN\<rparr>) (e\<lparr>ef_outcome := E_UNKNOWN\<rparr>))"

definition dispatch_intent ::
  "digests \<Rightarrow> upgrade_plan \<Rightarrow> executor_env \<Rightarrow> (nat \<Rightarrow> host_env) \<Rightarrow> authority \<Rightarrow> host \<Rightarrow> string \<Rightarrow> executor_dir \<Rightarrow> executor_effect executor_call" where
  "dispatch_intent dg plan env hv a h eid d =
    (case verify_authority dg (hv 0) a h of
       Some e \<Rightarrow> (Inl e, d)
     | None \<Rightarrow>
         if do_state (au_claim a) \<noteq> ''active'' \<or> plan_authority dg (au_plan a) \<noteq> plan_authority dg plan then (Inl Upgrade_forbidden, d)
         else with_effect env eid True (on_intent dg plan (dispatch_verdict dg plan (xv_now env) d))
                (\<lambda>d. (verify_authority dg (hv 1) a h, d)) d)"

section \<open>The source snapshot\<close>

definition same_container :: "'a docker_execution_scheme \<Rightarrow> 'a docker_execution_scheme \<Rightarrow> bool" where
  "same_container c c' \<longleftrightarrow> c\<lparr>dc_observed_at := 0, dc_networks := []\<rparr> = c'\<lparr>dc_observed_at := 0, dc_networks := []\<rparr>
     \<and> dict_eq (dc_networks c) (dc_networks c')"

definition container_images :: "docker_container list \<Rightarrow> (string, string) pydict" where
  "container_images cs = fold (\<lambda>c. dict_set (dc_service c) (dc_image c)) cs []"

fun list_index :: "'a \<Rightarrow> 'a list \<Rightarrow> nat" where
  "list_index x [] = 0"
| "list_index x (y # ys) = (if x = y then 0 else Suc (list_index x ys))"

definition source_snapshot_of :: "digests \<Rightarrow> upgrade_plan \<Rightarrow> executor_dir \<Rightarrow> upgrade_error + source_snapshot" where
  "source_snapshot_of dg plan d =
    (case store_read ''source-snapshot.json'' doc_snapshot (xd_store d) of
       Inl e \<Rightarrow> Inl e
     | Inr None \<Rightarrow> Inl Upgrade_unavailable
     | Inr (Some s) \<Rightarrow>
         if \<not> owns dg plan (sn_job s) (sn_generation s) (sn_plan s) \<or> Some (sn_project s) \<noteq> mf_project (rl_manifest (pl_source plan))
            \<or> sn_source s \<noteq> rl_sha (pl_source plan) \<or> \<not> dict_eq (container_images (sn_services s)) (release_images (pl_source plan))
         then Inl Upgrade_conflict else Inr s)"

definition snapshot_from :: "digests \<Rightarrow> upgrade_plan \<Rightarrow> datetime \<Rightarrow> docker_container list \<Rightarrow> source_snapshot" where
  "snapshot_from dg plan now observations =
    \<lparr>sn_job = op_job (pl_operation plan), sn_generation = op_generation (pl_operation plan), sn_plan = plan_authority dg plan,
     sn_project = (case mf_project (rl_manifest (pl_source plan)) of None \<Rightarrow> '''' | Some p \<Rightarrow> p), sn_source = rl_sha (pl_source plan),
     sn_captured_at = now, sn_services = sort_key (\<lambda>c. list_index (dc_service c) cohort_order) observations\<rparr>"

definition freeze_source ::
  "digests \<Rightarrow> upgrade_plan \<Rightarrow> executor_env \<Rightarrow> docker_container list \<Rightarrow> executor_dir \<Rightarrow> source_snapshot executor_call" where
  "freeze_source dg plan env observations d =
    (let now = xv_now env; s = snapshot_from dg plan now observations in
     if \<not> list_all (\<lambda>c. fresh now (dc_observed_at c)) observations then (Inl Upgrade_conflict, d)
     else if \<not> snapshot_valid s then (Inl Upgrade_invalid, d)
     else case se_lock (xv_store env) of
       Some e \<Rightarrow> (Inl e, d)
     | None \<Rightarrow>
         (case store_read ''source-snapshot.json'' doc_snapshot (xd_store d) of
            Inl e \<Rightarrow> (Inl e, d)
          | Inr (Some _) \<Rightarrow>
              (case source_snapshot_of dg plan d of
                 Inl e \<Rightarrow> (Inl e, d)
               | Inr kept \<Rightarrow> (if list_all2 same_container (sn_services kept) (sn_services s) then Inr kept else Inl Upgrade_conflict, d))
          | Inr None \<Rightarrow>
              if \<not> dict_eq (container_images (sn_services s)) (release_images (pl_source plan)) then (Inl Upgrade_conflict, d)
              else (case store_write (xv_store env) ''source-snapshot.json'' (XD_snapshot s) False (xd_store d) of
                      (Some e, st) \<Rightarrow> (Inl e, d\<lparr>xd_store := st\<rparr>)
                    | (None, st) \<Rightarrow> (Inr s, d\<lparr>xd_store := st\<rparr>))))"

section \<open>The selected runtime\<close>

text \<open>Steps on the coordination directory, up to the first that fails.\<close>

fun host_steps :: "(host \<Rightarrow> upgrade_error option \<times> host) list \<Rightarrow> host \<Rightarrow> upgrade_error option \<times> host" where
  "host_steps [] h = (None, h)"
| "host_steps (f # fs) h = (case f h of (Some e, h') \<Rightarrow> (Some e, h') | (None, h') \<Rightarrow> host_steps fs h')"

definition verified :: "digests \<Rightarrow> host_env \<Rightarrow> authority \<Rightarrow> host \<Rightarrow> upgrade_error option \<times> host" where
  "verified dg env a h = (verify_authority dg env a h, h)"

definition selected_release :: "upgrade_plan \<Rightarrow> runtime_selection \<Rightarrow> upgrade_release option" where
  "selected_release plan x = List.find (\<lambda>r. rl_id r = ru_release x) [pl_source plan, pl_target plan]"

definition selection_error :: "upgrade_plan \<Rightarrow> datetime \<Rightarrow> ownership \<Rightarrow> runtime_selection \<Rightarrow> upgrade_error option" where
  "selection_error plan now c x =
    (case selected_release plan x of
       None \<Rightarrow> Some Upgrade_conflict
     | Some r \<Rightarrow>
         if (ru_project x, ru_manifest x, Some (ru_compose x), Some (ru_host_key x), ru_owner x, ru_generation x)
            \<noteq> (do_project c, rl_sha r, mf_compose (rl_manifest r), mf_host_key (rl_manifest r), do_owner c, do_generation c)
            \<or> \<not> fresh now (ru_selected_at x) then Some Upgrade_conflict
         else if \<not> dict_eq (runtime_images (ru_services x)) (release_images r)
            \<or> \<not> list_all (\<lambda>i. fresh now (dc_observed_at (ss_container i))) (ru_services x) then Some Upgrade_conflict
         else if (case ru_migration x of None \<Rightarrow> False | Some m \<Rightarrow> \<not> fresh now (dc_observed_at (sm_container m))) then Some Upgrade_conflict
         else None)"

definition same_service :: "selected_service \<Rightarrow> selected_service \<Rightarrow> bool" where
  "same_service x y \<longleftrightarrow> same_container (ss_container x) (ss_container y) \<and> ss_origin x = ss_origin y"

definition same_migration :: "selected_migration \<Rightarrow> selected_migration \<Rightarrow> bool" where
  "same_migration x y \<longleftrightarrow> same_container (sm_container x) (sm_container y) \<and> x\<lparr>sm_container := sm_container y\<rparr> = y"

text \<open>Equal up to the times of observation; the generation is compared only where \<open>exact\<close> says so.\<close>

definition same_selection :: "bool \<Rightarrow> runtime_selection \<Rightarrow> runtime_selection \<Rightarrow> bool" where
  "same_selection exact x y \<longleftrightarrow>
     (ru_project x, ru_release x, ru_manifest x, ru_compose x, ru_host_key x, ru_owner x)
     = (ru_project y, ru_release y, ru_manifest y, ru_compose y, ru_host_key y, ru_owner y)
   \<and> (exact \<longrightarrow> ru_generation x = ru_generation y)
   \<and> list_all2 same_service (ru_services x) (ru_services y) \<and> rel_option same_migration (ru_migration x) (ru_migration y)"

definition selection_key :: "upgrade_release \<Rightarrow> string" where
  "selection_key r = ''runtime-selection-'' @ uuid_str (rl_id r) @ ''.json''"

definition retain_selection :: "executor_env \<Rightarrow> upgrade_release \<Rightarrow> runtime_selection \<Rightarrow> executor_dir \<Rightarrow> upgrade_error option \<times> executor_dir" where
  "retain_selection env r x d =
    (case se_lock (xv_store env) of
       Some e \<Rightarrow> (Some e, d)
     | None \<Rightarrow>
         (case store_read (selection_key r) doc_selection (xd_store d) of
            Inl e \<Rightarrow> (Some e, d)
          | Inr (Some p) \<Rightarrow> (if ru_generation p > ru_generation x \<or> \<not> same_selection False p x then Some Upgrade_conflict else None, d)
          | Inr None \<Rightarrow>
              (case store_write (xv_store env) (selection_key r) (XD_selection x) False (xd_store d) of
                 (e, st) \<Rightarrow> (e, d\<lparr>xd_store := st\<rparr>))))"

type_synonym 'a joint_call = "(upgrade_error + 'a) \<times> executor_dir \<times> host"

text \<open>The epoch and the observed cohort, for the readers on the host.\<close>

definition publish_observed ::
  "digests \<Rightarrow> upgrade_plan \<Rightarrow> (nat \<Rightarrow> host_env) \<Rightarrow> authority \<Rightarrow> runtime_selection \<Rightarrow> executor_dir \<Rightarrow> host \<Rightarrow> upgrade_error option \<times> host" where
  "publish_observed dg plan hv a x d h =
     host_steps
       [verified dg (hv 1) a,
        (\<lambda>h. case epoch_state dg plan d of
           Inl e \<Rightarrow> (Some e, h)
         | Inr s \<Rightarrow> host_write (hv 1) ''observed-epoch.json'' (HD_epoch s) True h),
        verified dg (hv 2) a, host_write (hv 2) ''observed-runtime.json'' (HD_runtime x) True, verified dg (hv 3) a] h"

definition retain_runtime_selection ::
  "digests \<Rightarrow> upgrade_plan \<Rightarrow> executor_env \<Rightarrow> (nat \<Rightarrow> host_env) \<Rightarrow> authority \<Rightarrow> runtime_selection \<Rightarrow> executor_dir \<Rightarrow> host
     \<Rightarrow> runtime_selection joint_call" where
  "retain_runtime_selection dg plan env hv a x d h =
    (if \<not> runtime_selection_valid x then (Inl Upgrade_invalid, d, h)
     else case verify_authority dg (hv 0) a h of
       Some e \<Rightarrow> (Inl e, d, h)
     | None \<Rightarrow>
         if plan_authority dg (au_plan a) \<noteq> plan_authority dg plan then (Inl Upgrade_forbidden, d, h)
         else (case (selection_error plan (xv_now env) (au_claim a) x, selected_release plan x) of
             (Some e, _) \<Rightarrow> (Inl e, d, h)
           | (None, None) \<Rightarrow> (Inl Upgrade_conflict, d, h)
           | (None, Some r) \<Rightarrow>
               (case retain_selection env r x d of
                  (Some e, d') \<Rightarrow> (Inl e, d', h)
                | (None, d') \<Rightarrow>
                    (case publish_observed dg plan hv a x d' h of
                       (Some e, h') \<Rightarrow> (Inl e, d', h')
                     | (None, h') \<Rightarrow> (Inr x, d', h')))))"

section \<open>The host receipt and the commit\<close>

fun protect_releases ::
  "executor_env \<Rightarrow> string \<Rightarrow> upgrade_release list \<Rightarrow> (string, string) pydict \<Rightarrow> upgrade_error + (string, string) pydict" where
  "protect_releases env project [] protected = Inr protected"
| "protect_releases env project (r # rs) protected =
    (case (mf_host_key (rl_manifest r), mf_compose (rl_manifest r)) of
       (Some key, Some digest) \<Rightarrow>
         if mf_project (rl_manifest r) \<noteq> Some project then Inl Upgrade_conflict
         else if dict_get protected key \<noteq> None \<and> dict_get protected key \<noteq> Some digest then Inl Upgrade_conflict
         else (case xv_prepared env r of
             Some e \<Rightarrow> Inl e
           | None \<Rightarrow> protect_releases env project rs (dict_set key digest protected))
     | _ \<Rightarrow> Inl Upgrade_conflict)"

definition retained_releases :: "upgrade_plan \<Rightarrow> runtime_selection \<Rightarrow> upgrade_release list" where
  "retained_releases plan x = [pl_source plan, pl_target plan] @ (case ru_migration x of None \<Rightarrow> [] | Some m \<Rightarrow> [sm_release m])"

definition kept_releases :: "selection_receipt option \<Rightarrow> (string, string) pydict" where
  "kept_releases previous = (case previous of None \<Rightarrow> [] | Some p \<Rightarrow> sr_protected p)"

definition executor_receipt :: "ownership \<Rightarrow> runtime_selection \<Rightarrow> (string, string) pydict \<Rightarrow> selection_receipt" where
  "executor_receipt c x protected =
    \<lparr>sr_project = ru_project x, sr_owner = do_owner c, sr_boot = do_boot c, sr_generation = do_generation c,
     sr_release_key = ru_host_key x, sr_compose = ru_compose x, sr_protected_keys = sort (map fst protected),
     sr_protected = protected, sr_selected_at = ru_selected_at x, sr_managed = Some (ru_release x), sr_manifest = Some (ru_manifest x)\<rparr>"

definition host_selection_receipt ::
  "digests \<Rightarrow> upgrade_plan \<Rightarrow> executor_env \<Rightarrow> (nat \<Rightarrow> host_env) \<Rightarrow> authority \<Rightarrow> runtime_selection \<Rightarrow> executor_dir \<Rightarrow> host
     \<Rightarrow> selection_receipt joint_call" where
  "host_selection_receipt dg plan env hv a x d h =
    (case retain_runtime_selection dg plan env hv a x d h of
       (Inl e, d', h') \<Rightarrow> (Inl e, d', h')
     | (Inr _, d', h') \<Rightarrow>
         (case read_receipt h' of
            Inl e \<Rightarrow> (Inl e, d', h')
          | Inr previous \<Rightarrow>
              if (case previous of None \<Rightarrow> False | Some p \<Rightarrow> sr_project p \<noteq> ru_project x) then (Inl Upgrade_conflict, d', h')
              else (case protect_releases env (ru_project x) (retained_releases plan x) (kept_releases previous) of
                  Inl e \<Rightarrow> (Inl e, d', h')
                | Inr protected \<Rightarrow>
                    (case verify_authority dg (hv 4) a h' of
                       Some e \<Rightarrow> (Inl e, d', h')
                     | None \<Rightarrow>
                         (let r = executor_receipt (au_claim a) x protected in
                          (if selection_receipt_valid r then Inr r else Inl Upgrade_invalid, d', h'))))))"

text \<open>An ingested decision to commit that the local journal has too, and acknowledged.\<close>

definition commit_decision :: "digests \<Rightarrow> upgrade_plan \<Rightarrow> executor_env \<Rightarrow> upgrade_operation \<Rightarrow> executor_dir \<Rightarrow> upgrade_error + bool" where
  "commit_decision dg plan env oper d =
    (case latest_receipt dg (xv_receipts env) plan (xd_receipts d) of
       Inl e \<Rightarrow> Inl e
     | Inr latest \<Rightarrow>
         (if op_phase oper = P_COMMITTING \<and> \<not> op_cancel_requested oper \<and> op_finished_at oper = None then
            (case latest of
               None \<Rightarrow> Inr False
             | Some r \<Rightarrow>
                 if rc_phase r = P_COMMITTING \<and> rc_outcome r = O_COMPLETE \<and> rc_sequence r = op_sequence oper
                 then (case acknowledged_sequence dg (xv_receipts env) plan (xd_receipts d) of
                         Inl e \<Rightarrow> Inl e
                       | Inr n \<Rightarrow> Inr (n = rc_sequence r \<and> rc_observed r = Some (rl_sha (pl_target plan))))
                 else Inr False)
          else Inr False))"

definition commit_error :: "digests \<Rightarrow> upgrade_plan \<Rightarrow> executor_env \<Rightarrow> upgrade_operation \<Rightarrow> ownership \<Rightarrow> runtime_selection \<Rightarrow> executor_dir \<Rightarrow> upgrade_error option" where
  "commit_error dg plan env oper c x d =
    (case commit_decision dg plan env oper d of
       Inl e \<Rightarrow> Some e
     | Inr decision \<Rightarrow>
         if operation_authority dg oper \<noteq> operation_authority dg (pl_operation plan)
            \<or> \<not> (decision \<or> terminal (op_phase oper) \<and> op_finished_at oper \<noteq> None) then Some Upgrade_conflict
         else if ru_release x \<noteq> rl_id (if op_phase oper \<in> {P_SUCCEEDED, P_COMMITTING} then pl_target plan else pl_source plan)
         then Some Upgrade_conflict
         else if op_phase oper = P_SUCCEEDED \<and> do_state c \<noteq> ''committed'' then Some Upgrade_conflict
         else None)"

definition committed_claim :: "ownership \<Rightarrow> runtime_selection \<Rightarrow> ownership" where
  "committed_claim c x = c\<lparr>do_state := ''committed'', do_stage := ''selected'', do_committed := Some (ru_compose x)\<rparr>"

definition replay_receipt :: "ownership \<Rightarrow> runtime_selection \<Rightarrow> selection_receipt \<Rightarrow> host \<Rightarrow> upgrade_error + selection_receipt" where
  "replay_receipt c x r h =
    (case (read_runtime h, read_receipt h) of
       (Inl e, _) \<Rightarrow> Inl e
     | (Inr _, Inl e) \<Rightarrow> Inl e
     | (Inr (Some px), Inr (Some pr)) \<Rightarrow>
         if \<not> same_selection True px x \<or> pr\<lparr>sr_selected_at := 0, sr_protected := []\<rparr> \<noteq> r\<lparr>sr_selected_at := 0, sr_protected := []\<rparr>
            \<or> \<not> dict_eq (sr_protected pr) (sr_protected r) \<or> do_committed c \<noteq> Some (ru_compose x)
         then Inl Upgrade_conflict else Inr pr
     | _ \<Rightarrow> Inl Upgrade_conflict)"

text \<open>
  \<^verbatim>\<open>commit_runtime_selection\<close>. Ownership is written last, and the authority then carries the committed claim, which
  the session of the holder keeps.
\<close>

definition publish_selection ::
  "digests \<Rightarrow> (nat \<Rightarrow> host_env) \<Rightarrow> authority \<Rightarrow> runtime_selection \<Rightarrow> selection_receipt \<Rightarrow> host \<Rightarrow> upgrade_error option \<times> host" where
  "publish_selection dg hv a x r h =
    (let c = committed_claim (au_claim a) x; a' = a\<lparr>au_claim := c\<rparr> in
     if \<not> ownership_valid c then (Some Upgrade_invalid, h)
     else host_steps
       [verified dg (hv 5) a, host_write (hv 5) ''runtime-selection.json'' (HD_runtime x) True,
        verified dg (hv 6) a, host_write (hv 6) ''selection.json'' (HD_selection r) True,
        verified dg (hv 7) a, host_write (hv 7) ''ownership.json'' (HD_owner c) True,
        (\<lambda>h. (None, h\<lparr>ho_lock := map_option (\<lambda>s. s\<lparr>ms_use := Use_executor a'\<rparr>) (ho_lock h)\<rparr>)),
        verified dg (hv 8) a'] h)"

definition commit_runtime_selection ::
  "digests \<Rightarrow> upgrade_plan \<Rightarrow> executor_env \<Rightarrow> (nat \<Rightarrow> host_env) \<Rightarrow> authority \<Rightarrow> upgrade_operation \<Rightarrow> runtime_selection
     \<Rightarrow> executor_dir \<Rightarrow> host \<Rightarrow> selection_receipt joint_call" where
  "commit_runtime_selection dg plan env hv a oper x d h =
    (case commit_error dg plan env oper (au_claim a) x d of
       Some e \<Rightarrow> (Inl e, d, h)
     | None \<Rightarrow>
         (case host_selection_receipt dg plan env hv a x d h of
            (Inl e, d', h') \<Rightarrow> (Inl e, d', h')
          | (Inr r, d', h') \<Rightarrow>
              if do_state (au_claim a) = ''committed'' then (replay_receipt (au_claim a) x r h', d', h')
              else (case publish_selection dg hv a x r h' of
                  (Some e, h'') \<Rightarrow> (Inl e, d', h'')
                | (None, h'') \<Rightarrow> (Inr r, d', h''))))"

end
