(* ===== verification/Executor_Run.thy ===== *)
theory Executor_Run
  imports Executor_Selection
begin

text \<open>
  The executor's directory under every call of the journal, in any order and with writes that fail or are cut off:
  captured deadlines stay, and an effect only moves forward.
\<close>

section \<open>Runs\<close>

datatype executor_op =
  X_open executor_env
| X_activation executor_env activation_consume "receipt_ack option"
| X_window executor_env string
| X_outage executor_env
| X_recovery executor_env
| X_intent executor_env executor_effect
| X_observe executor_env string docker_container
| X_removed executor_env string string datetime
| X_migration_removed executor_env string string datetime
| X_uncertain executor_env string
| X_complete executor_env string docker_migration migration_execution
| X_migration_container executor_env string docker_migration
| X_dispatch executor_env "nat \<Rightarrow> host_env" authority host string
| X_freeze executor_env "docker_container list"
| X_retain executor_env "nat \<Rightarrow> host_env" authority runtime_selection host
| X_receipt receipt_op

fun executor_step :: "digests \<Rightarrow> upgrade_plan \<Rightarrow> executor_op \<Rightarrow> executor_dir \<Rightarrow> executor_dir" where
  "executor_step dg plan (X_open env) d = snd (open_journal dg plan env d)"
| "executor_step dg plan (X_activation env consumed ack) d = snd (activation dg plan env consumed ack d)"
| "executor_step dg plan (X_window env service) d = snd (service_window_call dg plan env service d)"
| "executor_step dg plan (X_outage env) d = snd (capture_outage dg plan env d)"
| "executor_step dg plan (X_recovery env) d = snd (capture_recovery dg plan env d)"
| "executor_step dg plan (X_intent env e) d = snd (intent dg plan env e d)"
| "executor_step dg plan (X_observe env eid c) d = snd (observe_container dg plan env eid c d)"
| "executor_step dg plan (X_removed env eid c t) d = snd (observe_removed dg plan env eid c t d)"
| "executor_step dg plan (X_migration_removed env eid c t) d = snd (observe_migration_removed dg plan env eid c t d)"
| "executor_step dg plan (X_uncertain env eid) d = snd (uncertain dg plan env eid d)"
| "executor_step dg plan (X_complete env eid c m) d = snd (complete_migration dg plan env eid c m d)"
| "executor_step dg plan (X_migration_container env eid c) d = snd (observe_migration_container dg plan env eid c d)"
| "executor_step dg plan (X_dispatch env hv a h eid) d = snd (dispatch_intent dg plan env hv a h eid d)"
| "executor_step dg plan (X_freeze env cs) d = snd (freeze_source dg plan env cs d)"
| "executor_step dg plan (X_retain env hv a x h) d = fst (snd (retain_runtime_selection dg plan env hv a x d h))"
| "executor_step dg plan (X_receipt op) d = d\<lparr>xd_receipts := receipt_step dg plan op (xd_receipts d)\<rparr>"

definition executor_run :: "digests \<Rightarrow> upgrade_plan \<Rightarrow> executor_op list \<Rightarrow> executor_dir \<Rightarrow> executor_dir" where
  "executor_run dg plan ops d = fold (executor_step dg plan) ops d"

lemma executor_run_simps [simp]:
  "executor_run dg plan [] d = d" "executor_run dg plan (op # ops) d = executor_run dg plan ops (executor_step dg plan op d)"
  by (simp_all add: executor_run_def)

section \<open>The epoch\<close>

text \<open>Later in the life of an epoch: activations and windows are appended, a captured time is kept.\<close>

definition kept :: "'a option \<Rightarrow> 'a option \<Rightarrow> bool" where
  "kept a b \<longleftrightarrow> a = None \<or> b = a"

definition epoch_le :: "executor_epoch \<Rightarrow> executor_epoch \<Rightarrow> bool" where
  "epoch_le s s' \<longleftrightarrow> (ep_job s', ep_generation s', ep_plan s') = (ep_job s, ep_generation s, ep_plan s)
     \<and> prefix (ep_activations s) (ep_activations s') \<and> prefix (ep_windows s) (ep_windows s') \<and> kept (ep_readiness s) (ep_readiness s')
     \<and> kept (ep_outage_at s) (ep_outage_at s') \<and> kept (ep_outage s) (ep_outage s')
     \<and> kept (ep_recovery_at s) (ep_recovery_at s') \<and> kept (ep_recovery s) (ep_recovery s')"

lemma kept_simps [simp]: "kept a a" "kept None b" "kept (Some x) b \<longleftrightarrow> b = Some x"
  by (auto simp: kept_def)

lemma kept_trans: "kept a b \<Longrightarrow> kept b c \<Longrightarrow> kept a c"
  by (auto simp: kept_def)

lemma epoch_le_refl [simp]: "epoch_le s s"
  by (simp add: epoch_le_def)

lemma epoch_le_trans: "epoch_le s t \<Longrightarrow> epoch_le t u \<Longrightarrow> epoch_le s u"
  unfolding epoch_le_def
  using kept_trans prefix_order.trans [of "ep_activations s"] prefix_order.trans [of "ep_windows s"] by simp blast

lemma epoch_valid_None: "epoch_valid s \<Longrightarrow> ep_recovery_at s = None \<Longrightarrow> ep_recovery s = None"
  "epoch_valid s \<Longrightarrow> ep_outage_at s = None \<Longrightarrow> ep_outage s = None"
  by (auto simp: epoch_valid_def captured_pair_def split: option.splits)

lemma capture_le: "epoch_valid s \<Longrightarrow> ep_recovery_at s = None \<Longrightarrow> epoch_le s (capture_at plan t s)"
  by (simp add: epoch_le_def capture_at_def epoch_valid_None)

lemma activated_le:
  assumes "epoch_valid s" "gr_boundary (ac_grant consumed) \<notin> set (boundaries s)"
  shows "epoch_le s (activated_epoch plan consumed s)"
proof (cases "gr_boundary (ac_grant consumed) = ''runtime''")
  case True
  then have "ep_windows s = []" "ep_readiness s = None" using assms by (auto simp: epoch_valid_def)
  then show ?thesis using True by (simp add: epoch_le_def activated_epoch_def Let_def split: list.split)
qed (simp add: epoch_le_def activated_epoch_def Let_def)

lemma verdict_if [simp]: "(if b then Fail x else v) = Put s r \<longleftrightarrow> \<not> b \<and> v = Put s r"
  by simp

lemma activation_le:
  assumes "epoch_valid s" "activation_verdict plan now acked consumed latest s = Put s' r"
  shows "epoch_le s s'"
proof -
  let ?g = "gr_boundary (ac_grant consumed)" and ?t = "min now (gr_expires_at (ac_grant consumed))"
  let ?s = "activated_epoch plan consumed s"
  show ?thesis
  proof (cases "List.find (\<lambda>a. gr_boundary (ac_grant a) = ?g) (ep_activations s)")
    case None
    then have g: "?g \<notin> set (boundaries s)" by (auto simp: find_None_iff)
    have "s' = (if acked \<and> ep_recovery_at s = None then capture_at plan ?t ?s else ?s)"
      using assms(2) None unfolding activation_verdict_def Let_def
      by (simp add: None split: option.splits split del: if_split)
    moreover have "epoch_le s ?s" using activated_le [OF assms(1) g] .
    ultimately show ?thesis
      using epoch_valid_None(1) [OF assms(1)] by (auto simp: epoch_le_def capture_at_def)
  next
    case (Some existing)
    then have "s' = capture_at plan ?t s \<and> ep_recovery_at s = None"
      using assms(2) unfolding activation_verdict_def Let_def by (simp split: if_splits)
    then show ?thesis using capture_le [OF assms(1)] by simp
  qed
qed

lemma window_le: "window_verdict plan now service s = Put s' r \<Longrightarrow> epoch_le s s'"
  by (auto simp: window_verdict_def Let_def epoch_le_def split: option.splits if_splits)

lemma outage_le: "epoch_valid s \<Longrightarrow> outage_verdict plan now s = Put s' r \<Longrightarrow> epoch_le s s'"
  by (auto simp: outage_verdict_def Let_def epoch_le_def epoch_valid_None split: option.splits if_splits)

lemma recovery_le: "epoch_valid s \<Longrightarrow> recovery_verdict plan now deadlines s = Put s' r \<Longrightarrow> epoch_le s s'"
  by (auto simp: recovery_verdict_def Let_def capture_le split: sum.splits if_splits)

definition epoch_keeps :: "digests \<Rightarrow> upgrade_plan \<Rightarrow> executor_dir \<Rightarrow> executor_dir \<Rightarrow> bool" where
  "epoch_keeps dg plan d d' \<longleftrightarrow> (\<forall>s. epoch_state dg plan d = Inr s \<and> epoch_valid s
     \<longrightarrow> (\<exists>s'. epoch_state dg plan d' = Inr s' \<and> epoch_valid s' \<and> epoch_le s s'))"

lemma executor_keys [simp]: "key_ok ''epoch.json''" "key_ok ''migration-proof.json''" "key_ok ''source-snapshot.json''"
  by (simp_all add: key_ok_def key_char_def)

lemma epoch_same: "dict_get (xd_store d') ''epoch.json'' = dict_get (xd_store d) ''epoch.json'' \<Longrightarrow> epoch_keeps dg plan d d'"
  by (auto simp: epoch_keeps_def epoch_state_def store_read_def)

lemma epoch_state_write:
  assumes "epoch_state dg plan d = Inr s" "epoch_le s s'" "dict_get st ''epoch.json'' = Some (Some (XD_epoch s'))"
  shows "epoch_state dg plan (d\<lparr>xd_store := st\<rparr>) = Inr s'"
  using assms by (auto simp: epoch_state_def store_read_def epoch_le_def owns_def split: option.splits if_splits)

lemma with_epoch_keeps:
  assumes "\<And>s s' r. epoch_valid s \<Longrightarrow> decide s = Put s' r \<Longrightarrow> epoch_le s s'"
  shows "epoch_keeps dg plan d (snd (with_epoch dg plan env decide d))"
  unfolding epoch_keeps_def
proof (intro allI impI)
  fix s assume s: "epoch_state dg plan d = Inr s \<and> epoch_valid s"
  show "\<exists>s'. epoch_state dg plan (snd (with_epoch dg plan env decide d)) = Inr s' \<and> epoch_valid s' \<and> epoch_le s s'"
  proof (cases "se_lock (xv_store env) = None \<and> (\<exists>s' r. decide s = Put s' r \<and> epoch_valid s')")
    case True
    then obtain s' r where p: "decide s = Put s' r" "epoch_valid s'" by blast
    obtain w st where w: "store_write (xv_store env) ''epoch.json'' (XD_epoch s') True (xd_store d) = (w, st)" by fastforce
    have d': "snd (with_epoch dg plan env decide d) = d\<lparr>xd_store := st\<rparr>"
      using True s p w by (cases w) (auto simp: with_epoch_def)
    have le: "epoch_le s s'" using assms p s by blast
    have "dict_get st ''epoch.json'' = Some (Some (XD_epoch s')) \<or> dict_get st ''epoch.json'' = dict_get (xd_store d) ''epoch.json''"
      using ps.write_replace [of "xv_store env" "''epoch.json''" "XD_epoch s'" "xd_store d"] w by simp
    then show ?thesis
      using epoch_state_write [OF _ le] s p le unfolding d'
      by (auto simp: epoch_state_def store_read_def)
  next
    case False
    then have "snd (with_epoch dg plan env decide d) = d"
      using s by (auto simp: with_epoch_def split: option.splits verdict.splits)
    then show ?thesis using s by auto
  qed
qed

section \<open>Effects\<close>

text \<open>The ways through \<open>with_effect\<close>.\<close>

lemma with_effect_cases:
  assumes "with_effect env eid replace decide before d = (r, d')"
  shows "(d' = d \<and> (\<forall>y. r = Inr y \<longrightarrow> (\<exists>p. read_effect eid d = Inr p \<and> decide p = Keep y)))
    \<or> (\<exists>p x y e d1. read_effect eid d = Inr p \<and> decide p = Put x y \<and> before d = (Some e, d1) \<and> d' = d1 \<and> r = Inl e)
    \<or> (\<exists>p x y d1 w st. read_effect eid d = Inr p \<and> decide p = Put x y \<and> before d = (None, d1) \<and>
        store_write (xv_effects env) (effect_key eid) x replace (xd_effects d1) = (w, st) \<and> d' = d1\<lparr>xd_effects := st\<rparr>
        \<and> r = (case w of None \<Rightarrow> Inr y | Some e \<Rightarrow> Inl e))"
proof (cases "se_lock (xv_store env)")
  case None
  show ?thesis
  proof (cases "read_effect eid d")
    case (Inr p)
    show ?thesis
    proof (cases "decide p")
      case (Put x y)
      obtain b d1 where b: "before d = (b, d1)" by fastforce
      obtain w st where "store_write (xv_effects env) (effect_key eid) x replace (xd_effects d1) = (w, st)" by fastforce
      then show ?thesis using assms None Inr Put b by (cases b; cases w) (auto simp: with_effect_def)
    qed (use assms None Inr in \<open>auto simp: with_effect_def\<close>)
  qed (use assms None in \<open>auto simp: with_effect_def\<close>)
qed (use assms in \<open>auto simp: with_effect_def\<close>)

lemma effect_key_eq [simp]: "effect_key a = effect_key b \<longleftrightarrow> a = b"
  by (simp add: effect_key_def)

definition outcome_rank :: "effect_outcome \<Rightarrow> nat" where
  "outcome_rank t = (case t of E_INTENT \<Rightarrow> 0 | E_UNKNOWN \<Rightarrow> 1 | E_COMPLETE \<Rightarrow> 2)"

text \<open>Later in the life of an effect: the same effect, no earlier in its outcome.\<close>

definition effect_le :: "executor_effect \<Rightarrow> executor_effect \<Rightarrow> bool" where
  "effect_le e e' \<longleftrightarrow> strip_effect e' = strip_effect e \<and> outcome_rank (ef_outcome e) \<le> outcome_rank (ef_outcome e')"

lemma effect_le_refl [simp]: "effect_le e e"
  by (simp add: effect_le_def)

lemma effect_le_trans: "effect_le a b \<Longrightarrow> effect_le b c \<Longrightarrow> effect_le a c"
  by (simp add: effect_le_def)

lemma complete_le: "effect_le e (complete_effect c e)"
  by (cases "ef_outcome e") (simp_all add: effect_le_def complete_effect_def strip_effect_def outcome_rank_def)

lemma unknown_le: "ef_outcome e = E_INTENT \<Longrightarrow> effect_le e (e\<lparr>ef_outcome := E_UNKNOWN\<rparr>)"
  by (simp add: effect_le_def strip_effect_def outcome_rank_def)

text \<open>
  A call moves effects forward: those there are kept, and a new one (of \<open>born\<close>) appears only where there was none.
\<close>

definition effects_move :: "(executor_effect \<Rightarrow> bool) \<Rightarrow> executor_dir \<Rightarrow> executor_dir \<Rightarrow> bool" where
  "effects_move born d d' \<longleftrightarrow> (\<forall>eid.
     (\<forall>e. read_effect eid d = Inr (Some e) \<longrightarrow> (\<exists>e'. read_effect eid d' = Inr (Some e') \<and> effect_le e e'))
   \<and> (\<forall>e'. read_effect eid d' = Inr (Some e') \<longrightarrow> (\<exists>e. read_effect eid d = Inr (Some e) \<and> effect_le e e')
         \<or> read_effect eid d = Inr None \<and> born e'))"

lemma effects_same: "xd_effects d' = xd_effects d \<Longrightarrow> effects_move born d d'"
  by (simp add: effects_move_def read_effect_def)

lemma with_effect_moves:
  assumes before: "xd_effects (snd (before d)) = xd_effects d"
    and old: "\<And>e x y. decide (Some e) = Put x y \<Longrightarrow> replace \<and> effect_le e x"
    and new: "\<And>x y. decide None = Put x y \<Longrightarrow> \<not> replace \<and> born x"
  shows "effects_move born d (snd (with_effect env eid replace decide before d))"
proof -
  obtain r d' where q: "with_effect env eid replace decide before d = (r, d')" by fastforce
  from with_effect_cases [OF q] have "effects_move born d d'"
  proof (elim disjE exE conjE)
    fix p x y d1 w st
    assume p: "read_effect eid d = Inr p" "decide p = Put x y" and b: "before d = (None, d1)"
      and w: "store_write (xv_effects env) (effect_key eid) x replace (xd_effects d1) = (w, st)" and d': "d' = d1\<lparr>xd_effects := st\<rparr>"
    have d1: "xd_effects d1 = xd_effects d" using before b by simp
    have key: "key_ok (effect_key eid)" using p(1) store_read_ok by (auto simp: read_effect_def)
    have other: "read_effect k d' = read_effect k d" if "k \<noteq> eid" for k
    proof (cases "key_ok (effect_key k)")
      case True
      then show ?thesis
        using ps.write_frame [OF True, of "effect_key eid" "xv_effects env" x replace "xd_effects d1"] w that d1 d'
        by (simp add: read_effect_def store_read_def)
    qed (simp add: read_effect_def store_read_def)
    have self: "read_effect eid d' = read_effect eid d \<or> read_effect eid d' = Inr (Some x)
        \<or> \<not> replace \<and> p = None \<and> (\<exists>e. read_effect eid d' = Inl e)"
    proof (cases replace)
      case True
      then show ?thesis
        using ps.write_replace [of "xv_effects env" "effect_key eid" x "xd_effects d1"] w d1 d' key
        by (auto simp: read_effect_def store_read_def)
    next
      case False
      have "p = None" using old [of "the p"] p(2) False by (cases p) auto
      then show ?thesis
        using ps.write_create [of "xv_effects env" "effect_key eid" x "xd_effects d1"] w d1 d' key False
        by (auto simp: read_effect_def store_read_def)
    qed
    show ?thesis
    proof (cases p)
      case None
      then show ?thesis using p self other new unfolding effects_move_def by (metis Inl_Inr_False effect_le_refl option.distinct(1) sum.inject(2) option.inject)
    next
      case (Some e)
      then show ?thesis using p self other old [of e x y] unfolding effects_move_def by (metis effect_le_refl option.distinct(1) option.inject sum.inject(2))
    qed
  qed (use before in \<open>auto intro: effects_same\<close>)
  then show ?thesis using q by simp
qed

definition admitted :: "digests \<Rightarrow> upgrade_plan \<Rightarrow> executor_dir \<Rightarrow> executor_effect \<Rightarrow> bool" where
  "admitted dg plan d e \<longleftrightarrow> owns_effect dg plan e
     \<and> (\<exists>env s. epoch_state dg plan d = Inr s \<and> intent_error plan env s e = None)"

lemma on_intent_moves:
  assumes "xd_effects (snd (before d)) = xd_effects d" "\<And>e x y. decide e = Put x y \<Longrightarrow> effect_le e x"
  shows "effects_move born d (snd (with_effect env eid True (on_intent dg plan decide) before d))"
  using assms by (intro with_effect_moves) (auto simp: on_intent_def split: if_splits)

lemma verdict_moves:
  "observe_verdict plan c e = Put x y \<Longrightarrow> effect_le e x"
  "removed_verdict dg plan d container e = Put x y \<Longrightarrow> effect_le e x"
  "uncertain_verdict e = Put x y \<Longrightarrow> effect_le e x"
  "complete_verdict dg plan now d m proof e = Put x y \<Longrightarrow> effect_le e x"
  "migration_container_verdict plan m e = Put x y \<Longrightarrow> effect_le e x"
  "dispatch_verdict dg plan now d e = Put x y \<Longrightarrow> effect_le e x"
proof -
  show "observe_verdict plan c e = Put x y \<Longrightarrow> effect_le e x"
    by (auto simp: observe_verdict_def Let_def complete_le split: if_splits)
  show "removed_verdict dg plan d container e = Put x y \<Longrightarrow> effect_le e x"
    by (auto simp: removed_verdict_def complete_le split: if_splits sum.splits option.splits)
  show "uncertain_verdict e = Put x y \<Longrightarrow> effect_le e x"
    by (auto simp: uncertain_verdict_def unknown_le split: if_splits)
  show "complete_verdict dg plan now d m proof e = Put x y \<Longrightarrow> effect_le e x"
    by (auto simp: complete_verdict_def complete_le split: if_splits sum.splits option.splits)
  show "migration_container_verdict plan m e = Put x y \<Longrightarrow> effect_le e x"
    by (auto simp: migration_container_verdict_def complete_le split: if_splits)
  show "dispatch_verdict dg plan now d e = Put x y \<Longrightarrow> effect_le e x"
    by (auto simp: dispatch_verdict_def unknown_le split: if_splits sum.splits)
qed

lemma retain_proof_same [simp]: "xd_effects (snd (retain_proof env m d)) = xd_effects d"
  by (auto simp: retain_proof_def split: prod.splits)

lemma intent_moves: "effects_move (admitted dg plan d) d (snd (intent dg plan env e d))"
proof (cases "owns_effect dg plan e")
  case True
  have "effects_move (admitted dg plan d) d (snd (with_effect env (ef_id e) False (intent_verdict dg plan env d e) at_once d))"
    using True by (intro with_effect_moves) (auto simp: intent_verdict_def admitted_def split: if_splits sum.splits option.splits)
  then show ?thesis using True by (simp add: intent_def)
qed (simp add: intent_def effects_same)

lemma migration_removed_moves: "effects_move born d (snd (with_effect env eid True (migration_removed_verdict dg plan d c) at_once d))"
  by (intro with_effect_moves)
    (auto simp: migration_removed_verdict_def complete_le split: sum.splits option.splits if_splits)

lemma with_epoch_effects: "xd_effects (snd (with_epoch dg plan env decide d)) = xd_effects d"
  by (auto simp: with_epoch_def split: option.splits sum.splits verdict.splits prod.splits)

lemma open_effects: "xd_effects (snd (open_journal dg plan env d)) = xd_effects d"
  by (auto simp: open_journal_def Let_def split: option.splits sum.splits prod.splits)

lemma freeze_effects: "xd_effects (snd (freeze_source dg plan env cs d)) = xd_effects d"
  by (auto simp: freeze_source_def Let_def split: option.splits sum.splits prod.splits)

lemma retain_selection_effects: "retain_selection env r x d = (e, d') \<Longrightarrow> xd_effects d' = xd_effects d"
  by (auto simp: retain_selection_def split: option.splits sum.splits prod.splits)

lemma retain_effects: "xd_effects (fst (snd (retain_runtime_selection dg plan env hv a x d h))) = xd_effects d"
  by (auto simp: retain_runtime_selection_def dest: retain_selection_effects split: option.splits prod.splits)

lemma step_effects: "effects_move (admitted dg plan d) d (executor_step dg plan op d)"
proof (cases op)
  case (X_intent env e)
  then show ?thesis by (simp add: intent_moves)
next
  case (X_observe env eid c)
  then show ?thesis using on_intent_moves [of at_once d, OF _ verdict_moves(1)] by (simp add: observe_container_def effects_same)
next
  case (X_removed env eid c t)
  then show ?thesis using on_intent_moves [of at_once d, OF _ verdict_moves(2)] by (simp add: observe_removed_def effects_same)
next
  case (X_migration_removed env eid c t)
  then show ?thesis using migration_removed_moves by (simp add: observe_migration_removed_def effects_same)
next
  case (X_uncertain env eid)
  then show ?thesis using on_intent_moves [of at_once d, OF _ verdict_moves(3)] by (simp add: uncertain_def)
next
  case (X_complete env eid c m)
  then show ?thesis using on_intent_moves [of "retain_proof env m" d, OF _ verdict_moves(4)] by (simp add: complete_migration_def effects_same)
next
  case (X_migration_container env eid c)
  then show ?thesis
    using on_intent_moves [of at_once d, OF _ verdict_moves(5)] by (simp add: observe_migration_container_def effects_same)
next
  case (X_dispatch env hv a h eid)
  then show ?thesis
    using on_intent_moves [of "\<lambda>d. (verify_authority dg (hv 1) a h, d)" d, OF _ verdict_moves(6)]
    by (auto simp: dispatch_intent_def effects_same split: option.splits)
qed (simp_all add: activation_def service_window_call_def capture_outage_def capture_recovery_def Let_def with_epoch_effects open_effects
    freeze_effects retain_effects effects_same)

section \<open>The epoch over a run\<close>

abbreviation epoch_cell :: "executor_dir \<Rightarrow> executor_doc option option" where
  "epoch_cell d \<equiv> dict_get (xd_store d) ''epoch.json''"

lemma with_effect_cell:
  assumes "epoch_cell (snd (before d)) = epoch_cell d"
  shows "epoch_cell (snd (with_effect env eid replace decide before d)) = epoch_cell d"
proof -
  obtain r d' where q: "with_effect env eid replace decide before d = (r, d')" by fastforce
  then show ?thesis using with_effect_cases [OF q] assms by auto
qed

lemma retain_proof_cell: "epoch_cell (snd (retain_proof env m d)) = epoch_cell d"
  using ps.write_frame [of "''epoch.json''" "''migration-proof.json''" "xv_store env" "XD_proof m" False "xd_store d"]
  by (auto simp: retain_proof_def split: prod.splits)

lemma freeze_cell: "epoch_cell (snd (freeze_source dg plan env cs d)) = epoch_cell d"
  using ps.write_frame [of "''epoch.json''" "''source-snapshot.json''" "xv_store env" _ False "xd_store d"]
  by (auto simp: freeze_source_def Let_def split: option.splits sum.splits prod.splits) (metis snd_conv)+

lemma retain_cell: "epoch_cell (fst (snd (retain_runtime_selection dg plan env hv a x d h))) = epoch_cell d"
proof -
  have "epoch_cell d' = epoch_cell d" if "retain_selection env r x d = (e, d')" for r e d'
    using that ps.write_frame [of "''epoch.json''" "selection_key r" "xv_store env" "XD_selection x" False "xd_store d"]
    by (auto simp: retain_selection_def selection_key_def split: option.splits sum.splits prod.splits)
  then show ?thesis by (auto simp: retain_runtime_selection_def split: option.splits prod.splits)
qed

lemma open_keeps: "epoch_keeps dg plan d (snd (open_journal dg plan env d))"
proof -
  have "epoch_cell (snd (open_journal dg plan env d)) = epoch_cell d" if "epoch_state dg plan d = Inr s" for s
    using that by (auto simp: open_journal_def Let_def epoch_state_def split: option.splits sum.splits prod.splits)
  then show ?thesis using epoch_same unfolding epoch_keeps_def by blast
qed

lemma step_epoch: "epoch_keeps dg plan d (executor_step dg plan op d)"
proof (cases op)
  case (X_open env)
  then show ?thesis by (simp add: open_keeps)
next
  case (X_activation env consumed ack)
  then show ?thesis by (auto simp: activation_def Let_def epoch_same intro: with_epoch_keeps activation_le)
next
  case (X_window env service)
  then show ?thesis using with_epoch_keeps [OF window_le] by (simp add: service_window_call_def)
next
  case (X_outage env)
  then show ?thesis using with_epoch_keeps [OF outage_le] by (simp add: capture_outage_def)
next
  case (X_recovery env)
  then show ?thesis using with_epoch_keeps [OF recovery_le] by (simp add: capture_recovery_def)
next
  case (X_dispatch env hv a h eid)
  then show ?thesis by (auto simp: dispatch_intent_def with_effect_cell intro!: epoch_same split: option.splits)
qed (auto simp: intent_def observe_container_def observe_removed_def observe_migration_removed_def uncertain_def complete_migration_def
    observe_migration_container_def with_effect_cell retain_proof_cell freeze_cell retain_cell intro!: epoch_same)

lemma run_epoch:
  assumes "epoch_state dg plan d = Inr s" "epoch_valid s"
  shows "\<exists>s'. epoch_state dg plan (executor_run dg plan ops d) = Inr s' \<and> epoch_valid s' \<and> epoch_le s s'"
  using assms
proof (induction ops arbitrary: d s)
  case (Cons op ops)
  obtain s1 where s1: "epoch_state dg plan (executor_step dg plan op d) = Inr s1" "epoch_valid s1" "epoch_le s s1"
    using step_epoch [of dg plan d op] Cons.prems unfolding epoch_keeps_def by blast
  then show ?case using Cons.IH [OF s1(1,2)] epoch_le_trans by auto
qed auto

end
