(* ===== verification/Deployment_Run.thy ===== *)
theory Deployment_Run
  imports Executor_Selection
begin

text \<open>
  The coordination directory under every operation of the host scripts, the executor and the API, with processes
  that die: what each operation leaves of the documents, and the laws of the recorded ownership.
\<close>

section \<open>What an operation leaves\<close>

abbreviation cell :: "host \<Rightarrow> string \<Rightarrow> host_doc option option" where
  "cell h k \<equiv> dict_get (ho_store h) k"

definition frame :: "string set \<Rightarrow> host \<Rightarrow> host \<Rightarrow> bool" where
  "frame K h h' \<longleftrightarrow> (\<forall>k. key_ok k \<longrightarrow> k \<notin> K \<longrightarrow> cell h' k = cell h k)"

lemma frame_refl [simp]: "frame K h h"
  by (simp add: frame_def)

lemma frame_trans [trans]: "frame K h h' \<Longrightarrow> frame K h' h'' \<Longrightarrow> frame K h h''"
  by (simp add: frame_def)

lemma frame_mono: "frame K h h' \<Longrightarrow> K \<subseteq> K' \<Longrightarrow> frame K' h h'"
  by (auto simp: frame_def)

lemma frame_lock [simp]: "frame K h (h'\<lparr>ho_lock := l\<rparr>) = frame K h h'" "frame K (h\<lparr>ho_lock := l\<rparr>) h' = frame K h h'"
  by (simp_all add: frame_def)

lemma frame_current [simp]: "frame K h (h'\<lparr>ho_current := l\<rparr>) = frame K h h'"
  by (simp add: frame_def)

lemma read_lock [simp]:
  "read_owner (h\<lparr>ho_lock := l\<rparr>) = read_owner h" "read_lease (h\<lparr>ho_lock := l\<rparr>) = read_lease h"
  "read_operation (h\<lparr>ho_lock := l\<rparr>) = read_operation h" "read_handover (h\<lparr>ho_lock := l\<rparr>) = read_handover h"
  "read_receipt (h\<lparr>ho_lock := l\<rparr>) = read_receipt h" "read_runtime (h\<lparr>ho_lock := l\<rparr>) = read_runtime h"
  "holds_error project operation handover (h\<lparr>ho_lock := l\<rparr>) = holds_error project operation handover h"
  by (simp_all add: read_owner_def read_lease_def read_operation_def read_handover_def read_receipt_def read_runtime_def holds_error_def
      cong: sum.case_cong if_cong)

lemma read_owner_frame: "frame K h h' \<Longrightarrow> ''ownership.json'' \<notin> K \<Longrightarrow> read_owner h' = read_owner h"
  by (simp add: read_owner_def store_read_def frame_def)

lemma read_operation_frame: "frame K h h' \<Longrightarrow> ''operation-hold.json'' \<notin> K \<Longrightarrow> read_operation h' = read_operation h"
  by (simp add: read_operation_def store_read_def frame_def)

lemma read_receipt_frame: "frame K h h' \<Longrightarrow> ''selection.json'' \<notin> K \<Longrightarrow> read_receipt h' = read_receipt h"
  by (simp add: read_receipt_def store_read_def frame_def)

lemma read_runtime_frame: "frame K h h' \<Longrightarrow> ''runtime-selection.json'' \<notin> K \<Longrightarrow> read_runtime h' = read_runtime h"
  by (simp add: read_runtime_def store_read_def frame_def)

abbreviation lease_key :: string where
  "lease_key \<equiv> ''deployment.lease''"

abbreviation owner_key :: string where
  "owner_key \<equiv> ''ownership.json''"

abbreviation hold_key :: string where
  "hold_key \<equiv> ''operation-hold.json''"

lemma coordination_keys [simp]:
  "key_ok ''deployment.lease''" "key_ok ''ownership.json''" "key_ok ''operation-hold.json''" "key_ok ''handover-hold.json''"
  "key_ok ''selection.json''" "key_ok ''runtime-selection.json''"
  by (simp_all add: key_ok_def key_char_def)

lemma host_write_frame: "host_write env key doc replace h = (r, h') \<Longrightarrow> frame {key} h h'"
  using ps.write_frame [where env = "hv_store env" and key = key and d = doc and replace = replace and st = "ho_store h"]
  by (auto simp: host_write_def frame_def split: prod.splits)

lemma host_write_lock [simp]: "ho_lock (snd (host_write env key doc replace h)) = ho_lock h"
  by (simp add: host_write_def split: prod.splits)

lemma host_write_lockD: "host_write env key doc replace h = (r, h') \<Longrightarrow> ho_lock h' = ho_lock h"
  by (auto simp: host_write_def split: prod.splits)

lemma host_write_done: "host_write env key doc replace h = (None, h') \<Longrightarrow> cell h' key = Some (Some doc)"
  using ps.write_done [where env = "hv_store env" and key = key and d = doc and replace = replace and st = "ho_store h"]
  by (auto simp: host_write_def split: prod.splits)

lemma host_write_replace: "host_write env key doc True h = (r, h') \<Longrightarrow> cell h' key = Some (Some doc) \<or> cell h' key = cell h key"
  using ps.write_replace [where env = "hv_store env" and key = key and d = doc and st = "ho_store h"]
  by (auto simp: host_write_def split: prod.splits)

lemma unlink_frame: "unlink_lease u h = (r, h') \<Longrightarrow> frame {lease_key} h h'"
  by (auto simp: unlink_lease_def Let_def frame_def split: unlink_outcome.splits)

lemma unlink_lock: "unlink_lease u h = (r, h') \<Longrightarrow> ho_lock h' = ho_lock h"
  by (auto simp: unlink_lease_def Let_def split: unlink_outcome.splits)

lemma mutex_exit_frame: "mutex_exit env s h = (r, h') \<Longrightarrow> frame {lease_key} h h' \<and> ho_lock h' = None"
  by (auto simp: mutex_exit_def Let_def dest: unlink_frame split: sum.splits if_splits prod.splits)

lemma mutex_exit_cell [simp]: "key_ok k \<Longrightarrow> k \<noteq> lease_key \<Longrightarrow> cell (snd (mutex_exit env s h)) k = cell h k"
  using mutex_exit_frame [of env s h] by (cases "mutex_exit env s h") (simp add: frame_def)

lemma leave_frame: "leave env s e h = (r, h') \<Longrightarrow> frame {lease_key} h h' \<and> ho_lock h' = None"
  by (auto simp: leave_def dest: mutex_exit_frame split: prod.splits)

lemma give_up_frame: "give_up env key s e h = (r, h') \<Longrightarrow> frame {lease_key} h h' \<and> ho_lock h' = None"
  by (auto simp: give_up_def dest: leave_frame split: if_splits)

lemma out_of_mutex [simp]:
  "frame {lease_key} h (snd (mutex_exit env s h))" "ho_lock (snd (mutex_exit env s h)) = None"
  "frame {lease_key} h (snd (leave env s e h))" "ho_lock (snd (leave env s e h)) = None"
  "frame {lease_key} h (snd (give_up env key s e h))" "ho_lock (snd (give_up env key s e h)) = None"
  using mutex_exit_frame [of env s h] leave_frame [of env s e h] give_up_frame [of env key s e h]
  by (cases "mutex_exit env s h"; cases "leave env s e h"; cases "give_up env key s e h"; simp)+

lemma take_lease_frame:
  assumes "take_lease env project owner previous operation handover h = (r, h')"
  shows "frame {lease_key} h h'"
  using assms unfolding take_lease_def Let_def
  by (auto simp: map_prod_def dest!: host_write_frame leave_frame give_up_frame split: option.splits prod.splits intro: frame_trans)

lemma take_lease_entered:
  assumes "take_lease env project owner previous operation handover h = (Inr s, h')"
  shows "ho_lock h' = Some s \<and> ms_use s = Use_control \<and> holds_error project operation handover h' = None"
  using assms unfolding take_lease_def Let_def
  by (auto simp: map_prod_def split: option.splits prod.splits)

text \<open>The ways through \<open>mutex_enter\<close>: refused with nothing done, the old lease removed, or on to the new lease.\<close>

lemma mutex_enter_cases:
  assumes "mutex_enter env project owner prior operation handover h = (r, h')"
  shows "(\<exists>e. r = Inl e \<and> h' = h)
    \<or> (\<exists>e u. r = Inl e \<and> unlink_lease u h = (Some e, h'))
    \<or> (\<exists>previous h1. ho_lock h = None \<and> read_owner h = Inr previous
        \<and> (h1 = h \<or> (\<exists>u. unlink_lease u h = (None, h1))) \<and> take_lease env project owner previous operation handover h1 = (r, h'))"
  using assms unfolding mutex_enter_def
  by (cases "se_lock (hv_store env)"; cases "hv_file env"; cases "ho_lock h"; cases "read_owner h"; cases "read_lease h";
      auto split: option.splits if_splits prod.splits)

lemma mutex_enter_frame:
  assumes "mutex_enter env project owner prior operation handover h = (r, h')"
  shows "frame {lease_key} h h'"
  using mutex_enter_cases [OF assms] by (auto dest: unlink_frame take_lease_frame intro: frame_trans)

lemma mutex_enter_entered:
  assumes "mutex_enter env project owner prior operation handover h = (Inr s, h')"
  shows "ho_lock h = None \<and> ho_lock h' = Some s \<and> ms_use s = Use_control \<and> holds_error project operation handover h' = None"
  using mutex_enter_cases [OF assms] by (auto dest: take_lease_entered)

lemma claim_ownership_cases:
  assumes result: "claim_ownership env s decide prepare intended h = (r, h')"
    and prepare: "frame {} h (snd (prepare h))"
  shows "(\<exists>e. r = Inl e \<and> ho_lock h' = None) \<and> frame {lease_key} h h'
    \<or> (\<exists>previous c. read_owner h = Inr previous \<and> decide previous = Inr c \<and> frame {lease_key, owner_key} h h'
        \<and> (cell h' owner_key = Some (Some (HD_owner c))
            \<and> ((\<exists>e. r = Inl e) \<and> ho_lock h' = None \<or> r = Inr (s\<lparr>ms_use := intended c\<rparr>) \<and> ho_lock h' = Some (s\<lparr>ms_use := intended c\<rparr>))))"
proof -
  consider (out) e h1 where "failing (leave env s e h1) = (r, h')" "frame {} h h1"
    | (claim) previous c h1 where "read_owner h = Inr previous" "decide previous = Inr c" "frame {} h h1"
        "(case host_write env owner_key (HD_owner c) True h1 of
            (Some e, h2) \<Rightarrow> failing (give_up env owner_key s e h2)
          | (None, h2) \<Rightarrow> (Inr (s\<lparr>ms_use := intended c\<rparr>), h2\<lparr>ho_lock := Some (s\<lparr>ms_use := intended c\<rparr>)\<rparr>)) = (r, h')"
  proof (cases "read_owner h")
    case (Inl e)
    then show ?thesis using result out [of e h] by (simp add: claim_ownership_def)
  next
    case owner: (Inr previous)
    show ?thesis
    proof (cases "decide previous")
      case (Inl e)
      then show ?thesis using result out [of e h] owner by (simp add: claim_ownership_def)
    next
      case (Inr c)
      obtain x h1 where "prepare h = (x, h1)" by fastforce
      then show ?thesis
        using result [unfolded claim_ownership_def Let_def] out [of "the x" h1] claim [of previous c h1] owner Inr prepare
        by (cases x) auto
    qed
  qed
  then show ?thesis
  proof cases
    case out
    then show ?thesis using leave_frame [of env s e h1] frame_mono [of "{}" h h1 "{lease_key}"]
      by (cases "leave env s e h1") (auto intro: frame_trans)
  next
    case claim
    obtain w h2 where w: "host_write env owner_key (HD_owner c) True h1 = (w, h2)" by fastforce
    have f: "frame {lease_key, owner_key} h h2"
      using host_write_frame [OF w] claim(3) by (auto simp: frame_def)
    show ?thesis
    proof (cases w)
      case None
      then show ?thesis using claim w f host_write_done [of env owner_key "HD_owner c" True h1 h2] by auto
    next
      case (Some e)
      obtain x h3 where g: "give_up env owner_key s e h2 = (x, h3)" by fastforce
      then have h3: "h' = h3" "r = Inl x" using claim(4) w Some by auto
      have "cell h2 owner_key = Some (Some (HD_owner c)) \<or> cell h2 owner_key = cell h owner_key"
        using host_write_replace [OF w] claim(3) by (simp add: frame_def)
      then show ?thesis
        using give_up_frame [OF g] f h3 claim(1,2) host_write_frame [OF w] claim(3)
        by (auto simp: frame_def)
    qed
  qed
qed

section \<open>Runs\<close>

text \<open>
  Operations on the coordination directory. What the holder of the lock does next, its exit, its failure, the
  publication of a selection, acts on the session in the state; the executor's own directory is an argument.
\<close>

datatype host_op =
  H_deployment host_env ownership "ownership option"
| H_host host_env string "string list" string string bool
| H_executor host_env ownership upgrade_plan "ownership option"
| H_mark host_env string string
| H_record host_env string string string
| H_hold host_env coordination_settings upgrade_plan bool
| H_orphan host_env coordination_settings "string \<Rightarrow> bool"
| H_retain upgrade_plan executor_env "nat \<Rightarrow> host_env" runtime_selection executor_dir
| H_commit upgrade_plan executor_env "nat \<Rightarrow> host_env" upgrade_operation runtime_selection executor_dir
| H_exit host_env int
| H_abort host_env
| H_crash

definition exit_session :: "host_env \<Rightarrow> int \<Rightarrow> session \<Rightarrow> host \<Rightarrow> upgrade_error option \<times> host" where
  "exit_session env returncode s h =
    (case ms_use s of
       Use_deployment c \<Rightarrow> deployment_exit env s c h
     | Use_host c \<Rightarrow> host_exit env s c returncode h
     | _ \<Rightarrow> mutex_exit env s h)"

fun host_step :: "digests \<Rightarrow> host_op \<Rightarrow> host \<Rightarrow> host" where
  "host_step dg (H_deployment env c prior) h = snd (deployment_enter env c prior h)"
| "host_step dg (H_host env action arguments project nonce legacy) h = snd (host_enter env action arguments project nonce legacy h)"
| "host_step dg (H_executor env c plan prior) h = snd (executor_enter dg env c plan prior h)"
| "host_step dg (H_mark env project ident) h = snd (mark_host_mutation env project ident h)"
| "host_step dg (H_record env project ident key) h = snd (record_host_selection env project ident key h)"
| "host_step dg (H_hold env cfg plan releasing) h = snd (operation_hold_call dg env cfg plan releasing h)"
| "host_step dg (H_orphan env cfg known) h = snd (reconcile_orphan_hold env cfg known h)"
| "host_step dg (H_retain plan env hv x d) h =
    (case ho_lock h of
       Some s \<Rightarrow> (case ms_use s of Use_executor a \<Rightarrow> snd (snd (retain_runtime_selection dg plan env hv a x d h)) | _ \<Rightarrow> h)
     | None \<Rightarrow> h)"
| "host_step dg (H_commit plan env hv oper x d) h =
    (case ho_lock h of
       Some s \<Rightarrow> (case ms_use s of Use_executor a \<Rightarrow> snd (snd (commit_runtime_selection dg plan env hv a oper x d h)) | _ \<Rightarrow> h)
     | None \<Rightarrow> h)"
| "host_step dg (H_exit env returncode) h = (case ho_lock h of Some s \<Rightarrow> snd (exit_session env returncode s h) | None \<Rightarrow> h)"
| "host_step dg (H_abort env) h = (case ho_lock h of Some s \<Rightarrow> snd (mutex_exit env s h) | None \<Rightarrow> h)"
| "host_step dg H_crash h = h\<lparr>ho_lock := None\<rparr>"

definition host_run :: "digests \<Rightarrow> host_op list \<Rightarrow> host \<Rightarrow> host" where
  "host_run dg ops h = fold (host_step dg) ops h"

section \<open>The recorded owner\<close>

text \<open>An incarnation of a claim: its owner may move its state, stage and committed digest.\<close>

definition incarnation :: "ownership \<Rightarrow> ownership \<Rightarrow> bool" where
  "incarnation p c \<longleftrightarrow> c = p\<lparr>do_state := do_state c, do_stage := do_stage c, do_committed := do_committed c\<rparr>"

fun presents :: "host_op \<Rightarrow> ownership option" where
  "presents (H_deployment env c prior) = prior"
| "presents (H_executor env c plan prior) = prior"
| "presents _ = None"

definition succeeds_owner :: "ownership option \<Rightarrow> ownership option \<Rightarrow> ownership \<Rightarrow> bool" where
  "succeeds_owner prior previous c \<longleftrightarrow>
    (case previous of None \<Rightarrow> True
     | Some p \<Rightarrow> incarnation p c \<and> (do_state c = do_state p \<or> do_state c = ''committed'')
         \<or> do_generation p < do_generation c \<and> (do_state p = ''active'' \<longrightarrow> prior = previous))"

definition owner_step :: "ownership option \<Rightarrow> host \<Rightarrow> host \<Rightarrow> bool" where
  "owner_step prior h h' \<longleftrightarrow> read_owner h' = read_owner h
     \<or> (\<exists>previous c. read_owner h = Inr previous \<and> succeeds_owner prior previous c \<and> read_owner h' = Inr (Some c))"

lemma owner_step_refl [simp]: "owner_step prior h h"
  by (simp add: owner_step_def)

lemma incarnation_refl [simp]: "incarnation c c"
  by (simp add: incarnation_def)

lemma incarnation_trans: "incarnation a b \<Longrightarrow> incarnation b c \<Longrightarrow> incarnation a c"
  by (cases a; cases b; cases c) (auto simp: incarnation_def)

lemma incarnation_generation: "incarnation p c \<Longrightarrow> do_generation c = do_generation p"
  by (cases p; cases c) (auto simp: incarnation_def)

lemma read_owner_cell: "cell h owner_key = Some (Some (HD_owner c)) \<Longrightarrow> read_owner h = Inr (Some c)"
  by (simp add: read_owner_def store_read_def)

lemma owner_step_frame: "frame K h h' \<Longrightarrow> owner_key \<notin> K \<Longrightarrow> owner_step prior h h'"
  by (simp add: owner_step_def read_owner_frame)

text \<open>An owner's update of its own record, whatever becomes of the write.\<close>

lemma owner_step_write:
  assumes "read_owner h = Inr (Some p)" "incarnation p c" "do_state c = do_state p \<or> do_state c = ''committed''"
    and "host_write env owner_key (HD_owner c) True h = (r, h')"
  shows "owner_step prior h h'"
  using host_write_replace [OF assms(4)] assms(1-3) read_owner_cell [of h' c]
  by (auto simp: owner_step_def succeeds_owner_def read_owner_def store_read_def)

lemma owner_step_lock [simp]: "owner_step prior h (h'\<lparr>ho_lock := l\<rparr>) = owner_step prior h h'"
  by (simp add: owner_step_def)

lemma owner_step_then_frame: "owner_step prior h h' \<Longrightarrow> frame K h' h'' \<Longrightarrow> owner_key \<notin> K \<Longrightarrow> owner_step prior h h''"
  by (simp add: owner_step_def read_owner_frame)

lemma frame_then_owner_step: "frame K h h' \<Longrightarrow> owner_step prior h' h'' \<Longrightarrow> owner_key \<notin> K \<Longrightarrow> owner_step prior h h''"
  by (simp add: owner_step_def read_owner_frame)

lemma commit_ownership_step:
  assumes "read_owner h = Inr (Some p)" "commit_ownership env s p h = (r, h')"
  shows "owner_step prior h h'"
proof -
  obtain w h1 where w: "host_write env owner_key (HD_owner (p\<lparr>do_state := ''committed''\<rparr>)) True h = (w, h1)" by fastforce
  have step: "owner_step prior h h1"
    using owner_step_write [OF assms(1) _ _ w] by (simp add: incarnation_def)
  show ?thesis
  proof (cases w)
    case None
    then show ?thesis
      using assms(2) w owner_step_then_frame [OF step, of "{lease_key}" h'] mutex_exit_frame [of env s h1] by (simp add: commit_ownership_def)
  next
    case (Some e)
    then show ?thesis
      using assms(2) w owner_step_then_frame [OF step, of "{lease_key}" h'] give_up_frame [of env owner_key s e h1]
      by (cases "give_up env owner_key s e h1") (simp add: commit_ownership_def)
  qed
qed

lemma claim_step:
  assumes "claim_ownership env s decide prepare intended h = (r, h')"
    and "frame {} h (snd (prepare h))"
    and "\<And>previous c. decide previous = Inr c \<Longrightarrow> succeeds_owner prior previous c"
  shows "owner_step prior h h'"
  using claim_ownership_cases [OF assms(1,2)] assms(3) read_owner_cell [of h']
  by (auto simp: owner_step_def dest: read_owner_frame)

lemma deployment_enter_step: "owner_step prior h (snd (deployment_enter env c prior h))"
proof -
  obtain r h1 where m: "mutex_enter env (do_project c) (do_owner c) prior None None h = (r, h1)" by fastforce
  have "owner_step prior h1 (snd (claim_ownership env s (deployment_decide c prior) (\<lambda>h. (None, h)) Use_deployment h1))" for s
    by (rule claim_step [OF surjective_pairing])
      (auto simp: deployment_decide_def succeeds_owner_def split: if_splits option.splits)
  then show ?thesis
    using m mutex_enter_frame [OF m] owner_step_frame [of "{lease_key}" h h1] frame_then_owner_step [of "{lease_key}" h h1]
    by (cases r) (auto simp: deployment_enter_def)
qed

lemma reconcile_frame: "frame {} h (snd (reconcile_selection env project h))"
  by (auto simp: reconcile_selection_def switch_pointer_def split: sum.splits option.splits)

lemma host_enter_step: "owner_step None h (snd (host_enter env action arguments project nonce legacy h))"
proof -
  obtain r h1 where m: "mutex_enter env project (''host-'' @ action @ ''-'' @ nonce) None None None h = (r, h1)" by fastforce
  have "owner_step None h1 (snd (claim_ownership env s (host_decide env project owner) (reconcile_selection env project) Use_host h1))"
    for s owner
    by (rule claim_step [OF surjective_pairing reconcile_frame])
      (auto simp: host_decide_def host_claim_def succeeds_owner_def split: if_splits option.splits)
  then show ?thesis
    using m mutex_enter_frame [OF m] owner_step_frame [of "{lease_key}" h h1] frame_then_owner_step [of "{lease_key}" h h1]
    by (cases r) (auto simp: host_enter_def Let_def)
qed

lemma executor_enter_step: "owner_step prior h (snd (executor_enter dg env c plan prior h))"
proof -
  obtain r h1 where m: "mutex_enter env (do_project c) (do_owner c) prior
      (Some (op_job (pl_operation plan), op_generation (pl_operation plan))) None h = (r, h1)" by fastforce
  have f: "frame {lease_key} h h1" using mutex_enter_frame [OF m] .
  show ?thesis
  proof (cases r)
    case (Inl e)
    then show ?thesis using m f owner_step_frame [of "{lease_key}" h h1] by (auto simp: executor_enter_def)
  next
    case (Inr s)
    obtain r2 h2 where q: "claim_ownership env s (executor_decide c plan prior) (\<lambda>h. (None, h)) (\<lambda>_. Use_control) h1 = (r2, h2)"
      by fastforce
    have "owner_step prior h1 h2"
      by (rule claim_step [OF q])
        (auto simp: executor_decide_def succeeds_owner_def split: if_splits option.splits)
    then have step: "owner_step prior h h2" using frame_then_owner_step [OF f] by simp
    have "owner_step prior h (snd (leave env s' e h2))" for s' e
      using leave_frame [of env s' e h2] owner_step_then_frame [OF step, of "{lease_key}"] by (cases "leave env s' e h2") simp
    then show ?thesis
      using Inr m q step by (auto simp: executor_enter_def split: sum.splits)
  qed
qed

lemma verify_host_owner: "verify_host env project ident h = Inr c \<Longrightarrow> read_owner h = Inr (Some c) \<and> do_state c = ''active''"
  by (auto simp: verify_host_def split: if_splits sum.splits option.splits)

lemma mark_step: "owner_step prior h (snd (mark_host_mutation env project ident h))"
proof (cases "verify_host env project ident h")
  case (Inr c)
  then show ?thesis
    using owner_step_write [OF _ _ _ surjective_pairing, of h c "c\<lparr>do_stage := ''mutating''\<rparr>"] verify_host_owner [OF Inr]
    by (simp add: mark_host_mutation_def incarnation_def)
qed (simp add: mark_host_mutation_def)

lemma record_step: "owner_step prior h (snd (record_host_selection env project ident key h))"
proof (cases "verify_host env project ident h")
  case (Inr c)
  have owner: "read_owner h = Inr (Some c)" using verify_host_owner [OF Inr] by simp
  have own: "owner_step prior h (snd (host_write env owner_key (HD_owner (c\<lparr>do_stage := ''selected''\<rparr>)) True h'))"
    if "frame {''selection.json''} h h'" for h'
    using owner_step_write [OF _ _ _ surjective_pairing, of h' c "c\<lparr>do_stage := ''selected''\<rparr>"] read_owner_frame [OF that] owner
      frame_then_owner_step [OF that] by (simp add: incarnation_def)
  have out: "owner_step prior h h'" if "frame {''selection.json''} h h'" for h'
    using owner_step_frame [OF that] by simp
  show ?thesis
    using Inr by (auto simp: record_host_selection_def switch_pointer_def own intro: out
        dest!: host_write_frame split: sum.splits option.splits prod.splits if_splits)
qed (simp add: record_host_selection_def)

lemma with_admission_frame:
  assumes "\<And>h. frame {hold_key} h (snd (body h))"
  shows "frame {lease_key, hold_key} h (snd (with_admission env cfg ident body h))"
proof -
  have body: "frame {lease_key, hold_key} x y" if "body x = (r, y)" for x r y
    using assms [of x] that by (auto simp: frame_def)
  have out: "frame {lease_key, hold_key} x y" if "frame {lease_key} x y \<and> l" for x y l
    using that by (auto simp: frame_def)
  show ?thesis
    unfolding with_admission_def
    by (auto simp: map_prod_def dest!: body mutex_enter_frame leave_frame give_up_frame mutex_exit_frame
        split: option.splits sum.splits prod.splits)
      (auto simp: frame_def)
qed

lemma write_hold_frame: "frame {hold_key} h (snd (write_hold env x h))"
  by (cases "write_hold env x h") (auto simp: write_hold_def dest: host_write_frame)

lemma hold_body_frame: "frame {hold_key} h (snd (hold_body dg env cfg plan releasing h))"
  by (auto simp: hold_body_def write_hold_frame split: sum.splits option.splits)

lemma orphan_body_frame: "frame {hold_key} h (snd (orphan_body env x h))"
  by (auto simp: orphan_body_def write_hold_frame split: sum.splits)

lemma hold_call_frame: "frame {lease_key, hold_key} h (snd (operation_hold_call dg env cfg plan releasing h))"
  by (simp add: operation_hold_call_def with_admission_frame hold_body_frame)

lemma orphan_frame: "frame {lease_key, hold_key} h (snd (reconcile_orphan_hold env cfg known h))"
  by (auto simp: reconcile_orphan_hold_def with_admission_frame orphan_body_frame split: sum.splits option.splits)

lemma host_steps_frame:
  "(\<And>f h. f \<in> set fs \<Longrightarrow> frame K h (snd (f h))) \<Longrightarrow> frame K h (snd (host_steps fs h))"
proof (induction fs arbitrary: h)
  case (Cons f fs)
  obtain r h' where f: "f h = (r, h')" by fastforce
  then have "frame K h h'" using Cons.prems [of f h] by simp
  moreover have "frame K h' (snd (host_steps fs h'))" using Cons by simp
  ultimately show ?case using f by (cases r) (auto intro: frame_trans)
qed simp

lemma write_frame: "key \<in> K \<Longrightarrow> frame K h (snd (host_write env key doc replace h))"
  by (cases "host_write env key doc replace h") (auto dest: host_write_frame intro: frame_mono)

abbreviation observed_keys :: "string set" where
  "observed_keys \<equiv> {''observed-epoch.json'', ''observed-runtime.json''}"

lemma verified_frame [simp]: "snd (verified dg env a h) = h"
  by (simp add: verified_def)

lemma observed_frame:
  assumes "publish_observed dg plan hv a x d h = (r, h')"
  shows "frame observed_keys h h'"
proof -
  have "frame observed_keys h (snd (publish_observed dg plan hv a x d h))"
    unfolding publish_observed_def by (rule host_steps_frame) (auto simp: write_frame split: sum.splits)
  then show ?thesis using assms by simp
qed

lemma retain_frame:
  assumes "retain_runtime_selection dg plan env hv a x d h = (r, d', h')"
  shows "frame observed_keys h h'"
  using assms by (auto simp: retain_runtime_selection_def dest!: observed_frame split: option.splits prod.splits if_splits)

lemma receipt_frame:
  assumes "host_selection_receipt dg plan env hv a x d h = (r, d', h')"
  shows "frame observed_keys h h'"
proof -
  obtain r1 d1 h1 where q: "retain_runtime_selection dg plan env hv a x d h = (r1, d1, h1)" by (metis prod_cases3)
  have "h' = h1"
    using assms unfolding host_selection_receipt_def q Let_def
    by (cases r1) (simp_all split: sum.splits if_splits option.splits(2))
  then show ?thesis using retain_frame [OF q] by simp
qed

lemma verify_authority_owner: "verify_authority dg env a h = None \<Longrightarrow> read_owner h = Inr (Some (au_claim a)) \<and> ho_lock h \<noteq> None"
  by (auto simp: verify_authority_def verify_held_def split: if_splits sum.splits option.splits)

lemma host_steps_append:
  "host_steps (fs @ gs) h = (case host_steps fs h of (Some e, h') \<Rightarrow> (Some e, h') | (None, h') \<Rightarrow> host_steps gs h')"
  by (induction fs arbitrary: h) (auto split: prod.splits option.splits)

lemma committed_claim_incarnation: "incarnation c (committed_claim c x)" "do_state (committed_claim c x) = ''committed''"
  by (simp_all add: incarnation_def committed_claim_def)

text \<open>The two selection documents, and then, under a last verification, the owner.\<close>

definition publish_documents :: "digests \<Rightarrow> (nat \<Rightarrow> host_env) \<Rightarrow> authority \<Rightarrow> runtime_selection \<Rightarrow> selection_receipt \<Rightarrow> host \<Rightarrow> upgrade_error option \<times> host" where
  "publish_documents dg hv a x r h = host_steps
     [verified dg (hv 5) a, host_write (hv 5) ''runtime-selection.json'' (HD_runtime x) True,
      verified dg (hv 6) a, host_write (hv 6) ''selection.json'' (HD_selection r) True, verified dg (hv 7) a] h"

lemma publish_documents_frame: "frame {''runtime-selection.json'', ''selection.json''} h (snd (publish_documents dg hv a x r h))"
  unfolding publish_documents_def by (rule host_steps_frame) (auto simp: write_frame)

lemma publish_documents_done:
  assumes "publish_documents dg hv a x r h = (None, h')"
  shows "read_owner h' = Inr (Some (au_claim a)) \<and> ho_lock h' = ho_lock h \<and> ho_lock h \<noteq> None
    \<and> read_runtime h' = Inr (Some x) \<and> read_receipt h' = Inr (Some r)"
proof -
  obtain w1 h1 where 1: "host_write (hv 5) ''runtime-selection.json'' (HD_runtime x) True h = (w1, h1)" by fastforce
  obtain w2 h2 where 2: "host_write (hv 6) ''selection.json'' (HD_selection r) True h1 = (w2, h2)" by fastforce
  have v: "verify_authority dg (hv 5) a h = None" "w1 = None" "w2 = None" "verify_authority dg (hv 7) a h2 = None" "h' = h2"
    using assms 1 2 by (auto simp: publish_documents_def verified_def split: option.splits prod.splits)
  have "cell h2 ''runtime-selection.json'' = Some (Some (HD_runtime x))"
    using host_write_done [OF 1 [unfolded v]] host_write_frame [OF 2] by (simp add: frame_def)
  then show ?thesis
    using v verify_authority_owner host_write_lockD [OF 1] host_write_lockD [OF 2] host_write_done [OF 2 [unfolded v]]
    by (auto simp: read_runtime_def read_receipt_def store_read_def)
qed

lemma publish_selection_eq:
  "publish_selection dg hv a x r h =
    (if \<not> ownership_valid (committed_claim (au_claim a) x) then (Some Upgrade_invalid, h)
     else case publish_documents dg hv a x r h of
       (Some e, h') \<Rightarrow> (Some e, h')
     | (None, h') \<Rightarrow>
         (case host_write (hv 7) owner_key (HD_owner (committed_claim (au_claim a) x)) True h' of
            (Some e, h'') \<Rightarrow> (Some e, h'')
          | (None, h'') \<Rightarrow>
              (let a' = a\<lparr>au_claim := committed_claim (au_claim a) x\<rparr>;
                   h3 = h''\<lparr>ho_lock := map_option (\<lambda>s. s\<lparr>ms_use := Use_executor a'\<rparr>) (ho_lock h'')\<rparr> in
               (verify_authority dg (hv 8) a' h3, h3))))"
  by (simp add: publish_selection_def publish_documents_def Let_def verified_def split: option.splits prod.splits)

lemma publish_owner:
  assumes "publish_selection dg hv a x r h = (w, h')"
  shows "read_owner h' = read_owner h
    \<or> read_owner h = Inr (Some (au_claim a)) \<and> read_owner h' = Inr (Some (committed_claim (au_claim a) x))
      \<and> read_runtime h' = Inr (Some x) \<and> read_receipt h' = Inr (Some r)"
proof -
  obtain w1 h1 where p: "publish_documents dg hv a x r h = (w1, h1)" by fastforce
  have f: "frame {''runtime-selection.json'', ''selection.json''} h h1"
    using publish_documents_frame [of h dg hv a x r] p by simp
  obtain w2 h2 where w2: "host_write (hv 7) owner_key (HD_owner (committed_claim (au_claim a) x)) True h1 = (w2, h2)" by fastforce
  have o1: "read_owner h1 = read_owner h" using read_owner_frame [OF f] by simp
  have o2: "read_owner h2 = read_owner h1 \<or> read_owner h2 = Inr (Some (committed_claim (au_claim a) x))"
    using host_write_replace [OF w2] by (auto simp: read_owner_def store_read_def)
  have d2: "read_runtime h2 = read_runtime h1" "read_receipt h2 = read_receipt h1"
    using read_runtime_frame [OF host_write_frame [OF w2]] read_receipt_frame [OF host_write_frame [OF w2]] by simp_all
  show ?thesis
  proof (cases "ownership_valid (committed_claim (au_claim a) x) \<and> w1 = None")
    case True
    then have "publish_documents dg hv a x r h = (None, h1)" using p by simp
    from publish_documents_done [OF this] show ?thesis
      using assms True p w2 o1 o2 d2 by (cases w2) (auto simp: publish_selection_eq Let_def)
  next
    case False
    then show ?thesis
      using assms [unfolded publish_selection_eq p] o1
      by (cases "ownership_valid (committed_claim (au_claim a) x)"; cases w1) auto
  qed
qed

lemma publish_step: "owner_step prior h (snd (publish_selection dg hv a x r h))"
  using publish_owner [OF surjective_pairing, of dg hv a x r h] committed_claim_incarnation [of "au_claim a" x]
  by (auto simp: owner_step_def succeeds_owner_def)

lemma commit_step: "owner_step prior h (snd (snd (commit_runtime_selection dg plan env hv a oper x d h)))"
proof -
  obtain r d1 h1 where q: "host_selection_receipt dg plan env hv a x d h = (r, d1, h1)" by (metis prod_cases3)
  have f: "frame observed_keys h h1" using receipt_frame [OF q] .
  have "owner_step prior h h1" using owner_step_frame [OF f] by simp
  moreover have "owner_step prior h h2" if "publish_selection dg hv a x r' h1 = (w, h2)" for r' w h2
    using frame_then_owner_step [OF f publish_step, of prior dg hv a x r'] that by simp
  ultimately show ?thesis
    using q by (auto simp: commit_runtime_selection_def split: option.splits sum.splits prod.splits)
qed

lemma exit_step: "owner_step prior h (snd (exit_session env returncode s h))"
proof -
  have out: "owner_step prior h (snd (mutex_exit env s h))" "owner_step prior h (snd (leave env s e h))" for e
    using mutex_exit_frame [of env s h] leave_frame [of env s e h] owner_step_frame [of "{lease_key}" h]
    by (cases "mutex_exit env s h"; cases "leave env s e h"; simp)+
  have fin: "owner_step prior h (snd (commit_ownership env s c h))" if "read_owner h = Inr (Some c)" for c
    using commit_ownership_step [OF that surjective_pairing] .
  show ?thesis
    by (auto simp: exit_session_def deployment_exit_def host_exit_def out fin split: mutex_use.splits sum.splits option.splits)
qed

lemma step_owner: "owner_step (presents op) h (host_step dg op h)"
proof (cases op)
  case (H_retain plan env hv x d)
  have "owner_step None h (snd (snd (retain_runtime_selection dg plan env hv a x d h)))" for a
    using retain_frame [of dg plan env hv a x d h] owner_step_frame [of observed_keys h]
    by (cases "retain_runtime_selection dg plan env hv a x d h") auto
  then show ?thesis using H_retain by (auto split: option.splits mutex_use.splits)
next
  case (H_abort env)
  have "owner_step None h (snd (mutex_exit env s h))" for s
    using mutex_exit_frame [of env s h] owner_step_frame [of "{lease_key}" h] by (cases "mutex_exit env s h") simp
  then show ?thesis using H_abort by (auto split: option.splits)
next
  case (H_hold env cfg plan releasing)
  then show ?thesis using owner_step_frame [OF hold_call_frame] by simp
next
  case (H_orphan env cfg known)
  then show ?thesis using owner_step_frame [OF orphan_frame] by simp
qed (auto simp: deployment_enter_step host_enter_step executor_enter_step mark_step record_step commit_step exit_step
    split: option.splits mutex_use.splits)

section \<open>The lock\<close>

lemma take_lease_failed: "take_lease env project owner previous operation handover h = (Inl e, h') \<Longrightarrow> ho_lock h' = None"
  unfolding take_lease_def Let_def
  by (auto simp: map_prod_def dest!: leave_frame give_up_frame split: option.splits prod.splits)

lemma mutex_enter_failed:
  "mutex_enter env project owner prior operation handover h = (Inl e, h') \<Longrightarrow> ho_lock h' = None \<or> ho_lock h' = ho_lock h"
  by (drule mutex_enter_cases) (auto dest: unlink_lock take_lease_failed)

lemma host_steps_lock:
  "(\<And>f h. f \<in> set fs \<Longrightarrow> ho_lock (snd (f h)) = ho_lock h) \<Longrightarrow> ho_lock (snd (host_steps fs h)) = ho_lock h"
proof (induction fs arbitrary: h)
  case (Cons f fs)
  obtain r h' where f: "f h = (r, h')" by fastforce
  then show ?case using Cons.prems [of f h] Cons by (cases r) auto
qed simp

lemma observed_lock:
  assumes "publish_observed dg plan hv a x d h = (r, h')"
  shows "ho_lock h' = ho_lock h"
proof -
  have "ho_lock (snd (publish_observed dg plan hv a x d h)) = ho_lock h"
    unfolding publish_observed_def by (rule host_steps_lock) (auto split: sum.splits)
  then show ?thesis using assms by simp
qed

lemma retain_lock:
  assumes "retain_runtime_selection dg plan env hv a x d h = (r, d', h')"
  shows "ho_lock h' = ho_lock h"
  using assms by (auto simp: retain_runtime_selection_def dest!: observed_lock split: option.splits prod.splits if_splits)

lemma receipt_retained:
  assumes "host_selection_receipt dg plan env hv a x d h = (r, d', h')"
  shows "\<exists>r1. retain_runtime_selection dg plan env hv a x d h = (r1, d', h')"
proof -
  obtain r1 d1 h1 where q: "retain_runtime_selection dg plan env hv a x d h = (r1, d1, h1)" by (metis prod_cases3)
  have "h' = h1 \<and> d' = d1"
    using assms unfolding host_selection_receipt_def q Let_def
    by (cases r1) (simp_all split: sum.splits if_splits option.splits(2))
  then show ?thesis using q by simp
qed

lemma publish_lock:
  assumes "publish_selection dg hv a x r h = (w, h')"
  shows "ho_lock h' = ho_lock h \<or> (\<exists>s. ho_lock h' = Some s \<and> ms_use s = Use_executor (a\<lparr>au_claim := committed_claim (au_claim a) x\<rparr>))"
proof -
  obtain w1 h1 where p: "publish_documents dg hv a x r h = (w1, h1)" by fastforce
  have "ho_lock (snd (publish_documents dg hv a x r h)) = ho_lock h"
    unfolding publish_documents_def by (rule host_steps_lock) auto
  then have l1: "ho_lock h1 = ho_lock h" using p by simp
  obtain w2 h2 where w2: "host_write (hv 7) owner_key (HD_owner (committed_claim (au_claim a) x)) True h1 = (w2, h2)" by fastforce
  show ?thesis
    using assms [unfolded publish_selection_eq p] w2 l1 host_write_lockD [OF w2]
    by (cases "ownership_valid (committed_claim (au_claim a) x)"; cases w1; cases w2; cases "ho_lock h") (auto simp: Let_def)
qed

lemma publish_frame:
  assumes "publish_selection dg hv a x r h = (w, h')"
  shows "frame {''runtime-selection.json'', ''selection.json'', owner_key} h h'"
proof -
  obtain w1 h1 where p: "publish_documents dg hv a x r h = (w1, h1)" by fastforce
  obtain w2 h2 where w2: "host_write (hv 7) owner_key (HD_owner (committed_claim (au_claim a) x)) True h1 = (w2, h2)" by fastforce
  have "frame {''runtime-selection.json'', ''selection.json'', owner_key} h h1"
    "frame {''runtime-selection.json'', ''selection.json'', owner_key} h h2"
    using publish_documents_frame [of h dg hv a x r] p host_write_frame [OF w2] by (auto simp: frame_def)
  then show ?thesis
    using assms [unfolded publish_selection_eq p] w2
    by (cases "ownership_valid (committed_claim (au_claim a) x)"; cases w1; cases w2) (auto simp: Let_def)
qed

lemma publish_nothing:
  assumes "publish_selection dg hv a x r h = (w, h')" "read_owner h \<noteq> Inr (Some (au_claim a))"
  shows "h' = h"
proof -
  have "verify_authority dg (hv 5) a h \<noteq> None" using verify_authority_owner assms(2) by blast
  then show ?thesis
    using assms(1) by (auto simp: publish_selection_eq publish_documents_def verified_def split: if_splits)
qed

lemma publish_complete:
  assumes "publish_selection dg hv a x r h = (None, h')"
  shows "read_owner h' = Inr (Some (committed_claim (au_claim a) x)) \<and> read_runtime h' = Inr (Some x) \<and> read_receipt h' = Inr (Some r)"
proof -
  obtain w1 h1 where p: "publish_documents dg hv a x r h = (w1, h1)" by fastforce
  obtain w2 h2 where w2: "host_write (hv 7) owner_key (HD_owner (committed_claim (au_claim a) x)) True h1 = (w2, h2)" by fastforce
  have ok: "w1 = None" "w2 = None" "\<exists>l. h' = h2\<lparr>ho_lock := l\<rparr>"
    using assms [unfolded publish_selection_eq p] w2
    by (cases "ownership_valid (committed_claim (au_claim a) x)"; cases w1; cases w2; auto simp: Let_def)+
  show ?thesis
    using publish_documents_done [OF p [unfolded ok]] read_owner_cell [OF host_write_done [OF w2 [unfolded ok]]] ok(3)
      read_runtime_frame [OF host_write_frame [OF w2]] read_receipt_frame [OF host_write_frame [OF w2]] by auto
qed

text \<open>The ways through the commit: nothing but the observed documents, or the publication after them.\<close>

lemma commit_cases:
  assumes "commit_runtime_selection dg plan env hv a oper x d h = (r, d', h')"
  shows "h' = h \<or> (\<exists>r1 h1. host_selection_receipt dg plan env hv a x d h = (r1, d', h1)
      \<and> (h' = h1 \<or> (\<exists>q w. r1 = Inr q \<and> do_state (au_claim a) \<noteq> ''committed'' \<and> publish_selection dg hv a x q h1 = (w, h')
                     \<and> (\<forall>q'. r = Inr q' \<longrightarrow> w = None \<and> q' = q))))"
proof -
  obtain r1 d1 h1 where q: "host_selection_receipt dg plan env hv a x d h = (r1, d1, h1)" by (metis prod_cases3)
  show ?thesis
    using assms unfolding commit_runtime_selection_def q
    by (cases "commit_error dg plan env oper (au_claim a) x d"; cases r1)
      (auto split: prod.splits option.splits if_splits)
qed

end
