(* ===== verification/Deployment_Guarantees.thy ===== *)
theory Deployment_Guarantees
  imports Deployment_Run
begin

text \<open>
  What the ownership of the deployment guarantees over every run of the operations of \<open>Deployment_Run\<close>.
\<close>

lemma host_run_simps [simp]: "host_run dg [] h = h" "host_run dg (op # ops) h = host_run dg ops (host_step dg op h)"
  by (simp_all add: host_run_def)

section \<open>Claims\<close>

lemma step_owner_Some:
  assumes "read_owner h = Inr (Some p)"
  shows "\<exists>c. read_owner (host_step dg op h) = Inr (Some c) \<and> succeeds_owner (presents op) (Some p) c"
  using step_owner [of op h dg] assms by (auto simp: owner_step_def succeeds_owner_def)



lemma run_generation:
  assumes "read_owner h = Inr (Some c)"
  shows "\<exists>c'. read_owner (host_run dg ops h) = Inr (Some c') \<and> (incarnation c c' \<or> do_generation c < do_generation c')"
  using assms
proof (induction ops arbitrary: h c)
  case (Cons op ops)
  obtain c1 where c1: "read_owner (host_step dg op h) = Inr (Some c1)" "incarnation c c1 \<or> do_generation c < do_generation c1"
    using step_owner_Some [OF Cons.prems] by (auto simp: succeeds_owner_def)
  obtain c2 where c2: "read_owner (host_run dg ops (host_step dg op h)) = Inr (Some c2)"
      "incarnation c1 c2 \<or> do_generation c1 < do_generation c2"
    using Cons.IH [OF c1(1)] by blast
  then show ?case
    using c1(2) incarnation_generation [of c c1] incarnation_generation [of c1 c2] incarnation_trans [of c c1 c2] by auto
qed simp

text \<open>
  C36: An executor that lost the deployment is fenced for good: once a claim of a higher generation is recorded, its
  authority fails every later verification, and it can dispatch no effect, whatever happens in between.
\<close>

theorem stale_authority_fenced:
  assumes "read_owner h = Inr (Some c)" "do_generation (au_claim a) < do_generation c"
  shows "verify_authority dg env a (host_run dg ops h) \<noteq> None
    \<and> (\<exists>e. dispatch_intent dg plan xenv hv a (host_run dg ops h) eid d = (Inl e, d))"
proof -
  obtain c' where c': "read_owner (host_run dg ops h) = Inr (Some c')" "do_generation (au_claim a) < do_generation c'"
    using run_generation [OF assms(1), of dg ops] assms(2) by (auto dest: incarnation_generation)
  have "verify_authority dg env a (host_run dg ops h) \<noteq> None" for env
    using verify_authority_owner [of dg env a "host_run dg ops h"] c' by auto
  from this [of env] this [of "hv 0"] show ?thesis by (auto simp: dispatch_intent_def)
qed

section \<open>Maintenance holds\<close>















section \<open>Published selections\<close>

text \<open>A recorded commit has its documents: the receipt and the runtime of the same owner, generation and content.\<close>

definition published :: "host \<Rightarrow> bool" where
  "published h \<longleftrightarrow> (\<forall>c z. read_owner h = Inr (Some c) \<longrightarrow> do_committed c = Some z \<longrightarrow>
     do_state c = ''committed'' \<and> (\<exists>r x. read_receipt h = Inr (Some r) \<and> read_runtime h = Inr (Some x)
       \<and> (sr_compose r, sr_owner r, sr_generation r) = (z, do_owner c, do_generation c)
       \<and> (ru_compose x, ru_owner x, ru_generation x) = (z, do_owner c, do_generation c)))"

fun plain_claim :: "host_op \<Rightarrow> bool" where
  "plain_claim (H_deployment env c prior) = (do_committed c = None)"
| "plain_claim (H_executor env c plan prior) = (do_committed c = None)"
| "plain_claim _ = True"

lemma published_frame:
  assumes "published h" "frame K h h'" "owner_key \<notin> K" "''selection.json'' \<notin> K" "''runtime-selection.json'' \<notin> K"
  shows "published h'"
  using assms read_owner_frame [OF assms(2)] read_receipt_frame [OF assms(2)] read_runtime_frame [OF assms(2)]
  by (simp add: published_def)

lemma published_none: "read_owner h = Inr (Some c) \<Longrightarrow> do_committed c = None \<Longrightarrow> published h"
  by (auto simp: published_def)

lemma published_lock [simp]: "published (h\<lparr>ho_lock := l\<rparr>) = published h"
  by (simp add: published_def)

lemma published_active: "published h \<Longrightarrow> read_owner h = Inr (Some c) \<Longrightarrow> do_state c \<noteq> ''committed'' \<Longrightarrow> do_committed c = None"
  by (cases "do_committed c") (auto simp: published_def)

lemma published_claim:
  assumes "published h" "frame {} h (snd (prepare h))" "\<And>previous c. decide previous = Inr c \<Longrightarrow> do_committed c = None"
  shows "published (snd (claim_ownership env s decide prepare intended h))"
proof -
  obtain r h' where q: "claim_ownership env s decide prepare intended h = (r, h')" by fastforce
  have "published h'"
    using claim_ownership_cases [OF q assms(2)] published_frame [OF assms(1), of "{lease_key}" h'] assms(3)
      published_none [OF read_owner_cell, of h'] by auto
  then show ?thesis using q by simp
qed

lemma published_commit:
  assumes "published h" "read_owner h = Inr (Some p)"
  shows "published (snd (commit_ownership env s p h))"
proof -
  let ?c = "p\<lparr>do_state := ''committed''\<rparr>"
  obtain w h1 where w: "host_write env owner_key (HD_owner ?c) True h = (w, h1)" by fastforce
  have docs: "read_receipt h1 = read_receipt h" "read_runtime h1 = read_runtime h"
    using read_runtime_frame [OF host_write_frame [OF w]] read_receipt_frame [OF host_write_frame [OF w]] by simp_all
  have "read_owner h1 = read_owner h \<or> read_owner h1 = Inr (Some ?c)"
    using host_write_replace [OF w] by (auto simp: read_owner_def store_read_def)
  then have "published h1" using assms docs by (auto simp: published_def)
  then show ?thesis
    using w published_frame [of h1 "{lease_key}"] by (cases w) (simp_all add: commit_ownership_def)
qed

lemma published_out:
  assumes "published h"
  shows "published (snd (mutex_exit env s h))" "published (snd (leave env s e h))"
  using assms published_frame [OF assms, of "{lease_key}"] by simp_all

lemma receipt_selected:
  assumes "host_selection_receipt dg plan env hv a x d h = (Inr r, d', h')"
  shows "(\<exists>protected kept. r = executor_receipt (au_claim a) x protected
      \<and> protect_releases env (ru_project x) (retained_releases plan x) kept = Inr protected) \<and> selection_error plan (xv_now env) (au_claim a) x = None"
proof -
  obtain r1 d1 h1 where q: "retain_runtime_selection dg plan env hv a x d h = (r1, d1, h1)" by (metis prod_cases3)
  obtain y where r1: "r1 = Inr y" using assms unfolding host_selection_receipt_def q by (cases r1) auto
  have "selection_error plan (xv_now env) (au_claim a) x = None"
    using q r1 unfolding retain_runtime_selection_def
    by (cases "selection_error plan (xv_now env) (au_claim a) x") (auto split: if_splits option.splits)
  moreover have "\<exists>protected kept. r = executor_receipt (au_claim a) x protected
      \<and> protect_releases env (ru_project x) (retained_releases plan x) kept = Inr protected"
    using assms unfolding host_selection_receipt_def q r1 Let_def
    by (auto split: sum.splits if_splits option.splits(2))
  ultimately show ?thesis by simp
qed

lemma selection_error_owner:
  "selection_error plan now c x = None \<Longrightarrow> ru_owner x = do_owner c \<and> ru_generation x = do_generation c \<and> ru_project x = do_project c"
  by (auto simp: selection_error_def split: option.splits if_splits)

lemma published_selection:
  assumes "published h"
  shows "published (snd (snd (commit_runtime_selection dg plan env hv a oper x d h)))"
proof -
  obtain r d' h' where q: "commit_runtime_selection dg plan env hv a oper x d h = (r, d', h')" by (metis prod_cases3)
  from commit_cases [OF q] have "published h'"
  proof (elim disjE exE conjE)
    fix r1 h1 assume p: "host_selection_receipt dg plan env hv a x d h = (r1, d', h1)"
    have h1: "published h1" using published_frame [OF assms receipt_frame [OF p]] by simp
    { assume "h' = h1"
      then show ?thesis using h1 by simp
    next
      fix y w assume r1: "r1 = Inr y" and active: "do_state (au_claim a) \<noteq> ''committed''"
        and pub: "publish_selection dg hv a x y h1 = (w, h')"
      have y: "sr_compose y = ru_compose x \<and> sr_owner y = do_owner (au_claim a) \<and> sr_generation y = do_generation (au_claim a)"
        using receipt_selected [OF p [unfolded r1]] by (auto simp: executor_receipt_def)
      have x: "ru_owner x = do_owner (au_claim a) \<and> ru_generation x = do_generation (au_claim a)"
        using receipt_selected [OF p [unfolded r1]] selection_error_owner by blast
      show ?thesis
      proof (cases "read_owner h1 = Inr (Some (au_claim a))")
        case True
        then have "do_committed (au_claim a) = None" using published_active [OF h1] active by simp
        then show ?thesis
          using publish_owner [OF pub] True x y published_none [of h' "au_claim a"]
          by (auto simp: published_def committed_claim_def)
      next
        case False
        then have "h' = h1" using pub publish_nothing by blast
        then show ?thesis using h1 by simp
      qed
    }
  qed (use assms in simp)
  then show ?thesis using q by simp
qed

lemma published_host:
  assumes "published h"
  shows "published (snd (mark_host_mutation env project ident h))" "published (snd (record_host_selection env project ident key h))"
proof -
  have keep: "published (snd (host_write env owner_key (HD_owner (c\<lparr>do_stage := stage\<rparr>)) True h'))"
    if "read_owner h' = Inr (Some c)" "do_committed c = None" for h' c stage
  proof -
    obtain w h2 where w: "host_write env owner_key (HD_owner (c\<lparr>do_stage := stage\<rparr>)) True h' = (w, h2)" by fastforce
    show ?thesis
      using host_write_replace [OF w] that w published_none [of h2] by (auto simp: read_owner_def store_read_def)
  qed
  have plain: "read_owner h = Inr (Some c)" "do_committed c = None" if "verify_host env project ident h = Inr c" for c
    using verify_host_owner [OF that] published_active [OF assms] by auto
  show "published (snd (mark_host_mutation env project ident h))"
    using assms keep plain by (auto simp: mark_host_mutation_def split: sum.splits)
  show "published (snd (record_host_selection env project ident key h))"
  proof (cases "verify_host env project ident h")
    case (Inr c)
    have "read_owner h' = Inr (Some c)" if "frame {''selection.json''} h h'" for h'
      using read_owner_frame [OF that] plain [OF Inr] by simp
    then show ?thesis
      using Inr assms plain [OF Inr]
      by (auto simp: record_host_selection_def switch_pointer_def dest!: host_write_frame
          intro!: keep intro: published_none split: sum.splits option.splits prod.splits if_splits)
  qed (use assms in \<open>simp add: record_host_selection_def\<close>)
qed

lemma published_enter: "published h \<Longrightarrow> mutex_enter env project owner prior operation handover h = (q, h1) \<Longrightarrow> published h1"
  using published_frame [OF _ mutex_enter_frame] by simp

lemma step_published:
  assumes pub: "published h" and plain: "plain_claim op"
  shows "published (host_step dg op h)"
proof (cases op)
  case (H_deployment env c prior)
  obtain r h1 where m: "mutex_enter env (do_project c) (do_owner c) prior None None h = (r, h1)" by fastforce
  show ?thesis
    using m H_deployment plain published_enter [OF pub m]
    by (cases r) (auto simp: deployment_enter_def deployment_decide_def intro!: published_claim split: if_splits option.splits)
next
  case (H_host env action arguments project nonce legacy)
  obtain r h1 where m: "mutex_enter env project (''host-'' @ action @ ''-'' @ nonce) None None None h = (r, h1)" by fastforce
  have "do_committed c = None" if "host_decide env project owner previous = Inr c" for owner previous c
    using that by (auto simp: host_decide_def host_claim_def split: if_splits)
  then show ?thesis
    using m H_host pub published_enter [OF pub m] reconcile_frame
    by (cases r) (auto simp: host_enter_def Let_def intro!: published_claim)
next
  case (H_executor env c plan prior)
  obtain r h1 where m: "mutex_enter env (do_project c) (do_owner c) prior
      (Some (op_job (pl_operation plan), op_generation (pl_operation plan))) None h = (r, h1)" by fastforce
  have h1: "published h1" using published_enter [OF pub m] .
  show ?thesis
  proof (cases r)
    case (Inr s)
    obtain r2 h2 where q: "claim_ownership env s (executor_decide c plan prior) (\<lambda>h. (None, h)) (\<lambda>_. Use_control) h1 = (r2, h2)"
      by fastforce
    have "do_committed c' = None" if "executor_decide c plan prior previous = Inr c'" for previous c'
      using that plain H_executor by (auto simp: executor_decide_def split: if_splits option.splits)
    then have "published h2"
      using published_claim [OF h1, of "\<lambda>h. (None, h)" "executor_decide c plan prior" env s "\<lambda>_. Use_control"] q by simp
    then show ?thesis using Inr m q H_executor pub published_out(2) by (auto simp: executor_enter_def split: sum.splits)
  qed (use m H_executor pub h1 in \<open>auto simp: executor_enter_def\<close>)
next
  case (H_hold env cfg plan releasing)
  then show ?thesis using published_frame [OF pub hold_call_frame] by simp
next
  case (H_orphan env cfg known)
  then show ?thesis using published_frame [OF pub orphan_frame] by simp
next
  case (H_retain plan env hv x d)
  have "published (snd (snd (retain_runtime_selection dg plan env hv a x d h)))" for a
    using published_frame [OF pub retain_frame [of dg plan env hv a x d h]]
    by (cases "retain_runtime_selection dg plan env hv a x d h") auto
  then show ?thesis using H_retain pub by (auto split: option.splits mutex_use.splits)
next
  case (H_commit plan env hv oper x d)
  then show ?thesis using published_selection [OF pub] pub by (auto split: option.splits mutex_use.splits)
next
  case (H_exit env returncode)
  then show ?thesis using pub published_out [OF pub] published_commit [OF pub]
    by (auto simp: exit_session_def deployment_exit_def host_exit_def split: option.splits mutex_use.splits sum.splits)
qed (use pub published_host [OF pub] published_out [OF pub] in \<open>auto split: option.splits\<close>)

text \<open>
  C5: A recorded commit is never ahead of what was published: from an empty directory, over every run, with writes
  that fail at any point and processes that die between any two, an ownership document with a committed digest is in
  the committed state, and the selection receipt and the runtime selection on disk are those of its owner,
  generation and digest.
\<close>

theorem committed_is_published:
  assumes "read_owner h = Inr None" "\<forall>op\<in>set ops. plain_claim op"
    and "read_owner (host_run dg ops h) = Inr (Some c)" "do_committed c = Some z"
  shows "do_state c = ''committed'' \<and> (\<exists>r x. read_receipt (host_run dg ops h) = Inr (Some r)
    \<and> read_runtime (host_run dg ops h) = Inr (Some x)
    \<and> (sr_compose r, sr_owner r, sr_generation r) = (z, do_owner c, do_generation c)
    \<and> (ru_compose x, ru_owner x, ru_generation x) = (z, do_owner c, do_generation c))"
proof -
  have "published (host_run dg ops h')" if "published h'" for h'
    using that assms(2) by (induction ops arbitrary: h') (auto simp: step_published)
  moreover have "published h" using assms(1) by (simp add: published_def)
  ultimately show ?thesis using assms(3,4) unfolding published_def by blast
qed

section \<open>The API accepts what the executor publishes\<close>






end
