(* ===== verification/Receipt_Guarantees.thy ===== *)
theory Receipt_Guarantees
  imports Upgrade_Receipts Upgrade_Run
begin

text \<open>
  What the local receipt journal guarantees: it is append-only over every run of calls, it reads back what was
  appended, and its last digest binds the whole history. It also has a last receipt: the one after
  the bound is accepted and makes the journal unreadable.
\<close>

section \<open>Properties\<close>

text \<open>
  C13: The journal is append-only. Whatever calls are made on the directory, with locks refused, writes failing or
  unsynced and the process dying in the middle of one, if the journal can be read afterwards then it
  could be read before, every receipt read before is still there unchanged and in its place, and the acknowledged
  sequence has not gone back and is not past the last receipt.\<close>

theorem receipts_append_only:
  assumes "receipt_entries dg plan (receipt_run dg plan ops st) = Inr es'"
  shows "\<exists>es. receipt_entries dg plan st = Inr es \<and> prefix es es'
    \<and> ack_of st \<le> ack_of (receipt_run dg plan ops st) \<and> ack_of (receipt_run dg plan ops st) \<le> int (length es')"
proof -
  have "ack_of (receipt_run dg plan ops st) \<le> int (length es')"
    using assms [unfolded entries_iff] by (auto simp: ack_ok_def ack_of_def split: sum.splits option.splits)
  then show ?thesis using run_extends [OF assms] by blast
qed

lemma append_done:
  assumes e: "receipt_entries dg plan st = Inr es" and n: "rc_sequence r = int (length es) + 1"
    and r: "rc_job r = op_job (pl_operation plan)" "rc_generation r = op_generation (pl_operation plan)"
    and env: "se_lock env = None" "se_write env (receipt_name (Suc (length es))) = W_done"
  shows "append_entry dg env plan r resource st = (Inr True, dict_set (receipt_name (Suc (length es)))
      (Some (RD_entry \<lparr>je_receipt = r, je_previous = (if es = [] then None else Some (dg_entry dg (last es))),
        je_resource = resource\<rparr>)) st)"
proof -
  have "length es \<le> 4096" using e entries_iff by blast
  then have "receipt_key_of (rc_sequence r) = Inr (receipt_name (Suc (length es)))"
    using n by (simp add: receipt_key_of_def nat_add_distrib)
  then show ?thesis
    using assms next_name(1) [OF e] by (simp add: append_entry_def Let_def store_write_def)
qed




text \<open>
  C34: The bound is checked when the journal is read and not when it is written: with as many receipts as the
  bound allows, the next one is accepted and written, and from then on the journal cannot be read, by any
  sequence of calls.\<close>

theorem full_journal_locks_itself:
  assumes "receipt_entries dg plan st = Inr es" "length es = 4096" "rc_sequence r = 4097"
    and "rc_job r = op_job (pl_operation plan)" "rc_generation r = op_generation (pl_operation plan)"
    and "se_lock env = None" "se_write env (receipt_name 4097) = W_done"
    and "append_entry dg env plan r resource st = (res, st')"
  shows "res = Inr True \<and> (\<forall>ops. \<exists>e. receipt_entries dg plan (receipt_run dg plan ops st') = Inl e)"
proof -
  have n: "Suc (length es) = 4097" "rc_sequence r = int (length es) + 1" using assms(2,3) by simp_all
  let ?x = "\<lparr>je_receipt = r, je_previous = (if es = [] then None else Some (dg_entry dg (last es))), je_resource = resource\<rparr>"
  have st': "res = Inr True" "st' = dict_set (receipt_name (Suc (length es))) (Some (RD_entry ?x)) st"
    using append_done [OF assms(1) n(2) assms(4-6)] assms(7,8) n(1) by auto
  have "receipt_entries dg plan st' = Inl Upgrade_unavailable"
    unfolding st' using entries_snoc [OF assms(1), of ?x] assms(2,4,5) n(2) by simp
  then have "receipt_entries dg plan (receipt_run dg plan ops st') \<noteq> Inr es'" for ops es'
    using run_extends [of dg plan ops st' es'] by auto
  then show ?thesis using st'(1) by (metis sumE)
qed

section \<open>A journal\<close>

definition entry_code :: "journal_entry \<Rightarrow> nat" where
  "entry_code e = to_nat (receipt_code (je_receipt e), je_previous e, je_resource e)"

definition chain_dg :: digests where
  "chain_dg = lab_dg\<lparr>dg_entry := \<lambda>e. replicate (entry_code e) CHR ''e''\<rparr>"


definition calm :: store_env where
  "calm = \<lparr>se_lock = None, se_write = \<lambda>_. W_done, se_suffix = ''0''\<rparr>"

fun lab_entries :: "nat \<Rightarrow> journal_entry list" where
  "lab_entries 0 = []"
| "lab_entries (Suc n) = lab_entries n @ [\<lparr>je_receipt = lab_receipt (int n + 1) P_PREFLIGHT O_COMPLETE ''A'',
     je_previous = (if n = 0 then None else Some (dg_entry chain_dg (last (lab_entries n)))), je_resource = None\<rparr>]"

fun lab_dir :: "nat \<Rightarrow> receipt_dir" where
  "lab_dir 0 = []"
| "lab_dir (Suc n) = dict_set (receipt_name (Suc n)) (Some (RD_entry (last (lab_entries (Suc n))))) (lab_dir n)"

lemma length_lab_entries [simp]: "length (lab_entries n) = n" "lab_entries n = [] \<longleftrightarrow> n = 0"
  by (induction n) auto

lemma lab_dir_entries: "n \<le> 4096 \<Longrightarrow> receipt_entries chain_dg lab_plan (lab_dir n) = Inr (lab_entries n)"
proof (induction n)
  case 0
  show ?case by (simp add: receipt_entries_def receipt_keys_def store_read_def)
next
  case (Suc n)
  then show ?case
    using entries_snoc [of chain_dg lab_plan "lab_dir n" "lab_entries n" "last (lab_entries (Suc n))"]
    by (simp add: lab_receipt_def lab_plan_def lab_operation_def)
qed

abbreviation lab_next :: "nat \<Rightarrow> upgrade_receipt" where
  "lab_next n \<equiv> lab_receipt (int n + 1) P_PREFLIGHT O_COMPLETE ''A''"

lemma lab_next_owner:
  "rc_job (lab_next n) = op_job (pl_operation lab_plan)" "rc_generation (lab_next n) = op_generation (pl_operation lab_plan)"
  "rc_sequence (lab_next n) = int n + 1"
  by (simp_all add: lab_receipt_def lab_plan_def lab_operation_def)

lemma lab_append:
  assumes "n \<le> 4096"
  shows "append_entry chain_dg calm lab_plan (lab_next n) None (lab_dir n) = (Inr True, lab_dir (Suc n))"
  using append_done [OF lab_dir_entries [OF assms], of "lab_next n" calm None] lab_next_owner [of n] by (simp add: calm_def)

lemma lab_run: "receipt_run chain_dg lab_plan [R_append calm (lab_next 2) None] (lab_dir 2) = lab_dir (Suc 2)"
  using lab_append [of 2] by (simp add: receipt_run_def del: lab_dir.simps)

lemma receipts_append_only_witness:
  "receipt_entries chain_dg lab_plan (receipt_run chain_dg lab_plan [R_append calm (lab_next 2) None] (lab_dir 2))
     = Inr (lab_entries (Suc 2))
   \<and> (\<exists>es. receipt_entries chain_dg lab_plan (lab_dir 2) = Inr es \<and> prefix es (lab_entries (Suc 2)))"
proof -
  have e: "receipt_entries chain_dg lab_plan (receipt_run chain_dg lab_plan [R_append calm (lab_next 2) None] (lab_dir 2))
      = Inr (lab_entries (Suc 2))"
    unfolding lab_run by (rule lab_dir_entries) simp
  show ?thesis using receipts_append_only [OF e] e by blast
qed



lemma full_journal_locks_itself_witness:
  "append_entry chain_dg calm lab_plan (lab_next 4096) None (lab_dir 4096) = (Inr True, lab_dir (Suc 4096))
   \<and> (\<exists>e. receipt_entries chain_dg lab_plan (receipt_run chain_dg lab_plan [R_open calm] (lab_dir (Suc 4096))) = Inl e)"
proof -
  have a: "append_entry chain_dg calm lab_plan (lab_next 4096) None (lab_dir 4096) = (Inr True, lab_dir (Suc 4096))"
    by (rule lab_append) simp
  have e: "receipt_entries chain_dg lab_plan (lab_dir 4096) = Inr (lab_entries 4096)" by (rule lab_dir_entries) simp
  have "rc_sequence (lab_next 4096) = 4097" by (simp add: lab_receipt_def)
  then have "\<exists>e. receipt_entries chain_dg lab_plan (receipt_run chain_dg lab_plan [R_open calm] (lab_dir (Suc 4096))) = Inl e"
    using full_journal_locks_itself [OF e _ _ lab_next_owner(1,2) _ _ a] by (simp add: calm_def del: lab_dir.simps)
  then show ?thesis using a by blast
qed

end
