(* ===== verification/Deployment_Example.thy ===== *)
theory Deployment_Example
  imports Deployment_Guarantees Receipt_Guarantees
begin

text \<open>
  A deployment: the host script brings the stack up, the API takes a hold for an operation, and the executor
  claims the deployment and commits the target. The guarantees of \<open>Deployment_Guarantees\<close> at this run.
\<close>

definition core_dg :: digests where
  "core_dg = \<lparr>dg_operation = (\<lambda>_. ''o''), dg_plan = (\<lambda>_. ''p''), dg_receipt = (\<lambda>_. ''r''), dg_entry = (\<lambda>_. ''e''),
     dg_not_started = (\<lambda>_. ''n''), dg_start_request = (\<lambda>_. ''s''), dg_evidence_bytes = (\<lambda>_. 1)\<rparr>"

definition core_release :: "uuid \<Rightarrow> string \<Rightarrow> string \<Rightarrow> upgrade_release" where
  "core_release n sha img = \<lparr>rl_id = n, rl_sha = sha, rl_manifest =
     \<lparr>mf_kind = K_CONTROL_PLANE, mf_version = ''1'', mf_revision = ''r'', mf_platform = ''linux-amd64'', mf_prepared_at = 0,
      mf_compatibility = \<lparr>cp_sources = [''A''], cp_schemas = [], cp_native = [3], cp_evidence = None\<rparr>,
      mf_artifacts = [], mf_staged = 1, mf_environment = None, mf_environment_sha = None, mf_project = Some ''lab'',
      mf_services = [\<lparr>sv_service = ''coire-api'', sv_image = img, sv_configuration = JNull, sv_digest = ''c''\<rparr>],
      mf_schema = None, mf_compose = Some (''compose-'' @ sha), mf_host_key = Some (''key-'' @ sha), mf_paired = False\<rparr>,
     rl_artifact = ''a'', rl_prepared_by = 1, rl_status = ''prepared''\<rparr>"

definition core_operation :: "upgrade_phase \<Rightarrow> int \<Rightarrow> upgrade_operation" where
  "core_operation ph n = (lab_operation ph n)\<lparr>op_kind := K_CONTROL_PLANE, op_node := None, op_cohort := [''coire-api'']\<rparr>"

definition core_plan :: upgrade_plan where
  "core_plan = lab_plan\<lparr>pl_operation := core_operation P_ACCEPTED 0, pl_source := core_release 2 ''A'' ''old'',
     pl_target := core_release 3 ''B'' ''new''\<rparr>"

definition core_env :: host_env where
  "core_env = \<lparr>hv_now = 0, hv_store = calm, hv_file = None, hv_unlink = U_done, hv_cleanup = U_done, hv_platform = ''linux'',
     hv_boot = ''boot'', hv_release = (\<lambda>_. Some ''compose''), hv_pointer = True\<rparr>"

definition core_settings :: coordination_settings where
  "core_settings = \<lparr>cs_project = ''lab'', cs_executor = ''executor'', cs_present = True\<rparr>"

definition executor_claim :: ownership where
  "executor_claim = \<lparr>do_project = ''lab'', do_state = ''active'', do_owner_kind = ''executor'', do_stage = ''mutating'',
     do_owner = ''executor'', do_runtime = None, do_container = None, do_boot = ''boot'', do_job = Some ''J'',
     do_op_generation = Some 1, do_generation = 2, do_source = Some ''A'', do_committed = None\<rparr>"

definition core_hold :: operation_hold where
  "core_hold = new_hold core_dg core_env core_settings core_plan"

definition executor_authority :: authority where
  "executor_authority = \<lparr>au_claim = executor_claim, au_plan = core_plan, au_hold = Some core_hold\<rparr>"

definition bare_host :: host where
  "bare_host = \<lparr>ho_store = [], ho_lock = None, ho_current = None\<rparr>"

definition core_opening :: "host_op list" where
  "core_opening = [H_host core_env ''up'' [] ''lab'' ''0'' False, H_exit core_env 0, H_hold core_env core_settings core_plan False,
     H_executor core_env executor_claim core_plan None]"

definition core_selection :: runtime_selection where
  "core_selection = \<lparr>ru_project = ''lab'', ru_release = 3, ru_manifest = ''B'', ru_compose = ''compose-B'', ru_host_key = ''key-B'',
     ru_owner = ''executor'', ru_generation = 2, ru_selected_at = 0,
     ru_services = [\<lparr>ss_container = \<lparr>dc_id = ''1'', dc_name = ''lab-upgrade-j-coire-api'', dc_project = ''lab'', dc_image = ''new'',
       dc_observed_at = 0, dc_running = True, dc_health = ''healthy'', dc_exit_code = 0, dc_mounts = [], dc_networks = [],
       dc_service = ''coire-api''\<rparr>, ss_origin = plan_origin core_dg core_plan\<rparr>],
     ru_migration = None\<rparr>"

definition core_xenv :: executor_env where
  "core_xenv = \<lparr>xv_now = 0, xv_store = calm, xv_effects = calm, xv_receipts = calm, xv_migration = Inl Upgrade_unavailable,
     xv_prepared = (\<lambda>_. None)\<rparr>"

definition committing_dir :: executor_dir where
  "committing_dir = \<lparr>xd_store = [(''epoch.json'', Some (XD_epoch (fresh_epoch core_dg core_plan)))], xd_effects = [],
     xd_receipts = dict_set ''ack.json'' (Some (RD_ack \<lparr>ak_job = ''J'', ak_generation = 1, ak_sequence = 1\<rparr>))
       (dict_set (receipt_name 1) (Some (RD_entry \<lparr>je_receipt = lab_receipt 1 P_COMMITTING O_COMPLETE ''B'', je_previous = None,
          je_resource = None\<rparr>)) [])\<rparr>"

lemmas mutex_eval = mutex_enter_def take_lease_def Let_def host_write_def store_write_def read_owner_def read_lease_def read_operation_def
  read_handover_def read_receipt_def store_read_def holds_error_def unlink_lease_def mutex_exit_def may_unlink_def claim_ownership_def
  leave_def give_up_def killed_def commit_ownership_def calm_def core_env_def

definition host_up :: ownership where
  "host_up = host_claim core_env ''lab'' ''host-up-0'' None"

definition core_session :: "string \<Rightarrow> ownership option \<Rightarrow> mutex_use \<Rightarrow> session" where
  "core_session owner previous use = \<lparr>ms_owner = owner, ms_claimed = \<lparr>dl_project = ''lab'', dl_owner = owner, dl_platform = ''linux'',
     dl_boot = ''boot'', dl_created_at = 0\<rparr>, ms_previous = previous, ms_use = use\<rparr>"

lemma up: "host_step core_dg (H_host core_env ''up'' [] ''lab'' ''0'' False) bare_host
  = \<lparr>ho_store = [(''deployment.lease'', Some (HD_lease (ms_claimed (core_session ''host-up-0'' None Use_control)))),
       (''ownership.json'', Some (HD_owner host_up))],
     ho_lock = Some (core_session ''host-up-0'' None (Use_host host_up)), ho_current = None\<rparr>"
  by (simp add: host_enter_def mutex_eval bare_host_def host_arguments_ok_def project_name_ok_def dec_char_def host_decide_def
      reconcile_selection_def host_up_def core_session_def)

definition host_done :: ownership where
  "host_done = host_up\<lparr>do_state := ''committed''\<rparr>"

lemma down: "host_step core_dg (H_exit core_env 0)
    \<lparr>ho_store = [(''deployment.lease'', Some (HD_lease (ms_claimed (core_session ''host-up-0'' None Use_control)))),
       (''ownership.json'', Some (HD_owner host_up))],
     ho_lock = Some (core_session ''host-up-0'' None (Use_host host_up)), ho_current = None\<rparr>
  = \<lparr>ho_store = [(''ownership.json'', Some (HD_owner host_done))], ho_lock = None, ho_current = None\<rparr>"
  by (simp add: exit_session_def host_exit_def mutex_eval core_session_def host_done_def host_up_def host_claim_def dict_pop_def)

lemma held: "host_step core_dg (H_hold core_env core_settings core_plan False)
    \<lparr>ho_store = [(''ownership.json'', Some (HD_owner host_done))], ho_lock = None, ho_current = None\<rparr>
  = \<lparr>ho_store = [(''ownership.json'', Some (HD_owner host_done)), (''operation-hold.json'', Some (HD_operation core_hold))],
     ho_lock = None, ho_current = None\<rparr>"
  by (simp add: operation_hold_call_def with_admission_def idle_executor_def hold_body_def write_hold_def mutex_eval core_hold_def
      core_settings_def host_done_def host_up_def host_claim_def dict_pop_def)

definition claimed_host :: host where
  "claimed_host = \<lparr>ho_store = [(''ownership.json'', Some (HD_owner executor_claim)), (''operation-hold.json'', Some (HD_operation core_hold)),
       (''deployment.lease'', Some (HD_lease (ms_claimed (core_session ''executor'' None Use_control))))],
     ho_lock = Some (core_session ''executor'' (Some host_done) (Use_executor executor_authority)), ho_current = None\<rparr>"

lemmas core_data = core_plan_def core_operation_def core_release_def lab_plan_def lab_operation_def executor_claim_def core_settings_def
  plan_authority_def core_dg_def

lemma claimed: "host_step core_dg (H_executor core_env executor_claim core_plan None)
    \<lparr>ho_store = [(''ownership.json'', Some (HD_owner host_done)), (''operation-hold.json'', Some (HD_operation core_hold))],
     ho_lock = None, ho_current = None\<rparr> = claimed_host"
  by (simp add: executor_enter_def executor_decide_def binds_plan_def new_authority_def verify_authority_def verify_held_def hold_differs_def
      mutex_eval core_hold_def new_hold_def host_done_def host_up_def host_claim_def claimed_host_def executor_authority_def core_session_def core_data)

lemma opened: "host_run core_dg core_opening bare_host = claimed_host"
  by (simp add: core_opening_def up down held claimed del: host_step.simps)

lemma committing_entries: "receipt_entries core_dg core_plan (xd_receipts committing_dir)
  = Inr [\<lparr>je_receipt = lab_receipt 1 P_COMMITTING O_COMPLETE ''B'', je_previous = None, je_resource = None\<rparr>]"
proof -
  have "receipt_entries core_dg core_plan [] = Inr []" by (simp add: receipt_entries_def receipt_keys_def store_read_def)
  from entries_ack [OF entries_snoc [OF this, unfolded if_P [OF zero_less_numeral] list.size if_P [OF refl]]]
  show ?thesis by (simp add: committing_dir_def lab_receipt_def core_data)
qed

lemma core_decision: "commit_error core_dg core_plan core_xenv (core_operation P_COMMITTING 1) executor_claim core_selection committing_dir = None"
proof -
  have "store_read ''ack.json'' doc_ack (xd_receipts committing_dir) = Inr (Some \<lparr>ak_job = ''J'', ak_generation = 1, ak_sequence = 1\<rparr>)"
    by (simp add: committing_dir_def store_read_def key_ok_def key_char_def receipt_name_def)
  then show ?thesis
    using committing_entries
    by (simp add: commit_error_def commit_decision_def latest_receipt_def acknowledged_sequence_def locked_entries_def core_xenv_def calm_def
      lab_receipt_def operation_authority_def core_selection_def core_data)
qed

lemma lower_J: "lower_char (CHR ''J'') = CHR ''j''"
  by code_simp

lemma core_selected: "runtime_selection_valid core_selection" "selection_error core_plan 0 executor_claim core_selection = None"
  "selected_release core_plan core_selection = Some (core_release 3 ''B'' ''new'')"
  by (simp_all add: runtime_selection_valid_def selected_service_valid_def origin_complete_def origin_name_def upgrade_name_def lower_J
      selection_error_def selected_release_def fresh_def runtime_images_def release_images_def dict_eq_def core_selection_def plan_origin_def core_data)

lemma core_verified:
  assumes "ho_lock h \<noteq> None" "read_owner h = Inr (Some c)" "read_operation h = Inr (Some core_hold)"
    "read_lease h = Inr (Some (ms_claimed (core_session ''executor'' None Use_control)))"
    "do_project c = ''lab''" "do_owner c = ''executor''"
  shows "verify_authority core_dg core_env (executor_authority\<lparr>au_claim := c\<rparr>) h = None"
  using assms by (simp add: verify_authority_def verify_held_def hold_differs_def executor_authority_def core_session_def core_hold_def
      new_hold_def core_env_def core_data)

definition core_receipt :: selection_receipt where
  "core_receipt = executor_receipt executor_claim core_selection [(''key-A'', ''compose-A''), (''key-B'', ''compose-B'')]"

lemma core_protected:
  "protect_releases core_xenv ''lab'' (retained_releases core_plan core_selection) [] = Inr [(''key-A'', ''compose-A''), (''key-B'', ''compose-B'')]"
  "selection_receipt_valid core_receipt"
  by (auto simp: retained_releases_def core_selection_def core_xenv_def core_data core_receipt_def selection_receipt_valid_def executor_receipt_def)

lemma core_key: "key_ok (selection_key (core_release 3 ''B'' ''new''))" "selection_key (core_release 3 ''B'' ''new'') \<noteq> ''epoch.json''"
  by code_simp+

definition observed_host :: host where
  "observed_host = claimed_host\<lparr>ho_store := ho_store claimed_host @ [(''observed-epoch.json'', Some (HD_epoch (fresh_epoch core_dg core_plan))),
     (''observed-runtime.json'', Some (HD_runtime core_selection))]\<rparr>"

lemma core_authority [simp]: "executor_authority\<lparr>au_claim := executor_claim\<rparr> = executor_authority" "au_claim executor_authority = executor_claim"
  "au_plan executor_authority = core_plan"
  by (simp_all add: executor_authority_def)

lemma core_documents [simp]:
  "key_ok ''observed-epoch.json''" "key_ok ''observed-runtime.json''" "key_ok ''epoch.json''"
  by (simp_all add: key_ok_def key_char_def)

lemma calm_write: "se_write (hv_store core_env) key = W_done" "se_write (xv_store core_xenv) key = W_done" "se_lock (xv_store core_xenv) = None"
  by (simp_all add: core_env_def core_xenv_def calm_def)

lemma core_write: "key_ok key \<Longrightarrow> host_write core_env key doc True h = (None, h\<lparr>ho_store := dict_set key (Some doc) (ho_store h)\<rparr>)"
  by (simp add: host_write_def store_write_def calm_write)

lemma core_verified_claim:
  assumes "ho_lock h \<noteq> None" "cell h owner_key = Some (Some (HD_owner executor_claim))" "cell h hold_key = Some (Some (HD_operation core_hold))"
    "cell h lease_key = Some (Some (HD_lease (ms_claimed (core_session ''executor'' None Use_control))))"
  shows "verify_authority core_dg core_env executor_authority h = None"
  using core_verified [of h executor_claim] assms
  by (simp add: read_owner_def read_operation_def read_lease_def store_read_def) (simp add: executor_claim_def)

lemma core_observed:
  assumes "epoch_state core_dg core_plan d = Inr (fresh_epoch core_dg core_plan)"
  shows "publish_observed core_dg core_plan (\<lambda>_. core_env) executor_authority core_selection d claimed_host = (None, observed_host)"
  using assms
  by (simp add: publish_observed_def verified_def core_verified_claim core_write claimed_host_def observed_host_def)

lemma core_retained:
  "\<exists>d'. retain_runtime_selection core_dg core_plan core_xenv (\<lambda>_. core_env) executor_authority core_selection committing_dir claimed_host
     = (Inr core_selection, d', observed_host)"
proof -
  let ?key = "selection_key (core_release 3 ''B'' ''new'')"
  let ?d = "committing_dir\<lparr>xd_store := dict_set ?key (Some (XD_selection core_selection)) (xd_store committing_dir)\<rparr>"
  have "retain_selection core_xenv (core_release 3 ''B'' ''new'') core_selection committing_dir = (None, ?d)"
    using core_key by (simp add: retain_selection_def calm_write store_read_def store_write_def committing_dir_def)
  moreover have "epoch_state core_dg core_plan ?d = Inr (fresh_epoch core_dg core_plan)"
    using core_key by (simp add: epoch_state_def store_read_def committing_dir_def owns_def fresh_epoch_def)
  moreover have "verify_authority core_dg core_env executor_authority claimed_host = None"
    by (rule core_verified_claim) (simp_all add: claimed_host_def)
  moreover have "xv_now core_xenv = 0" by (simp add: core_xenv_def)
  ultimately show ?thesis
    using core_selected core_observed by (simp add: retain_runtime_selection_def)
qed

lemma core_received:
  "\<exists>d'. host_selection_receipt core_dg core_plan core_xenv (\<lambda>_. core_env) executor_authority core_selection committing_dir claimed_host
     = (Inr core_receipt, d', observed_host)"
proof -
  obtain d' where "retain_runtime_selection core_dg core_plan core_xenv (\<lambda>_. core_env) executor_authority core_selection committing_dir
      claimed_host = (Inr core_selection, d', observed_host)" using core_retained by blast
  moreover have "read_receipt observed_host = Inr None"
    by (simp add: read_receipt_def store_read_def observed_host_def claimed_host_def)
  moreover have "verify_authority core_dg core_env executor_authority observed_host = None"
    by (rule core_verified_claim) (simp_all add: observed_host_def claimed_host_def)
  moreover have "ru_project core_selection = ''lab''" by (simp add: core_selection_def)
  ultimately show ?thesis
    using core_protected by (simp add: host_selection_receipt_def kept_releases_def core_receipt_def)
qed

lemma core_published:
  "\<exists>h'. publish_selection core_dg (\<lambda>_. core_env) executor_authority core_selection core_receipt observed_host = (None, h')"
proof -
  let ?c = "committed_claim executor_claim core_selection"
  have "ownership_valid ?c" by (simp add: ownership_valid_def committed_claim_def executor_claim_def)
  moreover have "do_project ?c = ''lab''" "do_owner ?c = ''executor''" by (simp_all add: committed_claim_def executor_claim_def)
  ultimately show ?thesis
    by (simp add: publish_selection_def verified_def Let_def core_verified_claim core_write core_verified observed_host_def claimed_host_def
        read_owner_def read_operation_def read_lease_def store_read_def)
qed


section \<open>The guarantees at this run\<close>


definition core_commit :: host_op where
  "core_commit = H_commit core_plan core_xenv (\<lambda>_. core_env) (core_operation P_COMMITTING 1) core_selection committing_dir"

lemma committed_is_published_witness:
  "\<exists>r x. read_receipt (host_run core_dg (core_opening @ [core_commit]) bare_host) = Inr (Some r)
     \<and> read_runtime (host_run core_dg (core_opening @ [core_commit]) bare_host) = Inr (Some x)
     \<and> sr_compose r = ''compose-B'' \<and> ru_compose x = ''compose-B'' \<and> sr_generation r = 2 \<and> ru_generation x = 2"
proof -
  let ?h = "host_run core_dg (core_opening @ [core_commit]) bare_host" and ?c = "committed_claim executor_claim core_selection"
  obtain h' where p: "publish_selection core_dg (\<lambda>_. core_env) executor_authority core_selection core_receipt observed_host = (None, h')"
    using core_published by blast
  have "ho_lock claimed_host = Some (core_session ''executor'' (Some host_done) (Use_executor executor_authority))"
    by (simp add: claimed_host_def)
  moreover have "do_state executor_claim = ''active''" by (simp add: executor_claim_def)
  moreover have "host_run core_dg (core_opening @ [core_commit]) bare_host = host_step core_dg core_commit claimed_host"
    using opened by (simp add: host_run_def)
  ultimately have "?h = h'"
    using core_decision core_received p by (auto simp: core_commit_def commit_runtime_selection_def core_session_def)
  then have owner: "read_owner ?h = Inr (Some ?c)" using publish_complete [OF p] by simp
  have "do_committed ?c = Some ''compose-B''" "do_generation ?c = 2"
    by (simp_all add: committed_claim_def core_selection_def executor_claim_def)
  moreover have "read_owner bare_host = Inr None" by (simp add: read_owner_def store_read_def bare_host_def)
  moreover have "\<forall>op\<in>set (core_opening @ [core_commit]). plain_claim op"
    by (simp add: core_opening_def core_commit_def executor_claim_def)
  ultimately show ?thesis using committed_is_published [OF _ _ owner] by force
qed


lemma stale_authority_fenced_witness:
  "\<exists>e. dispatch_intent core_dg core_plan core_xenv (\<lambda>_. core_env) (executor_authority\<lparr>au_claim := executor_claim\<lparr>do_generation := 1\<rparr>\<rparr>)
     (host_run core_dg [H_crash] claimed_host) ''core-stop-source-coire-api'' committing_dir = (Inl e, committing_dir)"
proof -
  have owner: "read_owner claimed_host = Inr (Some executor_claim)"
    by (simp add: read_owner_def store_read_def claimed_host_def)
  have "do_generation (au_claim (executor_authority\<lparr>au_claim := executor_claim\<lparr>do_generation := 1\<rparr>\<rparr>)) < do_generation executor_claim"
    by (simp add: executor_claim_def)
  from stale_authority_fenced [OF owner this] show ?thesis by blast
qed


end
