(* ===== verification/Executor_Guarantees.thy ===== *)
theory Executor_Guarantees
  imports Executor_Run Deployment_Example
begin

text \<open>
  What the executor journal guarantees over every sequence of its calls.
\<close>

section \<open>Deadlines\<close>

text \<open>
  C35: A captured deadline never moves: whatever calls follow, with failing or interrupted writes and replays, the
  readiness, outage and recovery deadlines that were captured are still the recorded ones, and the activations
  and service windows only grow at the end.
\<close>

theorem captured_deadlines_fixed:
  assumes "epoch_state dg plan d = Inr s" "epoch_valid s"
  shows "\<exists>s'. epoch_state dg plan (executor_run dg plan ops d) = Inr s'
    \<and> prefix (ep_activations s) (ep_activations s') \<and> prefix (ep_windows s) (ep_windows s')
    \<and> (ep_readiness s \<noteq> None \<longrightarrow> ep_readiness s' = ep_readiness s) \<and> (ep_outage s \<noteq> None \<longrightarrow> ep_outage s' = ep_outage s)
    \<and> (ep_recovery s \<noteq> None \<longrightarrow> ep_recovery s' = ep_recovery s)"
  using run_epoch [OF assms, of ops] by (auto simp: epoch_le_def kept_def)

lemma fold_min_Min: "fold min ts (now :: int) = Min (insert now (set ts))"
  using Min.set_eq_fold [of now ts] by simp

text \<open>
  C16: Restoration has one budget, and a late or repeated detection does not renew it: when recovery is captured, it
  starts at the earliest of now and the forward deadlines that had expired, readiness and outage among them unless
  serving had already been verified, and in every later state the recorded deadline is that start and the
  planned budget.
\<close>

theorem recovery_budget_not_renewed:
  assumes "capture_recovery dg plan env d = (Inr s', d')"
    and "epoch_state dg plan d = Inr s" "epoch_valid s" "ep_recovery_at s = None"
  shows "\<exists>ts t. expired_forward_deadlines dg plan env d = Inr ts \<and> t = Min (insert (xv_now env) (set ts))
    \<and> (\<exists>latest. latest_receipt dg (xv_receipts env) plan (xd_receipts d) = Inr latest
        \<and> (\<not> discharged latest \<longrightarrow> (\<forall>q. q \<in> {ep_readiness s, ep_outage s} \<longrightarrow> q \<noteq> None \<longrightarrow> the q \<le> xv_now env \<longrightarrow> t \<le> the q)))
    \<and> (\<forall>ops. \<exists>s''. epoch_state dg plan (executor_run dg plan ops d') = Inr s''
        \<and> ep_recovery s'' = Some (t + seconds (tm_recovery (op_timing (pl_operation plan)))))"
proof -
  let ?now = "xv_now env"
  obtain ts where ts: "expired_forward_deadlines dg plan env d = Inr ts" and s': "s' = capture_at plan (fold min ts ?now) s"
      "epoch_valid s'" and lock: "se_lock (xv_store env) = None"
    and w: "store_write (xv_store env) ''epoch.json'' (XD_epoch s') True (xd_store d) = (None, xd_store d')" "d' = d\<lparr>xd_store := xd_store d'\<rparr>"
    using assms unfolding capture_recovery_def with_epoch_def recovery_verdict_def Let_def
    by (auto split: option.splits sum.splits if_splits prod.splits)
  let ?t = "Min (insert ?now (set ts))"
  have le: "epoch_le s s'" using capture_le [OF assms(3,4)] s'(1) by simp
  have "epoch_state dg plan d' = Inr s'"
    using epoch_state_write [OF assms(2) le, of "xd_store d'"] w ps.write_done [of "xv_store env" "''epoch.json''" "XD_epoch s'" True "xd_store d"]
    by simp
  moreover have "ep_recovery s' = Some (?t + seconds (tm_recovery (op_timing (pl_operation plan))))"
    by (simp add: s'(1) capture_at_def fold_min_Min)
  ultimately have later: "\<exists>s''. epoch_state dg plan (executor_run dg plan ops d') = Inr s''
      \<and> ep_recovery s'' = Some (?t + seconds (tm_recovery (op_timing (pl_operation plan))))" for ops
    using run_epoch [of dg plan d' s' ops] s'(2) by (auto simp: epoch_le_def)
  obtain latest where l: "latest_receipt dg (xv_receipts env) plan (xd_receipts d) = Inr latest"
    using ts assms(2) unfolding expired_forward_deadlines_def by (auto split: sum.splits)
  have "the q \<in> set ts" if "\<not> discharged latest" "q \<in> {ep_readiness s, ep_outage s}" "q \<noteq> None" "the q \<le> ?now" for q
    using ts assms(2) l that unfolding expired_forward_deadlines_def Let_def
    by (auto simp: map_filter_def split: sum.splits)
  then have "?t \<le> the q" if "\<not> discharged latest" "q \<in> {ep_readiness s, ep_outage s}" "q \<noteq> None" "the q \<le> ?now" for q
    using that by (intro Min_le) auto
  then show ?thesis using ts l later by blast
qed

section \<open>Dispatch\<close>

text \<open>A dispatch that goes out: the call returns, and the caller sends the effect to Docker.\<close>

fun sends :: "digests \<Rightarrow> upgrade_plan \<Rightarrow> string \<Rightarrow> executor_op \<Rightarrow> executor_dir \<Rightarrow> bool" where
  "sends dg plan eid (X_dispatch env hv a h k) d = (k = eid \<and> \<not> isl (fst (dispatch_intent dg plan env hv a h k d)))"
| "sends dg plan eid op d = False"

fun dispatches :: "digests \<Rightarrow> upgrade_plan \<Rightarrow> string \<Rightarrow> executor_op list \<Rightarrow> executor_dir \<Rightarrow> nat" where
  "dispatches dg plan eid [] d = 0"
| "dispatches dg plan eid (op # ops) d =
    (if sends dg plan eid op d then 1 else 0) + dispatches dg plan eid ops (executor_step dg plan op d)"

lemma dispatched:
  assumes "dispatch_intent dg plan env hv a h eid d = (Inr y, d')"
  shows "\<exists>e. read_effect eid d = Inr (Some e) \<and> owns_effect dg plan e \<and> dispatch_verdict dg plan (xv_now env) d e = Put y y
    \<and> ef_outcome e = E_INTENT \<and> y = e\<lparr>ef_outcome := E_UNKNOWN\<rparr> \<and> read_effect eid d' = Inr (Some y)
    \<and> verify_authority dg (hv 0) a h = None \<and> verify_authority dg (hv 1) a h = None"
proof -
  have q: "with_effect env eid True (on_intent dg plan (dispatch_verdict dg plan (xv_now env) d)) (\<lambda>d. (verify_authority dg (hv 1) a h, d)) d = (Inr y, d')"
      "verify_authority dg (hv 0) a h = None"
    using assms by (auto simp: dispatch_intent_def split: option.splits if_splits)
  have put: "\<exists>e. p = Some e \<and> owns_effect dg plan e \<and> dispatch_verdict dg plan (xv_now env) d e = Put x z \<and> ef_outcome e = E_INTENT
      \<and> x = e\<lparr>ef_outcome := E_UNKNOWN\<rparr> \<and> z = x"
    if "on_intent dg plan (dispatch_verdict dg plan (xv_now env) d) p = Put x z" for p x z
    using that by (auto simp: on_intent_def dispatch_verdict_def split: option.splits if_splits sum.splits)
  have keep: "on_intent dg plan (dispatch_verdict dg plan (xv_now env) d) p \<noteq> Keep z" for p z
    by (auto simp: on_intent_def dispatch_verdict_def split: option.splits if_splits sum.splits)
  from with_effect_cases [OF q(1)] show ?thesis
  proof (elim disjE exE conjE)
    fix p x z d1 w st
    assume p: "read_effect eid d = Inr p" "on_intent dg plan (dispatch_verdict dg plan (xv_now env) d) p = Put x z"
      and b: "(verify_authority dg (hv 1) a h, d) = (None, d1)"
      and w: "store_write (xv_effects env) (effect_key eid) x True (xd_effects d1) = (w, st)" "d' = d1\<lparr>xd_effects := st\<rparr>"
      and r: "Inr y = (case w of None \<Rightarrow> Inr z | Some e \<Rightarrow> Inl e)"
    obtain e where e: "p = Some e" "owns_effect dg plan e" "dispatch_verdict dg plan (xv_now env) d e = Put x z" "ef_outcome e = E_INTENT"
      "x = e\<lparr>ef_outcome := E_UNKNOWN\<rparr>" "z = x" using put [OF p(2)] by blast
    have "w = None" "y = x" using r e(6) by (auto split: option.splits)
    moreover have "key_ok (effect_key eid)" using p(1) store_read_ok by (auto simp: read_effect_def)
    ultimately have "read_effect eid d' = Inr (Some x)"
      using ps.write_done [of "xv_effects env" "effect_key eid" x True "xd_effects d1"] w by (simp add: read_effect_def store_read_def)
    then show ?thesis using p(1) e b q(2) \<open>y = x\<close> by auto
  qed (use keep in auto)
qed

lemma dispatched_never_again:
  assumes "read_effect eid d = Inr (Some e)" "ef_outcome e \<noteq> E_INTENT"
  shows "dispatches dg plan eid ops d = 0"
  using assms
proof (induction ops arbitrary: d e)
  case (Cons op ops)
  have "\<not> sends dg plan eid op d"
  proof
    assume "sends dg plan eid op d"
    then obtain env hv a h where op: "op = X_dispatch env hv a h eid" "\<not> isl (fst (dispatch_intent dg plan env hv a h eid d))"
      by (cases op) auto
    obtain y d' where "dispatch_intent dg plan env hv a h eid d = (Inr y, d')"
      using op(2) by (metis isl_def prod.collapse sum.exhaust_sel)
    then show False using dispatched Cons.prems by fastforce
  qed
  moreover obtain e' where "read_effect eid (executor_step dg plan op d) = Inr (Some e')" "effect_le e e'"
    using step_effects [of dg plan d op] Cons.prems(1) unfolding effects_move_def by blast
  moreover have "ef_outcome e' \<noteq> E_INTENT"
    using \<open>effect_le e e'\<close> Cons.prems(2) by (cases "ef_outcome e") (auto simp: effect_le_def outcome_rank_def)
  ultimately show ?case using Cons.IH by simp
qed simp

text \<open>
  C7: No effect is sent to Docker twice: over every sequence of calls, replays and restarts included, the dispatch of
  an effect of a given identifier succeeds at most once.
\<close>

theorem dispatched_once: "dispatches dg plan eid ops d \<le> 1"
proof (induction ops arbitrary: d)
  case (Cons op ops)
  show ?case
  proof (cases "sends dg plan eid op d")
    case True
    then obtain env hv a h where op: "op = X_dispatch env hv a h eid" "\<not> isl (fst (dispatch_intent dg plan env hv a h eid d))"
      by (cases op) auto
    obtain y d' where q: "dispatch_intent dg plan env hv a h eid d = (Inr y, d')"
      using op(2) by (metis isl_def prod.collapse sum.exhaust_sel)
    then have "read_effect eid (executor_step dg plan op d) = Inr (Some y)" "ef_outcome y \<noteq> E_INTENT"
      using dispatched [OF q] op(1) by auto
    then show ?thesis using dispatched_never_again True by simp
  qed (use Cons in simp)
qed simp

lemma find_prefix: "prefix xs ys \<Longrightarrow> List.find P xs = Some x \<Longrightarrow> List.find P ys = Some x"
  by (induction xs arbitrary: ys) (auto simp: prefix_def split: if_splits)

lemma expected_le:
  assumes "epoch_le s s'" "expected_deadline plan s e = Some t"
  shows "expected_deadline plan s' e = Some t"
proof -
  have "prefix (ep_activations s) (ep_activations s')" "prefix (ep_windows s) (ep_windows s')"
    "kept (ep_recovery s) (ep_recovery s')" "kept (ep_readiness s) (ep_readiness s')"
    using assms(1) by (auto simp: epoch_le_def)
  note grown = find_prefix [OF this(1)] find_prefix [OF this(2)] this(3,4) [unfolded kept_def]
  show ?thesis
    using assms(2) grown unfolding expected_deadline_def migration_activation_def
    by (simp split: if_splits option.splits; blast?)
qed

lemma expected_strip:
  assumes "strip_effect e' = strip_effect e"
  shows "expected_deadline plan s e' = expected_deadline plan s e" "role_error plan e' = role_error plan e"
    "ef_deadline e' = ef_deadline e"
proof -
  have same: "ef_action e' = ef_action e" "ef_service e' = ef_service e" "ef_image e' = ef_image e" "ef_deadline e' = ef_deadline e"
    using assms by (cases e; cases e'; simp add: strip_effect_def)+
  show "expected_deadline plan s e' = expected_deadline plan s e" "role_error plan e' = role_error plan e"
    "ef_deadline e' = ef_deadline e"
    unfolding expected_deadline_def role_error_def same by (rule refl)+
qed

text \<open>Every recorded effect runs on a deadline of the epoch, in a role of the plan.\<close>

definition budgeted :: "digests \<Rightarrow> upgrade_plan \<Rightarrow> executor_dir \<Rightarrow> bool" where
  "budgeted dg plan d \<longleftrightarrow> (\<exists>s. epoch_state dg plan d = Inr s \<and> epoch_valid s
     \<and> (\<forall>eid e. read_effect eid d = Inr (Some e) \<longrightarrow> expected_deadline plan s e = Some (ef_deadline e) \<and> role_error plan e = None))"

lemma step_budgeted:
  assumes "budgeted dg plan d"
  shows "budgeted dg plan (executor_step dg plan op d)"
proof -
  obtain s where s: "epoch_state dg plan d = Inr s" "epoch_valid s"
    and old: "\<And>eid e. read_effect eid d = Inr (Some e) \<Longrightarrow> expected_deadline plan s e = Some (ef_deadline e) \<and> role_error plan e = None"
    using assms unfolding budgeted_def by blast
  obtain s' where s': "epoch_state dg plan (executor_step dg plan op d) = Inr s'" "epoch_valid s'" "epoch_le s s'"
    using step_epoch [of dg plan d op] s unfolding epoch_keeps_def by blast
  have "expected_deadline plan s' e' = Some (ef_deadline e') \<and> role_error plan e' = None"
    if e': "read_effect eid (executor_step dg plan op d) = Inr (Some e')" for eid e'
  proof (cases "\<exists>e. read_effect eid d = Inr (Some e) \<and> effect_le e e'")
    case True
    then obtain e where "read_effect eid d = Inr (Some e)" "strip_effect e' = strip_effect e" by (auto simp: effect_le_def)
    then show ?thesis using old expected_le [OF s'(3), of plan e] expected_strip [of e' e] by auto
  next
    case False
    then have "admitted dg plan d e'" using step_effects [of dg plan d op] e' unfolding effects_move_def by blast
    then have "expected_deadline plan s e' = Some (ef_deadline e') \<and> role_error plan e' = None"
      using s(1) by (auto simp: admitted_def intent_error_def split: if_splits option.splits)
    then show ?thesis using expected_le [OF s'(3)] by blast
  qed
  then show ?thesis using s' unfolding budgeted_def by blast
qed

lemma run_budgeted: "budgeted dg plan d \<Longrightarrow> budgeted dg plan (executor_run dg plan ops d)"
  by (induction ops arbitrary: d) (simp_all add: step_budgeted)

text \<open>
  C14: An effect goes out only within its budget: in a journal that began without effects, after any calls, an effect
  whose dispatch succeeds runs on the deadline the epoch recorded for its kind (migration activation, service
  window, readiness or recovery), which has not passed, with the image of its role; a forward effect goes out
  only while no recovery is captured and before the outage deadline, and a gateway service is stopped only once
  the outage is captured.
\<close>

theorem dispatch_within_budget:
  assumes "epoch_state dg plan d = Inr s" "epoch_valid s" "xd_effects d = []"
    and "dispatch_intent dg plan env hv a h eid (executor_run dg plan ops d) = (Inr e, d')"
  shows "\<exists>s'. epoch_state dg plan (executor_run dg plan ops d) = Inr s' \<and> expected_deadline plan s' e = Some (ef_deadline e)
    \<and> ef_captured_at e \<le> xv_now env \<and> xv_now env < ef_deadline e \<and> role_error plan e = None
    \<and> (recovery_action (ef_action e) \<or> ep_recovery_at s' = None \<and> (\<forall>t. ep_outage s' = Some t \<longrightarrow> xv_now env < t))
    \<and> (ef_action e = X_STOP_SOURCE \<and> ef_service e \<in> Some ` set gateway_services \<longrightarrow> ep_outage s' \<noteq> None)"
proof -
  let ?d = "executor_run dg plan ops d"
  have "read_effect k d \<noteq> Inr (Some x)" for k x using assms(3) by (simp add: read_effect_def store_read_def)
  then have "budgeted dg plan ?d" using assms(1,2) run_budgeted unfolding budgeted_def by blast
  then obtain s' where s': "epoch_state dg plan ?d = Inr s'"
    and b: "\<And>eid e. read_effect eid ?d = Inr (Some e) \<Longrightarrow> expected_deadline plan s' e = Some (ef_deadline e) \<and> role_error plan e = None"
    unfolding budgeted_def by blast
  obtain e0 where e0: "read_effect eid ?d = Inr (Some e0)" "dispatch_verdict dg plan (xv_now env) ?d e0 = Put e e" "e = e0\<lparr>ef_outcome := E_UNKNOWN\<rparr>"
    using dispatched [OF assms(4)] by blast
  have "strip_effect e = strip_effect e0" by (simp add: e0(3) strip_effect_def)
  then have e: "expected_deadline plan s' e = Some (ef_deadline e)" "role_error plan e = None"
    using b [OF e0(1)] expected_strip [of e e0] by auto
  show ?thesis
    using s' e e0(2) unfolding e0(3)
    by (auto simp: dispatch_verdict_def split: if_splits option.splits)
qed

section \<open>The guarantees at a recovery\<close>

text \<open>The executor of the example gives up before the first activation: it captures recovery and starts the source again.\<close>

definition opened_dir :: executor_dir where
  "opened_dir = \<lparr>xd_store = [(''epoch.json'', Some (XD_epoch (fresh_epoch core_dg core_plan)))], xd_effects = [], xd_receipts = []\<rparr>"

definition recovering_dir :: executor_dir where
  "recovering_dir = opened_dir\<lparr>xd_store := [(''epoch.json'', Some (XD_epoch (capture_at core_plan 0 (fresh_epoch core_dg core_plan))))]\<rparr>"

definition start_source :: executor_effect where
  "start_source = \<lparr>ef_job = ''J'', ef_generation = 1, ef_plan = ''p'', ef_id = ''core-start-source-coire-api'', ef_action = X_START_SOURCE,
     ef_service = Some ''coire-api'', ef_container = None, ef_image = ''old'', ef_captured_at = 0,
     ef_deadline = seconds (tm_recovery (op_timing (pl_operation core_plan))), ef_outcome = E_INTENT, ef_observed = None\<rparr>"

lemma opened_epoch: "epoch_state core_dg core_plan opened_dir = Inr (fresh_epoch core_dg core_plan)"
    "epoch_valid (fresh_epoch core_dg core_plan)" "ep_recovery_at (fresh_epoch core_dg core_plan) = None"
  by (simp_all add: epoch_state_def store_read_def opened_dir_def owns_def fresh_epoch_def epoch_valid_def captured_pair_def)

lemma recovering_epoch: "epoch_state core_dg core_plan recovering_dir = Inr (capture_at core_plan 0 (fresh_epoch core_dg core_plan))"
    "epoch_valid (capture_at core_plan 0 (fresh_epoch core_dg core_plan))"
  by (simp_all add: epoch_state_def store_read_def recovering_dir_def owns_def fresh_epoch_def capture_at_def epoch_valid_def captured_pair_def
      core_data lab_timing_def)

lemma opened_expired: "expired_forward_deadlines core_dg core_plan core_xenv opened_dir = Inr []"
proof -
  have "receipt_entries core_dg core_plan [] = Inr []" by (simp add: receipt_entries_def receipt_keys_def store_read_def)
  then have "latest_receipt core_dg (xv_receipts core_xenv) core_plan (xd_receipts opened_dir) = Inr None"
    by (simp add: latest_receipt_def locked_entries_def core_xenv_def calm_def opened_dir_def)
  then show ?thesis
    by (simp add: expired_forward_deadlines_def opened_epoch migration_deadlines_def discharged_def) (simp add: fresh_epoch_def List.map_filter_def)
qed

lemma opened_recovers:
  "capture_recovery core_dg core_plan core_xenv opened_dir = (Inr (capture_at core_plan 0 (fresh_epoch core_dg core_plan)), recovering_dir)"
  by (simp add: capture_recovery_def with_epoch_def calm_write opened_epoch recovery_verdict_def opened_expired Let_def recovering_epoch
      store_write_def) (simp add: core_xenv_def recovering_dir_def opened_dir_def recovering_epoch)

lemma captured_deadlines_fixed_witness:
  "\<exists>s'. epoch_state core_dg core_plan (executor_run core_dg core_plan [X_recovery core_xenv, X_recovery (core_xenv\<lparr>xv_now := 7\<rparr>)] recovering_dir) = Inr s'
     \<and> ep_recovery s' = Some (seconds 300)"
proof -
  have "ep_recovery (capture_at core_plan 0 (fresh_epoch core_dg core_plan)) = Some (seconds 300)"
    by (simp add: capture_at_def core_data lab_timing_def)
  then show ?thesis
    using captured_deadlines_fixed [OF recovering_epoch, of "[X_recovery core_xenv, X_recovery (core_xenv\<lparr>xv_now := 7\<rparr>)]"] by fastforce
qed

lemma recovery_budget_not_renewed_witness:
  "capture_recovery core_dg core_plan core_xenv opened_dir = (Inr (capture_at core_plan 0 (fresh_epoch core_dg core_plan)), recovering_dir)
   \<and> (\<exists>s. epoch_state core_dg core_plan (executor_run core_dg core_plan [X_recovery (core_xenv\<lparr>xv_now := 7\<rparr>)] recovering_dir) = Inr s
        \<and> ep_recovery s = Some (seconds 300))"
proof -
  let ?run = "executor_run core_dg core_plan [X_recovery (core_xenv\<lparr>xv_now := 7\<rparr>)] recovering_dir"
  obtain ts t where t: "expired_forward_deadlines core_dg core_plan core_xenv opened_dir = Inr ts" "t = Min (insert (xv_now core_xenv) (set ts))"
    and s: "\<exists>s. epoch_state core_dg core_plan ?run = Inr s \<and> ep_recovery s = Some (t + seconds (tm_recovery (op_timing (pl_operation core_plan))))"
    using recovery_budget_not_renewed [OF opened_recovers opened_epoch] by blast
  have "t = 0" using t opened_expired by (simp add: core_xenv_def)
  with s show ?thesis using opened_recovers by (simp add: core_data lab_timing_def)
qed

lemma start_source_recorded:
  "executor_run core_dg core_plan [X_recovery core_xenv, X_intent core_xenv start_source] opened_dir
     = recovering_dir\<lparr>xd_effects := [(''core-start-source-coire-api.json'', Some start_source)]\<rparr>"
proof -
  have "intent_error core_plan core_xenv (capture_at core_plan 0 (fresh_epoch core_dg core_plan)) start_source = None"
    by (simp add: intent_error_def expected_deadline_def recovery_action_def configuration_error_def role_error_def start_source_def
        capture_at_def fresh_epoch_def core_xenv_def core_data lab_timing_def)
  moreover have "owns_effect core_dg core_plan start_source" by (simp add: owns_def start_source_def core_data)
  moreover have "se_write (xv_effects core_xenv) key = W_done" for key by (simp add: core_xenv_def calm_def)
  moreover have "key_ok ''core-start-source-coire-api.json''" by code_simp
  moreover have "ef_id start_source = ''core-start-source-coire-api''" "xd_effects recovering_dir = []"
    by (simp_all add: start_source_def recovering_dir_def opened_dir_def)
  ultimately show ?thesis
    by (simp add: opened_recovers intent_def with_effect_def calm_write read_effect_def store_read_def store_write_def intent_verdict_def
        recovering_epoch effect_key_def)
qed

lemma dispatch_within_budget_witness:
  "\<exists>e d'. dispatch_intent core_dg core_plan core_xenv (\<lambda>_. core_env) executor_authority claimed_host ''core-start-source-coire-api''
       (executor_run core_dg core_plan [X_recovery core_xenv, X_intent core_xenv start_source] opened_dir) = (Inr e, d')
     \<and> 0 < ef_deadline e \<and> role_error core_plan e = None"
proof -
  let ?d = "executor_run core_dg core_plan [X_recovery core_xenv, X_intent core_xenv start_source] opened_dir"
  have "verify_authority core_dg core_env executor_authority claimed_host = None"
    by (rule core_verified_claim) (simp_all add: claimed_host_def)
  moreover have "do_state executor_claim = ''active''" by (simp add: executor_claim_def)
  moreover have "read_effect ''core-start-source-coire-api'' ?d = Inr (Some start_source)"
  proof -
    have "key_ok ''core-start-source-coire-api.json''" by code_simp
    then show ?thesis unfolding start_source_recorded by (simp add: read_effect_def effect_key_def store_read_def)
  qed
  moreover have "dispatch_verdict core_dg core_plan (xv_now core_xenv) ?d start_source
      = Put (start_source\<lparr>ef_outcome := E_UNKNOWN\<rparr>) (start_source\<lparr>ef_outcome := E_UNKNOWN\<rparr>)"
  proof -
    have "epoch_state core_dg core_plan ?d = Inr (capture_at core_plan 0 (fresh_epoch core_dg core_plan))"
      using recovering_epoch(1) unfolding start_source_recorded by (simp add: epoch_state_def)
    then show ?thesis
      unfolding dispatch_verdict_def
      by (simp add: start_source_def recovery_action_def core_xenv_def capture_at_def fresh_epoch_def core_data lab_timing_def)
  qed
  moreover have "owns_effect core_dg core_plan start_source" by (simp add: owns_def start_source_def core_data)
  moreover have "se_write (xv_effects core_xenv) key = W_done" for key by (simp add: core_xenv_def calm_def)
  moreover have "key_ok (effect_key ''core-start-source-coire-api'')" by code_simp
  ultimately obtain e d' where sent: "dispatch_intent core_dg core_plan core_xenv (\<lambda>_. core_env) executor_authority claimed_host
      ''core-start-source-coire-api'' ?d = (Inr e, d')"
    by (simp add: dispatch_intent_def with_effect_def calm_write on_intent_def store_write_def del: executor_run_simps)
  have "xd_effects opened_dir = []" by (simp add: opened_dir_def)
  from dispatch_within_budget [OF opened_epoch(1,2) this sent] sent show ?thesis
    by (auto simp: core_xenv_def simp del: executor_run_simps)
qed

end
