(* ===== verification/Training_Sampling.thy ===== *)
theory Training_Sampling
  imports Canonical_Json
begin

text \<open>
  The order in which training consumes the rows of a mixture (\<^verbatim>\<open>coire_core/training_sampling.py\<close>): random draws from
  a counter and a digest, the Fisher-Yates shuffle on them, the order of an epoch, and the replay that recomputes
  the rows consumed up to a checkpoint. The digest is a parameter: \<open>sha\<close> gives the 32 bytes of SHA-256 as the number
  they spell. An exception is the left of a sum.
\<close>

section \<open>Exceptions\<close>

datatype training_error = Training_validation | Training_conflict | Value_error | Overflow_error | Zero_division

type_synonym 'a attempt = "training_error + 'a"

fun andthen :: "'e + 'a \<Rightarrow> ('a \<Rightarrow> 'e + 'b) \<Rightarrow> 'e + 'b" where
  "andthen (Inl e) f = Inl e"
| "andthen (Inr x) f = f x"

lemma andthen_Inr [simp]: "andthen a f = Inr y \<longleftrightarrow> (\<exists>x. a = Inr x \<and> f x = Inr y)"
  by (cases a) auto

lemma andthen_cong [fundef_cong, cong]: "a = a' \<Longrightarrow> (\<And>x. a' = Inr x \<Longrightarrow> f x = f' x) \<Longrightarrow> andthen a f = andthen a' f'"
  by (cases a') auto

section \<open>Draws\<close>

definition counter_bytes :: "nat \<Rightarrow> string" where
  "counter_bytes c = map (\<lambda>i. char_of (c div 256 ^ (15 - i))) [0..<16]"

definition draw_limit :: "nat \<Rightarrow> nat" where
  "draw_limit bound = 2 ^ 256 - 2 ^ 256 mod bound"

text \<open>
  \<^verbatim>\<open>_CounterRandom.below\<close>: the digest of the key and the counter, rejected in the incomplete last block. A counter of more
  than sixteen bytes raises, which also ends a loop that would reject for ever.
\<close>

function below :: "(string \<Rightarrow> nat) \<Rightarrow> string \<Rightarrow> nat \<Rightarrow> nat \<Rightarrow> (nat \<times> nat) attempt" where
  "below sha key bound c =
    (if bound = 0 then Inl Zero_division
     else if 2 ^ 128 \<le> c then Inl Overflow_error
     else (let v = sha (key @ counter_bytes c) in
           if v < draw_limit bound then Inr (v mod bound, c + 1) else below sha key bound (c + 1)))"
  by pat_completeness auto

termination
  by (relation "measure (\<lambda>(_, _, _, c). 2 ^ 128 - c)") (auto simp del: power_numeral)

declare below.simps [simp del]

text \<open>\<^verbatim>\<open>_CounterRandom.shuffle\<close>: from the last position down, exchange with a drawn one.\<close>

definition exchange :: "nat \<Rightarrow> nat \<Rightarrow> 'a list \<Rightarrow> 'a list" where
  "exchange i j xs = xs[i := xs ! j, j := xs ! i]"

fun shuffle_down :: "(string \<Rightarrow> nat) \<Rightarrow> string \<Rightarrow> nat \<Rightarrow> nat \<Rightarrow> 'a list \<Rightarrow> 'a list attempt" where
  "shuffle_down sha key 0 c xs = Inr xs"
| "shuffle_down sha key (Suc i) c xs =
    andthen (below sha key (Suc i + 1) c) (\<lambda>(other, c'). shuffle_down sha key i c' (exchange (Suc i) other xs))"

definition shuffle :: "(string \<Rightarrow> nat) \<Rightarrow> string \<Rightarrow> 'a list \<Rightarrow> 'a list attempt" where
  "shuffle sha key xs = shuffle_down sha key (length xs - 1) 0 xs"

fun draw_many :: "(string \<Rightarrow> nat) \<Rightarrow> string \<Rightarrow> nat \<Rightarrow> nat \<Rightarrow> nat \<Rightarrow> nat list attempt" where
  "draw_many sha key bound 0 c = Inr []"
| "draw_many sha key bound (Suc n) c =
    andthen (below sha key bound c) (\<lambda>(v, c'). andthen (draw_many sha key bound n c') (\<lambda>vs. Inr (v # vs)))"

section \<open>The order of an epoch\<close>

datatype strategy = Weighted | Sequential

definition source_key :: "string \<Rightarrow> nat \<Rightarrow> nat \<Rightarrow> string" where
  "source_key identity epoch i = identity @ '':'' @ show_nat epoch @ '':source:'' @ show_nat i"

definition interleave_key :: "string \<Rightarrow> nat \<Rightarrow> string" where
  "interleave_key identity epoch = identity @ '':'' @ show_nat epoch @ '':interleave''"

definition pool_draws :: "(string \<Rightarrow> nat) \<Rightarrow> string \<Rightarrow> bool \<Rightarrow> nat \<times> nat \<Rightarrow> nat list attempt" where
  "pool_draws sha key replacement pool =
    (case pool of (pool_size, quota) \<Rightarrow>
       if replacement then draw_many sha key pool_size quota 0
       else andthen (shuffle sha key [0..<pool_size]) (\<lambda>xs. Inr (take quota xs)))"

fun source_orders :: "(string \<Rightarrow> nat) \<Rightarrow> string \<Rightarrow> nat \<Rightarrow> bool \<Rightarrow> nat \<Rightarrow> (nat \<times> nat) list \<Rightarrow> (nat \<times> nat) list attempt" where
  "source_orders sha identity epoch replacement i [] = Inr []"
| "source_orders sha identity epoch replacement i (pool # pools) =
    andthen (pool_draws sha (source_key identity epoch i) replacement pool) (\<lambda>draws.
    andthen (source_orders sha identity epoch replacement (i + 1) pools) (\<lambda>rest.
    Inr (map (\<lambda>row. (i, row)) draws @ rest)))"

definition pools_error :: "nat \<Rightarrow> bool \<Rightarrow> (nat \<times> nat) list \<Rightarrow> bool" where
  "pools_error epoch replacement pools \<longleftrightarrow>
     \<not> (1 \<le> length pools \<and> length pools \<le> 16) \<or> \<not> epoch < 2 ^ 64 \<or> sum_list (map snd pools) > 16000000
   \<or> list_ex (\<lambda>(pool_size, quota). \<not> (1 \<le> pool_size \<and> pool_size \<le> 1000000) \<or> \<not> quota \<le> 16000000
        \<or> (\<not> replacement \<and> quota > pool_size)) pools"

definition mixture_epoch_order ::
  "(string \<Rightarrow> nat) \<Rightarrow> string \<Rightarrow> nat \<Rightarrow> (nat \<times> nat) list \<Rightarrow> strategy \<Rightarrow> bool \<Rightarrow> (nat \<times> nat) list attempt" where
  "mixture_epoch_order sha identity epoch pools strat replacement =
    (if pools_error epoch replacement pools then Inl Value_error
     else andthen (source_orders sha identity epoch replacement 0 pools) (\<lambda>order.
       case strat of
         Sequential \<Rightarrow> Inr order
       | Weighted \<Rightarrow> andthen (shuffle sha (interleave_key identity epoch) [0..<length order]) (\<lambda>positions.
           Inr (map (\<lambda>position. order ! position) positions))))"

section \<open>Replay\<close>

type_synonym mixture_source = "uuid \<times> nat list \<times> nat"

definition source_pools :: "mixture_source list \<Rightarrow> (nat \<times> nat) list" where
  "source_pools sources = map (\<lambda>(_, rows, quota). (length rows, quota)) sources"

definition quota_sum :: "mixture_source list \<Rightarrow> nat" where
  "quota_sum sources = sum_list (map (\<lambda>(_, _, quota). quota) sources)"

definition reference :: "mixture_source list \<Rightarrow> nat \<times> nat \<Rightarrow> uuid \<times> nat" where
  "reference sources ref = (case ref of (source, position) \<Rightarrow>
     (case sources ! source of (ident, rows, _) \<Rightarrow> (ident, rows ! position)))"

definition maximum_rows :: "mixture_source list \<Rightarrow> nat" where
  "maximum_rows sources = sum_list (map (\<lambda>(_, rows, _). length rows) (filter (\<lambda>(_, _, quota). quota \<noteq> 0) sources))"

definition epoch_count :: "nat \<Rightarrow> nat \<Rightarrow> nat \<Rightarrow> nat \<Rightarrow> nat" where
  "epoch_count epoch cursor samples completed = (if completed = epoch then cursor else samples)"

fun replay_epochs ::
  "(string \<Rightarrow> nat) \<Rightarrow> string \<Rightarrow> nat \<Rightarrow> nat \<Rightarrow> mixture_source list \<Rightarrow> strategy \<Rightarrow> bool \<Rightarrow> nat list \<Rightarrow> (uuid \<times> nat) set \<Rightarrow> (uuid \<times> nat) set attempt" where
  "replay_epochs sha identity epoch cursor sources strat replacement [] consumed = Inr consumed"
| "replay_epochs sha identity epoch cursor sources strat replacement (completed # rest) consumed =
    (if card consumed = maximum_rows sources then Inr consumed
     else andthen (mixture_epoch_order sha identity completed (source_pools sources) strat replacement) (\<lambda>order.
       replay_epochs sha identity epoch cursor sources strat replacement rest
         (consumed \<union> reference sources ` set (take (epoch_count epoch cursor (quota_sum sources) completed) order))))"

definition consumed_mixture_rows ::
  "(string \<Rightarrow> nat) \<Rightarrow> string \<Rightarrow> nat \<Rightarrow> nat \<Rightarrow> mixture_source list \<Rightarrow> strategy \<Rightarrow> bool \<Rightarrow> (uuid \<times> nat) set attempt" where
  "consumed_mixture_rows sha identity epoch cursor sources strat replacement =
    (let epoch_samples = quota_sum sources in
     if \<not> (1 \<le> epoch_samples \<and> epoch_samples \<le> 16000000) \<or> \<not> cursor \<le> epoch_samples \<or> \<not> epoch \<le> 6400000
        \<or> epoch * epoch_samples + cursor > 409600000
     then Inl Value_error
     else replay_epochs sha identity epoch cursor sources strat replacement [0..<epoch + 1] {})"

section \<open>Draws are in range\<close>

lemma draw_limit_pos: "0 < bound \<Longrightarrow> bound dvd draw_limit bound"
  unfolding draw_limit_def by (simp add: dvd_minus_mod)

lemma below_range: "below sha key bound c = Inr (v, c') \<Longrightarrow> v < bound \<and> c < c'"
  by (induction sha key bound c rule: below.induct) (subst (asm) below.simps, auto simp: Let_def split: if_splits)

text \<open>A draw is accepted at the first counter whose digest is below the limit, and a power of two never rejects.\<close>

lemma below_accepts:
  assumes "0 < bound" "c + n < 2 ^ 128" "sha (key @ counter_bytes (c + n)) < draw_limit bound"
  shows "\<exists>v c'. below sha key bound c = Inr (v, c') \<and> c' \<le> c + n + 1"
  using assms
proof (induction n arbitrary: c)
  case (Suc n)
  then show ?case using Suc.IH [of "c + 1"] by (subst below.simps) (auto simp: Let_def)
qed (subst below.simps, simp add: Let_def)

section \<open>A shuffle is a permutation\<close>

lemma length_exchange [simp]: "length (exchange i j xs) = length xs"
  by (simp add: exchange_def)

lemma mset_exchange [simp]: "i < length xs \<Longrightarrow> j < length xs \<Longrightarrow> mset (exchange i j xs) = mset xs"
  by (simp add: exchange_def mset_swap)

lemma shuffle_down_mset: "shuffle_down sha key i c xs = Inr ys \<Longrightarrow> i < length xs \<or> xs = [] \<and> i = 0 \<Longrightarrow> mset ys = mset xs"
proof (induction i arbitrary: c xs)
  case (Suc i)
  then obtain j c' where "below sha key (Suc i + 1) c = Inr (j, c')" "shuffle_down sha key i c' (exchange (Suc i) j xs) = Inr ys" by auto
  then show ?case using Suc.IH [of c' "exchange (Suc i) j xs"] below_range [of sha key "Suc i + 1" c j c'] Suc.prems(2) by simp
qed simp

lemma shuffle_mset: "shuffle sha key xs = Inr ys \<Longrightarrow> mset ys = mset xs"
  unfolding shuffle_def by (cases xs) (auto dest: shuffle_down_mset)

lemma draw_many_range: "draw_many sha key bound n c = Inr vs \<Longrightarrow> length vs = n \<and> set vs \<subseteq> {..<bound}"
  by (induction n arbitrary: c vs) (fastforce dest: below_range)+

section \<open>The order of an epoch respects the quotas\<close>

definition pool_ok :: "bool \<Rightarrow> nat \<times> nat \<Rightarrow> bool" where
  "pool_ok replacement pool \<longleftrightarrow> replacement \<or> snd pool \<le> fst pool"

lemma pool_shuffle:
  assumes "shuffle sha key [0..<n] = Inr xs"
  shows "set xs = {..<n}" "distinct xs" "length xs = n"
proof -
  note m = shuffle_mset [OF assms]
  show "set xs = {..<n}" using mset_eq_setD [OF m] by (simp add: atLeast0LessThan)
  show "distinct xs" using mset_eq_imp_distinct_iff [OF m] by simp
  show "length xs = n" using mset_eq_length [OF m] by simp
qed

lemma pool_draws_ok:
  assumes "pool_draws sha key replacement (n, q) = Inr draws" "pool_ok replacement (n, q)"
  shows "length draws = q" "set draws \<subseteq> {..<n}" "\<not> replacement \<Longrightarrow> distinct draws"
proof -
  consider (drawn) "replacement" "draw_many sha key n q 0 = Inr draws"
    | (shuffled) xs where "\<not> replacement" "q \<le> n" "shuffle sha key [0..<n] = Inr xs" "draws = take q xs"
    using assms unfolding pool_draws_def pool_ok_def by (cases replacement) auto
  then have "length draws = q \<and> set draws \<subseteq> {..<n} \<and> (\<not> replacement \<longrightarrow> distinct draws)"
  proof cases
    case drawn
    then show ?thesis using draw_many_range by blast
  next
    case shuffled
    then show ?thesis using pool_shuffle [OF shuffled(3)] set_take_subset [of q xs] by auto
  qed
  then show "length draws = q" "set draws \<subseteq> {..<n}" "\<not> replacement \<Longrightarrow> distinct draws" by auto
qed

lemma source_orders_Cons:
  assumes "source_orders sha identity epoch replacement i (p # ps) = Inr order" "pool_ok replacement p"
  obtains draws rest where "length draws = snd p" "set draws \<subseteq> {..<fst p}" "\<not> replacement \<Longrightarrow> distinct draws"
    "source_orders sha identity epoch replacement (Suc i) ps = Inr rest" "order = map (\<lambda>row. (i, row)) draws @ rest"
proof -
  obtain draws rest where d: "pool_draws sha (source_key identity epoch i) replacement (fst p, snd p) = Inr draws"
      "source_orders sha identity epoch replacement (Suc i) ps = Inr rest" "order = map (\<lambda>row. (i, row)) draws @ rest"
    using assms(1) by auto
  have "pool_ok replacement (fst p, snd p)" using assms(2) by simp
  note ok = pool_draws_ok [OF d(1) this]
  show thesis by (rule that [OF ok d(2,3)])
qed

lemma source_orders_range:
  "source_orders sha identity epoch replacement i pools = Inr order \<Longrightarrow> list_all (pool_ok replacement) pools \<Longrightarrow> (s, r) \<in> set order
     \<Longrightarrow> i \<le> s \<and> s < i + length pools \<and> r < fst (pools ! (s - i)) \<and> snd (pools ! (s - i)) \<noteq> 0"
proof (induction pools arbitrary: i order)
  case (Cons p ps)
  have ok: "pool_ok replacement p" "list_all (pool_ok replacement) ps" using Cons.prems(2) by simp_all
  obtain draws rest where d: "length draws = snd p" "set draws \<subseteq> {..<fst p}"
      "source_orders sha identity epoch replacement (Suc i) ps = Inr rest" "order = map (\<lambda>row. (i, row)) draws @ rest"
    by (rule source_orders_Cons [OF Cons.prems(1) ok(1)])
  show ?case
  proof (cases "(s, r) \<in> set rest")
    case True
    then show ?thesis using Cons.IH [OF d(3) ok(2)] by (simp add: nth_Cons')
  next
    case False
    then have "s = i" "r \<in> set draws" using Cons.prems(3) d(4) by auto
    then show ?thesis using d(1,2) by (cases draws) auto
  qed
qed simp

lemma source_orders_length:
  "source_orders sha identity epoch replacement i pools = Inr order \<Longrightarrow> list_all (pool_ok replacement) pools
     \<Longrightarrow> length order = sum_list (map snd pools)"
proof (induction pools arbitrary: i order)
  case (Cons p ps)
  have ok: "pool_ok replacement p" "list_all (pool_ok replacement) ps" using Cons.prems(2) by simp_all
  obtain draws rest where d: "length draws = snd p"
      "source_orders sha identity epoch replacement (Suc i) ps = Inr rest" "order = map (\<lambda>row. (i, row)) draws @ rest"
    by (rule source_orders_Cons [OF Cons.prems(1) ok(1)])
  then show ?case using Cons.IH [OF d(2) ok(2)] by simp
qed simp

lemma source_orders_quota:
  "source_orders sha identity epoch replacement i pools = Inr order \<Longrightarrow> list_all (pool_ok replacement) pools \<Longrightarrow> k < length pools
     \<Longrightarrow> length (filter (\<lambda>(s, _). s = i + k) order) = snd (pools ! k)"
proof (induction pools arbitrary: i order k)
  case (Cons p ps)
  have ok: "pool_ok replacement p" "list_all (pool_ok replacement) ps" using Cons.prems(2) by simp_all
  obtain draws rest where d: "length draws = snd p"
      "source_orders sha identity epoch replacement (Suc i) ps = Inr rest" "order = map (\<lambda>row. (i, row)) draws @ rest"
    by (rule source_orders_Cons [OF Cons.prems(1) ok(1)])
  show ?case
  proof (cases k)
    case 0
    have "filter (\<lambda>(s, _). s = i) rest = []"
      using source_orders_range [OF d(2) ok(2)] by (fastforce simp: filter_empty_conv)
    then show ?thesis using 0 d by (simp add: filter_map o_def)
  next
    case (Suc k')
    then show ?thesis using Cons.IH [OF d(2) ok(2), of k'] d(3) Cons.prems(3) by (simp add: filter_map o_def)
  qed
qed simp

lemma source_orders_distinct:
  "source_orders sha identity epoch False i pools = Inr order \<Longrightarrow> list_all (pool_ok False) pools \<Longrightarrow> distinct order"
proof (induction pools arbitrary: i order)
  case (Cons p ps)
  have ok: "pool_ok False p" "list_all (pool_ok False) ps" using Cons.prems(2) by simp_all
  obtain draws rest where d: "distinct draws"
      "source_orders sha identity epoch False (Suc i) ps = Inr rest" "order = map (\<lambda>row. (i, row)) draws @ rest"
    using source_orders_Cons [OF Cons.prems(1) ok(1)] by metis
  have "(i, row) \<notin> set rest" for row using source_orders_range [OF d(2) ok(2)] by fastforce
  then show ?case using Cons.IH [OF d(2) ok(2)] d(1,3) by (auto simp: distinct_map inj_on_def)
qed simp

lemma pools_ok: "\<not> pools_error epoch replacement pools \<Longrightarrow> list_all (pool_ok replacement) pools"
  by (fastforce simp: pools_error_def list_all_iff list_ex_iff pool_ok_def)

lemma map_nth_mset: "mset ps = mset [0..<length xs] \<Longrightarrow> mset (map (\<lambda>p. xs ! p) ps) = mset xs"
proof -
  assume "mset ps = mset [0..<length xs]"
  then have "mset (map (\<lambda>p. xs ! p) ps) = mset (map (\<lambda>p. xs ! p) [0..<length xs])" by (simp add: mset_map)
  then show ?thesis by (simp add: map_nth)
qed

lemma epoch_order_mset:
  assumes "mixture_epoch_order sha identity epoch pools strat replacement = Inr order"
  obtains base where "source_orders sha identity epoch replacement 0 pools = Inr base" "mset order = mset base"
    "list_all (pool_ok replacement) pools" "\<not> pools_error epoch replacement pools"
proof -
  have ok: "\<not> pools_error epoch replacement pools" using assms by (auto simp: mixture_epoch_order_def split: if_splits)
  then obtain base where b: "source_orders sha identity epoch replacement 0 pools = Inr base"
    using assms by (auto simp: mixture_epoch_order_def)
  have "mset order = mset base"
  proof (cases strat)
    case Weighted
    then obtain ps where "shuffle sha (interleave_key identity epoch) [0..<length base] = Inr ps" "order = map (\<lambda>p. base ! p) ps"
      using assms ok b by (auto simp: mixture_epoch_order_def)
    then show ?thesis using map_nth_mset [OF shuffle_mset] by simp
  qed (use assms ok b in \<open>simp add: mixture_epoch_order_def\<close>)
  then show thesis using that b pools_ok [OF ok] ok by blast
qed

lemma epoch_order_ok:
  assumes "mixture_epoch_order sha identity epoch pools strat replacement = Inr order"
  shows "length order = sum_list (map snd pools)"
    "(s, r) \<in> set order \<Longrightarrow> s < length pools \<and> r < fst (pools ! s) \<and> snd (pools ! s) \<noteq> 0"
    "k < length pools \<Longrightarrow> length (filter (\<lambda>(s, _). s = k) order) = snd (pools ! k)"
    "\<not> replacement \<Longrightarrow> distinct order"
proof -
  obtain base where b: "source_orders sha identity epoch replacement 0 pools = Inr base" and m: "mset order = mset base"
    and ok: "list_all (pool_ok replacement) pools" by (rule epoch_order_mset [OF assms])
  show "length order = sum_list (map snd pools)" using source_orders_length [OF b ok] mset_eq_length [OF m] by simp
  show "s < length pools \<and> r < fst (pools ! s) \<and> snd (pools ! s) \<noteq> 0" if "(s, r) \<in> set order"
    using source_orders_range [OF b ok, of s r] that mset_eq_setD [OF m] by simp
  show "length (filter (\<lambda>(s, _). s = k) order) = snd (pools ! k)" if "k < length pools"
  proof -
    have "mset (filter (\<lambda>(s, _). s = k) order) = mset (filter (\<lambda>(s, _). s = k) base)" by (simp add: m)
    from mset_eq_length [OF this] show ?thesis using source_orders_quota [OF b ok that] by simp
  qed
  show "distinct order" if "\<not> replacement" using source_orders_distinct b ok that mset_eq_imp_distinct_iff [OF m] by auto
qed

section \<open>The replay without its shortcut\<close>

text \<open>The rows a mixture can consume at all.\<close>

definition row_universe :: "mixture_source list \<Rightarrow> (uuid \<times> nat) set" where
  "row_universe sources = (\<Union>(ident, rows, quota)\<in>set sources. if quota = 0 then {} else Pair ident ` set rows)"

definition sources_distinct :: "mixture_source list \<Rightarrow> bool" where
  "sources_distinct sources \<longleftrightarrow> distinct (map fst sources) \<and> list_all (\<lambda>(_, rows, _). distinct rows) sources"

lemma universe_card:
  "sources_distinct sources \<Longrightarrow> finite (row_universe sources) \<and> card (row_universe sources) = maximum_rows sources"
proof (induction sources)
  case (Cons source sources)
  obtain ident rows quota where s: "source = (ident, rows, quota)" by (cases source)
  let ?new = "if quota = 0 then {} else Pair ident ` set rows"
  have split: "row_universe (source # sources) = ?new \<union> row_universe sources" by (simp add: row_universe_def s)
  have "ident \<notin> fst ` set sources" "distinct rows" "sources_distinct sources"
    using Cons.prems by (auto simp: sources_distinct_def s)
  moreover have "?new \<inter> row_universe sources = {}"
    using \<open>ident \<notin> fst ` set sources\<close> by (force simp: row_universe_def split: if_splits)
  moreover have "card (Pair ident ` set rows) = length rows"
    using \<open>distinct rows\<close> by (simp add: card_image inj_on_def distinct_card)
  ultimately show ?case using Cons.IH split by (simp add: card_Un_disjoint maximum_rows_def s)
qed (simp add: row_universe_def maximum_rows_def)

lemma order_references:
  assumes "mixture_epoch_order sha identity epoch (source_pools sources) strat replacement = Inr order"
  shows "reference sources ` set order \<subseteq> row_universe sources"
proof
  fix x assume "x \<in> reference sources ` set order"
  then obtain i r where ir: "(i, r) \<in> set order" "x = reference sources (i, r)" by (metis imageE surj_pair)
  obtain ident rows quota where s: "sources ! i = (ident, rows, quota)" by (cases "sources ! i")
  have range: "i < length (source_pools sources)" "r < fst (source_pools sources ! i)" "snd (source_pools sources ! i) \<noteq> 0"
    using epoch_order_ok(2) [OF assms ir(1)] by auto
  then have i: "i < length sources" by (simp add: source_pools_def)
  then have "source_pools sources ! i = (length rows, quota)" using s by (simp add: source_pools_def)
  then have r: "r < length rows" "quota \<noteq> 0" using range by simp_all
  have "(ident, rows, quota) \<in> set sources" using nth_mem [OF i] s by simp
  moreover have "x \<in> Pair ident ` set rows" using ir(2) s r(1) by (simp add: reference_def)
  ultimately show "x \<in> row_universe sources"
    unfolding row_universe_def using r(2) by (intro UN_I [of "(ident, rows, quota)"]) simp_all
qed

lemma replay_all:
  assumes "sources_distinct sources" "consumed \<subseteq> row_universe sources"
    and "\<forall>e\<in>set es. mixture_epoch_order sha identity e (source_pools sources) strat replacement = Inr (orders e)"
  shows "replay_epochs sha identity epoch cursor sources strat replacement es consumed
    = Inr (consumed \<union> (\<Union>e\<in>set es. reference sources ` set (take (epoch_count epoch cursor (quota_sum sources) e) (orders e))))"
  using assms(2,3)
proof (induction es arbitrary: consumed)
  case (Cons e es)
  have within: "reference sources ` set (take n (orders e')) \<subseteq> row_universe sources" if "e' \<in> set (e # es)" for e' n
    using order_references Cons.prems(2) that set_take_subset by fast
  show ?case
  proof (cases "card consumed = maximum_rows sources")
    case True
    then have "consumed = row_universe sources"
      using universe_card [OF assms(1)] Cons.prems(1) card_subset_eq by metis
    then show ?thesis using True within by simp blast
  next
    case False
    then show ?thesis
      using Cons.IH [of "consumed \<union> reference sources ` set (take (epoch_count epoch cursor (quota_sum sources) e) (orders e))"]
        Cons.prems within [of e] by (simp add: Un_assoc)
  qed
qed simp

text \<open>The global stream of a mixture: position \<open>p\<close> is in epoch \<open>p div n\<close>.\<close>

definition stream_at :: "(nat \<Rightarrow> 'a list) \<Rightarrow> nat \<Rightarrow> nat \<Rightarrow> 'a" where
  "stream_at orders n p = orders (p div n) ! (p mod n)"

lemma stream_epoch: "0 < n \<Longrightarrow> k < n \<Longrightarrow> stream_at orders n (e * n + k) = orders e ! k"
  by (simp add: stream_at_def)

lemma stream_prefix:
  assumes "0 < n" "cursor \<le> n" "\<And>e. e \<le> epoch \<Longrightarrow> length (orders e) = n"
  shows "(\<Union>e\<le>epoch. set (take (epoch_count epoch cursor n e) (orders e))) = stream_at orders n ` {..<epoch * n + cursor}"
proof (intro set_eqI iffI)
  fix x assume "x \<in> (\<Union>e\<le>epoch. set (take (epoch_count epoch cursor n e) (orders e)))"
  then obtain e where e: "e \<le> epoch" and "x \<in> set (take (epoch_count epoch cursor n e) (orders e))" by blast
  then obtain k where k: "k < epoch_count epoch cursor n e" "k < n" "x = orders e ! k"
    using assms(2) assms(3) [OF e] by (auto simp: in_set_conv_nth)
  have "e * n + k < epoch * n + cursor"
  proof (cases "e = epoch")
    case False
    then have "Suc e * n \<le> epoch * n" using e by (intro mult_le_mono1) simp
    then show ?thesis using k(2) by simp
  qed (use k in \<open>simp add: epoch_count_def\<close>)
  then show "x \<in> stream_at orders n ` {..<epoch * n + cursor}"
    using k stream_epoch [OF assms(1) k(2)] by (metis image_eqI lessThan_iff)
next
  fix x assume "x \<in> stream_at orders n ` {..<epoch * n + cursor}"
  then obtain p where p: "p < epoch * n + cursor" "x = orders (p div n) ! (p mod n)" by (auto simp: stream_at_def)
  have mod: "p mod n < n" using assms(1) by simp
  have "p div n \<le> epoch"
  proof (rule ccontr)
    assume "\<not> ?thesis"
    then have "(epoch + 1) * n \<le> p div n * n" by (intro mult_le_mono1) simp
    then have "(epoch + 1) * n \<le> p" using div_times_less_eq_dividend order_trans by blast
    then show False using p(1) assms(2) by simp
  qed
  moreover have "p mod n < cursor" if "p div n = epoch"
    using p(1) that div_mult_mod_eq [of p n] by simp
  ultimately have "x \<in> set (take (epoch_count epoch cursor n (p div n)) (orders (p div n)))"
    using mod p(2) assms(3) [of "p div n"] by (auto simp: in_set_conv_nth epoch_count_def)
  then show "x \<in> (\<Union>e\<le>epoch. set (take (epoch_count epoch cursor n e) (orders e)))"
    using \<open>p div n \<le> epoch\<close> by blast
qed

lemma quota_pools: "sum_list (map snd (source_pools sources)) = quota_sum sources"
  by (induction sources) (auto simp: source_pools_def quota_sum_def)

text \<open>The replay gives the rows at the positions of the stream before the cursor.\<close>

lemma consumed_stream:
  assumes "sources_distinct sources" "1 \<le> quota_sum sources" "quota_sum sources \<le> 16000000" "cursor \<le> quota_sum sources"
    "epoch \<le> 6400000" "epoch * quota_sum sources + cursor \<le> 409600000"
    and orders: "\<And>e. e \<le> epoch \<Longrightarrow> mixture_epoch_order sha identity e (source_pools sources) strat replacement = Inr (orders e)"
  shows "consumed_mixture_rows sha identity epoch cursor sources strat replacement
    = Inr ((\<lambda>p. reference sources (stream_at orders (quota_sum sources) p)) ` {..<epoch * quota_sum sources + cursor})"
proof -
  have len: "length (orders e) = quota_sum sources" if "e \<le> epoch" for e
    using epoch_order_ok(1) [OF orders [OF that]] by (simp add: quota_pools)
  have upto: "set [0..<epoch + 1] = {..epoch}" by auto
  have "\<forall>e\<in>set [0..<epoch + 1]. mixture_epoch_order sha identity e (source_pools sources) strat replacement = Inr (orders e)"
    unfolding upto using orders by simp
  from replay_all [OF assms(1) _ this, of "{}" epoch cursor]
  have "replay_epochs sha identity epoch cursor sources strat replacement [0..<epoch + 1] {}
      = Inr (\<Union>e\<le>epoch. reference sources ` set (take (epoch_count epoch cursor (quota_sum sources) e) (orders e)))"
    unfolding upto by simp
  also have "(\<Union>e\<le>epoch. reference sources ` set (take (epoch_count epoch cursor (quota_sum sources) e) (orders e)))
      = reference sources ` stream_at orders (quota_sum sources) ` {..<epoch * quota_sum sources + cursor}"
    using stream_prefix [of "quota_sum sources" cursor epoch orders] assms(2,4) len by (simp add: image_UN [symmetric])
  finally show ?thesis using assms(2-6) by (simp add: consumed_mixture_rows_def Let_def image_image)
qed

end
