(* ===== verification/Training_Sampler.thy ===== *)
theory Training_Sampler
  imports Training_Sampling
begin

text \<open>
  The sampler that feeds a training job on a node (\<^verbatim>\<open>MixtureSampler\<close> in \<^verbatim>\<open>coire_node/training/sampler.py\<close> and
  \<^verbatim>\<open>index_training_source\<close> in \<^verbatim>\<open>coire_node/training/datasets.py\<close>): the indexed sources, the batches, and the
  checkpoint that a later attempt restores. The digest of the sampler's identity is a parameter of its payload.
\<close>

section \<open>Examples and sources\<close>

record tokenized_example =
  te_row :: nat
  te_content :: string
  te_tokens :: "int list"
  te_mask :: "bool list"
  te_target :: nat

definition hex_digest :: "string \<Rightarrow> bool" where
  "hex_digest s \<longleftrightarrow> length s = 64 \<and> list_all (\<lambda>c. c \<in> set ''0123456789abcdef'') s"

definition example_valid :: "tokenized_example \<Rightarrow> bool" where
  "example_valid e \<longleftrightarrow> 1 \<le> te_row e \<and> hex_digest (te_content e)
     \<and> 2 \<le> length (te_tokens e) \<and> length (te_tokens e) \<le> 8192 \<and> 2 \<le> length (te_mask e) \<and> length (te_mask e) \<le> 8192
     \<and> 1 \<le> te_target e \<and> te_target e \<le> 8192
     \<and> length (te_tokens e) = length (te_mask e) \<and> te_target e < length (te_tokens e)
     \<and> list_all (\<lambda>t. 0 \<le> t \<and> t < 2 ^ 31) (te_tokens e)
     \<and> list_all Not (take (te_target e) (te_mask e)) \<and> list_all id (drop (te_target e) (te_mask e))"

record indexed_source =
  ix_dataset :: uuid
  ix_source :: string
  ix_split :: string
  ix_rows :: "nat list"
  ix_examples :: "tokenized_example list"
  ix_quota :: nat

fun cached_examples :: "(nat, tokenized_example) pydict \<Rightarrow> nat list \<Rightarrow> tokenized_example list attempt" where
  "cached_examples cache [] = Inr []"
| "cached_examples cache (row # rows) =
    (case dict_get cache row of
       None \<Rightarrow> Inl Training_validation
     | Some e \<Rightarrow>
         if te_row e \<noteq> row then Inl Training_validation
         else if \<not> example_valid e then Inl Value_error
         else andthen (cached_examples cache rows) (\<lambda>es. Inr (e # es)))"

definition index_training_source ::
  "uuid \<Rightarrow> string \<Rightarrow> string \<Rightarrow> nat list \<Rightarrow> (nat, tokenized_example) pydict \<Rightarrow> nat \<Rightarrow> indexed_source attempt" where
  "index_training_source dataset source split_sha rows cache quota =
    (if \<not> (1 \<le> length rows \<and> length rows \<le> 1000000) \<or> \<not> distinct rows \<or> list_ex (\<lambda>r. r < 1) rows \<or> \<not> quota \<le> 16000000
        \<or> \<not> hex_digest source \<or> \<not> hex_digest split_sha
     then Inl Training_validation
     else andthen (cached_examples cache rows) (\<lambda>es. Inr
       \<lparr>ix_dataset = dataset, ix_source = source, ix_split = split_sha, ix_rows = rows, ix_examples = es, ix_quota = quota\<rparr>))"

section \<open>The sampler\<close>

record mixture_sampler =
  sm_sources :: "indexed_source list"
  sm_samples :: nat
  sm_batch :: nat
  sm_seed :: nat
  sm_length :: nat
  sm_strategy :: strategy
  sm_replacement :: bool
  sm_rank :: nat
  sm_world :: nat
  sm_identity :: string
  sm_epoch :: nat
  sm_cursor :: nat
  sm_order :: "(nat \<times> nat) list"
  sm_references :: "(uuid \<times> nat) list"

text \<open>What the identity of a sampler is the digest of; the rank is not part of it.\<close>

type_synonym sampler_payload =
  "(string \<times> nat \<times> strategy \<times> bool \<times> nat \<times> nat \<times> nat)
   \<times> (uuid \<times> string \<times> string \<times> nat list \<times> nat \<times> (string \<times> int list \<times> bool list) list) list"

definition source_payload ::
  "indexed_source \<Rightarrow> uuid \<times> string \<times> string \<times> nat list \<times> nat \<times> (string \<times> int list \<times> bool list) list" where
  "source_payload s = (ix_dataset s, ix_source s, ix_split s, ix_rows s, ix_quota s,
     map (\<lambda>e. (te_content e, te_tokens e, te_mask e)) (ix_examples s))"

definition sampler_pools :: "indexed_source list \<Rightarrow> (nat \<times> nat) list" where
  "sampler_pools ss = map (\<lambda>s. (length (ix_rows s), ix_quota s)) ss"

definition epoch_order :: "(string \<Rightarrow> nat) \<Rightarrow> mixture_sampler \<Rightarrow> nat \<Rightarrow> (nat \<times> nat) list attempt" where
  "epoch_order sha s epoch =
     mixture_epoch_order sha (sm_identity s) epoch (sampler_pools (sm_sources s)) (sm_strategy s) (sm_replacement s)"

fun index_all :: "indexed_source list \<Rightarrow> indexed_source list attempt" where
  "index_all [] = Inr []"
| "index_all (s # ss) =
    andthen (index_training_source (ix_dataset s) (ix_source s) (ix_split s) (ix_rows s)
        (fold (\<lambda>e. dict_set (te_row e) e) (ix_examples s) []) (ix_quota s)) (\<lambda>x.
    andthen (index_all ss) (\<lambda>xs. Inr (x # xs)))"

definition configuration_ok :: "indexed_source list \<Rightarrow> string \<Rightarrow> nat \<Rightarrow> nat \<Rightarrow> nat \<Rightarrow> nat \<Rightarrow> nat \<Rightarrow> bool" where
  "configuration_ok ss mixture batch seed max_length rank world \<longleftrightarrow>
     1 \<le> length ss \<and> length ss \<le> 16 \<and> card (set (map ix_dataset ss)) = length ss \<and> seed < 2 ^ 32 \<and> 1 \<le> batch \<and> batch \<le> 64
   \<and> (world = 1 \<or> world = 2) \<and> rank < world \<and> batch mod world = 0 \<and> 2 \<le> max_length \<and> max_length \<le> 8192 \<and> hex_digest mixture"

definition init_sampler ::
  "(string \<Rightarrow> nat) \<Rightarrow> (sampler_payload \<Rightarrow> string) \<Rightarrow> indexed_source list \<Rightarrow> string \<Rightarrow> nat \<Rightarrow> nat \<Rightarrow> nat \<Rightarrow> strategy \<Rightarrow> bool \<Rightarrow> nat \<Rightarrow> nat
     \<Rightarrow> mixture_sampler attempt" where
  "init_sampler sha ident given mixture batch seed max_length strat replacement rank world =
    (if \<not> configuration_ok given mixture batch seed max_length rank world then Inl Training_validation
     else andthen (index_all given) (\<lambda>ss.
       let samples = sum_list (map ix_quota ss) in
       if \<not> (1 \<le> samples \<and> samples \<le> 16000000) \<or> list_ex (\<lambda>s. \<not> replacement \<and> ix_quota s > length (ix_rows s)) ss
       then Inl Training_validation
       else if list_ex (\<lambda>s. list_ex (\<lambda>e. length (te_tokens e) > max_length) (ix_examples s)) ss then Inl Training_validation
       else (let s = \<lparr>sm_sources = ss, sm_samples = samples, sm_batch = batch, sm_seed = seed, sm_length = max_length,
                sm_strategy = strat, sm_replacement = replacement, sm_rank = rank, sm_world = world,
                sm_identity = ident ((mixture, seed, strat, replacement, batch, world, max_length), map source_payload ss),
                sm_epoch = 0, sm_cursor = 0, sm_order = [], sm_references = []\<rparr> in
             andthen (epoch_order sha s 0) (\<lambda>order. Inr (s\<lparr>sm_order := order\<rparr>)))))"

section \<open>Batches\<close>

text \<open>The loop of \<^verbatim>\<open>next_batch\<close>. It ends because an epoch has samples, which the constructor has checked.\<close>

partial_function (option) collect_references ::
  "(string \<Rightarrow> nat) \<Rightarrow> mixture_sampler \<Rightarrow> nat \<Rightarrow> nat \<Rightarrow> (nat \<times> nat) list \<Rightarrow> (nat \<times> nat) list
     \<Rightarrow> (nat \<times> nat \<times> (nat \<times> nat) list \<times> (nat \<times> nat) list) attempt option" where
  "collect_references sha s epoch cursor order refs =
    (if sm_batch s \<le> length refs then Some (Inr (epoch, cursor, order, refs))
     else case (if cursor = sm_samples s then andthen (epoch_order sha s (epoch + 1)) (\<lambda>order'. Inr (epoch + 1, 0, order'))
                else Inr (epoch, cursor, order)) of
       Inl e \<Rightarrow> Some (Inl e)
     | Inr (epoch', cursor', order') \<Rightarrow>
         collect_references sha s epoch' (cursor' + min (sm_batch s - length refs) (sm_samples s - cursor')) order'
           (refs @ take (min (sm_batch s - length refs) (sm_samples s - cursor')) (drop cursor' order')))"

text \<open>\<^verbatim>\<open>xs[rank :: world]\<close>\<close>

definition strided :: "nat \<Rightarrow> nat \<Rightarrow> 'a list \<Rightarrow> 'a list" where
  "strided rank world xs = map snd (filter (\<lambda>(i, _). rank \<le> i \<and> (i - rank) mod world = 0) (zip [0..<length xs] xs))"

record sft_batch =
  bt_tokens :: "int list list"
  bt_masks :: "bool list list"
  bt_rows :: "nat list"

definition row_supervised :: "int list \<Rightarrow> bool list \<Rightarrow> bool" where
  "row_supervised tokens targets \<longleftrightarrow> length tokens = length targets \<and> \<not> targets ! 0 \<and> list_ex id (drop 1 targets)
     \<and> list_all (\<lambda>t. 0 \<le> t \<and> t < 2 ^ 31) tokens"

definition batch_valid :: "sft_batch \<Rightarrow> bool" where
  "batch_valid b \<longleftrightarrow>
     1 \<le> length (bt_tokens b) \<and> length (bt_tokens b) \<le> 64 \<and> 1 \<le> length (bt_masks b) \<and> length (bt_masks b) \<le> 64
   \<and> 1 \<le> length (bt_rows b) \<and> length (bt_rows b) \<le> 64
   \<and> length (bt_tokens b) = length (bt_masks b) \<and> length (bt_tokens b) = length (bt_rows b)
   \<and> (case remdups (map length (bt_tokens b)) of [w] \<Rightarrow> 2 \<le> w \<and> w \<le> 8192 | _ \<Rightarrow> False)
   \<and> list_all2 row_supervised (bt_tokens b) (bt_masks b)"

definition example_of :: "mixture_sampler \<Rightarrow> nat \<times> nat \<Rightarrow> tokenized_example" where
  "example_of s ref = ix_examples (sm_sources s ! fst ref) ! snd ref"

definition row_of :: "mixture_sampler \<Rightarrow> nat \<times> nat \<Rightarrow> uuid \<times> nat" where
  "row_of s ref = (ix_dataset (sm_sources s ! fst ref), ix_rows (sm_sources s ! fst ref) ! snd ref)"

definition batch_width :: "nat \<Rightarrow> tokenized_example list \<Rightarrow> nat" where
  "batch_width max_length es = min max_length ((Max (set (map (length \<circ> te_tokens) es)) + 31) div 32 * 32)"

definition batch_of :: "nat \<Rightarrow> tokenized_example list \<Rightarrow> sft_batch" where
  "batch_of width es =
    \<lparr>bt_tokens = map (\<lambda>e. te_tokens e @ replicate (width - length (te_tokens e)) 0) es,
     bt_masks = map (\<lambda>e. te_mask e @ replicate (width - length (te_tokens e)) False) es,
     bt_rows = map te_row es\<rparr>"

definition finish_batch ::
  "mixture_sampler \<Rightarrow> nat \<Rightarrow> nat \<Rightarrow> (nat \<times> nat) list \<Rightarrow> (nat \<times> nat) list \<Rightarrow> (sft_batch \<times> mixture_sampler) attempt" where
  "finish_batch s epoch cursor order refs =
    (let all_examples = map (example_of s) refs;
         b = batch_of (batch_width (sm_length s) all_examples) (strided (sm_rank s) (sm_world s) all_examples) in
     if \<not> batch_valid b then Inl Value_error
     else Inr (b, s\<lparr>sm_epoch := epoch, sm_cursor := cursor, sm_order := order,
            sm_references := map (row_of s) (strided (sm_rank s) (sm_world s) refs)\<rparr>))"

definition next_batch :: "(string \<Rightarrow> nat) \<Rightarrow> mixture_sampler \<Rightarrow> (sft_batch \<times> mixture_sampler) attempt option" where
  "next_batch sha s =
    map_option (\<lambda>r. andthen r (\<lambda>(epoch, cursor, order, refs). finish_batch s epoch cursor order refs))
      (collect_references sha s (sm_epoch s) (sm_cursor s) (sm_order s) [])"

section \<open>Checkpoints\<close>

record mixture_state =
  st_identity :: string
  st_epoch :: nat
  st_cursor :: nat
  st_rank :: nat
  st_world :: nat

text \<open>The state of the sampler of \<open>Training_Single\<close>, with the state of Python's generator: its version, its words and its cached deviate.\<close>

type_synonym rng_state = "nat \<times> nat list \<times> rat option"

record single_state =
  sl_sha :: string
  sl_rows :: nat
  sl_batch :: nat
  sl_length :: nat
  sl_epoch :: nat
  sl_cursor :: nat
  sl_permutation :: "nat list"
  sl_rng :: rng_state

datatype sampler_state = Mixture_state mixture_state | Single_source_state single_state

definition state_valid :: "mixture_state \<Rightarrow> bool" where
  "state_valid st \<longleftrightarrow> hex_digest (st_identity st) \<and> st_epoch st < 2 ^ 64 \<and> st_cursor st \<le> 16000000 \<and> st_rank st \<le> 1
     \<and> (st_world st = 1 \<or> st_world st = 2) \<and> st_rank st < st_world st"

definition snapshot :: "mixture_sampler \<Rightarrow> mixture_state attempt" where
  "snapshot s =
    (let st = \<lparr>st_identity = sm_identity s, st_epoch = sm_epoch s, st_cursor = sm_cursor s, st_rank = sm_rank s, st_world = sm_world s\<rparr> in
     if state_valid st then Inr st else Inl Value_error)"

definition restore :: "(string \<Rightarrow> nat) \<Rightarrow> sampler_state \<Rightarrow> mixture_sampler \<Rightarrow> mixture_sampler attempt" where
  "restore sha state s =
    (case state of
       Single_source_state _ \<Rightarrow> Inl Training_conflict
     | Mixture_state st \<Rightarrow>
         if \<not> state_valid st then Inl Training_validation
         else if \<not> st_cursor st \<le> sm_samples s \<or> (st_epoch st * sm_samples s + st_cursor st) mod sm_batch s \<noteq> 0
         then Inl Training_validation
         else if st_identity st \<noteq> sm_identity s \<or> st_rank st \<noteq> sm_rank s \<or> st_world st \<noteq> sm_world s then Inl Training_conflict
         else andthen (epoch_order sha s (st_epoch st)) (\<lambda>order.
           Inr (s\<lparr>sm_epoch := st_epoch st, sm_cursor := st_cursor st, sm_order := order, sm_references := []\<rparr>)))"

end
