(* ===== verification/Training_Stream.thy ===== *)
theory Training_Stream
  imports Training_Sampler
begin

text \<open>
  What a sampler hands out is the global stream of its mixture, and every call ends. The facts here carry the guarantees
  of \<open>Training_Guarantees\<close>.
\<close>

section \<open>Draws succeed for a fair digest\<close>

text \<open>
  No run of \<open>2 ^ 100\<close> counters has only rejected digests. A digest is rejected when it is among the last \<open>2 ^ 256 mod bound\<close>
  of its \<open>2 ^ 256\<close> values.
\<close>

definition digest_fair :: "(string \<Rightarrow> nat) \<Rightarrow> bool" where
  "digest_fair sha \<longleftrightarrow> (\<forall>key c bound. 1 \<le> bound \<and> bound \<le> 16000000 \<longrightarrow> (\<exists>n<2 ^ 100. sha (key @ counter_bytes (c + n)) < draw_limit bound))"

lemma fair_below:
  assumes "digest_fair sha" "1 \<le> bound" "bound \<le> 16000000" "c + 2 ^ 100 \<le> 2 ^ 128"
  shows "\<exists>v c'. below sha key bound c = Inr (v, c') \<and> c' \<le> c + 2 ^ 100"
proof -
  obtain n where n: "n < 2 ^ 100" "sha (key @ counter_bytes (c + n)) < draw_limit bound"
    using assms(1-3) unfolding digest_fair_def by blast
  have "c + n < 2 ^ 128" using n(1) assms(4) by linarith
  then obtain v c' where "below sha key bound c = Inr (v, c')" "c' \<le> c + n + 1"
    using below_accepts [of bound c n sha key] n(2) assms(2) by auto
  then show ?thesis using n(1) by (intro exI [of _ v] exI [of _ c']) linarith
qed

lemma fair_shuffle_down:
  assumes "digest_fair sha"
  shows "i + 1 \<le> 16000000 \<Longrightarrow> c + i * 2 ^ 100 \<le> 2 ^ 128 \<Longrightarrow> \<exists>ys. shuffle_down sha key i c xs = Inr ys"
proof (induction i arbitrary: c xs)
  case (Suc i)
  obtain v c' where b: "below sha key (Suc i + 1) c = Inr (v, c')" "c' \<le> c + 2 ^ 100"
    using fair_below [OF assms, of "Suc i + 1" c key] Suc.prems by auto
  have "\<exists>ys. shuffle_down sha key i c' (exchange (Suc i) v xs) = Inr ys"
    using Suc.IH [of c' "exchange (Suc i) v xs"] Suc.prems b(2) by simp
  then show ?case using b(1) by simp
qed simp

lemma fair_shuffle:
  assumes "digest_fair sha" "length xs \<le> 16000000"
  shows "\<exists>ys. shuffle sha key xs = Inr ys"
proof (cases xs)
  case (Cons x xs')
  then have "(length xs - 1) * 2 ^ 100 \<le> 16000000 * 2 ^ 100" using assms(2) by (intro mult_le_mono1) simp
  also have "\<dots> \<le> (2 :: nat) ^ 128" by simp
  finally show ?thesis using fair_shuffle_down [OF assms(1), of "length xs - 1" 0] assms(2) Cons by (simp add: shuffle_def)
qed (simp add: shuffle_def)

lemma fair_draw_many:
  assumes "digest_fair sha" "1 \<le> bound" "bound \<le> 16000000"
  shows "c + n * 2 ^ 100 \<le> 2 ^ 128 \<Longrightarrow> \<exists>vs. draw_many sha key bound n c = Inr vs"
proof (induction n arbitrary: c)
  case (Suc n)
  obtain v c' where b: "below sha key bound c = Inr (v, c')" "c' \<le> c + 2 ^ 100"
    using fair_below [OF assms, of c key] Suc.prems by auto
  then show ?case using Suc.IH [of c'] Suc.prems by fastforce
qed simp

lemma fair_pool_draws:
  assumes "digest_fair sha" "1 \<le> n" "n \<le> 1000000" "q \<le> 16000000"
  shows "\<exists>draws. pool_draws sha key replacement (n, q) = Inr draws"
proof (cases replacement)
  case True
  have "q * 2 ^ 100 \<le> 16000000 * 2 ^ 100" using assms(4) by (intro mult_le_mono1)
  also have "\<dots> \<le> (2 :: nat) ^ 128" by simp
  finally show ?thesis using True fair_draw_many [OF assms(1,2), of 0 q key] assms(3) by (simp add: pool_draws_def)
next
  case False
  then show ?thesis using fair_shuffle [OF assms(1), of "[0..<n]" key] assms(3) by (auto simp: pool_draws_def)
qed

definition pool_bounded :: "nat \<times> nat \<Rightarrow> bool" where
  "pool_bounded pool \<longleftrightarrow> 1 \<le> fst pool \<and> fst pool \<le> 1000000 \<and> snd pool \<le> 16000000"

lemma fair_source_orders:
  assumes "digest_fair sha"
  shows "list_all pool_bounded pools \<Longrightarrow> \<exists>order. source_orders sha identity epoch replacement i pools = Inr order"
proof (induction pools arbitrary: i)
  case (Cons p ps)
  obtain draws where "pool_draws sha (source_key identity epoch i) replacement (fst p, snd p) = Inr draws"
    using fair_pool_draws [OF assms, of "fst p" "snd p"] Cons.prems by (auto simp: pool_bounded_def)
  then show ?case using Cons.IH [of "i + 1"] Cons.prems by auto
qed simp

lemma fair_epoch_order:
  assumes "digest_fair sha" "\<not> pools_error epoch replacement pools"
  shows "\<exists>order. mixture_epoch_order sha identity epoch pools strat replacement = Inr order"
proof -
  have "list_all pool_bounded pools" using assms(2) by (fastforce simp: pools_error_def pool_bounded_def list_all_iff list_ex_iff)
  then obtain order where o: "source_orders sha identity epoch replacement 0 pools = Inr order"
    using fair_source_orders [OF assms(1)] by blast
  have "length order \<le> 16000000"
    using source_orders_length [OF o pools_ok [OF assms(2)]] assms(2) by (simp add: pools_error_def)
  then obtain ps where "shuffle sha (interleave_key identity epoch) [0..<length order] = Inr ps"
    using fair_shuffle [OF assms(1), of "[0..<length order]"] by auto
  then show ?thesis using assms(2) o by (cases strat) (simp_all add: mixture_epoch_order_def)
qed

section \<open>The loop of a batch\<close>

definition order_of :: "(string \<Rightarrow> nat) \<Rightarrow> mixture_sampler \<Rightarrow> nat \<Rightarrow> (nat \<times> nat) list" where
  "order_of sha s e = (case epoch_order sha s e of Inl _ \<Rightarrow> [] | Inr order \<Rightarrow> order)"

abbreviation stream :: "(string \<Rightarrow> nat) \<Rightarrow> mixture_sampler \<Rightarrow> nat \<Rightarrow> nat \<times> nat" where
  "stream sha s \<equiv> stream_at (order_of sha s) (sm_samples s)"

definition samples_ok :: "mixture_sampler \<Rightarrow> bool" where
  "samples_ok s \<longleftrightarrow> 1 \<le> sm_samples s \<and> sm_samples s = sum_list (map ix_quota (sm_sources s))"

lemma epoch_order_length: "samples_ok s \<Longrightarrow> epoch_order sha s e = Inr order \<Longrightarrow> length order = sm_samples s"
  unfolding epoch_order_def by (drule epoch_order_ok(1)) (simp add: samples_ok_def sampler_pools_def o_def)

lemma stream_slice:
  assumes "samples_ok s" "epoch_order sha s e = Inr order" "cursor + n \<le> sm_samples s"
  shows "take n (drop cursor order) = map (stream sha s) [e * sm_samples s + cursor..<e * sm_samples s + cursor + n]"
proof (rule nth_equalityI)
  have len: "length order = sm_samples s" by (rule epoch_order_length [OF assms(1,2)])
  then show "length (take n (drop cursor order)) = length (map (stream sha s) [e * sm_samples s + cursor..<e * sm_samples s + cursor + n])"
    using assms(3) by simp
  fix k assume "k < length (take n (drop cursor order))"
  then have "k < n" using assms(3) len by simp
  then show "take n (drop cursor order) ! k = map (stream sha s) [e * sm_samples s + cursor..<e * sm_samples s + cursor + n] ! k"
    using stream_epoch [of "sm_samples s" "cursor + k" "order_of sha s" e] assms len
    by (simp add: samples_ok_def order_of_def add.assoc)
qed

text \<open>What the loop gives from a position of the stream: the rest of the batch, and the position behind it.\<close>

definition collected :: "(string \<Rightarrow> nat) \<Rightarrow> mixture_sampler \<Rightarrow> nat \<Rightarrow> nat \<Rightarrow> (nat \<times> nat) list
    \<Rightarrow> nat \<times> nat \<times> (nat \<times> nat) list \<times> (nat \<times> nat) list \<Rightarrow> bool" where
  "collected sha s epoch position refs result \<longleftrightarrow> (case result of (epoch', cursor', order', refs') \<Rightarrow>
     refs' = refs @ map (stream sha s) [position..<position + (sm_batch s - length refs)]
   \<and> epoch' * sm_samples s + cursor' = position + (sm_batch s - length refs) \<and> cursor' \<le> sm_samples s \<and> epoch \<le> epoch'
   \<and> epoch_order sha s epoch' = Inr order' \<and> (\<forall>e. epoch \<le> e \<and> e \<le> epoch' \<longrightarrow> (\<exists>order. epoch_order sha s e = Inr order)))"

lemma collect_returns:
  assumes "samples_ok s"
  shows "cursor \<le> sm_samples s \<Longrightarrow> epoch_order sha s epoch = Inr order \<Longrightarrow> length refs \<le> sm_batch s
    \<Longrightarrow> \<exists>r. collect_references sha s epoch cursor order refs = Some r
      \<and> (\<forall>x. r = Inr x \<longrightarrow> collected sha s epoch (epoch * sm_samples s + cursor) refs x)
      \<and> (\<forall>e. r = Inl e \<longrightarrow> (\<exists>e'. e' * sm_samples s < epoch * sm_samples s + cursor + (sm_batch s - length refs) \<and> epoch_order sha s e' = Inl e))"
proof (induction "sm_batch s - length refs" arbitrary: epoch cursor order refs rule: less_induct)
  case less
  note unfold = collect_references.simps [of sha s epoch cursor order refs]
  show ?case
  proof (cases "sm_batch s \<le> length refs")
    case True
    then show ?thesis using less.prems unfold by (auto simp: collected_def order.antisym)
  next
    case False
    define entry where "entry = (if cursor = sm_samples s
      then andthen (epoch_order sha s (epoch + 1)) (\<lambda>order'. Inr (epoch + 1, 0, order')) else Inr (epoch, cursor, order))"
    show ?thesis
    proof (cases entry)
      case (Inl e)
      then have "cursor = sm_samples s" "epoch_order sha s (epoch + 1) = Inl e"
        unfolding entry_def by (cases "epoch_order sha s (epoch + 1)"; simp split: if_splits)+
      then show ?thesis using False Inl unfold by (intro exI [of _ "Inl e"]) (auto simp: entry_def intro!: exI [of _ "epoch + 1"])
    next
      case (Inr next_entry)
      obtain epoch' cursor' order' where n: "next_entry = (epoch', cursor', order')" by (cases next_entry)
      have at: "epoch_order sha s epoch' = Inr order'" "cursor' < sm_samples s" "epoch \<le> epoch'" "epoch' \<le> epoch + 1"
          "epoch' * sm_samples s + cursor' = epoch * sm_samples s + cursor"
        using Inr n less.prems(1,2) assms unfolding entry_def by (auto simp: samples_ok_def split: if_splits)
      define m where "m = min (sm_batch s - length refs) (sm_samples s - cursor')"
      have m: "0 < m" "m \<le> sm_batch s - length refs" "cursor' + m \<le> sm_samples s" using False at(2) by (auto simp: m_def)
      let ?refs = "refs @ take m (drop cursor' order')"
      have len: "length ?refs = length refs + m" using epoch_order_length [OF assms at(1)] m(3) by simp
      have step: "collect_references sha s epoch cursor order refs = collect_references sha s epoch' (cursor' + m) order' ?refs"
        using False Inr n unfold by (simp add: entry_def m_def)
      have "sm_batch s - length ?refs < sm_batch s - length refs" "length ?refs \<le> sm_batch s" using len m False by simp_all
      from less.hyps [OF this(1) m(3) at(1) this(2)]
      obtain r where r: "collect_references sha s epoch' (cursor' + m) order' ?refs = Some r"
        "\<forall>x. r = Inr x \<longrightarrow> collected sha s epoch' (epoch' * sm_samples s + (cursor' + m)) ?refs x"
        "\<forall>e. r = Inl e \<longrightarrow> (\<exists>e'. e' * sm_samples s < epoch' * sm_samples s + (cursor' + m) + (sm_batch s - length ?refs) \<and> epoch_order sha s e' = Inl e)"
        by blast
      define p n where "p = epoch * sm_samples s + cursor" and "n = sm_batch s - length refs"
      have p: "epoch' * sm_samples s + (cursor' + m) = p + m" and rest: "sm_batch s - length ?refs = n - m" and mn: "m \<le> n"
        and ends: "p + m + (n - m) = p + n"
        using at(5) len m(2) by (simp_all add: p_def n_def)
      have slice: "take m (drop cursor' order') = map (stream sha s) [p..<p + m]"
        using stream_slice [OF assms at(1) m(3)] at(5) by (simp add: p_def)
      have upto: "[p..<p + m] @ [p + m..<p + n] = [p..<p + n]"
        using upt_add_eq_append [of p "p + m" "n - m"] ends by simp
      have "collected sha s epoch p refs x" if "r = Inr x" for x
      proof -
        obtain e2 c2 o2 refs2 where x: "x = (e2, c2, o2, refs2)" by (cases x)
        have c: "refs2 = refs @ map (stream sha s) [p..<p + m] @ map (stream sha s) [p + m..<p + n]"
            "e2 * sm_samples s + c2 = p + n" "c2 \<le> sm_samples s" "epoch' \<le> e2" "epoch_order sha s e2 = Inr o2"
            "\<And>e. epoch' \<le> e \<Longrightarrow> e \<le> e2 \<Longrightarrow> \<exists>order. epoch_order sha s e = Inr order"
          using r(2) [rule_format, OF that] unfolding x collected_def p rest ends unfolding slice by simp_all
        have "refs2 = refs @ map (stream sha s) [p..<p + n]" using c(1) upto by (metis map_append)
        moreover have "\<exists>order. epoch_order sha s e = Inr order" if "epoch \<le> e" "e \<le> e2" for e
          using that at(4) less.prems(2) c(6) [of e] by (cases "e = epoch") auto
        ultimately show ?thesis using c(2-5) at(3) unfolding x collected_def n_def [symmetric] by simp
      qed
      moreover have "\<exists>e'. e' * sm_samples s < p + n \<and> epoch_order sha s e' = Inl e" if "r = Inl e" for e
        using r(3) that unfolding p rest ends by blast
      ultimately show ?thesis using step r(1) unfolding p_def n_def by metis
    qed
  qed
qed

section \<open>Ranks\<close>

lemma strided_filter: "rank < world \<Longrightarrow> strided rank world xs = map snd (filter (\<lambda>(i, _). i mod world = rank) (zip [0..<length xs] xs))"
proof -
  assume r: "rank < world"
  have "rank \<le> i \<and> (i - rank) mod world = 0 \<longleftrightarrow> i mod world = rank" for i
    using r by (metis diff_le_self le_mod_geq mod_less mod_eq_dvd_iff_nat dvd_eq_mod_eq_0 mod_less_eq_dividend)
  then show ?thesis by (simp add: strided_def)
qed

lemma strided_map: "strided rank world (map f xs) = map f (strided rank world xs)"
  by (simp add: strided_def zip_map2 filter_map o_def case_prod_unfold)

lemma filter_residues: "0 < world \<Longrightarrow> (\<Sum>r<world. mset (filter (\<lambda>(i, _). i mod world = r) ys)) = mset (ys :: (nat \<times> 'a) list)"
proof (induction ys)
  case (Cons y ys)
  obtain i x where y: "y = (i, x)" by (cases y)
  have "(\<Sum>r<world. mset (filter (\<lambda>(i, _). i mod world = r) (y # ys)))
      = (\<Sum>r<world. (if r = i mod world then {#y#} else {#}) + mset (filter (\<lambda>(i, _). i mod world = r) ys))"
    by (intro sum.cong) (auto simp: y)
  also have "\<dots> = {#y#} + mset ys" using Cons by (simp add: sum.distrib sum.delta)
  finally show ?case by simp
qed simp

lemma image_sum: "image_mset f (\<Sum>r<n. g r) = (\<Sum>r<n. image_mset f (g r))" for n :: nat
  by (induction n) simp_all

text \<open>Every position of a list goes to exactly one rank.\<close>

lemma strided_partition: "0 < world \<Longrightarrow> (\<Sum>r<world. mset (strided r world xs)) = mset xs"
proof -
  assume w: "0 < world"
  have "(\<Sum>r<world. mset (strided r world xs)) = image_mset snd (\<Sum>r<world. mset (filter (\<lambda>(i, _). i mod world = r) (zip [0..<length xs] xs)))"
    unfolding image_sum by (intro sum.cong) (simp_all add: strided_filter)
  also have "\<dots> = image_mset snd (mset (zip [0..<length xs] xs))" by (simp only: filter_residues [OF w])
  also have "\<dots> = mset xs" by (simp flip: mset_map)
  finally show ?thesis .
qed

lemma strided_subset: "set (strided rank world xs) \<subseteq> set xs"
  by (auto simp: strided_def dest: set_zip_rightD)

lemma strided_length: "length (strided rank world xs) \<le> length xs"
proof -
  have "length (strided rank world xs) \<le> length (zip [0..<length xs] xs)" unfolding strided_def length_map by (rule length_filter_le)
  then show ?thesis by simp
qed

lemma strided_nonempty: "rank < length xs \<Longrightarrow> strided rank world xs \<noteq> []"
proof -
  assume r: "rank < length xs"
  then have "(rank, xs ! rank) \<in> set (zip [0..<length xs] xs)" by (auto simp: in_set_zip intro!: exI [of _ rank])
  then show ?thesis by (force simp: strided_def filter_empty_conv)
qed

section \<open>Sources and batches\<close>

definition source_ok :: "nat \<Rightarrow> indexed_source \<Rightarrow> bool" where
  "source_ok max_length s \<longleftrightarrow> length (ix_examples s) = length (ix_rows s) \<and> distinct (ix_rows s)
     \<and> list_all (\<lambda>e. example_valid e \<and> length (te_tokens e) \<le> max_length) (ix_examples s)"

lemma cached_examples_ok: "cached_examples cache rows = Inr es \<Longrightarrow> length es = length rows \<and> list_all example_valid es"
  by (induction rows arbitrary: es) (auto split: option.splits if_splits)

lemma index_source_ok:
  "index_training_source dataset source split_sha rows cache quota = Inr s
     \<Longrightarrow> ix_dataset s = dataset \<and> ix_rows s = rows \<and> ix_quota s = quota \<and> length (ix_examples s) = length rows \<and> distinct rows
       \<and> list_all example_valid (ix_examples s) \<and> 1 \<le> length rows \<and> length rows \<le> 1000000 \<and> quota \<le> 16000000"
  by (auto simp: index_training_source_def dest: cached_examples_ok split: if_splits)

definition source_rows :: "indexed_source \<Rightarrow> mixture_source" where
  "source_rows s = (ix_dataset s, ix_rows s, ix_quota s)"

lemma index_all_ok:
  "index_all given = Inr ss \<Longrightarrow> map source_rows ss = map source_rows given
     \<and> list_all (\<lambda>s. length (ix_examples s) = length (ix_rows s) \<and> distinct (ix_rows s) \<and> list_all example_valid (ix_examples s)
          \<and> 1 \<le> length (ix_rows s) \<and> length (ix_rows s) \<le> 1000000 \<and> ix_quota s \<le> 16000000) ss"
  by (induction given arbitrary: ss) (auto simp: source_rows_def dest: index_source_ok)

lemma roundup: "n \<le> (n + 31) div 32 * (32 :: nat)"
  by presburger

lemma batch_width_bounds:
  assumes "es \<noteq> []" "e \<in> set es" "list_all (\<lambda>e. example_valid e \<and> length (te_tokens e) \<le> max_length) es" "max_length \<le> 8192"
  shows "length (te_tokens e) \<le> batch_width max_length es" "2 \<le> batch_width max_length es" "batch_width max_length es \<le> 8192"
proof -
  have e: "length (te_tokens e) \<le> Max (set (map (length \<circ> te_tokens) es))" "length (te_tokens e) \<le> max_length" "2 \<le> length (te_tokens e)"
    using assms(2,3) by (auto simp: list_all_iff example_valid_def)
  then show "length (te_tokens e) \<le> batch_width max_length es"
    using roundup [of "Max (set (map (length \<circ> te_tokens) es))"] by (simp add: batch_width_def)
  then show "2 \<le> batch_width max_length es" using e(3) by simp
  show "batch_width max_length es \<le> 8192" using assms(4) by (simp add: batch_width_def)
qed

text \<open>A batch of valid examples always passes the validation of its model.\<close>

lemma padded_row:
  assumes "example_valid e"
  shows "row_supervised (te_tokens e @ replicate k 0) (te_mask e @ replicate k False)"
proof -
  have t: "1 \<le> te_target e" "te_target e < length (te_mask e)" using assms by (simp_all add: example_valid_def)
  have "\<not> take (te_target e) (te_mask e) ! 0" using assms t by (auto simp: example_valid_def list_all_length)
  then have first: "\<not> te_mask e ! 0" using t by simp
  have "te_mask e ! te_target e" using assms t by (auto simp: example_valid_def list_all_length dest: spec [of _ 0])
  then have "list_ex id (drop 1 (te_mask e))" using t by (auto simp: list_ex_length intro!: exI [of _ "te_target e - 1"])
  then show ?thesis using assms t first by (auto simp: row_supervised_def example_valid_def list_all_iff nth_append)
qed

lemma batch_of_valid:
  assumes "es \<noteq> []" "length es \<le> 64" "2 \<le> w" "w \<le> 8192" "\<And>e. e \<in> set es \<Longrightarrow> example_valid e \<and> length (te_tokens e) \<le> w"
  shows "batch_valid (batch_of w es)"
proof -
  have "map length (bt_tokens (batch_of w es)) = map (\<lambda>_. w) es"
    using assms(5) by (auto simp: batch_of_def)
  moreover have "remdups (map (\<lambda>_. w) es) = [w]" if "es \<noteq> []" for es :: "tokenized_example list"
    using that by (induction es rule: list_nonempty_induct) (auto simp: image_iff)
  ultimately have "remdups (map length (bt_tokens (batch_of w es))) = [w]" using assms(1) by simp
  moreover have "list_all2 row_supervised (bt_tokens (batch_of w es)) (bt_masks (batch_of w es))"
    using assms(5) padded_row by (auto simp: batch_of_def list.rel_map intro!: list.rel_refl_strong)
  ultimately show ?thesis using assms(1-4) by (cases es) (simp_all add: batch_valid_def batch_of_def)
qed

section \<open>Samplers\<close>

text \<open>What the constructor establishes, and the position in the stream that every call keeps.\<close>

definition sampler_ok :: "mixture_sampler \<Rightarrow> bool" where
  "sampler_ok s \<longleftrightarrow> samples_ok s \<and> sm_samples s \<le> 16000000 \<and> 1 \<le> sm_batch s \<and> sm_batch s \<le> 64 \<and> (sm_world s = 1 \<or> sm_world s = 2)
     \<and> sm_rank s < sm_world s \<and> sm_batch s mod sm_world s = 0 \<and> sm_length s \<le> 8192
     \<and> list_all (source_ok (sm_length s)) (sm_sources s) \<and> distinct (map ix_dataset (sm_sources s))
     \<and> (\<forall>e. \<not> e < 2 ^ 64 \<longleftrightarrow> pools_error e (sm_replacement s) (sampler_pools (sm_sources s)))"

definition position :: "mixture_sampler \<Rightarrow> nat" where
  "position s = sm_epoch s * sm_samples s + sm_cursor s"

definition sampler_at :: "(string \<Rightarrow> nat) \<Rightarrow> mixture_sampler \<Rightarrow> bool" where
  "sampler_at sha s \<longleftrightarrow> sm_cursor s \<le> sm_samples s \<and> epoch_order sha s (sm_epoch s) = Inr (sm_order s)"

lemma init_facts:
  assumes "init_sampler sha ident given mixture batch seed max_length strat replacement rank world = Inr s"
  obtains ss where "configuration_ok given mixture batch seed max_length rank world" "index_all given = Inr ss" "sm_sources s = ss"
    "sm_samples s = sum_list (map ix_quota ss)" "1 \<le> sm_samples s" "sm_samples s \<le> 16000000"
    "list_all (\<lambda>s. replacement \<or> ix_quota s \<le> length (ix_rows s)) ss"
    "list_all (\<lambda>s. list_all (\<lambda>e. length (te_tokens e) \<le> max_length) (ix_examples s)) ss"
    "sm_batch s = batch" "sm_length s = max_length" "sm_strategy s = strat" "sm_replacement s = replacement" "sm_rank s = rank"
    "sm_world s = world" "sm_epoch s = 0" "sm_cursor s = 0" "epoch_order sha s 0 = Inr (sm_order s)" "sm_references s = []"
    "sm_identity s = ident ((mixture, seed, strat, replacement, batch, world, max_length), map source_payload ss)"
proof -
  obtain ss where "index_all given = Inr ss" "configuration_ok given mixture batch seed max_length rank world"
    using assms unfolding init_sampler_def by (auto split: if_splits)
  then show thesis
    using assms that [of ss] unfolding init_sampler_def
    by (auto simp: Let_def list_all_iff list_ex_iff not_less epoch_order_def split: if_splits)
qed

lemma init_ok:
  assumes "init_sampler sha ident given mixture batch seed max_length strat replacement rank world = Inr s"
  shows "sampler_ok s" "sampler_at sha s" "position s = 0" "map source_rows (sm_sources s) = map source_rows given"
proof -
  obtain ss where c: "configuration_ok given mixture batch seed max_length rank world" and i: "index_all given = Inr ss"
    and f: "sm_sources s = ss" "sm_samples s = sum_list (map ix_quota ss)" "1 \<le> sm_samples s" "sm_samples s \<le> 16000000"
      "list_all (\<lambda>s. replacement \<or> ix_quota s \<le> length (ix_rows s)) ss"
      "list_all (\<lambda>s. list_all (\<lambda>e. length (te_tokens e) \<le> max_length) (ix_examples s)) ss"
      "sm_batch s = batch" "sm_length s = max_length" "sm_replacement s = replacement" "sm_rank s = rank" "sm_world s = world"
    and z: "sm_epoch s = 0" "sm_cursor s = 0" "epoch_order sha s 0 = Inr (sm_order s)"
    by (rule init_facts [OF assms])
  note ix = index_all_ok [OF i]
  show "map source_rows (sm_sources s) = map source_rows given" using ix f(1) by simp
  have fst_rows: "fst \<circ> source_rows = ix_dataset" by (simp add: fun_eq_iff source_rows_def)
  have "map fst (map source_rows ss) = map fst (map source_rows given)" using ix by simp
  then have ids: "map ix_dataset ss = map ix_dataset given" and len: "length ss = length given"
    by (simp_all only: map_map fst_rows) (rule map_eq_imp_length_eq)
  have "distinct (map ix_dataset ss)" using c ids by (simp add: configuration_ok_def card_distinct)
  moreover have "list_all (source_ok max_length) ss" using ix f(6) by (auto simp: list_all_iff source_ok_def)
  moreover have "\<not> e < 2 ^ 64 \<longleftrightarrow> pools_error e replacement (sampler_pools ss)" for e
    using c len f ix by (fastforce simp: pools_error_def sampler_pools_def configuration_ok_def list_all_iff list_ex_iff o_def)
  ultimately show "sampler_ok s"
    using c f by (auto simp: sampler_ok_def samples_ok_def configuration_ok_def)
  show "sampler_at sha s" "position s = 0" using z by (simp_all add: sampler_at_def position_def)
qed

lemma stream_in_order:
  assumes "samples_ok s" "epoch_order sha s (p div sm_samples s) = Inr order"
  shows "stream sha s p \<in> set order"
  using assms epoch_order_length [OF assms] by (auto simp: stream_at_def order_of_def samples_ok_def intro!: nth_mem)

lemma stream_range:
  assumes "sampler_ok s" "epoch_order sha s (p div sm_samples s) = Inr order" "stream sha s p = (i, r)"
  shows "i < length (sm_sources s)" "r < length (ix_rows (sm_sources s ! i))" "example_of s (i, r) \<in> set (ix_examples (sm_sources s ! i))"
proof -
  have "(i, r) \<in> set order" using stream_in_order assms by (metis sampler_ok_def)
  from epoch_order_ok(2) [OF assms(2) [unfolded epoch_order_def] this]
  have i: "i < length (sm_sources s)" and r: "r < length (ix_rows (sm_sources s ! i))" by (auto simp: sampler_pools_def)
  show "i < length (sm_sources s)" "r < length (ix_rows (sm_sources s ! i))" by (rule i, rule r)
  have "source_ok (sm_length s) (sm_sources s ! i)" using assms(1) i by (simp add: sampler_ok_def list_all_length)
  then show "example_of s (i, r) \<in> set (ix_examples (sm_sources s ! i))" using r by (simp add: example_of_def source_ok_def)
qed

lemma stream_example:
  assumes "sampler_ok s" "epoch_order sha s (p div sm_samples s) = Inr order"
  shows "example_valid (example_of s (stream sha s p)) \<and> length (te_tokens (example_of s (stream sha s p))) \<le> sm_length s"
proof -
  obtain i r where q: "stream sha s p = (i, r)" by (cases "stream sha s p")
  have "source_ok (sm_length s) (sm_sources s ! i)" using assms(1) stream_range(1) [OF assms q] by (simp add: sampler_ok_def list_all_length)
  then show ?thesis using stream_range(3) [OF assms q] q by (auto simp: source_ok_def list_all_iff)
qed

text \<open>A batch that comes is the next slice of the stream, and only the order of an epoch can raise.\<close>

definition advanced :: "(string \<Rightarrow> nat) \<Rightarrow> mixture_sampler \<Rightarrow> mixture_sampler \<Rightarrow> bool" where
  "advanced sha s s' \<longleftrightarrow> s' = s\<lparr>sm_epoch := sm_epoch s', sm_cursor := sm_cursor s', sm_order := sm_order s', sm_references := sm_references s'\<rparr>
     \<and> sampler_at sha s' \<and> sm_epoch s \<le> sm_epoch s'
     \<and> (\<forall>e. sm_epoch s \<le> e \<and> e \<le> sm_epoch s' \<longrightarrow> (\<exists>order. epoch_order sha s e = Inr order))"

lemma next_batch_returns:
  assumes "sampler_ok s" "sampler_at sha s"
  shows "(\<exists>b s'. next_batch sha s = Some (Inr (b, s')) \<and> advanced sha s s' \<and> position s' = position s + sm_batch s
        \<and> sm_references s' = map (row_of s) (strided (sm_rank s) (sm_world s) (map (stream sha s) [position s..<position s + sm_batch s])))
    \<or> (\<exists>e e'. next_batch sha s = Some (Inl e) \<and> e' * sm_samples s < position s + sm_batch s \<and> epoch_order sha s e' = Inl e)"
proof -
  have ok: "samples_ok s" "1 \<le> sm_batch s" using assms(1) by (simp_all add: sampler_ok_def)
  have here: "sm_cursor s \<le> sm_samples s" "epoch_order sha s (sm_epoch s) = Inr (sm_order s)" using assms(2) by (simp_all add: sampler_at_def)
  obtain r where r: "collect_references sha s (sm_epoch s) (sm_cursor s) (sm_order s) [] = Some r"
    "\<forall>x. r = Inr x \<longrightarrow> collected sha s (sm_epoch s) (position s) [] x"
    "\<forall>e. r = Inl e \<longrightarrow> (\<exists>e'. e' * sm_samples s < position s + sm_batch s \<and> epoch_order sha s e' = Inl e)"
    using collect_returns [OF ok(1) here, of "[]"] by (auto simp: position_def)
  show ?thesis
  proof (cases r)
    case (Inl e)
    then show ?thesis using r by (auto simp: next_batch_def)
  next
    case (Inr x)
    obtain e c q refs where x: "x = (e, c, q, refs)" by (cases x)
    have f: "refs = map (stream sha s) [position s..<position s + sm_batch s]" "e * sm_samples s + c = position s + sm_batch s"
        "c \<le> sm_samples s" "sm_epoch s \<le> e" "epoch_order sha s e = Inr q"
        "\<And>e'. sm_epoch s \<le> e' \<Longrightarrow> e' \<le> e \<Longrightarrow> \<exists>order. epoch_order sha s e' = Inr order"
      using r(2) Inr x by (auto simp: collected_def)
    have examples: "example_valid x \<and> length (te_tokens x) \<le> sm_length s" if member: "x \<in> set (map (example_of s) refs)" for x
    proof -
      obtain p where p: "position s \<le> p" "p < position s + sm_batch s" "x = example_of s (stream sha s p)" using member f(1) by auto
      have "sm_epoch s * sm_samples s \<le> p" using p(1) by (simp add: position_def)
      then have low: "sm_epoch s \<le> p div sm_samples s" using ok(1) by (simp add: samples_ok_def less_eq_div_iff_mult_less_eq)
      have "p < Suc e * sm_samples s" using p(2) f(2,3) by simp
      then have "p div sm_samples s \<le> e" using less_mult_imp_div_less by (metis less_Suc_eq_le)
      then show ?thesis using stream_example [OF assms(1)] f(6) [OF low] p(3) by blast
    qed
    let ?all = "map (example_of s) refs" and ?mine = "strided (sm_rank s) (sm_world s) (map (example_of s) refs)"
    have len: "length ?all = sm_batch s" using f(1) by simp
    have rank: "sm_rank s < sm_batch s"
      using assms(1) ok(2) unfolding sampler_ok_def by (metis dvd_imp_le dvd_eq_mod_eq_0 less_le_trans zero_less_one_class.zero_less_one order.strict_trans2)
    have all: "?all \<noteq> []" "list_all (\<lambda>e. example_valid e \<and> length (te_tokens e) \<le> sm_length s) ?all" "sm_length s \<le> 8192"
      using len ok(2) examples assms(1) by (auto simp: list_all_iff sampler_ok_def)
    have mine: "?mine \<noteq> []" "length ?mine \<le> 64" "set ?mine \<subseteq> set ?all"
      using strided_nonempty [of "sm_rank s" ?all] strided_length [of "sm_rank s" "sm_world s" ?all] len rank assms(1)
      by (simp_all only: strided_subset) (simp_all add: sampler_ok_def)
    note wide = batch_width_bounds [OF all(1) _ all(2,3)]
    have "batch_valid (batch_of (batch_width (sm_length s) ?all) ?mine)"
    proof (rule batch_of_valid [OF mine(1,2)])
      show "2 \<le> batch_width (sm_length s) ?all" "batch_width (sm_length s) ?all \<le> 8192" using wide(2,3) [OF hd_in_set [OF all(1)]] by simp_all
      show "example_valid x \<and> length (te_tokens x) \<le> batch_width (sm_length s) ?all" if "x \<in> set ?mine" for x
        using that mine(3) examples wide(1) by blast
    qed
    then have "next_batch sha s = Some (Inr (batch_of (batch_width (sm_length s) ?all) ?mine,
        s\<lparr>sm_epoch := e, sm_cursor := c, sm_order := q, sm_references := map (row_of s) (strided (sm_rank s) (sm_world s) refs)\<rparr>))"
      using r(1) Inr x by (simp add: next_batch_def finish_batch_def Let_def)
    moreover have "epoch_order sha (s\<lparr>sm_epoch := e, sm_cursor := c, sm_order := q, sm_references := w\<rparr>) = epoch_order sha s" for w
      by (rule ext) (simp add: epoch_order_def)
    ultimately show ?thesis using f by (auto simp: advanced_def sampler_at_def position_def)
  qed
qed

section \<open>Runs\<close>

fun run_batches :: "(string \<Rightarrow> nat) \<Rightarrow> nat \<Rightarrow> mixture_sampler \<Rightarrow> ((uuid \<times> nat) list \<times> mixture_sampler) attempt option" where
  "run_batches sha 0 s = Some (Inr ([], s))"
| "run_batches sha (Suc k) s =
    (case next_batch sha s of
       None \<Rightarrow> None
     | Some (Inl e) \<Rightarrow> Some (Inl e)
     | Some (Inr (_, s')) \<Rightarrow> map_option (\<lambda>r. andthen r (\<lambda>(refs, s''). Inr (sm_references s' @ refs, s''))) (run_batches sha k s'))"

definition chunk :: "(string \<Rightarrow> nat) \<Rightarrow> mixture_sampler \<Rightarrow> nat \<Rightarrow> (uuid \<times> nat) list" where
  "chunk sha s p = map (row_of s) (strided (sm_rank s) (sm_world s) (map (stream sha s) [p..<p + sm_batch s]))"

lemma advanced_update:
  assumes "advanced sha s s'"
  obtains e c order refs where "s' = s\<lparr>sm_epoch := e, sm_cursor := c, sm_order := order, sm_references := refs\<rparr>"
  using assms unfolding advanced_def by blast

lemma advanced_same:
  assumes "advanced sha s s'"
  shows "sm_sources s' = sm_sources s" "sm_samples s' = sm_samples s" "sm_batch s' = sm_batch s" "sm_rank s' = sm_rank s"
    "sm_world s' = sm_world s" "sm_length s' = sm_length s" "sm_replacement s' = sm_replacement s" "sm_strategy s' = sm_strategy s"
    "sm_identity s' = sm_identity s"
  by (rule advanced_update [OF assms]; simp)+

lemma advanced_stream:
  assumes "advanced sha s s'"
  shows "epoch_order sha s' = epoch_order sha s" "stream sha s' = stream sha s" "row_of s' = row_of s" "chunk sha s' = chunk sha s"
    "sampler_ok s' = sampler_ok s"
proof -
  note same = advanced_same [OF assms]
  show e: "epoch_order sha s' = epoch_order sha s" by (rule ext) (simp add: epoch_order_def same)
  then have o: "order_of sha s' = order_of sha s" by (simp add: order_of_def fun_eq_iff)
  then show "stream sha s' = stream sha s" by (simp add: same)
  show r: "row_of s' = row_of s" by (rule ext) (simp add: row_of_def same)
  show "chunk sha s' = chunk sha s" unfolding chunk_def o r same by (rule refl)
  show "sampler_ok s' = sampler_ok s" by (simp add: sampler_ok_def samples_ok_def same)
qed

lemma advanced_refl: "sampler_at sha s \<Longrightarrow> advanced sha s s"
  by (auto simp: advanced_def sampler_at_def order.antisym)

lemma advanced_trans: "advanced sha s t \<Longrightarrow> advanced sha t u \<Longrightarrow> advanced sha s u"
proof -
  assume st: "advanced sha s t" and tu: "advanced sha t u"
  have "u = s\<lparr>sm_epoch := sm_epoch u, sm_cursor := sm_cursor u, sm_order := sm_order u, sm_references := sm_references u\<rparr>"
    by (rule advanced_update [OF st], rule advanced_update [OF tu]) simp
  moreover have "\<exists>order. epoch_order sha s e = Inr order" if "sm_epoch s \<le> e" "e \<le> sm_epoch u" for e
    using that st tu advanced_stream(1) [OF st] unfolding advanced_def by (metis nle_le)
  ultimately show ?thesis using st tu unfolding advanced_def by (meson order_trans)
qed

lemma run_returns:
  "sampler_ok s \<Longrightarrow> sampler_at sha s \<Longrightarrow>
    (\<exists>s'. run_batches sha k s = Some (Inr (concat (map (\<lambda>j. chunk sha s (position s + j * sm_batch s)) [0..<k]), s')) \<and> advanced sha s s'
        \<and> position s' = position s + k * sm_batch s)
    \<or> (\<exists>e e'. run_batches sha k s = Some (Inl e) \<and> e' * sm_samples s < position s + k * sm_batch s \<and> epoch_order sha s e' = Inl e)"
proof (induction k arbitrary: s)
  case 0
  then show ?case using advanced_refl by auto
next
  case (Suc k)
  consider (batch) b t where "next_batch sha s = Some (Inr (b, t))" "advanced sha s t" "position t = position s + sm_batch s"
      "sm_references t = chunk sha s (position s)"
    | (raised) e e' where "next_batch sha s = Some (Inl e)" "e' * sm_samples s < position s + sm_batch s" "epoch_order sha s e' = Inl e"
    using next_batch_returns [OF Suc.prems] unfolding chunk_def by blast
  then show ?case
  proof cases
    case batch
    note same = advanced_same [OF batch(2)] advanced_stream [OF batch(2)]
    have t: "sampler_ok t" "sampler_at sha t" using Suc.prems(1) batch(2) same(14) by (simp_all add: advanced_def)
    have chunks: "concat (map (\<lambda>j. chunk sha s (position s + j * sm_batch s)) [0..<Suc k])
        = chunk sha s (position s) @ concat (map (\<lambda>j. chunk sha s (position s + sm_batch s + j * sm_batch s)) [0..<k])"
      by (simp only: upt_conv_Cons [OF zero_less_Suc] map_Suc_upt [symmetric] list.map concat.simps map_map o_def)
         (simp add: add.assoc)
    from Suc.IH [OF t] show ?thesis
    proof
      assume "\<exists>s'. run_batches sha k t = Some (Inr (concat (map (\<lambda>j. chunk sha t (position t + j * sm_batch t)) [0..<k]), s')) \<and> advanced sha t s'
          \<and> position s' = position t + k * sm_batch t"
      then show ?thesis using batch advanced_trans [OF batch(2)] unfolding chunks by (auto simp: same)
    next
      assume "\<exists>e e'. run_batches sha k t = Some (Inl e) \<and> e' * sm_samples t < position t + k * sm_batch t \<and> epoch_order sha t e' = Inl e"
      then show ?thesis using batch by (auto simp: same add.assoc)
    qed
  next
    case raised
    then show ?thesis by (intro disjI2 exI [of _ e] exI [of _ e']) simp
  qed
qed

text \<open>The ranks of a job differ in their rank alone.\<close>

lemma init_rank:
  assumes "init_sampler sha ident given mixture batch seed max_length strat replacement rank world = Inr s"
    and "init_sampler sha ident given mixture batch seed max_length strat replacement rank' world = Inr s'"
  shows "s' = s\<lparr>sm_rank := rank'\<rparr>"
  using assms unfolding init_sampler_def epoch_order_def by (auto simp: Let_def split: if_splits)

lemma rank_same:
  "stream sha (s\<lparr>sm_rank := r\<rparr>) = stream sha s" "row_of (s\<lparr>sm_rank := r\<rparr>) = row_of s" "position (s\<lparr>sm_rank := r\<rparr>) = position s"
proof -
  have "order_of sha (s\<lparr>sm_rank := r\<rparr>) = order_of sha s" by (rule ext) (simp add: order_of_def epoch_order_def)
  then show "stream sha (s\<lparr>sm_rank := r\<rparr>) = stream sha s" by simp
  show "row_of (s\<lparr>sm_rank := r\<rparr>) = row_of s" by (rule ext) (simp add: row_of_def)
  show "position (s\<lparr>sm_rank := r\<rparr>) = position s" by (simp add: position_def)
qed

text \<open>Together the ranks get every position of the stream once.\<close>

lemma chunks_partition:
  assumes "0 < world" "sm_world s = world"
  shows "(\<Sum>r<world. mset (concat (map (\<lambda>j. chunk sha (s\<lparr>sm_rank := r\<rparr>) (j * sm_batch s)) [0..<k])))
    = mset (map (\<lambda>p. row_of s (stream sha s p)) [0..<k * sm_batch s])"
proof (induction k)
  case (Suc k)
  have "(\<Sum>r<world. mset (chunk sha (s\<lparr>sm_rank := r\<rparr>) (k * sm_batch s)))
      = image_mset (row_of s) (\<Sum>r<world. mset (strided r world (map (stream sha s) [k * sm_batch s..<k * sm_batch s + sm_batch s])))"
    unfolding image_sum chunk_def rank_same by (simp add: assms(2))
  also have "\<dots> = mset (map (\<lambda>p. row_of s (stream sha s p)) [k * sm_batch s..<k * sm_batch s + sm_batch s])"
    by (simp add: strided_partition [OF assms(1)] o_def flip: mset_map)
  finally show ?case
    using Suc.IH upt_add_eq_append [of 0 "k * sm_batch s" "sm_batch s"] by (simp add: sum.distrib add.commute)
qed simp

end
