(* ===== verification/Training_Single.thy ===== *)
theory Training_Single
  imports Training_Stream
begin

text \<open>
  The sampler of a job with one complete source (\<^verbatim>\<open>SingleSourceSampler\<close> in \<^verbatim>\<open>coire_node/training/sampler.py\<close>) and the
  replay of its checkpoint (\<^verbatim>\<open>consumed_single_rows\<close> in \<^verbatim>\<open>coire_core/training_sampling.py\<close>). The generator
  \<^verbatim>\<open>random.Random\<close> of Python is a parameter: its seeding, its shuffle and its state.
\<close>

record 'g python_random =
  pr_seed :: "nat \<Rightarrow> 'g"
  pr_shuffle :: "'g \<Rightarrow> nat list \<Rightarrow> nat list \<times> 'g"
  pr_getstate :: "'g \<Rightarrow> rng_state"
  pr_setstate :: "rng_state \<Rightarrow> 'g"

record 'g single_sampler =
  sg_dataset :: "tokenized_example list"
  sg_sha :: string
  sg_batch :: nat
  sg_length :: nat
  sg_epoch :: nat
  sg_cursor :: nat
  sg_random :: 'g
  sg_permutation :: "nat list"

definition init_single ::
  "'g python_random \<Rightarrow> tokenized_example list \<Rightarrow> string \<Rightarrow> nat \<Rightarrow> nat \<Rightarrow> nat \<Rightarrow> 'g single_sampler attempt" where
  "init_single pr dataset sha batch seed max_length =
    (if \<not> (1 \<le> length dataset \<and> length dataset \<le> 1000000) \<or> \<not> (1 \<le> batch \<and> batch \<le> 64) \<or> length dataset mod batch \<noteq> 0
        \<or> \<not> (2 \<le> max_length \<and> max_length \<le> 8192) then Inl Training_validation
     else if \<not> seed < 2 ^ 32 then Inl Training_validation
     else if \<not> hex_digest sha then Inl Training_validation
     else (case pr_shuffle pr (pr_seed pr seed) [0..<length dataset] of (permutation, g) \<Rightarrow>
       Inr \<lparr>sg_dataset = dataset, sg_sha = sha, sg_batch = batch, sg_length = max_length, sg_epoch = 0, sg_cursor = 0,
         sg_random = g, sg_permutation = permutation\<rparr>))"

text \<open>The first lines of \<^verbatim>\<open>next_batch\<close>: a new permutation at the end of an epoch.\<close>

definition turn_epoch :: "'g python_random \<Rightarrow> 'g single_sampler \<Rightarrow> 'g single_sampler" where
  "turn_epoch pr s =
    (if sg_cursor s = length (sg_dataset s)
     then (case pr_shuffle pr (sg_random s) [0..<length (sg_dataset s)] of (permutation, g) \<Rightarrow>
       s\<lparr>sg_epoch := sg_epoch s + 1, sg_cursor := 0, sg_permutation := permutation, sg_random := g\<rparr>)
     else s)"

definition next_indices :: "'g single_sampler \<Rightarrow> nat list" where
  "next_indices s = take (sg_batch s) (drop (sg_cursor s) (sg_permutation s))"

text \<open>An epoch that has turned stays turned when the batch is refused.\<close>

definition next_single :: "'g python_random \<Rightarrow> 'g single_sampler \<Rightarrow> sft_batch attempt \<times> 'g single_sampler" where
  "next_single pr s0 =
    (let s = turn_epoch pr s0; es = map (\<lambda>i. sg_dataset s ! i) (next_indices s) in
     if list_ex (\<lambda>e. length (te_tokens e) > sg_length s) es then (Inl Training_validation, s)
     else (let width = min (sg_length s) ((Max (set (map (length \<circ> te_tokens) es)) + 31) div 32 * 32);
               b = \<lparr>bt_tokens = map (\<lambda>e. te_tokens e @ replicate (width - length (te_tokens e)) 0) es,
                    bt_masks = map (\<lambda>e. te_mask e @ replicate (width - length (te_mask e)) False) es, bt_rows = map te_row es\<rparr> in
           if \<not> batch_valid b then (Inl Value_error, s)
           else (Inr b, s\<lparr>sg_cursor := sg_cursor s + sg_batch s\<rparr>)))"

definition single_valid :: "single_state \<Rightarrow> bool" where
  "single_valid st \<longleftrightarrow> hex_digest (sl_sha st) \<and> 1 \<le> sl_rows st \<and> sl_rows st \<le> 1000000 \<and> 1 \<le> sl_batch st \<and> sl_batch st \<le> 64
     \<and> 2 \<le> sl_length st \<and> sl_length st \<le> 8192 \<and> sl_cursor st \<le> 1000000
     \<and> 1 \<le> length (sl_permutation st) \<and> length (sl_permutation st) \<le> 1000000
     \<and> (case sl_rng st of (version, words, _) \<Rightarrow> version = 3 \<and> length words = 625 \<and> list_all (\<lambda>w. w < 2 ^ 32) words \<and> last words \<le> 624)
     \<and> sl_cursor st \<le> sl_rows st \<and> sl_cursor st mod sl_batch st = 0 \<and> sl_rows st mod sl_batch st = 0
     \<and> length (sl_permutation st) = sl_rows st \<and> set (sl_permutation st) = {0..<sl_rows st}"

definition snapshot_single :: "'g python_random \<Rightarrow> 'g single_sampler \<Rightarrow> single_state attempt" where
  "snapshot_single pr s =
    (let st = \<lparr>sl_sha = sg_sha s, sl_rows = length (sg_dataset s), sl_batch = sg_batch s, sl_length = sg_length s, sl_epoch = sg_epoch s,
          sl_cursor = sg_cursor s, sl_permutation = sg_permutation s, sl_rng = pr_getstate pr (sg_random s)\<rparr> in
     if single_valid st then Inr st else Inl Value_error)"

definition restore_single :: "'g python_random \<Rightarrow> sampler_state \<Rightarrow> 'g single_sampler \<Rightarrow> 'g single_sampler attempt" where
  "restore_single pr state s =
    (case state of
       Mixture_state _ \<Rightarrow> Inl Training_conflict
     | Single_source_state st \<Rightarrow>
         if \<not> single_valid st then Inl Training_validation
         else if sl_sha st \<noteq> sg_sha s \<or> sl_rows st \<noteq> length (sg_dataset s) \<or> sl_batch st \<noteq> sg_batch s \<or> sl_length st \<noteq> sg_length s
         then Inl Training_conflict
         else Inr (s\<lparr>sg_random := pr_setstate pr (sl_rng st), sg_permutation := sl_permutation st, sg_epoch := sl_epoch st, sg_cursor := sl_cursor st\<rparr>))"

text \<open>\<^verbatim>\<open>for _ in range(epoch + 1)\<close>: the permutation of an epoch and the generator behind it.\<close>

fun permutation_at :: "'g python_random \<Rightarrow> nat \<Rightarrow> nat \<Rightarrow> nat \<Rightarrow> nat list \<times> 'g" where
  "permutation_at pr seed n 0 = pr_shuffle pr (pr_seed pr seed) [0..<n]"
| "permutation_at pr seed n (Suc e) = pr_shuffle pr (snd (permutation_at pr seed n e)) [0..<n]"

definition consumed_single_rows :: "'g python_random \<Rightarrow> single_state \<Rightarrow> nat \<Rightarrow> nat list \<Rightarrow> nat set attempt" where
  "consumed_single_rows pr st seed rows =
    (if length rows \<noteq> sl_rows st \<or> sl_epoch st * sl_rows st + sl_cursor st > 409600000 then Inl Value_error
     else (case permutation_at pr seed (length rows) (sl_epoch st) of (permutation, g) \<Rightarrow>
       if (permutation, pr_getstate pr g) \<noteq> (sl_permutation st, sl_rng st) then Inl Value_error
       else if sl_epoch st \<noteq> 0 then Inr (set rows)
       else Inr (set (map (\<lambda>p. rows ! p) (take (sl_cursor st) permutation)))))"

section \<open>Runs\<close>

definition shuffle_permutes :: "'g python_random \<Rightarrow> bool" where
  "shuffle_permutes pr \<longleftrightarrow> (\<forall>g xs. mset (fst (pr_shuffle pr g xs)) = mset xs)"

definition rng_restores :: "'g python_random \<Rightarrow> bool" where
  "rng_restores pr \<longleftrightarrow> (\<forall>g. pr_setstate pr (pr_getstate pr g) = g)"

fun run_single :: "'g python_random \<Rightarrow> nat \<Rightarrow> 'g single_sampler \<Rightarrow> (nat list \<times> 'g single_sampler) attempt" where
  "run_single pr 0 s = Inr ([], s)"
| "run_single pr (Suc k) s =
    (case next_single pr s of
       (Inl e, _) \<Rightarrow> Inl e
     | (Inr b, s') \<Rightarrow> andthen (run_single pr k s') (\<lambda>(rows, s''). Inr (bt_rows b @ rows, s'')))"

text \<open>Where a sampler is: in the permutation of its epoch, at a multiple of the batch.\<close>

definition single_at :: "'g python_random \<Rightarrow> nat \<Rightarrow> 'g single_sampler \<Rightarrow> bool" where
  "single_at pr seed s \<longleftrightarrow> 1 \<le> sg_batch s \<and> 1 \<le> length (sg_dataset s) \<and> length (sg_dataset s) mod sg_batch s = 0 \<and> sg_cursor s mod sg_batch s = 0
     \<and> sg_cursor s \<le> length (sg_dataset s)
     \<and> permutation_at pr seed (length (sg_dataset s)) (sg_epoch s) = (sg_permutation s, sg_random s)"

definition same_job :: "'g single_sampler \<Rightarrow> 'g single_sampler \<Rightarrow> bool" where
  "same_job s t \<longleftrightarrow> sg_dataset t = sg_dataset s \<and> sg_sha t = sg_sha s \<and> sg_batch t = sg_batch s \<and> sg_length t = sg_length s"

definition single_position :: "'g single_sampler \<Rightarrow> nat" where
  "single_position s = sg_epoch s * length (sg_dataset s) + sg_cursor s"

lemma init_single_ok:
  assumes "init_single pr dataset sha batch seed max_length = Inr s"
  shows "single_at pr seed s" "single_position s = 0" "sg_dataset s = dataset" "sg_batch s = batch"
  using assms by (auto simp: init_single_def single_at_def single_position_def split: if_splits prod.splits)

lemma turn_epoch_ok:
  assumes "single_at pr seed s"
  shows "single_at pr seed (turn_epoch pr s)" "same_job s (turn_epoch pr s)" "single_position (turn_epoch pr s) = single_position s"
    "sg_cursor (turn_epoch pr s) < length (sg_dataset s)"
  using assms by (auto simp: turn_epoch_def single_at_def same_job_def single_position_def split: prod.splits)

lemma next_single_ok:
  assumes "single_at pr seed s" "next_single pr s = (Inr b, t)"
  defines "u \<equiv> turn_epoch pr s"
  shows "t = u\<lparr>sg_cursor := sg_cursor u + sg_batch u\<rparr>" "single_at pr seed t" "same_job s t" "single_position t = single_position s + sg_batch s"
    "bt_rows b = map (\<lambda>i. te_row (sg_dataset s ! i)) (take (sg_batch s) (drop (sg_cursor u) (sg_permutation u)))"
    "sg_cursor u + sg_batch s \<le> length (sg_dataset s)"
proof -
  note turn = turn_epoch_ok [OF assms(1), folded u_def]
  show t: "t = u\<lparr>sg_cursor := sg_cursor u + sg_batch u\<rparr>" using assms(2) by (auto simp: next_single_def Let_def u_def split: if_splits)
  have same: "sg_dataset u = sg_dataset s" "sg_batch u = sg_batch s" using turn(2) by (simp_all add: same_job_def)
  show "bt_rows b = map (\<lambda>i. te_row (sg_dataset s ! i)) (take (sg_batch s) (drop (sg_cursor u) (sg_permutation u)))"
    using assms(2) same by (auto simp: next_single_def Let_def next_indices_def o_def simp flip: u_def split: if_splits)
  have u: "1 \<le> sg_batch s" "length (sg_dataset s) mod sg_batch s = 0" "sg_cursor u mod sg_batch s = 0"
    using turn(1) same by (simp_all add: single_at_def)
  obtain a b where "length (sg_dataset s) = a * sg_batch s" "sg_cursor u = b * sg_batch s"
    using u(2,3) by (metis dvd_def mod_eq_0_iff_dvd mult.commute)
  then have "b < a" using turn(4) by (metis mult_less_cancel2)
  then have "Suc b * sg_batch s \<le> a * sg_batch s" by (intro mult_le_mono1) simp
  then show le: "sg_cursor u + sg_batch s \<le> length (sg_dataset s)"
    using \<open>length (sg_dataset s) = a * sg_batch s\<close> \<open>sg_cursor u = b * sg_batch s\<close> by simp
  show "single_at pr seed t" using turn(1) le u same unfolding t by (simp add: single_at_def)
  show "same_job s t" using turn(2) unfolding t by (simp add: same_job_def)
  show "single_position t = single_position s + sg_batch s" using turn(3) same unfolding t by (simp add: single_position_def)
qed

text \<open>The rows handed out, as positions of the permutations.\<close>

definition single_stream :: "'g python_random \<Rightarrow> nat \<Rightarrow> 'g single_sampler \<Rightarrow> nat \<Rightarrow> nat" where
  "single_stream pr seed s = stream_at (\<lambda>e. fst (permutation_at pr seed (length (sg_dataset s)) e)) (length (sg_dataset s))"

lemma permutation_mset: "shuffle_permutes pr \<Longrightarrow> mset (fst (permutation_at pr seed n e)) = mset [0..<n]"
  by (cases e) (simp_all add: shuffle_permutes_def)

lemma run_single_ok:
  assumes "shuffle_permutes pr"
  shows "single_at pr seed s \<Longrightarrow> run_single pr k s = Inr (rows, t) \<Longrightarrow> single_at pr seed t \<and> same_job s t
    \<and> single_position t = single_position s + k * sg_batch s
    \<and> rows = map (\<lambda>p. te_row (sg_dataset s ! single_stream pr seed s p)) [single_position s..<single_position s + k * sg_batch s]"
proof (induction k arbitrary: s rows)
  case 0
  then show ?case by (simp add: same_job_def)
next
  case (Suc k)
  obtain b s' rest where n: "next_single pr s = (Inr b, s')" and r: "run_single pr k s' = Inr (rest, t)" and rows: "rows = bt_rows b @ rest"
    using Suc.prems(2) by (auto split: prod.splits sum.splits)
  note step = next_single_ok [OF Suc.prems(1) n]
  let ?u = "turn_epoch pr s" and ?n = "length (sg_dataset s)" and ?p = "single_position s"
  have same: "sg_dataset s' = sg_dataset s" "sg_batch s' = sg_batch s" using step(3) by (simp_all add: same_job_def)
  note ih = Suc.IH [OF step(2) r]
  have u: "permutation_at pr seed ?n (sg_epoch ?u) = (sg_permutation ?u, sg_random ?u)" "sg_epoch ?u * ?n + sg_cursor ?u = ?p" "0 < ?n"
    using turn_epoch_ok [OF Suc.prems(1)] Suc.prems(1) by (auto simp: single_at_def single_position_def same_job_def)
  have len: "length (sg_permutation ?u) = ?n" using mset_eq_length [OF permutation_mset [OF assms, of seed ?n "sg_epoch ?u"]] u(1) by simp
  have "take (sg_batch s) (drop (sg_cursor ?u) (sg_permutation ?u)) = map (single_stream pr seed s) [?p..<?p + sg_batch s]"
  proof (rule nth_equalityI)
    show "length (take (sg_batch s) (drop (sg_cursor ?u) (sg_permutation ?u))) = length (map (single_stream pr seed s) [?p..<?p + sg_batch s])"
      using len step(6) by simp
    fix i assume "i < length (take (sg_batch s) (drop (sg_cursor ?u) (sg_permutation ?u)))"
    then have i: "i < sg_batch s" "sg_cursor ?u + i < ?n" using len by auto
    then show "take (sg_batch s) (drop (sg_cursor ?u) (sg_permutation ?u)) ! i = map (single_stream pr seed s) [?p..<?p + sg_batch s] ! i"
      using stream_epoch [OF u(3) i(2), of "\<lambda>e. fst (permutation_at pr seed ?n e)" "sg_epoch ?u"] u(1,2) len
      by (simp add: single_stream_def add.assoc [symmetric])
  qed
  then have "bt_rows b = map (\<lambda>p. te_row (sg_dataset s ! single_stream pr seed s p)) [?p..<?p + sg_batch s]"
    using step(5) by simp
  moreover have "single_stream pr seed s' = single_stream pr seed s" by (simp add: single_stream_def same)
  moreover have "[?p..<?p + sg_batch s] @ [?p + sg_batch s..<?p + sg_batch s + k * sg_batch s] = [?p..<?p + sg_batch s + k * sg_batch s]"
    by (rule upt_add_eq_append [symmetric]) simp
  ultimately show ?case
    using ih step(3,4) rows by (auto simp: same same_job_def add.assoc simp flip: map_append)
qed

lemma single_snapshot:
  "snapshot_single pr s = Inr st \<Longrightarrow> single_valid st \<and> sl_sha st = sg_sha s \<and> sl_rows st = length (sg_dataset s) \<and> sl_batch st = sg_batch s
     \<and> sl_length st = sg_length s \<and> sl_epoch st = sg_epoch s \<and> sl_cursor st = sg_cursor s \<and> sl_permutation st = sg_permutation s
     \<and> sl_rng st = pr_getstate pr (sg_random s)"
  by (auto simp: snapshot_single_def Let_def split: if_splits)

text \<open>The stream before a boundary: the started permutation in the first epoch, every row afterwards.\<close>

lemma single_stream_prefix:
  fixes seed :: nat
  assumes "shuffle_permutes pr" "0 < n" "cursor \<le> n"
  defines "order \<equiv> \<lambda>e. fst (permutation_at pr seed n e)"
  shows "stream_at order n ` {..<epoch * n + cursor} = (if epoch = 0 then set (take cursor (order 0)) else {..<n})"
proof -
  have m: "mset (order e) = mset [0..<n]" for e unfolding order_def by (rule permutation_mset [OF assms(1)])
  have len: "length (order e) = n" and set: "set (order e) = {..<n}" for e
    using mset_eq_length [OF m] mset_eq_setD [OF m] by (simp_all add: atLeast0LessThan)
  note prefix = stream_prefix [of n cursor epoch order, OF assms(2,3) len]
  show ?thesis
  proof (cases "epoch = 0")
    case False
    have "(\<Union>e\<le>epoch. set (take (epoch_count epoch cursor n e) (order e))) \<subseteq> {..<n}" using set set_take_subset by fast
    moreover have "{..<n} \<subseteq> set (take (epoch_count epoch cursor n 0) (order 0))" using False len set by (simp add: epoch_count_def)
    ultimately show ?thesis using False unfolding prefix [symmetric] by auto
  qed (use prefix in \<open>simp add: epoch_count_def\<close>)
qed

lemma single_consumed:
  assumes "shuffle_permutes pr" "init_single pr dataset sha batch seed max_length = Inr s" "run_single pr k s = Inr (rows, t)"
    "snapshot_single pr t = Inr st" "k * batch \<le> 409600000"
  shows "consumed_single_rows pr st seed (map te_row dataset) = Inr (set rows)" "length rows = k * batch"
proof -
  note start = init_single_ok [OF assms(2)] and snap = single_snapshot [OF assms(4)]
  let ?n = "length dataset"
  have run: "single_at pr seed t" "same_job s t" "single_position t = k * batch"
    and rows: "rows = map (\<lambda>p. te_row (dataset ! single_stream pr seed s p)) [0..<k * batch]"
    using run_single_ok [OF assms(1) start(1) assms(3)] start(2-4) by simp_all
  show "length rows = k * batch" by (simp add: rows)
  have data: "sg_dataset t = dataset" using run(2) start(3) by (simp add: same_job_def)
  have here: "permutation_at pr seed ?n (sl_epoch st) = (sl_permutation st, sg_random t)" "sl_rows st = ?n" "sl_cursor st \<le> ?n" "0 < ?n"
      "sl_epoch st * ?n + sl_cursor st = k * batch"
    using run(1,3) snap data by (auto simp: single_at_def single_position_def)
  have "set rows = (\<lambda>i. te_row (dataset ! i)) ` single_stream pr seed s ` {..<k * batch}"
    by (simp add: rows image_image atLeast0LessThan)
  also have "single_stream pr seed s ` {..<k * batch}
      = (if sl_epoch st = 0 then set (take (sl_cursor st) (fst (permutation_at pr seed ?n 0))) else {..<?n})"
    using single_stream_prefix [OF assms(1) here(4,3), of seed "sl_epoch st"] here(5) start(3) by (simp add: single_stream_def)
  finally have set: "set rows = (\<lambda>i. te_row (dataset ! i)) ` (if sl_epoch st = 0 then set (take (sl_cursor st) (fst (permutation_at pr seed ?n 0))) else {..<?n})" .
  show "consumed_single_rows pr st seed (map te_row dataset) = Inr (set rows)"
  proof (cases "sl_epoch st = 0")
    case True
    have "set (sl_permutation st) = {..<?n}" using snap here(2) by (auto simp: single_valid_def)
    then have "i < ?n" if "i \<in> set (take (sl_cursor st) (sl_permutation st))" for i using that set_take_subset by fastforce
    then show ?thesis using True here set assms(5) snap by (auto simp: consumed_single_rows_def)
  next
    case False
    have "set (map te_row dataset) = (\<lambda>i. te_row (dataset ! i)) ` {..<?n}"
      by (simp only: set_map image_image [symmetric, of te_row "\<lambda>i. dataset ! i"]) (simp add: set_conv_nth image_def Bex_def conj_commute)
    then show ?thesis using False here set assms(5) snap by (simp add: consumed_single_rows_def)
  qed
qed

text \<open>A restored sampler is the interrupted one.\<close>

lemma single_restored:
  assumes "rng_restores pr" "single_at pr seed s" "run_single pr k s = Inr (rows, t)" "shuffle_permutes pr" "snapshot_single pr t = Inr st"
  shows "restore_single pr (Single_source_state st) s = Inr t"
proof -
  have job: "same_job s t" using run_single_ok [OF assms(4,2,3)] by simp
  note snap = single_snapshot [OF assms(5)]
  have "t = s\<lparr>sg_random := sg_random t, sg_permutation := sg_permutation t, sg_epoch := sg_epoch t, sg_cursor := sg_cursor t\<rparr>"
    using job by (cases s; cases t) (simp add: same_job_def)
  then show ?thesis using snap job assms(1) by (simp add: restore_single_def same_job_def rng_restores_def)
qed

end
