(* ===== verification/Training_Protocol.thy ===== *)
theory Training_Protocol
  imports Training_Single
begin

text \<open>
  The contract \<^verbatim>\<open>TrainingSampler\<close> of \<^verbatim>\<open>coire_node/training/sampler.py\<close>, which both samplers implement, as a locale: what a checkpoint
  that is restored into a fresh sampler must give, and that the resumed sampler then continues the interrupted run. It is
  interpreted on the mixture sampler and on the sampler of one source.
\<close>

section \<open>The contract\<close>

fun run_with :: "('s \<Rightarrow> ('b \<times> 's) option) \<Rightarrow> nat \<Rightarrow> 's \<Rightarrow> ('b list \<times> 's) option" where
  "run_with step 0 s = Some ([], s)"
| "run_with step (Suc k) s =
    (case step s of None \<Rightarrow> None | Some (b, s') \<Rightarrow> map_option (\<lambda>(bs, t). (b # bs, t)) (run_with step k s'))"

lemma run_with_Suc:
  assumes "run_with step (Suc k) s = Some (bs, t)"
  obtains b s' rest where "step s = Some (b, s')" "run_with step k s' = Some (rest, t)" "bs = b # rest"
  using assms by (auto split: option.splits prod.splits)

lemma run_with_add:
  "run_with step (k + j) s = Some (whole, u) \<Longrightarrow> run_with step k s = Some (bs, t) \<Longrightarrow> \<exists>rest. run_with step j t = Some (rest, u) \<and> whole = bs @ rest"
proof (induction k arbitrary: s whole bs)
  case (Suc k)
  have "run_with step (Suc (k + j)) s = Some (whole, u)" using Suc.prems(1) by (simp only: add_Suc)
  then obtain b s' rest where a: "step s = Some (b, s')" "run_with step (k + j) s' = Some (rest, u)" "whole = b # rest" by (rule run_with_Suc)
  obtain rest' where "run_with step k s' = Some (rest', t)" "bs = b # rest'" using Suc.prems(2) a(1) by (auto split: option.splits prod.splits)
  then show ?case using Suc.IH [OF a(2)] a(3) by auto
qed simp

locale training_sampler =
  fixes fresh_sampler :: "'s \<Rightarrow> bool"
    and next_step :: "'s \<Rightarrow> ('b \<times> 's) option"
    and save_state :: "'s \<Rightarrow> 'c option"
    and load_state :: "'c \<Rightarrow> 's \<Rightarrow> 's option"
    and alike :: "'s \<Rightarrow> 's \<Rightarrow> bool"
  assumes alike_step: "alike s t \<Longrightarrow> next_step s = Some (b, s') \<Longrightarrow> \<exists>t'. next_step t = Some (b, t') \<and> alike s' t'"
    and alike_save: "alike s t \<Longrightarrow> save_state t = save_state s"
    and load_save: "fresh_sampler s \<Longrightarrow> run_with next_step k s = Some (bs, t) \<Longrightarrow> save_state t = Some c \<Longrightarrow> \<exists>t'. load_state c s = Some t' \<and> alike t t'"
begin

lemma alike_run: "alike s t \<Longrightarrow> run_with next_step j s = Some (bs, u) \<Longrightarrow> \<exists>u'. run_with next_step j t = Some (bs, u') \<and> alike u u'"
proof (induction j arbitrary: s t bs)
  case (Suc j)
  obtain b s' rest where a: "next_step s = Some (b, s')" "run_with next_step j s' = Some (rest, u)" "bs = b # rest"
    by (rule run_with_Suc [OF Suc.prems(2)])
  obtain t' where t': "next_step t = Some (b, t')" "alike s' t'" using alike_step [OF Suc.prems(1) a(1)] by blast
  obtain u' where "run_with next_step j t' = Some (rest, u')" "alike u u'" using Suc.IH [OF t'(2) a(2)] by blast
  then show ?case using t'(1) a(3) by simp
qed simp

lemma resume:
  assumes "fresh_sampler s" "run_with next_step k s = Some (bs, t)" "save_state t = Some c" "run_with next_step (k + j) s = Some (whole, u)"
  shows "\<exists>t' rest u'. load_state c s = Some t' \<and> run_with next_step j t' = Some (rest, u') \<and> whole = bs @ rest \<and> save_state u' = save_state u"
proof -
  obtain t' where t': "load_state c s = Some t'" "alike t t'" using load_save [OF assms(1-3)] by blast
  obtain rest where rest: "run_with next_step j t = Some (rest, u)" "whole = bs @ rest" using run_with_add [OF assms(4,2)] by blast
  obtain u' where "run_with next_step j t' = Some (rest, u')" "alike u u'" using alike_run [OF t'(2) rest(1)] by blast
  then show ?thesis using t'(1) rest(2) alike_save by blast
qed

end

section \<open>The sampler of a mixture\<close>

lemma run_result:
  assumes "sampler_ok s" "sampler_at sha s" "run_batches sha k s = Some (Inr (refs, t))"
  shows "refs = concat (map (\<lambda>j. chunk sha s (position s + j * sm_batch s)) [0..<k])" "advanced sha s t" "position t = position s + k * sm_batch s"
  using run_returns [OF assms(1,2), of k] assms(3) by auto

lemma init_batch:
  assumes "init_sampler sha ident given mixture batch seed max_length strat replacement rank world = Inr s"
  shows "sm_batch s = batch" "sm_world s = world" "sm_strategy s = strat" "sm_replacement s = replacement" "sm_epoch s = 0"
  using init_facts [OF assms] by metis+

definition answer :: "'a attempt \<Rightarrow> 'a option" where
  "answer r = (case r of Inl _ \<Rightarrow> None | Inr x \<Rightarrow> Some x)"

lemma answer_Some [simp]: "answer r = Some x \<longleftrightarrow> r = Inr x"
  by (simp add: answer_def split: sum.splits)

text \<open>A step gives the batch and the references of its rows.\<close>

definition mixture_next :: "(string \<Rightarrow> nat) \<Rightarrow> mixture_sampler \<Rightarrow> ((sft_batch \<times> (uuid \<times> nat) list) \<times> mixture_sampler) option" where
  "mixture_next sha s = (case next_batch sha s of Some (Inr (b, s')) \<Rightarrow> Some ((b, sm_references s'), s') | _ \<Rightarrow> None)"

definition fresh_mixture :: "(string \<Rightarrow> nat) \<Rightarrow> mixture_sampler \<Rightarrow> bool" where
  "fresh_mixture sha s \<longleftrightarrow> sampler_ok s \<and> sampler_at sha s \<and> sm_epoch s = 0 \<and> position s = 0"

text \<open>The references of the last batch are for the caller: no later call reads them.\<close>

definition same_mixture :: "(string \<Rightarrow> nat) \<Rightarrow> mixture_sampler \<Rightarrow> mixture_sampler \<Rightarrow> bool" where
  "same_mixture sha s t \<longleftrightarrow> sampler_ok s \<and> sampler_at sha s \<and> t = s\<lparr>sm_references := sm_references t\<rparr>"

lemma mixture_next_Some: "mixture_next sha s = Some (x, s') \<longleftrightarrow> (\<exists>b. next_batch sha s = Some (Inr (b, s')) \<and> x = (b, sm_references s'))"
  by (auto simp: mixture_next_def split: option.splits sum.splits)

lemma mixture_run:
  "run_with (mixture_next sha) k s = Some (bs, t) \<Longrightarrow> run_batches sha k s = Some (Inr (concat (map snd bs), t))"
proof (induction k arbitrary: s bs)
  case (Suc k)
  obtain x s' rest where "mixture_next sha s = Some (x, s')" "run_with (mixture_next sha) k s' = Some (rest, t)" "bs = x # rest"
    by (rule run_with_Suc [OF Suc.prems])
  then show ?case using Suc.IH by (auto simp: mixture_next_Some)
qed simp

lemma forget_order [simp]: "epoch_order sha (s\<lparr>sm_references := w\<rparr>) = epoch_order sha s"
  by (rule ext) (simp add: epoch_order_def)

lemma collect_forget:
  assumes "samples_ok s"
  shows "cursor \<le> sm_samples s \<Longrightarrow> length order = sm_samples s
    \<Longrightarrow> collect_references sha (s\<lparr>sm_references := w\<rparr>) epoch cursor order refs = collect_references sha s epoch cursor order refs"
proof (induction "sm_batch s - length refs" arbitrary: epoch cursor order refs rule: less_induct)
  case less
  note unfold = collect_references.simps [of sha _ epoch cursor order refs]
  have step: "collect_references sha (s\<lparr>sm_references := w\<rparr>) e (c + min (sm_batch s - length refs) (sm_samples s - c)) order'
        (refs @ take (min (sm_batch s - length refs) (sm_samples s - c)) (drop c order'))
      = collect_references sha s e (c + min (sm_batch s - length refs) (sm_samples s - c)) order'
        (refs @ take (min (sm_batch s - length refs) (sm_samples s - c)) (drop c order'))"
    if "\<not> sm_batch s \<le> length refs" "c < sm_samples s" "length order' = sm_samples s" for e c order'
    using that by (intro less.hyps) auto
  show ?case
  proof (cases "\<not> sm_batch s \<le> length refs \<and> cursor = sm_samples s")
    case True
    have "0 < sm_samples s" using assms by (simp add: samples_ok_def)
    then show ?thesis
      using True step [of 0] epoch_order_length [OF assms, of sha "Suc epoch"]
      unfolding unfold by (cases "epoch_order sha s (Suc epoch)") simp_all
  next
    case False
    then show ?thesis using step [of cursor order epoch] less.prems by (auto simp: unfold)
  qed
qed

lemma next_forget:
  assumes "samples_ok s" "sampler_at sha s"
  shows "next_batch sha (s\<lparr>sm_references := w\<rparr>) = next_batch sha s"
proof -
  have "length (sm_order s) = sm_samples s" "sm_cursor s \<le> sm_samples s" using assms epoch_order_length by (auto simp: sampler_at_def)
  then have "collect_references sha (s\<lparr>sm_references := w\<rparr>) (sm_epoch s) (sm_cursor s) (sm_order s) []
      = collect_references sha s (sm_epoch s) (sm_cursor s) (sm_order s) []" using collect_forget [OF assms(1)] by blast
  moreover have "example_of (s\<lparr>sm_references := w\<rparr>) = example_of s" "row_of (s\<lparr>sm_references := w\<rparr>) = row_of s"
    by (auto simp: fun_eq_iff example_of_def row_of_def)
  then have "finish_batch (s\<lparr>sm_references := w\<rparr>) = finish_batch s" by (intro ext) (simp add: finish_batch_def Let_def)
  ultimately show ?thesis by (simp add: next_batch_def)
qed

text \<open>Restoring the checkpoint of a run into a freshly built sampler.\<close>

lemma restored:
  assumes "fresh_mixture sha s" "run_batches sha k s = Some (Inr (refs, t))" "snapshot t = Inr st"
  shows "restore sha (Mixture_state st) s = Inr (t\<lparr>sm_references := []\<rparr>)"
proof -
  have s: "sampler_ok s" "sampler_at sha s" "position s = 0" using assms(1) by (simp_all add: fresh_mixture_def)
  note run = run_result [OF s(1,2) assms(2)]
  note same = advanced_same [OF run(2)]
  have st: "state_valid st" "st_identity st = sm_identity s" "st_epoch st = sm_epoch t" "st_cursor st = sm_cursor t" "st_rank st = sm_rank s"
      "st_world st = sm_world s"
    using assms(3) same by (auto simp: snapshot_def Let_def split: if_splits)
  have at: "sm_cursor t \<le> sm_samples s" "epoch_order sha s (sm_epoch t) = Inr (sm_order t)"
    using run(2) same(2) advanced_stream(1) [OF run(2)] by (auto simp: advanced_def sampler_at_def)
  have "sm_epoch t * sm_samples s + sm_cursor t = k * sm_batch s" using run(3) s(3) same(2) by (simp add: position_def)
  then have pos: "(sm_epoch t * sm_samples s + sm_cursor t) mod sm_batch s = 0" by simp
  have "t = s\<lparr>sm_epoch := sm_epoch t, sm_cursor := sm_cursor t, sm_order := sm_order t, sm_references := sm_references t\<rparr>"
    using run(2) unfolding advanced_def by blast
  then have "t\<lparr>sm_references := []\<rparr> = s\<lparr>sm_epoch := sm_epoch t, sm_cursor := sm_cursor t, sm_order := sm_order t, sm_references := []\<rparr>"
    by (metis (no_types, lifting) mixture_sampler.update_convs(14) mixture_sampler.surjective)
  then show ?thesis using st at pos by (simp add: restore_def)
qed

interpretation mixture: training_sampler "fresh_mixture sha" "mixture_next sha" "\<lambda>s. answer (snapshot s)"
  "\<lambda>st s. answer (restore sha (Mixture_state st) s)" "same_mixture sha" for sha
proof
  fix s t b s' assume alike: "same_mixture sha s t" and step: "mixture_next sha s = Some (b, s')"
  have s: "sampler_ok s" "sampler_at sha s" "t = s\<lparr>sm_references := sm_references t\<rparr>" using alike unfolding same_mixture_def by blast+
  have "next_batch sha t = next_batch sha s" using next_forget [of s sha "sm_references t"] s by (simp add: sampler_ok_def)
  then have "mixture_next sha t = Some (b, s')" using step by (simp add: mixture_next_def)
  moreover have "advanced sha s s'" using next_batch_returns [OF s(1,2)] step by (auto simp: mixture_next_Some)
  then have "same_mixture sha s' s'" using advanced_stream(5) s(1) by (auto simp: same_mixture_def advanced_def)
  ultimately show "\<exists>t'. mixture_next sha t = Some (b, t') \<and> same_mixture sha s' t'" by blast
next
  fix s t assume "same_mixture sha s t"
  then have "t = s\<lparr>sm_references := sm_references t\<rparr>" unfolding same_mixture_def by blast
  moreover have "snapshot (s\<lparr>sm_references := w\<rparr>) = snapshot s" for w by (simp add: snapshot_def)
  ultimately show "answer (snapshot t) = answer (snapshot s)" by metis
next
  fix s k bs t c assume s: "fresh_mixture sha s" and run: "run_with (mixture_next sha) k s = Some (bs, t)" and saved: "answer (snapshot t) = Some c"
  have ok: "sampler_ok s" "sampler_at sha s" using s by (simp_all add: fresh_mixture_def)
  have "advanced sha s t" by (rule run_result(2) [OF ok mixture_run [OF run]])
  then have "same_mixture sha t (t\<lparr>sm_references := []\<rparr>)" using advanced_stream(5) ok(1) by (auto simp: same_mixture_def advanced_def)
  then show "\<exists>t'. answer (restore sha (Mixture_state c) s) = Some t' \<and> same_mixture sha t t'"
    using restored [OF s mixture_run [OF run]] saved by auto
qed

section \<open>The sampler of one source\<close>

definition single_next :: "'g python_random \<Rightarrow> 'g single_sampler \<Rightarrow> (sft_batch \<times> 'g single_sampler) option" where
  "single_next pr s = (case next_single pr s of (Inr b, s') \<Rightarrow> Some (b, s') | _ \<Rightarrow> None)"

definition fresh_single :: "'g python_random \<Rightarrow> 'g single_sampler \<Rightarrow> bool" where
  "fresh_single pr s \<longleftrightarrow> shuffle_permutes pr \<and> rng_restores pr \<and> (\<exists>seed. single_at pr seed s)"

lemma single_next_Some: "single_next pr s = Some (b, s') \<longleftrightarrow> next_single pr s = (Inr b, s')"
  by (auto simp: single_next_def split: prod.splits sum.splits)

lemma single_run: "run_with (single_next pr) k s = Some (bs, t) \<Longrightarrow> run_single pr k s = Inr (concat (map bt_rows bs), t)"
proof (induction k arbitrary: s bs)
  case (Suc k)
  obtain b s' rest where "single_next pr s = Some (b, s')" "run_with (single_next pr) k s' = Some (rest, t)" "bs = b # rest"
    by (rule run_with_Suc [OF Suc.prems])
  then show ?case using Suc.IH by (simp add: single_next_Some)
qed simp

interpretation single: training_sampler "fresh_single pr" "single_next pr" "\<lambda>s. answer (snapshot_single pr s)"
  "\<lambda>st s. answer (restore_single pr (Single_source_state st) s)" "(=)" for pr
proof
  fix s k bs t c
  assume "fresh_single pr s" and run: "run_with (single_next pr) k s = Some (bs, t)" and saved: "answer (snapshot_single pr t) = Some c"
  then obtain seed where "shuffle_permutes pr" "rng_restores pr" "single_at pr seed s" unfolding fresh_single_def by blast
  then show "\<exists>t'. answer (restore_single pr (Single_source_state c) s) = Some t' \<and> t = t'"
    using single_restored [OF _ _ single_run [OF run]] saved by auto
qed simp_all

end
