(* ===== verification/Training_Data.thy ===== *)
theory Training_Data
  imports Training_Sampler "HOL-Library.Product_Lexorder"
begin

text \<open>
  Splits and mixtures (\<^verbatim>\<open>coire_core/training_data.py\<close>, \<^verbatim>\<open>coire_core/preference_data.py\<close> and the models they
  validate): rows are split by content, so that no content is in both parts; the draws of an epoch are shared out among the sources by
  largest remainder; a mixture is compiled from its splits after the check for leakage. A float is the rational it
  denotes, and its arithmetic rounds to a double. Digests are parameters.
\<close>

section \<open>Doubles\<close>

definition round_half_even :: "rat \<Rightarrow> int" where
  "round_half_even x = (let f = \<lfloor>x\<rfloor>; d = x - of_int f in
     if d < 1 / 2 then f else if 1 / 2 < d then f + 1 else if even f then f else f + 1)"

fun bit_length :: "nat \<Rightarrow> nat" where
  "bit_length n = (if n = 0 then 0 else Suc (bit_length (n div 2)))"

declare bit_length.simps [simp del]

definition two_to :: "int \<Rightarrow> rat" where
  "two_to k = (if 0 \<le> k then 2 ^ nat k else 1 / 2 ^ nat (- k))"

text \<open>The greatest \<open>k\<close> with \<open>2 ^ k \<le> x\<close>, for a positive \<open>x\<close>.\<close>

definition exponent :: "rat \<Rightarrow> int" where
  "exponent x = (case quotient_of x of (p, q) \<Rightarrow>
     (let k = int (bit_length (nat p)) - int (bit_length (nat q)) in if two_to k \<le> x then k else k - 1))"

text \<open>The double nearest to a rational that is not negative, ties to even.\<close>

definition round_double :: "rat \<Rightarrow> rat" where
  "round_double x = (if x = 0 then 0
     else (let e = max (-1074) (exponent x - 52) in of_int (round_half_even (x / two_to e)) * two_to e))"

section \<open>Splits\<close>

record split_manifest =
  sp_dataset :: uuid
  sp_source :: string
  sp_seed :: nat
  sp_train :: "nat list"
  sp_validation :: "nat list"
  sp_hashes :: "string list"

definition hash_of :: "split_manifest \<Rightarrow> nat \<Rightarrow> string" where
  "hash_of m row = sp_hashes m ! (row - 1)"

definition partition_ok :: "nat list \<Rightarrow> nat list \<Rightarrow> string list \<Rightarrow> bool" where
  "partition_ok train validation hashes \<longleftrightarrow> distinct train \<and> distinct validation \<and> set train \<inter> set validation = {}
     \<and> set train \<union> set validation = {1..<length hashes + 1}
     \<and> (\<lambda>row. hashes ! (row - 1)) ` set train \<inter> (\<lambda>row. hashes ! (row - 1)) ` set validation = {}"

definition split_valid :: "split_manifest \<Rightarrow> bool" where
  "split_valid m \<longleftrightarrow> hex_digest (sp_source m) \<and> sp_seed m < 2 ^ 32
     \<and> 1 \<le> length (sp_train m) \<and> length (sp_train m) \<le> 1000000 \<and> list_all (\<lambda>r. 1 \<le> r) (sp_train m)
     \<and> 1 \<le> length (sp_validation m) \<and> length (sp_validation m) \<le> 1000000 \<and> list_all (\<lambda>r. 1 \<le> r) (sp_validation m)
     \<and> 2 \<le> length (sp_hashes m) \<and> length (sp_hashes m) \<le> 1000000 \<and> list_all hex_digest (sp_hashes m)
     \<and> partition_ok (sp_train m) (sp_validation m) (sp_hashes m)"

type_synonym row_groups = "(string, nat list) pydict"

definition group_of :: "row_groups \<Rightarrow> string \<Rightarrow> nat list" where
  "group_of groups digest = (case dict_get groups digest of None \<Rightarrow> [] | Some rows \<Rightarrow> rows)"

definition group_rows :: "string list \<Rightarrow> row_groups" where
  "group_rows hashes = fold (\<lambda>(row, digest) groups. dict_set digest (group_of groups digest @ [row]) groups)
     (zip [1..<length hashes + 1] hashes) []"

fun select_groups :: "row_groups \<Rightarrow> nat \<Rightarrow> nat \<Rightarrow> string list \<Rightarrow> string list" where
  "select_groups groups target n [] = []"
| "select_groups groups target n (digest # rest) =
    (let n' = n + length (group_of groups digest) in digest # (if target \<le> n' then [] else select_groups groups target n' rest))"

definition split_target :: "nat \<Rightarrow> rat \<Rightarrow> nat" where
  "split_target n fraction = max 1 (nat (round_half_even (round_double (of_nat n * fraction))))"

definition selected_groups :: "(string \<Rightarrow> nat) \<Rightarrow> row_groups \<Rightarrow> nat \<Rightarrow> string list" where
  "selected_groups key groups target = select_groups groups target 0 (butlast (sort_key key (map fst groups)))"

definition rows_in :: "row_groups \<Rightarrow> (string \<Rightarrow> bool) \<Rightarrow> nat list" where
  "rows_in groups P = sort (concat (map (group_of groups) (filter P (map fst groups))))"

definition split_key :: "(string \<Rightarrow> nat) \<Rightarrow> string \<Rightarrow> nat \<Rightarrow> string \<Rightarrow> nat" where
  "split_key sha label seed digest = sha (label @ show_nat seed @ '':'' @ digest)"

definition split_rows :: "(string \<Rightarrow> nat) \<Rightarrow> uuid \<Rightarrow> string \<Rightarrow> string list \<Rightarrow> nat \<Rightarrow> rat \<Rightarrow> split_manifest attempt" where
  "split_rows sha dataset source hashes seed fraction =
    (if \<not> (0 < fraction \<and> fraction < 1) then Inl Training_validation
     else let groups = group_rows hashes in
     if length groups < 2 then Inl Training_validation
     else (let selected = selected_groups (split_key sha ''coire-split-v1:'' seed) groups (split_target (length hashes) fraction);
               m = \<lparr>sp_dataset = dataset, sp_source = source, sp_seed = seed, sp_train = rows_in groups (\<lambda>d. d \<notin> set selected),
                    sp_validation = rows_in groups (\<lambda>d. d \<in> set selected), sp_hashes = hashes\<rparr> in
           if split_valid m then Inr m else Inl Value_error))"

section \<open>Preference splits\<close>

record preference_manifest = split_manifest +
  pf_fraction :: rat
  pf_prompts :: "string list"

definition preference_valid :: "preference_manifest \<Rightarrow> bool" where
  "preference_valid m \<longleftrightarrow> hex_digest (sp_source m) \<and> sp_seed m < 2 ^ 32 \<and> 0 < pf_fraction m \<and> pf_fraction m < 1
     \<and> 1 \<le> length (sp_train m) \<and> length (sp_train m) \<le> 1000000 \<and> 1 \<le> length (sp_validation m) \<and> length (sp_validation m) \<le> 1000000
     \<and> 2 \<le> length (sp_hashes m) \<and> length (sp_hashes m) \<le> 1000000 \<and> list_all hex_digest (sp_hashes m)
     \<and> 2 \<le> length (pf_prompts m) \<and> length (pf_prompts m) \<le> 1000000 \<and> list_all hex_digest (pf_prompts m)
     \<and> length (pf_prompts m) = length (sp_hashes m) \<and> partition_ok (sp_train m) (sp_validation m) (pf_prompts m)"

definition split_preference_hashes ::
  "(string \<Rightarrow> nat) \<Rightarrow> uuid \<Rightarrow> string \<Rightarrow> string list \<Rightarrow> string list \<Rightarrow> nat \<Rightarrow> rat \<Rightarrow> preference_manifest attempt" where
  "split_preference_hashes sha dataset source hashes prompts seed fraction =
    (if length hashes \<noteq> length prompts then Inl Training_validation
     else if \<not> (0 < fraction \<and> fraction < 1) then Inl Training_validation
     else let groups = group_rows prompts in
     if length groups < 2 then Inl Training_validation
     else (let selected = selected_groups (split_key sha ''coire-preference-split-v1:'' seed) groups (split_target (length hashes) fraction);
               m = \<lparr>sp_dataset = dataset, sp_source = source, sp_seed = seed, sp_train = rows_in groups (\<lambda>d. d \<notin> set selected),
                    sp_validation = rows_in groups (\<lambda>d. d \<in> set selected), sp_hashes = hashes, pf_fraction = fraction, pf_prompts = prompts\<rparr> in
           if preference_valid m then Inr m else Inl Value_error))"

section \<open>Quotas\<close>

definition exact_shares :: "rat list \<Rightarrow> nat \<Rightarrow> rat list" where
  "exact_shares weights draws = map (\<lambda>w. of_nat draws * w / sum_list weights) weights"

definition floor_shares :: "rat list \<Rightarrow> nat list" where
  "floor_shares exact = map (\<lambda>x. nat \<lfloor>x\<rfloor>) exact"

definition remainder_order :: "rat list \<Rightarrow> nat list \<Rightarrow> nat list" where
  "remainder_order exact quotas = sort_key (\<lambda>i. (- (exact ! i - of_nat (quotas ! i)), i)) [0..<length exact]"

definition bump :: "nat \<Rightarrow> nat list \<Rightarrow> nat list" where
  "bump i quotas = quotas[i := quotas ! i + 1]"

definition largest_remainder_quotas :: "rat list \<Rightarrow> nat \<Rightarrow> nat list attempt" where
  "largest_remainder_quotas weights draws =
    (if \<not> (1 \<le> draws \<and> draws \<le> 16000000) \<or> \<not> (1 \<le> length weights \<and> length weights \<le> 16) then Inl Training_validation
     else if list_ex (\<lambda>w. w \<le> 0 \<or> 1 < w) weights then Inl Training_validation
     else if \<bar>sum_list weights - 1\<bar> > 1 / 1000000 then Inl Training_validation
     else (let exact = exact_shares weights draws; quotas = floor_shares exact in
           Inr (fold bump (take (draws - sum_list quotas) (remainder_order exact quotas)) quotas)))"

section \<open>Compilation\<close>

text \<open>\<open>ds_proportion\<close> is the decimal that prints the proportion; the float itself is the double nearest to it.\<close>

record dataset_source =
  ds_dataset :: uuid
  ds_count :: nat
  ds_proportion :: rat

record dataset_mixture =
  mx_datasets :: "dataset_source list"
  mx_samples :: nat
  mx_strategy :: strategy
  mx_replacement :: bool
  mx_seed :: nat

definition close_to_one :: "rat \<Rightarrow> bool" where
  "close_to_one x \<longleftrightarrow> x = 1 \<or> round_double \<bar>1 - x\<bar> \<le> round_double (1 / 1000000)"

definition mixture_valid :: "dataset_mixture \<Rightarrow> bool" where
  "mixture_valid mx \<longleftrightarrow> 1 \<le> length (mx_datasets mx) \<and> length (mx_datasets mx) \<le> 16
     \<and> list_all (\<lambda>d. 1 \<le> ds_count d \<and> ds_count d \<le> 1000000 \<and> 0 < round_double (ds_proportion d) \<and> round_double (ds_proportion d) \<le> 1) (mx_datasets mx)
     \<and> 1 \<le> mx_samples mx \<and> mx_samples mx \<le> 16000000 \<and> mx_seed mx < 2 ^ 32
     \<and> distinct (map ds_dataset (mx_datasets mx))
     \<and> close_to_one (round_double (sum_list (map (round_double \<circ> ds_proportion) (mx_datasets mx))))
     \<and> (mx_replacement mx \<or> mx_samples mx \<le> sum_list (map ds_count (mx_datasets mx)))"

record compiled_source =
  cs_dataset :: uuid
  cs_source :: string
  cs_split :: string
  cs_rows :: "nat list"
  cs_quota :: nat

record compiled_mixture =
  cm_sources :: "compiled_source list"
  cm_identity :: string
  cm_seed :: nat
  cm_strategy :: strategy
  cm_replacement :: bool
  cm_samples :: nat

definition train_hashes :: "split_manifest list \<Rightarrow> string set" where
  "train_hashes ms = (\<Union>m\<in>set ms. hash_of m ` set (sp_train m))"

definition validation_hashes :: "split_manifest list \<Rightarrow> string set" where
  "validation_hashes ms = (\<Union>m\<in>set ms. hash_of m ` set (sp_validation m))"

definition detect_split_leakage :: "split_manifest list \<Rightarrow> unit attempt" where
  "detect_split_leakage ms = (if train_hashes ms \<inter> validation_hashes ms \<noteq> {} then Inl Training_validation else Inr ())"

fun selected_manifests :: "(uuid, split_manifest) pydict \<Rightarrow> dataset_source list \<Rightarrow> split_manifest list attempt" where
  "selected_manifests manifests [] = Inr []"
| "selected_manifests manifests (d # ds) =
    (case dict_get manifests (ds_dataset d) of
       None \<Rightarrow> Inl Training_validation
     | Some m \<Rightarrow>
         if sp_dataset m \<noteq> ds_dataset d then Inl Training_validation
         else if \<not> split_valid m then Inl Value_error
         else andthen (selected_manifests manifests ds) (\<lambda>ms. Inr (m # ms)))"

definition compiled_of :: "('a split_manifest_scheme \<Rightarrow> string) \<Rightarrow> dataset_source \<Rightarrow> 'a split_manifest_scheme \<Rightarrow> nat \<Rightarrow> compiled_source" where
  "compiled_of split_digest d m quota = \<lparr>cs_dataset = ds_dataset d, cs_source = sp_source m, cs_split = split_digest m,
     cs_rows = take (ds_count d) (sort (sp_train m)), cs_quota = quota\<rparr>"

fun compile_sources ::
  "('a split_manifest_scheme \<Rightarrow> string) \<Rightarrow> bool \<Rightarrow> (dataset_source \<times> 'a split_manifest_scheme \<times> nat) list \<Rightarrow> compiled_source list attempt" where
  "compile_sources split_digest replacement [] = Inr []"
| "compile_sources split_digest replacement ((d, m, quota) # rest) =
    (if ds_count d > length (sp_train m) then Inl Training_validation
     else if \<not> replacement \<and> quota > ds_count d then Inl Training_validation
     else andthen (compile_sources split_digest replacement rest) (\<lambda>cs. Inr (compiled_of split_digest d m quota # cs)))"

type_synonym mixture_payload = "dataset_mixture \<times> string list \<times> string list \<times> nat list"

definition compile_mixture ::
  "(split_manifest \<Rightarrow> string) \<Rightarrow> (mixture_payload \<Rightarrow> string) \<Rightarrow> dataset_mixture \<Rightarrow> (uuid, split_manifest) pydict \<Rightarrow> split_manifest list
     \<Rightarrow> compiled_mixture attempt" where
  "compile_mixture split_digest identity mixture manifests held_out =
    (if \<not> mixture_valid mixture then Inl Value_error
     else andthen (selected_manifests manifests (mx_datasets mixture)) (\<lambda>selected.
       if \<not> list_all split_valid held_out then Inl Value_error
       else andthen (detect_split_leakage (selected @ held_out)) (\<lambda>_.
       andthen (largest_remainder_quotas (map ds_proportion (mx_datasets mixture)) (mx_samples mixture)) (\<lambda>quotas.
       andthen (compile_sources split_digest (mx_replacement mixture) (zip (mx_datasets mixture) (zip selected quotas))) (\<lambda>sources.
       Inr \<lparr>cm_sources = sources,
         cm_identity = identity (mixture, map cs_split sources, sort (map split_digest held_out), quotas),
         cm_seed = mx_seed mixture, cm_strategy = mx_strategy mixture, cm_replacement = mx_replacement mixture,
         cm_samples = mx_samples mixture\<rparr>)))))"

section \<open>Preference mixtures\<close>

definition prompt_of :: "preference_manifest \<Rightarrow> nat \<Rightarrow> string" where
  "prompt_of m row = pf_prompts m ! (row - 1)"

definition detect_preference_leakage :: "preference_manifest list \<Rightarrow> unit attempt" where
  "detect_preference_leakage ms =
    (if \<not> list_all preference_valid ms then Inl Value_error
     else if (\<Union>m\<in>set ms. prompt_of m ` set (sp_train m)) \<inter> (\<Union>m\<in>set ms. prompt_of m ` set (sp_validation m)) \<noteq> {}
     then Inl Training_validation else Inr ())"

fun selected_preferences :: "(uuid, preference_manifest) pydict \<Rightarrow> dataset_source list \<Rightarrow> preference_manifest list attempt" where
  "selected_preferences manifests [] = Inr []"
| "selected_preferences manifests (d # ds) =
    (case dict_get manifests (ds_dataset d) of
       None \<Rightarrow> Inl Training_validation
     | Some m \<Rightarrow>
         if sp_dataset m \<noteq> ds_dataset d then Inl Training_validation
         else if \<not> preference_valid m then Inl Value_error
         else andthen (selected_preferences manifests ds) (\<lambda>ms. Inr (m # ms)))"

definition compile_preference_mixture ::
  "(preference_manifest \<Rightarrow> string) \<Rightarrow> (mixture_payload \<Rightarrow> string) \<Rightarrow> dataset_mixture \<Rightarrow> (uuid, preference_manifest) pydict
     \<Rightarrow> preference_manifest list \<Rightarrow> compiled_mixture attempt" where
  "compile_preference_mixture split_digest identity mixture manifests held_out =
    (if \<not> mixture_valid mixture then Inl Value_error
     else andthen (selected_preferences manifests (mx_datasets mixture)) (\<lambda>selected.
       andthen (detect_preference_leakage (selected @ held_out)) (\<lambda>_.
       andthen (largest_remainder_quotas (map ds_proportion (mx_datasets mixture)) (mx_samples mixture)) (\<lambda>quotas.
       andthen (compile_sources split_digest (mx_replacement mixture) (zip (mx_datasets mixture) (zip selected quotas))) (\<lambda>sources.
       Inr \<lparr>cm_sources = sources,
         cm_identity = identity (mixture, map cs_split sources, sort (map split_digest held_out), quotas),
         cm_seed = mx_seed mixture, cm_strategy = mx_strategy mixture, cm_replacement = mx_replacement mixture,
         cm_samples = mx_samples mixture\<rparr>)))))"

end
