(* ===== verification/Training_Splits.thy ===== *)
theory Training_Splits
  imports Training_Data
begin

text \<open>
  What a split and a compiled mixture are: a partition of the rows by content, quotas that add up to the draws of an epoch and
  are within one of the exact shares, and sources that the sampler accepts.
\<close>

section \<open>Grouping\<close>

definition row_list :: "string list \<Rightarrow> nat list" where
  "row_list hashes = [1..<length hashes + 1]"

lemma row_list_simps [simp]:
  "set (row_list hashes) = {1..<length hashes + 1}" "length (row_list hashes) = length hashes" "distinct (row_list hashes)" "sorted (row_list hashes)"
  by (auto simp: row_list_def simp del: upt_Suc)

lemma row_list_snoc: "row_list (hs @ [h]) = row_list hs @ [length hs + 1]"
  by (simp add: row_list_def)

lemma distinct_groups: "distinct ds \<Longrightarrow> (\<And>d. distinct (f d)) \<Longrightarrow> (\<And>d d'. d \<noteq> d' \<Longrightarrow> set (f d) \<inter> set (f d') = {}) \<Longrightarrow> distinct (concat (map f ds))"
proof (induction ds)
  case (Cons d ds)
  have "set (f d) \<inter> set (f d') = {}" if "d' \<in> set ds" for d' using Cons.prems(1,3) that by force
  then show ?case using Cons by auto
qed simp

definition rows_with :: "string list \<Rightarrow> string \<Rightarrow> nat list" where
  "rows_with hashes digest = filter (\<lambda>row. hashes ! (row - 1) = digest) (row_list hashes)"

lemma rows_with_snoc: "rows_with (hs @ [h]) d = rows_with hs d @ (if d = h then [length hs + 1] else [])"
proof -
  have "filter (\<lambda>row. (hs @ [h]) ! (row - 1) = d) (row_list hs) = filter (\<lambda>row. hs ! (row - 1) = d) (row_list hs)"
    by (rule filter_cong) (auto simp: nth_append)
  then show ?thesis by (auto simp: rows_with_def row_list_snoc nth_append)
qed

lemma rows_with_absent: "d \<notin> set hs \<Longrightarrow> rows_with hs d = []"
  by (auto simp: rows_with_def filter_empty_conv)

lemma rows_with_distinct: "distinct ds \<Longrightarrow> distinct (concat (map (rows_with hashes) ds))"
  by (rule distinct_groups) (auto simp: rows_with_def)

lemma group_rows_snoc: "group_rows (hs @ [h]) = dict_set h (group_of (group_rows hs) h @ [length hs + 1]) (group_rows hs)"
proof -
  have "zip (row_list (hs @ [h])) (hs @ [h]) = zip (row_list hs) hs @ [(length hs + 1, h)]"
    by (simp add: row_list_snoc)
  then show ?thesis unfolding group_rows_def by (fold row_list_def) simp
qed

lemma group_rows_get: "dict_get (group_rows hashes) d = (if d \<in> set hashes then Some (rows_with hashes d) else None)"
proof (induction hashes arbitrary: d rule: rev_induct)
  case (snoc h hs)
  have "group_of (group_rows hs) h = rows_with hs h"
    using snoc [of h] by (auto simp: group_of_def rows_with_absent)
  then show ?case using snoc [of d] by (auto simp: group_rows_snoc rows_with_snoc)
qed (simp add: group_rows_def)

lemma group_of_rows: "group_of (group_rows hashes) d = rows_with hashes d"
  by (simp add: group_of_def group_rows_get rows_with_absent)

lemma group_keys: "distinct (map fst (group_rows hashes))" "set (map fst (group_rows hashes)) = set hashes"
proof -
  have "dict_ok (group_rows hashes)" by (induction hashes rule: rev_induct) (simp_all add: group_rows_snoc, simp add: group_rows_def)
  then show "distinct (map fst (group_rows hashes))" by (simp add: dict_ok_def)
  show "set (map fst (group_rows hashes)) = set hashes"
    by (induction hashes rule: rev_induct) (simp_all add: group_rows_snoc, simp add: group_rows_def)
qed

lemma rows_in_groups: "rows_in (group_rows hashes) P = filter (\<lambda>row. P (hashes ! (row - 1))) (row_list hashes)"
proof -
  let ?keys = "filter P (map fst (group_rows hashes))"
  have "hashes ! (row - 1) \<in> set hashes" if "row \<in> set (row_list hashes)" for row using that by (intro nth_mem) auto
  then have rows: "set (concat (map (rows_with hashes) ?keys)) = {row \<in> set (row_list hashes). P (hashes ! (row - 1))}"
    using group_keys(2) [of hashes] by (auto simp: rows_with_def)
  have "sort (concat (map (rows_with hashes) ?keys)) = filter (\<lambda>row. P (hashes ! (row - 1))) (row_list hashes)"
  proof (rule sorted_distinct_set_unique)
    show "distinct (sort (concat (map (rows_with hashes) ?keys)))" using rows_with_distinct [of ?keys] group_keys(1) by simp
    show "sorted (filter (\<lambda>row. P (hashes ! (row - 1))) (row_list hashes))" by (rule sorted_filter [where f = id, simplified]) simp
  qed (use rows in simp_all)
  then show ?thesis by (simp add: rows_in_def group_of_rows [abs_def])
qed

section \<open>Splits\<close>

lemma select_prefix: "\<exists>n. select_groups groups target k ds = take n ds \<and> (ds \<noteq> [] \<longrightarrow> 0 < n)"
proof (induction groups target k ds rule: select_groups.induct)
  case (2 groups target k d ds)
  show ?case
  proof (cases "target \<le> k + length (group_of groups d)")
    case True
    then show ?thesis by (intro exI [of _ 1]) (simp add: Let_def)
  next
    case False
    then obtain n where "select_groups groups target (k + length (group_of groups d)) ds = take n ds" using 2 by auto
    then show ?thesis using False by (intro exI [of _ "Suc n"]) (simp add: Let_def)
  qed
qed simp

text \<open>The selection stops with the group that reaches the target, or has taken all it may.\<close>

lemma select_reaches:
  "select_groups groups target k ds = ds \<or> target \<le> k + length (concat (map (group_of groups) (select_groups groups target k ds)))"
  by (induction groups target k ds rule: select_groups.induct) (auto simp: Let_def)

lemma selection:
  assumes "distinct keys" "2 \<le> length keys"
  obtains d where "d \<in> set keys" "d \<notin> set (select_groups groups target 0 (butlast (sort_key key keys)))"
    "select_groups groups target 0 (butlast (sort_key key keys)) \<noteq> []"
    "set (select_groups groups target 0 (butlast (sort_key key keys))) \<subseteq> set keys"
    "distinct (select_groups groups target 0 (butlast (sort_key key keys)))"
proof -
  let ?o = "sort_key key keys"
  have o: "distinct ?o" "set ?o = set keys" "length ?o = length keys" using assms(1) by simp_all
  then have ne: "?o \<noteq> []" "butlast ?o \<noteq> []" using assms(2) by (auto simp flip: length_0_conv)
  obtain n where n: "select_groups groups target 0 (butlast ?o) = take n (butlast ?o)" "0 < n" using select_prefix ne(2) by blast
  have "last ?o \<notin> set (butlast ?o)" "distinct (butlast ?o)"
    using o(1) ne(1) by (metis append_butlast_last_id distinct_append not_distinct_conv_prefix, metis distinct_butlast)
  moreover have "set (take n (butlast ?o)) \<subseteq> set (butlast ?o)" "set (butlast ?o) \<subseteq> set ?o"
    by (rule set_take_subset, auto dest: in_set_butlastD)
  ultimately show thesis
    using that [of "last ?o"] n ne o(2) last_in_set [OF ne(1)] unfolding n(1) by auto
qed

lemma split_partition:
  fixes hashes :: "string list" and key :: "string \<Rightarrow> nat" and target :: nat
  defines "selected \<equiv> selected_groups key (group_rows hashes) target"
  defines "train \<equiv> rows_in (group_rows hashes) (\<lambda>d. d \<notin> set selected)" and "validation \<equiv> rows_in (group_rows hashes) (\<lambda>d. d \<in> set selected)"
  assumes "2 \<le> length (group_rows hashes)"
  shows "partition_ok train validation hashes" "train \<noteq> []" "validation \<noteq> []" "length train + length validation = length hashes"
    "target \<le> length validation \<or> card ((\<lambda>row. hashes ! (row - 1)) ` set train) = 1"
proof -
  let ?keys = "map fst (group_rows hashes)"
  note keys = group_keys [of hashes]
  have two: "2 \<le> length ?keys" using assms(4) by simp
  obtain d where d: "d \<in> set ?keys" "d \<notin> set selected" "selected \<noteq> []" "set selected \<subseteq> set ?keys" "distinct selected"
    using selection [OF keys(1) two, of "group_rows hashes" target key] unfolding selected_def selected_groups_def by blast
  have rows: "train = filter (\<lambda>row. hashes ! (row - 1) \<notin> set selected) (row_list hashes)"
    "validation = filter (\<lambda>row. hashes ! (row - 1) \<in> set selected) (row_list hashes)"
    by (simp_all add: train_def validation_def rows_in_groups)
  show "partition_ok train validation hashes" unfolding partition_ok_def rows by auto
  show "length train + length validation = length hashes"
    unfolding rows using sum_length_filter_compl [of "\<lambda>row. hashes ! (row - 1) \<in> set selected" "row_list hashes"] by simp
  have row: "\<exists>row\<in>set (row_list hashes). hashes ! (row - 1) = x" if "x \<in> set ?keys" for x
  proof -
    obtain i where "i < length hashes" "hashes ! i = x" using \<open>x \<in> set ?keys\<close> keys(2) by (metis in_set_conv_nth)
    then show ?thesis by (intro bexI [of _ "i + 1"]) auto
  qed
  show "train \<noteq> []" using row [OF d(1)] d(2) unfolding rows filter_empty_conv by blast
  have "hd selected \<in> set ?keys" using d(3,4) hd_in_set by blast
  from row [OF this] show "validation \<noteq> []" using hd_in_set [OF d(3)] unfolding rows filter_empty_conv by metis
  show "target \<le> length validation \<or> card ((\<lambda>row. hashes ! (row - 1)) ` set train) = 1"
  proof (cases "selected = butlast (sort_key key ?keys)")
    case True
    let ?o = "sort_key key ?keys"
    have ne: "?o \<noteq> []" using two by (auto simp flip: length_0_conv)
    have "set ?o = insert (last ?o) (set selected)" unfolding True using append_butlast_last_id [OF ne] by (metis Un_insert_right append_Nil2 list.set(1) list.simps(15) set_append sup_bot.right_neutral)
    then have "set hashes = insert (last ?o) (set selected)" using keys(2) by simp
    moreover have "(\<lambda>row. hashes ! (row - 1)) ` set train = set hashes - set selected"
    proof
      show "(\<lambda>row. hashes ! (row - 1)) ` set train \<subseteq> set hashes - set selected" by (auto simp: rows intro!: nth_mem)
      show "set hashes - set selected \<subseteq> (\<lambda>row. hashes ! (row - 1)) ` set train" using row keys(2) by (fastforce simp: rows)
    qed
    moreover have "last ?o \<notin> set selected" unfolding True
      using keys(1) ne by (metis append_butlast_last_id distinct_append distinct_sort disjoint_iff list.set_intros(1))
    ultimately have "(\<lambda>row. hashes ! (row - 1)) ` set train = {last ?o}" by blast
    then show ?thesis by simp
  next
    case False
    then have "target \<le> length (concat (map (rows_with hashes) selected))"
      using select_reaches [of "group_rows hashes" target 0 "butlast (sort_key key ?keys)"]
      by (simp add: selected_def selected_groups_def group_of_rows [abs_def])
    also have "\<dots> \<le> length validation"
    proof -
      have "length (concat (map (rows_with hashes) selected)) = card (set (concat (map (rows_with hashes) selected)))"
        by (rule distinct_card [symmetric]) (rule rows_with_distinct [OF d(5)])
      also have "\<dots> \<le> card (set validation)" by (rule card_mono) (auto simp: rows rows_with_def)
      finally show ?thesis using card_length [of validation] by simp
    qed
    finally show ?thesis ..
  qed
qed

text \<open>A split of valid rows always passes the validation of its model.\<close>

lemma split_rows_valid:
  assumes "0 < fraction" "fraction < 1" "2 \<le> card (set hashes)" "hex_digest source" "seed < 2 ^ 32" "length hashes \<le> 1000000"
    "list_all hex_digest hashes"
  shows "\<exists>m. split_rows sha dataset source hashes seed fraction = Inr m \<and> split_valid m \<and> sp_hashes m = hashes \<and> sp_dataset m = dataset
    \<and> sp_source m = source \<and> length (sp_train m) + length (sp_validation m) = length hashes
    \<and> (split_target (length hashes) fraction \<le> length (sp_validation m) \<or> card (hash_of m ` set (sp_train m)) = 1)"
proof -
  have "length (group_rows hashes) = card (set hashes)"
    using distinct_card [OF group_keys(1) [of hashes]] group_keys(2) [of hashes] by simp
  then have two: "2 \<le> length (group_rows hashes)" using assms(3) by simp
  note p = split_partition [where key = "split_key sha ''coire-split-v1:'' seed" and target = "split_target (length hashes) fraction", OF two]
  let ?selected = "selected_groups (split_key sha ''coire-split-v1:'' seed) (group_rows hashes) (split_target (length hashes) fraction)"
  let ?m = "\<lparr>sp_dataset = dataset, sp_source = source, sp_seed = seed, sp_train = rows_in (group_rows hashes) (\<lambda>d. d \<notin> set ?selected),
      sp_validation = rows_in (group_rows hashes) (\<lambda>d. d \<in> set ?selected), sp_hashes = hashes\<rparr>"
  have "2 \<le> length hashes" using assms(3) card_length [of hashes] by simp
  moreover have "1 \<le> length (sp_train ?m)" "1 \<le> length (sp_validation ?m)" using p(2,3) by (simp_all add: Suc_le_eq)
  moreover have "list_all ((\<le>) 1) (sp_train ?m)" "list_all ((\<le>) 1) (sp_validation ?m)"
    using p(1) by (auto simp: partition_ok_def list_all_iff)
  ultimately have valid: "split_valid ?m" using p(1,4) assms(4-7) by (simp add: split_valid_def)
  then have "split_rows sha dataset source hashes seed fraction = Inr ?m"
    using assms(1,2) two by (simp add: split_rows_def Let_def)
  then show ?thesis using valid p(4,5) by (simp add: hash_of_def [abs_def])
qed

section \<open>Quotas\<close>

lemma bump_simps [simp]: "length (bump i qs) = length qs" "j < length qs \<Longrightarrow> bump i qs ! j = qs ! j + (if j = i then 1 else 0)"
  by (auto simp: bump_def nth_list_update)

lemma fold_bump:
  "distinct is \<Longrightarrow> length (fold bump is qs) = length qs \<and> (\<forall>j<length qs. fold bump is qs ! j = qs ! j + (if j \<in> set is then 1 else 0))"
  by (induction "is" arbitrary: qs) auto

lemma sum_bumped:
  assumes "distinct is" "set is \<subseteq> {..<length qs}"
  shows "sum_list (fold bump is qs) = sum_list qs + length is"
proof -
  have "sum_list (fold bump is qs) = (\<Sum>j<length qs. qs ! j + (if j \<in> set is then 1 else 0))"
    using fold_bump [OF assms(1), of qs] by (simp add: sum_list_sum_nth atLeast0LessThan)
  also have "\<dots> = sum_list qs + card ({..<length qs} \<inter> set is)"
    by (simp add: sum.distrib sum_list_sum_nth atLeast0LessThan flip: sum.inter_restrict)
  also have "{..<length qs} \<inter> set is = set is" using assms(2) by blast
  finally show ?thesis using distinct_card [OF assms(1)] by simp
qed

lemma exact_sum: "sum_list weights \<noteq> 0 \<Longrightarrow> sum_list (exact_shares weights draws) = of_nat draws"
proof -
  assume nz: "sum_list weights \<noteq> 0"
  have "sum_list (map (\<lambda>w. c * w / d) ws) = c * sum_list ws / d" for c d :: rat and ws
    by (induction ws) (simp_all add: ring_distribs add_divide_distrib)
  then have "sum_list (exact_shares weights draws) = of_nat draws * sum_list weights / sum_list weights"
    unfolding exact_shares_def by blast
  then show ?thesis using nz by simp
qed

text \<open>The remainders: each below one, together the draws the floors leave over.\<close>

definition remainder :: "rat list \<Rightarrow> nat \<Rightarrow> rat" where
  "remainder exact i = exact ! i - of_nat (floor_shares exact ! i)"

lemma remainder_bounds:
  assumes "list_all (\<lambda>x. 0 \<le> x) exact" "i < length exact"
  shows "0 \<le> remainder exact i" "remainder exact i < 1"
proof -
  have "0 \<le> exact ! i" using assms by (simp add: list_all_length)
  then have "of_nat (floor_shares exact ! i) = (of_int \<lfloor>exact ! i\<rfloor> :: rat)" using assms(2) by (simp add: floor_shares_def)
  then show "0 \<le> remainder exact i" "remainder exact i < 1" by (simp_all add: remainder_def) linarith+
qed

lemma remainder_sum:
  "(\<Sum>i<length exact. remainder exact i) = sum_list exact - of_nat (sum_list (floor_shares exact))"
proof -
  have "length (floor_shares exact) = length exact" by (simp add: floor_shares_def)
  then have "of_nat (sum_list (floor_shares exact)) = (\<Sum>i<length exact. of_nat (floor_shares exact ! i) :: rat)"
    by (simp add: sum_list_sum_nth atLeast0LessThan)
  then show ?thesis by (simp add: remainder_def sum_subtractf sum_list_sum_nth atLeast0LessThan)
qed

lemma remainder_order_facts:
  "distinct (remainder_order exact (floor_shares exact))" "set (remainder_order exact (floor_shares exact)) = {..<length exact}"
  "length (remainder_order exact (floor_shares exact)) = length exact"
  "j < k \<Longrightarrow> k < length exact \<Longrightarrow>
     remainder exact (remainder_order exact (floor_shares exact) ! k) \<le> remainder exact (remainder_order exact (floor_shares exact) ! j)"
proof -
  let ?key = "\<lambda>i. (- remainder exact i, i)" and ?o = "remainder_order exact (floor_shares exact)"
  have o: "?o = sort_key ?key [0..<length exact]" by (simp add: remainder_order_def remainder_def)
  show "distinct ?o" "set ?o = {..<length exact}" "length ?o = length exact" by (auto simp: o)
  assume "j < k" "k < length exact"
  then have "map ?key ?o ! j \<le> map ?key ?o ! k"
    using sorted_nth_mono [of "map ?key ?o" j k] sorted_sort_key [of ?key "[0..<length exact]"] by (simp add: o)
  then show "remainder exact (?o ! k) \<le> remainder exact (?o ! j)" using \<open>j < k\<close> \<open>k < length exact\<close> by (auto simp: o less_eq_prod_def)
qed

text \<open>Every bumped share had a remainder.\<close>

lemma bumped_positive:
  assumes "list_all (\<lambda>x. 0 \<le> x) exact" "sum_list exact = of_nat (sum_list (floor_shares exact) + n)" "n \<le> length exact"
    "i \<in> set (take n (remainder_order exact (floor_shares exact)))"
  shows "0 < remainder exact i"
proof (rule ccontr)
  let ?o = "remainder_order exact (floor_shares exact)"
  note o = remainder_order_facts [where exact = exact]
  assume "\<not> 0 < remainder exact i"
  obtain k where k: "k < n" "i = ?o ! k" "k < length exact" using assms(4) by (auto simp: in_set_conv_nth o(3))
  have "i < length exact" using o(2) k nth_mem [of k ?o] o(3) by simp
  then have zero: "remainder exact i = 0" using remainder_bounds(1) [OF assms(1)] \<open>\<not> 0 < remainder exact i\<close> by force
  have "(\<Sum>i<length exact. remainder exact i) = (\<Sum>j<length exact. remainder exact (?o ! j))"
    using sum_list_distinct_conv_sum_set [OF o(1), of "remainder exact"] sum_list_sum_nth [of "map (remainder exact) ?o"] o(2,3)
    by (simp add: atLeast0LessThan)
  also have "\<dots> \<le> (\<Sum>j<length exact. if j < k then 1 else 0)"
  proof (rule sum_mono)
    fix j assume "j \<in> {..<length exact}"
    then have j: "j < length exact" by simp
    then have "?o ! j < length exact" using o(2,3) nth_mem [of j ?o] by simp
    then have "remainder exact (?o ! j) \<le> 1" using remainder_bounds(2) [OF assms(1)] by (meson less_imp_le)
    moreover have "remainder exact (?o ! j) \<le> 0" if "\<not> j < k"
      using that zero k(2) o(4) [of k j] j by (cases "j = k") auto
    ultimately show "remainder exact (?o ! j) \<le> (if j < k then 1 else 0)" by simp
  qed
  also have "\<dots> = of_nat (card ({..<length exact} \<inter> {..<k}))" by (simp add: sum.If_cases lessThan_def)
  also have "{..<length exact} \<inter> {..<k} = {..<k}" using k(3) by auto
  finally have "of_nat n \<le> (of_nat k :: rat)" using remainder_sum [of exact] assms(2) by simp
  then show False using k(1) by simp
qed

lemma quotas_ok:
  assumes "largest_remainder_quotas weights draws = Inr quotas"
  shows "length quotas = length weights" "sum_list quotas = draws"
    "i < length weights \<Longrightarrow> of_nat (quotas ! i) - 1 < of_nat draws * weights ! i / sum_list weights"
    "i < length weights \<Longrightarrow> of_nat draws * weights ! i / sum_list weights < of_nat (quotas ! i) + 1"
proof -
  define exact where "exact = exact_shares weights draws"
  define n where "n = draws - sum_list (floor_shares exact)"
  let ?o = "remainder_order exact (floor_shares exact)"
  have pos: "list_all (\<lambda>w. 0 < w) weights" "weights \<noteq> []"
    and q: "quotas = fold bump (take n ?o) (floor_shares exact)"
    using assms by (auto simp: largest_remainder_quotas_def Let_def list_ex_iff list_all_iff not_le exact_def n_def split: if_splits)
  obtain w ws where "weights = w # ws" "0 < w" using pos by (cases weights) auto
  moreover have "0 \<le> sum_list ws" using pos(1) calculation(1) by (intro sum_list_nonneg) (simp add: list_all_iff less_imp_le)
  ultimately have "0 < sum_list weights" by simp
  then have sum: "sum_list exact = of_nat draws" and nonneg: "list_all (\<lambda>x. 0 \<le> x) exact"
    using exact_sum pos by (auto simp: exact_def exact_shares_def list_all_iff less_imp_le)
  have len: "length exact = length weights" "length (floor_shares exact) = length exact" by (simp_all add: exact_def exact_shares_def floor_shares_def)
  have "0 \<le> (\<Sum>i<length exact. remainder exact i)" using remainder_bounds(1) [OF nonneg] by (intro sum_nonneg) simp
  then have "of_nat (sum_list (floor_shares exact)) \<le> (of_nat draws :: rat)" using remainder_sum [of exact] sum by simp
  then have le: "sum_list (floor_shares exact) \<le> draws" by simp
  have "(\<Sum>i<length exact. remainder exact i) \<le> (\<Sum>i<length exact. 1)"
    using remainder_bounds(2) [OF nonneg] by (intro sum_mono) (simp add: less_imp_le)
  then have "of_nat n \<le> (of_nat (length exact) :: rat)" using remainder_sum [of exact] sum le by (simp add: n_def of_nat_diff)
  then have n: "n \<le> length exact" by simp
  note o = remainder_order_facts [where exact = exact]
  have bumped: "distinct (take n ?o)" "set (take n ?o) \<subseteq> {..<length (floor_shares exact)}" "length (take n ?o) = n"
    using o(1-3) n len(2) set_take_subset [of n ?o] by auto
  note fb = fold_bump [OF bumped(1), of "floor_shares exact"]
  show "length quotas = length weights" using fb q len by simp
  show "sum_list quotas = draws" using sum_bumped [OF bumped(1,2)] bumped(3) q le by (simp add: n_def)
  have rest: "sum_list exact = of_nat (sum_list (floor_shares exact) + n)" using sum le by (simp add: n_def)
  assume i: "i < length weights"
  have share: "exact ! i = of_nat draws * weights ! i / sum_list weights" using i by (simp add: exact_def exact_shares_def)
  have quota: "quotas ! i = floor_shares exact ! i + (if i \<in> set (take n ?o) then 1 else 0)" using fb q i len by simp
  have "0 \<le> remainder exact i" "remainder exact i < 1" using remainder_bounds [OF nonneg] i len by simp_all
  moreover have "0 < remainder exact i" if "i \<in> set (take n ?o)" using bumped_positive [OF nonneg rest n that] .
  ultimately show "of_nat (quotas ! i) - 1 < of_nat draws * weights ! i / sum_list weights"
    "of_nat draws * weights ! i / sum_list weights < of_nat (quotas ! i) + 1"
    unfolding share [symmetric] quota by (auto simp: remainder_def)
qed

section \<open>Compiled mixtures\<close>

definition compiled_rows :: "compiled_source \<Rightarrow> mixture_source" where
  "compiled_rows c = (cs_dataset c, cs_rows c, cs_quota c)"

definition source_compiled :: "('a split_manifest_scheme \<Rightarrow> string) \<Rightarrow> bool \<Rightarrow> dataset_source \<times> 'a split_manifest_scheme \<times> nat \<Rightarrow> compiled_source \<Rightarrow> bool" where
  "source_compiled split_digest replacement x c \<longleftrightarrow> (case x of (d, m, quota) \<Rightarrow>
     c = compiled_of split_digest d m quota \<and> ds_count d \<le> length (sp_train m) \<and> (replacement \<or> quota \<le> ds_count d))"

lemma compile_sources_ok:
  "compile_sources split_digest replacement xs = Inr cs \<Longrightarrow> list_all2 (source_compiled split_digest replacement) xs cs"
  by (induction xs arbitrary: cs) (auto simp: source_compiled_def split: if_splits)

lemma selected_ok:
  "selected_manifests manifests ds = Inr ms
     \<Longrightarrow> list_all2 (\<lambda>d m. split_valid m \<and> sp_dataset m = ds_dataset d \<and> dict_get manifests (ds_dataset d) = Some m) ds ms"
  by (induction ds arbitrary: ms) (auto split: option.splits if_splits)

text \<open>What a compiled mixture is: one source per dataset, its first training rows, and a share of the draws.\<close>

lemma compiled_ok:
  assumes "compile_mixture split_digest identity mx manifests held_out = Inr c"
  obtains selected quotas where "mixture_valid mx" "length selected = length (mx_datasets mx)" "length (cm_sources c) = length (mx_datasets mx)"
    "train_hashes (selected @ held_out) \<inter> validation_hashes (selected @ held_out) = {}"
    "largest_remainder_quotas (map ds_proportion (mx_datasets mx)) (mx_samples mx) = Inr quotas"
    "\<forall>i<length (mx_datasets mx). split_valid (selected ! i) \<and> dict_get manifests (ds_dataset (mx_datasets mx ! i)) = Some (selected ! i)
       \<and> source_compiled split_digest (mx_replacement mx) (mx_datasets mx ! i, selected ! i, quotas ! i) (cm_sources c ! i)"
proof -
  obtain selected quotas sources where f: "mixture_valid mx" "selected_manifests manifests (mx_datasets mx) = Inr selected"
      "detect_split_leakage (selected @ held_out) = Inr ()"
      "largest_remainder_quotas (map ds_proportion (mx_datasets mx)) (mx_samples mx) = Inr quotas"
      "compile_sources split_digest (mx_replacement mx) (zip (mx_datasets mx) (zip selected quotas)) = Inr sources"
      "cm_sources c = sources"
    using assms unfolding compile_mixture_def by (auto split: if_splits)
  note sel = selected_ok [OF f(2)] and com = compile_sources_ok [OF f(5)]
  have len: "length selected = length (mx_datasets mx)" "length quotas = length (mx_datasets mx)" "length sources = length (mx_datasets mx)"
    using list_all2_lengthD [OF sel] quotas_ok(1) [OF f(4)] list_all2_lengthD [OF com] by simp_all
  have "train_hashes (selected @ held_out) \<inter> validation_hashes (selected @ held_out) = {}"
    using f(3) by (simp add: detect_split_leakage_def split: if_splits)
  moreover have "split_valid (selected ! i) \<and> dict_get manifests (ds_dataset (mx_datasets mx ! i)) = Some (selected ! i)
       \<and> source_compiled split_digest (mx_replacement mx) (mx_datasets mx ! i, selected ! i, quotas ! i) (cm_sources c ! i)"
    if "i < length (mx_datasets mx)" for i
    using list_all2_nthD [OF sel that] list_all2_nthD [OF com, of i] that len f(6) by simp
  ultimately show thesis using that f len by blast
qed

lemma sorted_train: "split_valid m \<Longrightarrow> distinct (take n (sort (sp_train m))) \<and> set (take n (sort (sp_train m))) \<subseteq> set (sp_train m)"
  using set_take_subset [of n "sort (sp_train m)"] by (auto simp: split_valid_def partition_ok_def)

text \<open>The content that a mixture must not train on: what any of its own splits or a held-out split validates with.\<close>

definition unseen_hashes :: "dataset_mixture \<Rightarrow> (uuid, split_manifest) pydict \<Rightarrow> split_manifest list \<Rightarrow> string set" where
  "unseen_hashes mx manifests held_out =
     (\<Union>d\<in>set (mx_datasets mx). case dict_get manifests (ds_dataset d) of None \<Rightarrow> {} | Some m \<Rightarrow> hash_of m ` set (sp_validation m))
     \<union> validation_hashes held_out"

lemma compiled_rows_ok:
  assumes "compile_mixture split_digest identity mx manifests held_out = Inr c"
  shows "sources_distinct (map compiled_rows (cm_sources c))" "quota_sum (map compiled_rows (cm_sources c)) = mx_samples mx"
    "e < 2 ^ 64 \<Longrightarrow> \<not> pools_error e (mx_replacement mx) (source_pools (map compiled_rows (cm_sources c)))"
    "(ident, row) \<in> row_universe (map compiled_rows (cm_sources c)) \<Longrightarrow>
       \<exists>m. dict_get manifests ident = Some m \<and> row \<in> set (sp_train m) \<and> hash_of m row \<notin> unseen_hashes mx manifests held_out"
proof -
  obtain selected quotas where valid: "mixture_valid mx"
    and len: "length selected = length (mx_datasets mx)" "length (cm_sources c) = length (mx_datasets mx)"
    and leak: "train_hashes (selected @ held_out) \<inter> validation_hashes (selected @ held_out) = {}"
    and q: "largest_remainder_quotas (map ds_proportion (mx_datasets mx)) (mx_samples mx) = Inr quotas"
    and src: "\<forall>i<length (mx_datasets mx). split_valid (selected ! i) \<and> dict_get manifests (ds_dataset (mx_datasets mx ! i)) = Some (selected ! i)
       \<and> source_compiled split_digest (mx_replacement mx) (mx_datasets mx ! i, selected ! i, quotas ! i) (cm_sources c ! i)"
    by (rule compiled_ok [OF assms])
  let ?n = "length (mx_datasets mx)" and ?cs = "map compiled_rows (cm_sources c)"
  have at: "?cs ! i = (ds_dataset (mx_datasets mx ! i), take (ds_count (mx_datasets mx ! i)) (sort (sp_train (selected ! i))), quotas ! i)"
      "ds_count (mx_datasets mx ! i) \<le> length (sp_train (selected ! i))" "mx_replacement mx \<or> quotas ! i \<le> ds_count (mx_datasets mx ! i)"
      "split_valid (selected ! i)" "dict_get manifests (ds_dataset (mx_datasets mx ! i)) = Some (selected ! i)"
    if "i < ?n" for i
    using src that len(2) by (auto simp: source_compiled_def compiled_rows_def compiled_of_def)
  have member: "\<exists>i<?n. x = ?cs ! i" if "x \<in> set ?cs" for x using that len(2) by (metis in_set_conv_nth length_map)
  have "map fst ?cs = map ds_dataset (mx_datasets mx)" using at(1) len(2) by (intro nth_equalityI) auto
  then have "distinct (map fst ?cs)" using valid by (simp add: mixture_valid_def)
  moreover have "case x of (_, rows, _) \<Rightarrow> distinct rows" if "x \<in> set ?cs" for x
    using member [OF that] at(1,4) sorted_train by auto
  ultimately show "sources_distinct ?cs" by (simp add: sources_distinct_def list_all_iff)
  have pools: "source_pools ?cs = map (\<lambda>i. (ds_count (mx_datasets mx ! i), quotas ! i)) [0..<?n]"
    using at(1,2) len(2) by (intro nth_equalityI) (auto simp: source_pools_def min.absorb2)
  have lenq: "length quotas = ?n" using quotas_ok(1) [OF q] by simp
  have "map snd (source_pools ?cs) = quotas" unfolding pools using lenq by (intro nth_equalityI) auto
  then show "quota_sum ?cs = mx_samples mx" using quota_pools [of ?cs] quotas_ok(2) [OF q] by simp
  show "\<not> pools_error e (mx_replacement mx) (source_pools ?cs)" if "e < 2 ^ 64"
  proof -
    have quota: "quotas ! i \<le> 16000000" if "i < ?n" for i
      using elem_le_sum_list [of i quotas] quotas_ok(2) [OF q] lenq that valid by (simp add: mixture_valid_def)
    have count: "1 \<le> ds_count (mx_datasets mx ! i) \<and> ds_count (mx_datasets mx ! i) \<le> 1000000" if "i < ?n" for i
      using valid that by (simp add: mixture_valid_def list_all_length)
    have "sum_list (map snd (source_pools ?cs)) \<le> 16000000"
      using \<open>map snd (source_pools ?cs) = quotas\<close> quotas_ok(2) [OF q] valid by (simp add: mixture_valid_def)
    then show ?thesis
      using that quota count at(3) valid unfolding pools_error_def by (auto simp: pools list_ex_iff mixture_valid_def not_le [symmetric])
  qed
  assume "(ident, row) \<in> row_universe ?cs"
  then obtain x where x: "x \<in> set ?cs" "(ident, row) \<in> (case x of (ident, rows, quota) \<Rightarrow> if quota = 0 then {} else Pair ident ` set rows)"
    unfolding row_universe_def by blast
  obtain ident' rows quota where "x = (ident', rows, quota)" by (cases x)
  then have "(ident, rows, quota) \<in> set ?cs" "row \<in> set rows" using x by (auto split: if_splits)
  then obtain i where i: "i < ?n" "ident = ds_dataset (mx_datasets mx ! i)" "row \<in> set (take (ds_count (mx_datasets mx ! i)) (sort (sp_train (selected ! i))))"
    using member at(1) by (metis Pair_inject)
  then have row: "row \<in> set (sp_train (selected ! i))" using sorted_train at(4) by blast
  have "(case dict_get manifests (ds_dataset d) of None \<Rightarrow> {} | Some m \<Rightarrow> hash_of m ` set (sp_validation m)) \<subseteq> validation_hashes selected"
    if d: "d \<in> set (mx_datasets mx)" for d
  proof -
    obtain j where j: "j < ?n" "d = mx_datasets mx ! j" using d by (metis in_set_conv_nth)
    then have "selected ! j \<in> set selected" using len(1) by simp
    then show ?thesis using at(5) [OF j(1)] unfolding j(2) by (auto simp: validation_hashes_def)
  qed
  then have "unseen_hashes mx manifests held_out \<subseteq> validation_hashes (selected @ held_out)"
    unfolding unseen_hashes_def by (fastforce simp: validation_hashes_def)
  moreover have "hash_of (selected ! i) row \<in> train_hashes (selected @ held_out)"
    using row i(1) len(1) by (auto simp: train_hashes_def)
  ultimately show "\<exists>m. dict_get manifests ident = Some m \<and> row \<in> set (sp_train m) \<and> hash_of m row \<notin> unseen_hashes mx manifests held_out"
    using leak row at(5) [OF i(1)] i(2) by blast
qed

end
