(* ===== verification/Training_Guarantees.thy ===== *)
theory Training_Guarantees
  imports Training_Protocol Training_Splits
begin

text \<open>
  The guarantees of the training data path: the replay of a checkpoint names exactly the rows that the ranks were given, a
  restored sampler continues the stream, sampling ends, splits are partitions by content, quotas add up, and a job never
  trains on content that is held out.
\<close>

section \<open>The stream of a run\<close>

text \<open>The sources of a sampler as the replay is given them.\<close>

lemma replay_sources:
  assumes "sampler_ok s"
  defines "sources \<equiv> map source_rows (sm_sources s)"
  shows "sources_distinct sources" "quota_sum sources = sm_samples s" "source_pools sources = sampler_pools (sm_sources s)"
    "i < length (sm_sources s) \<Longrightarrow> reference sources (i, r) = row_of s (i, r)"
proof -
  have fst_rows: "fst \<circ> source_rows = ix_dataset" by (simp add: fun_eq_iff source_rows_def)
  have "distinct (map fst sources)" using assms(1) by (simp add: sources_def sampler_ok_def fst_rows)
  moreover have "list_all (\<lambda>(_, rows, _). distinct rows) sources"
    using assms(1) by (auto simp: sources_def sampler_ok_def list_all_iff source_ok_def source_rows_def)
  ultimately show "sources_distinct sources" by (simp add: sources_distinct_def)
  show "quota_sum sources = sm_samples s"
    using assms(1) by (simp add: sources_def quota_sum_def sampler_ok_def samples_ok_def o_def source_rows_def)
  show "source_pools sources = sampler_pools (sm_sources s)"
    by (simp add: sources_def source_pools_def sampler_pools_def o_def source_rows_def)
  show "reference sources (i, r) = row_of s (i, r)" if "i < length (sm_sources s)"
    using that by (simp add: sources_def reference_def row_of_def source_rows_def)
qed

text \<open>An epoch that a run has entered has an order.\<close>

lemma entered_epoch:
  assumes "advanced sha s t" "e * sm_samples s < position t"
  shows "e \<le> sm_epoch t"
proof -
  have "sm_cursor t \<le> sm_samples s" using assms(1) advanced_same(2) [OF assms(1)] by (simp add: advanced_def sampler_at_def)
  then have "e * sm_samples s < Suc (sm_epoch t) * sm_samples s"
    using assms(2) advanced_same(2) [OF assms(1)] by (simp add: position_def)
  then show ?thesis by (metis mult_less_cancel2 less_Suc_eq_le)
qed

lemma entered_order:
  assumes "advanced sha s t" "sm_epoch s = 0" "e * sm_samples s < position t"
  shows "\<exists>order. epoch_order sha s e = Inr order"
  using entered_epoch [OF assms(1,3)] assms(1,2) by (simp add: advanced_def)

lemma sampler_replay:
  assumes "sampler_ok s" "sampler_at sha s" "sm_epoch s = 0" "advanced sha s t" "sm_epoch t \<le> 6400000" "position t \<le> 409600000"
  shows "consumed_mixture_rows sha (sm_identity s) (sm_epoch t) (sm_cursor t) (map source_rows (sm_sources s)) (sm_strategy s) (sm_replacement s)
    = Inr ((\<lambda>p. row_of s (stream sha s p)) ` {..<position t})"
proof -
  let ?sources = "map source_rows (sm_sources s)"
  note src = replay_sources [OF assms(1)]
  have pos: "0 < sm_samples s" "sm_samples s \<le> 16000000" "sm_cursor t \<le> sm_samples s" "sm_samples t = sm_samples s"
    using assms(1,4) advanced_same(2) [OF assms(4)] by (auto simp: sampler_ok_def samples_ok_def advanced_def sampler_at_def)
  have orders: "mixture_epoch_order sha (sm_identity s) e (source_pools ?sources) (sm_strategy s) (sm_replacement s) = Inr (order_of sha s e)"
    if "e \<le> sm_epoch t" for e
    using assms(3,4) that unfolding src(3) by (auto simp: advanced_def order_of_def epoch_order_def split: sum.splits)
  have "reference ?sources (stream sha s p) = row_of s (stream sha s p)" if p: "p < position t" for p
  proof -
    obtain order where "epoch_order sha s (p div sm_samples s) = Inr order"
      using entered_order [OF assms(4,3) le_less_trans [OF div_times_less_eq_dividend p]] by blast
    then show ?thesis using stream_range(1) [OF assms(1)] src(4) by (metis surj_pair)
  qed
  moreover have "consumed_mixture_rows sha (sm_identity s) (sm_epoch t) (sm_cursor t) ?sources (sm_strategy s) (sm_replacement s)
      = Inr ((\<lambda>p. reference ?sources (stream sha s p)) ` {..<position t})"
    using consumed_stream [OF src(1), of "sm_cursor t" "sm_epoch t", unfolded src(2), OF _ _ _ assms(5) _ orders] pos assms(6)
    by (simp add: position_def)
  ultimately show ?thesis by simp
qed

section \<open>A small job\<close>

text \<open>Two ranks, one source of two rows, and a digest that is always zero: an instance for the theorems below.\<close>

definition zero_sha :: "string \<Rightarrow> nat" where
  "zero_sha = (\<lambda>_. 0)"

definition zero_digest :: string where
  "zero_digest = replicate 64 (CHR ''0'')"

definition small_example :: "nat \<Rightarrow> tokenized_example" where
  "small_example row = \<lparr>te_row = row, te_content = zero_digest, te_tokens = [5, 7], te_mask = [False, True], te_target = 1\<rparr>"

definition small_source :: indexed_source where
  "small_source = \<lparr>ix_dataset = 7, ix_source = zero_digest, ix_split = zero_digest, ix_rows = [1, 2],
     ix_examples = [small_example 1, small_example 2], ix_quota = 2\<rparr>"

definition small_init :: "nat \<Rightarrow> mixture_sampler attempt" where
  "small_init rank = init_sampler zero_sha (\<lambda>_. zero_digest) [small_source] zero_digest 2 0 8 Sequential False rank 2"

definition small_run :: "nat \<Rightarrow> nat \<Rightarrow> (uuid \<times> nat) list \<times> mixture_sampler" where
  "small_run rank k = projr (the (run_batches zero_sha k (projr (small_init rank))))"

lemma zero_hex: "hex_digest zero_digest"
  by (simp add: hex_digest_def zero_digest_def list_all_iff)

lemma zero_fair: "digest_fair zero_sha"
proof -
  have "0 < draw_limit bound" if "1 \<le> bound" "bound \<le> 16000000" for bound
  proof -
    have "(2 :: nat) ^ 256 mod bound < 16000000" using that mod_less_divisor [of bound "2 ^ 256"] by linarith
    moreover have "(16000000 :: nat) < 2 ^ 256" by simp
    ultimately have "(2 :: nat) ^ 256 mod bound < 2 ^ 256" by (rule less_trans)
    then show ?thesis unfolding draw_limit_def by (rule zero_less_diff [THEN iffD2])
  qed
  then show ?thesis unfolding digest_fair_def zero_sha_def by (auto intro!: exI [of _ 0])
qed

lemma small_example_valid: "1 \<le> row \<Longrightarrow> example_valid (small_example row)"
  by (simp add: example_valid_def small_example_def zero_hex)

lemma small_started: "rank < 2 \<Longrightarrow> \<exists>s. small_init rank = Inr s"
proof -
  assume rank: "rank < 2"
  have "index_all [small_source] = Inr [small_source]"
    by (simp add: small_source_def index_training_source_def zero_hex small_example_valid)
       (simp add: small_example_def)
  moreover have "configuration_ok [small_source] zero_digest 2 0 8 rank 2" using rank by (simp add: configuration_ok_def zero_hex)
  moreover have "\<exists>order. mixture_epoch_order zero_sha identity 0 (sampler_pools [small_source]) Sequential False = Inr order" for identity
    by (rule fair_epoch_order [OF zero_fair]) (simp add: pools_error_def sampler_pools_def small_source_def)
  ultimately show ?thesis
    by (auto simp: small_init_def init_sampler_def epoch_order_def Let_def) (simp_all add: small_source_def small_example_def)
qed

lemma small_ran:
  assumes "rank < 2" "k \<le> 3"
  shows "small_init rank = Inr (projr (small_init rank))"
    "run_batches zero_sha k (projr (small_init rank)) = Some (Inr (fst (small_run rank k), snd (small_run rank k)))"
    "\<exists>st. snapshot (snd (small_run rank k)) = Inr st \<and> st_epoch st \<le> 6400000"
proof -
  obtain s where s: "small_init rank = Inr s" using small_started [OF assms(1)] by blast
  then show "small_init rank = Inr (projr (small_init rank))" by simp
  note init = s [unfolded small_init_def]
  note ok = init_ok [OF init] and par = init_batch [OF init]
  have samples: "sm_samples s = 2" using replay_sources(2) [OF ok(1)] unfolding ok(4) by (simp add: quota_sum_def source_rows_def small_source_def)
  have False if "e' * sm_samples s < position s + k * sm_batch s" "epoch_order zero_sha s e' = Inl e" for e e'
  proof -
    have "e' < 2 ^ 64" using that(1) assms(2) samples ok(3) par(1) by simp
    then have "\<not> pools_error e' (sm_replacement s) (sampler_pools (sm_sources s))" using ok(1) unfolding sampler_ok_def by blast
    from fair_epoch_order [OF zero_fair this, of "sm_identity s" "sm_strategy s"] that(2) show False unfolding epoch_order_def by auto
  qed
  then obtain refs t where run: "run_batches zero_sha k s = Some (Inr (refs, t))" using run_returns [OF ok(1,2), of k] by blast
  then show "run_batches zero_sha k (projr (small_init rank)) = Some (Inr (fst (small_run rank k), snd (small_run rank k)))"
    using s by (simp add: small_run_def)
  have t: "snd (small_run rank k) = t" using run s by (simp add: small_run_def)
  note r = run_result [OF ok(1,2) run]
  have "sm_epoch t * 2 + sm_cursor t = k * 2" using r(3) advanced_same(2) [OF r(2)] samples ok(3) par(1) by (simp add: position_def)
  moreover have "sm_identity t = zero_digest" "sm_rank t = rank" "sm_world t = 2"
    using advanced_same [OF r(2)] init_facts [OF init] by metis+
  ultimately show "\<exists>st. snapshot (snd (small_run rank k)) = Inr st \<and> st_epoch st \<le> 6400000"
    using assms unfolding t by (simp add: snapshot_def state_valid_def zero_hex)
qed

text \<open>C2: Replay is what was handed out. Every rank of a job builds its sampler from the same sources and takes \<open>k\<close> batches; then
  \<^verbatim>\<open>consumed_mixture_rows\<close>, given the checkpoint of any one rank, is exactly the union of the rows that the ranks
  were given, the ranks were given \<open>k * batch\<close> rows in all, and the checkpoint's epoch and cursor count those rows.\<close>

theorem replay_is_consumed:
  assumes "\<forall>r<world. init_sampler sha ident given mixture batch seed max_length strat replacement r world = Inr (s r)"
    and "\<forall>r<world. run_batches sha k (s r) = Some (Inr (refs r, t r))"
    and "q < world" "snapshot (t q) = Inr st" "st_epoch st \<le> 6400000" "k * batch \<le> 409600000"
  shows "consumed_mixture_rows sha (st_identity st) (st_epoch st) (st_cursor st) (map source_rows given) strat replacement
      = Inr (\<Union>r<world. set (refs r))
    \<and> (\<Sum>r<world. length (refs r)) = k * batch
    \<and> st_epoch st * quota_sum (map source_rows given) + st_cursor st = k * batch"
proof -
  have q: "init_sampler sha ident given mixture batch seed max_length strat replacement q world = Inr (s q)" using assms(1,3) by blast
  note ok = init_ok [OF q] and par = init_batch [OF q]
  have ran: "run_batches sha k (s q) = Some (Inr (refs q, t q))" using assms(2,3) by blast
  note run = run_result [OF ok(1,2) ran]
  have pos: "position (t q) = k * batch" using run(3) ok(3) par(1) by simp
  have st: "st_identity st = sm_identity (s q)" "st_epoch st = sm_epoch (t q)" "st_cursor st = sm_cursor (t q)"
    using assms(4) advanced_same(9) [OF run(2)] by (auto simp: snapshot_def Let_def split: if_splits)
  have mine: "refs r = concat (map (\<lambda>j. chunk sha (s q\<lparr>sm_rank := r\<rparr>) (j * sm_batch (s q))) [0..<k])" if "r < world" for r
  proof -
    have r: "init_sampler sha ident given mixture batch seed max_length strat replacement r world = Inr (s r)" using assms(1) that by blast
    have "run_batches sha k (s r) = Some (Inr (refs r, t r))" using assms(2) that by blast
    from run_result(1) [OF init_ok(1,2) [OF r] this] show ?thesis
      unfolding init_ok(3) [OF r] unfolding init_rank [OF q r] by simp
  qed
  have all: "(\<Sum>r<world. mset (refs r)) = mset (map (\<lambda>p. row_of (s q) (stream sha (s q) p)) [0..<k * batch])"
    using chunks_partition [of world "s q" sha k] assms(3) par(1,2) mine by simp
  have "(\<Union>r<world. set (refs r)) = set_mset (\<Sum>r<world. mset (refs r))" by (simp add: set_mset_sum)
  also have "\<dots> = (\<lambda>p. row_of (s q) (stream sha (s q) p)) ` {..<position (t q)}" unfolding all pos by (simp add: atLeast0LessThan)
  finally have rows: "(\<Union>r<world. set (refs r)) = (\<lambda>p. row_of (s q) (stream sha (s q) p)) ` {..<position (t q)}" .
  have "(\<Sum>r<world. length (refs r)) = size (\<Sum>r<world. mset (refs r))" by (simp add: size_multiset_sum)
  then have count: "(\<Sum>r<world. length (refs r)) = k * batch" unfolding all by simp
  have "sm_epoch (t q) \<le> 6400000" "position (t q) \<le> 409600000" using assms(5,6) st pos by simp_all
  from sampler_replay [OF ok(1,2) par(5) run(2) this]
  have "consumed_mixture_rows sha (st_identity st) (st_epoch st) (st_cursor st) (map source_rows given) strat replacement
      = Inr (\<Union>r<world. set (refs r))"
    unfolding st rows ok(4) par(3,4) .
  moreover have "st_epoch st * quota_sum (map source_rows given) + st_cursor st = k * batch"
    using pos replay_sources(2) [OF ok(1)] advanced_same(2) [OF run(2)] unfolding st ok(4) position_def by simp
  ultimately show ?thesis using count by blast
qed

theorem replay_is_consumed_witness:
  "\<exists>st. snapshot (snd (small_run 1 3)) = Inr st
    \<and> consumed_mixture_rows zero_sha (st_identity st) (st_epoch st) (st_cursor st) (map source_rows [small_source]) Sequential False
        = Inr (\<Union>r<2. set (fst (small_run r 3)))
    \<and> (\<Sum>r<2. length (fst (small_run r 3))) = 6"
proof -
  obtain st where st: "snapshot (snd (small_run 1 3)) = Inr st" "st_epoch st \<le> 6400000" using small_ran(3) [of 1 3] by auto
  have init: "\<forall>r<2. init_sampler zero_sha (\<lambda>_. zero_digest) [small_source] zero_digest 2 0 8 Sequential False r 2 = Inr (projr (small_init r))"
    using small_ran(1) [of _ 0] unfolding small_init_def by simp
  have run: "\<forall>r<2. run_batches zero_sha 3 (projr (small_init r)) = Some (Inr (fst (small_run r 3), snd (small_run r 3)))"
    using small_ran(2) [of _ 3] by simp
  from replay_is_consumed [OF init run _ st(1,2)] st(1) show ?thesis by auto
qed

section \<open>Resumption\<close>

lemma init_fresh:
  "init_sampler sha ident given mixture batch seed max_length strat replacement rank world = Inr s \<Longrightarrow> fresh_mixture sha s"
  using init_ok init_batch(5) by (simp add: fresh_mixture_def)

text \<open>C11: A resumed attempt continues where the interrupted one stopped. Restoring the checkpoint taken after \<open>k\<close> batches into a
  freshly built sampler succeeds, and the next \<open>j\<close> batches of the restored sampler, with their row references, are exactly what an
  uninterrupted run of \<open>k + j\<close> batches gives after its first \<open>k\<close>: nothing is repeated, nothing is skipped, and the next
  checkpoint is the same.\<close>

theorem resumed_continues:
  assumes "init_sampler sha ident given mixture batch seed max_length strat replacement rank world = Inr s"
    and "run_with (mixture_next sha) k s = Some (bs, t)" "snapshot t = Inr st"
    and "run_with (mixture_next sha) (k + j) s = Some (whole, u)"
  shows "\<exists>t' rest u'. restore sha (Mixture_state st) s = Inr t' \<and> run_with (mixture_next sha) j t' = Some (rest, u')
    \<and> whole = bs @ rest \<and> answer (snapshot u') = answer (snapshot u)"
  using mixture.resume [OF init_fresh [OF assms(1)] assms(2) _ assms(4)] assms(3) by auto

text \<open>The same for the sampler of one source.\<close>

lemma single_resumes:
  assumes "shuffle_permutes pr" "rng_restores pr" "init_single pr dataset sha batch seed max_length = Inr s"
    and "run_with (single_next pr) k s = Some (bs, t)" "snapshot_single pr t = Inr st"
    and "run_with (single_next pr) (k + j) s = Some (whole, u)"
  shows "\<exists>t' rest u'. restore_single pr (Single_source_state st) s = Inr t' \<and> run_with (single_next pr) j t' = Some (rest, u') \<and> whole = bs @ rest"
proof -
  have "fresh_single pr s" using assms(1,2) init_single_ok(1) [OF assms(3)] unfolding fresh_single_def by blast
  from single.resume [OF this assms(4) _ assms(6)] assms(5) show ?thesis by auto
qed

lemma run_with_batches:
  "run_batches sha k s = Some (Inr (refs, t)) \<Longrightarrow> \<exists>bs. run_with (mixture_next sha) k s = Some (bs, t) \<and> refs = concat (map snd bs)"
proof (induction k arbitrary: s refs)
  case (Suc k)
  obtain b s' rest where "next_batch sha s = Some (Inr (b, s'))" "run_batches sha k s' = Some (Inr (rest, t))" "refs = sm_references s' @ rest"
    using Suc.prems by (auto split: option.splits sum.splits)
  moreover obtain bs where "run_with (mixture_next sha) k s' = Some (bs, t)" "rest = concat (map snd bs)"
    using Suc.IH [OF calculation(2)] by blast
  moreover have "mixture_next sha s = Some ((b, sm_references s'), s')" using calculation(1) by (simp add: mixture_next_Some)
  ultimately show ?case by simp
qed simp

theorem resumed_continues_witness:
  "\<exists>st bs whole t' rest u'. snapshot (snd (small_run 1 1)) = Inr st \<and> concat (map snd bs) = fst (small_run 1 1)
    \<and> concat (map snd whole) = fst (small_run 1 3) \<and> restore zero_sha (Mixture_state st) (projr (small_init 1)) = Inr t'
    \<and> run_with (mixture_next zero_sha) 2 t' = Some (rest, u') \<and> whole = bs @ rest"
proof -
  obtain st where st: "snapshot (snd (small_run 1 1)) = Inr st" using small_ran(3) [of 1 1] by auto
  have sum: "1 + 2 = (3 :: nat)" by simp
  obtain bs where bs: "run_with (mixture_next zero_sha) 1 (projr (small_init 1)) = Some (bs, snd (small_run 1 1))" "fst (small_run 1 1) = concat (map snd bs)"
    using run_with_batches [OF small_ran(2) [of 1 1]] by auto
  obtain whole where whole: "run_with (mixture_next zero_sha) (1 + 2) (projr (small_init 1)) = Some (whole, snd (small_run 1 3))"
      "fst (small_run 1 3) = concat (map snd whole)"
    unfolding sum using run_with_batches [OF small_ran(2) [of 1 3]] by auto
  have init: "init_sampler zero_sha (\<lambda>_. zero_digest) [small_source] zero_digest 2 0 8 Sequential False 1 2 = Inr (projr (small_init 1))"
    using small_ran(1) [of 1 0] unfolding small_init_def by simp
  from resumed_continues [OF init bs(1) st whole(1)] st bs(2) whole(2) show ?thesis by metis
qed

section \<open>Termination\<close>

text \<open>C37: Sampling ends. A sampler that the constructor accepted gives its next batches after finitely many steps, for every digest
  function: it returns or raises. When the digest is fair (of any \<open>2 ^ 100\<close> successive counters one is not rejected), it returns as
  long as the epoch fits in 64 bits.\<close>

theorem sampling_returns:
  assumes "init_sampler sha ident given mixture batch seed max_length strat replacement rank world = Inr s"
  shows "(\<exists>r. run_batches sha k s = Some r)
    \<and> (digest_fair sha \<and> k * batch \<le> 2 ^ 64 * quota_sum (map source_rows given) \<longrightarrow> (\<exists>refs t. run_batches sha k s = Some (Inr (refs, t))))"
proof (intro conjI impI)
  note ok = init_ok [OF assms]
  show "\<exists>r. run_batches sha k s = Some r" using run_returns [OF ok(1,2), of k] by blast
  assume fair: "digest_fair sha \<and> k * batch \<le> 2 ^ 64 * quota_sum (map source_rows given)"
  have False if "e' * sm_samples s < position s + k * sm_batch s" "epoch_order sha s e' = Inl e" for e e'
  proof -
    have "k * batch \<le> 2 ^ 64 * sm_samples s" using fair replay_sources(2) [OF ok(1)] unfolding ok(4) by simp
    then have "e' * sm_samples s < 2 ^ 64 * sm_samples s"
      using that(1) unfolding ok(3) init_batch(1) [OF assms] by linarith
    then have "e' < 2 ^ 64" by (simp only: mult_less_cancel2)
    then have "\<not> pools_error e' (sm_replacement s) (sampler_pools (sm_sources s))" using ok(1) unfolding sampler_ok_def by blast
    from fair_epoch_order [OF conjunct1 [OF fair] this, of "sm_identity s" "sm_strategy s"] that(2) show False
      unfolding epoch_order_def by auto
  qed
  then show "\<exists>refs t. run_batches sha k s = Some (Inr (refs, t))" using run_returns [OF ok(1,2), of k] by blast
qed

theorem sampling_returns_witness:
  "\<exists>refs t. run_batches zero_sha 100 (projr (small_init 1)) = Some (Inr (refs, t))"
proof -
  have init: "small_init 1 = Inr (projr (small_init 1))" using small_ran(1) [of 1 1] by simp
  from sampling_returns [OF init [unfolded small_init_def], folded small_init_def, of 100] zero_fair show ?thesis
    by (simp add: quota_sum_def source_rows_def small_source_def)
qed

section \<open>Splits and quotas\<close>

text \<open>C39: A split is a partition by content. For at least two different contents \<^verbatim>\<open>split_rows\<close> succeeds; every row is in exactly one
  part, no content is in both, and the validation part reaches its target unless a single content is left to train on.\<close>

theorem split_is_partition:
  assumes "0 < fraction" "fraction < 1" "2 \<le> card (set hashes)" "hex_digest source" "seed < 2 ^ 32" "length hashes \<le> 1000000"
    "list_all hex_digest hashes"
  shows "\<exists>m. split_rows sha dataset source hashes seed fraction = Inr m
    \<and> distinct (sp_train m @ sp_validation m) \<and> set (sp_train m @ sp_validation m) = {1..<length hashes + 1}
    \<and> hash_of m ` set (sp_train m) \<inter> hash_of m ` set (sp_validation m) = {}
    \<and> sp_train m \<noteq> [] \<and> (split_target (length hashes) fraction \<le> length (sp_validation m) \<or> card (hash_of m ` set (sp_train m)) = 1)"
proof -
  obtain m where m: "split_rows sha dataset source hashes seed fraction = Inr m" "split_valid m" "sp_hashes m = hashes"
      "split_target (length hashes) fraction \<le> length (sp_validation m) \<or> card (hash_of m ` set (sp_train m)) = 1"
    using split_rows_valid [OF assms] by blast
  have "partition_ok (sp_train m) (sp_validation m) hashes" "sp_train m \<noteq> []" using m(2,3) by (auto simp: split_valid_def)
  moreover have "hash_of m = (\<lambda>row. hashes ! (row - 1))" by (rule ext) (simp add: hash_of_def m(3))
  ultimately show ?thesis using m(1,4) by (intro exI [of _ m]) (simp add: partition_ok_def)
qed

theorem split_is_partition_witness:
  "\<exists>m. split_rows zero_sha 7 zero_digest [zero_digest, replicate 64 (CHR ''1'')] 0 (1 / 2) = Inr m
    \<and> set (sp_train m @ sp_validation m) = {1..<3} \<and> hash_of m ` set (sp_train m) \<inter> hash_of m ` set (sp_validation m) = {}"
proof -
  have "zero_digest \<noteq> replicate 64 (CHR ''1'')" by (simp add: zero_digest_def)
  moreover have "hex_digest (replicate 64 (CHR ''1''))" by (simp add: hex_digest_def list_all_iff)
  ultimately show ?thesis
    using split_is_partition [of "1 / 2" "[zero_digest, replicate 64 (CHR ''1'')]" zero_digest 0 zero_sha 7] zero_hex by auto
qed

text \<open>C40: The draws of an epoch are shared out exactly. The quotas of \<^verbatim>\<open>largest_remainder_quotas\<close> sum to the draws, and each is
  less than one draw away from its exact share.\<close>

theorem quotas_apportion:
  assumes "largest_remainder_quotas weights draws = Inr quotas"
  shows "length quotas = length weights \<and> sum_list quotas = draws
    \<and> (\<forall>i<length weights. \<bar>of_nat (quotas ! i) - of_nat draws * weights ! i / sum_list weights\<bar> < 1)"
  using quotas_ok [OF assms] by (auto simp: abs_less_iff algebra_simps)

theorem quotas_apportion_witness:
  "\<exists>quotas. largest_remainder_quotas [1 / 2, 1 / 4, 1 / 4] 5 = Inr quotas \<and> sum_list quotas = 5"
proof -
  obtain quotas where q: "largest_remainder_quotas [1 / 2, 1 / 4, 1 / 4] 5 = Inr quotas" by (simp add: largest_remainder_quotas_def Let_def)
  from quotas_apportion [OF q] q show ?thesis by blast
qed

section \<open>Nothing held out is trained on\<close>

lemma run_universe:
  assumes "sampler_ok s" "sampler_at sha s" "sm_epoch s = 0" "position s = 0" "run_batches sha k s = Some (Inr (refs, t))"
  shows "set refs \<subseteq> row_universe (map source_rows (sm_sources s))"
proof
  fix x assume "x \<in> set refs"
  note run = run_result [OF assms(1,2,5)] and src = replay_sources [OF assms(1)]
  obtain j where j: "j < k" "x \<in> set (chunk sha s (j * sm_batch s))" using \<open>x \<in> set refs\<close> run(1) assms(4) by auto
  obtain ref where ref: "ref \<in> set (strided (sm_rank s) (sm_world s) (map (stream sha s) [j * sm_batch s..<j * sm_batch s + sm_batch s]))"
      "x = row_of s ref" using j(2) unfolding chunk_def by auto
  then obtain p where p: "p < j * sm_batch s + sm_batch s" "ref = stream sha s p" using strided_subset by fastforce
  have "Suc j * sm_batch s \<le> k * sm_batch s" using j(1) by (intro mult_le_mono1) simp
  then have "p < position t" using p(1) run(3) by simp
  then obtain order where o: "epoch_order sha s (p div sm_samples s) = Inr order"
    using entered_order [OF run(2) assms(3) le_less_trans [OF div_times_less_eq_dividend]] by blast
  have "samples_ok s" using assms(1) by (simp add: sampler_ok_def)
  from stream_in_order [OF this o] have member: "ref \<in> set order" using p(2) by simp
  have "reference (map source_rows (sm_sources s)) ref = row_of s ref"
    using stream_range(1) [OF assms(1) o] src(4) p(2) by (metis surj_pair)
  then show "x \<in> row_universe (map source_rows (sm_sources s))"
    using order_references [of sha "sm_identity s" "p div sm_samples s" "map source_rows (sm_sources s)" "sm_strategy s" "sm_replacement s" order]
      o member ref(2) unfolding src(3) epoch_order_def by (metis image_subset_iff)
qed

text \<open>C10: A job never trains on held-out content. Compile a mixture, build the sampler of any rank on its sources and take any number of
  batches: every row handed out is a training row of its own split, and its content is none that a split of the mixture or a
  held-out split validates with.\<close>

theorem held_out_unseen:
  assumes "compile_mixture split_digest identity mx manifests held_out = Inr c"
    and "map source_rows given = map compiled_rows (cm_sources c)"
    and "init_sampler sha ident given mixture batch seed max_length strat replacement rank world = Inr s"
    and "run_batches sha k s = Some (Inr (refs, t))" "(dataset, row) \<in> set refs"
  shows "\<exists>m. dict_get manifests dataset = Some m \<and> row \<in> set (sp_train m) \<and> hash_of m row \<notin> unseen_hashes mx manifests held_out"
proof -
  note ok = init_ok [OF assms(3)]
  have "(dataset, row) \<in> row_universe (map compiled_rows (cm_sources c))"
    using run_universe [OF ok(1,2) init_batch(5) [OF assms(3)] ok(3) assms(4)] assms(2,5) ok(4) by auto
  then show ?thesis by (rule compiled_rows_ok(4) [OF assms(1)])
qed

definition small_manifest :: split_manifest where
  "small_manifest = \<lparr>sp_dataset = 7, sp_source = zero_digest, sp_seed = 0, sp_train = [1, 2], sp_validation = [3],
     sp_hashes = [zero_digest, zero_digest, replicate 64 (CHR ''1'')]\<rparr>"

definition small_mixture :: dataset_mixture where
  "small_mixture = \<lparr>mx_datasets = [\<lparr>ds_dataset = 7, ds_count = 2, ds_proportion = 1\<rparr>], mx_samples = 2, mx_strategy = Sequential,
     mx_replacement = False, mx_seed = 0\<rparr>"

lemma one_is_double: "round_double 1 = 1"
  by code_simp

lemma small_mixture_valid: "mixture_valid small_mixture"
  by (simp add: mixture_valid_def small_mixture_def one_is_double close_to_one_def)

lemma small_manifest_valid: "split_valid small_manifest"
proof -
  have "hex_digest (replicate 64 (CHR ''1''))" by (simp add: hex_digest_def list_all_iff)
  moreover have "partition_ok [1, 2] [3] [zero_digest, zero_digest, replicate 64 (CHR ''1'')]"
    by (simp add: partition_ok_def zero_digest_def atLeastLessThan_upt numeral_2_eq_2 numeral_3_eq_3 upt_rec insert_commute)
  ultimately show ?thesis by (simp add: split_valid_def small_manifest_def zero_hex)
qed

lemma small_compiled:
  "compile_mixture (\<lambda>_. zero_digest) (\<lambda>_. zero_digest) small_mixture [(7, small_manifest)] [] = Inr
     \<lparr>cm_sources = [\<lparr>cs_dataset = 7, cs_source = zero_digest, cs_split = zero_digest, cs_rows = [1, 2], cs_quota = 2\<rparr>],
      cm_identity = zero_digest, cm_seed = 0, cm_strategy = Sequential, cm_replacement = False, cm_samples = 2\<rparr>"
proof -
  note small_mixture_valid
  moreover note small_manifest_valid
  moreover have "hash_of small_manifest 1 = zero_digest" "hash_of small_manifest 2 = zero_digest" "hash_of small_manifest 3 = replicate 64 (CHR ''1'')"
    by (simp_all add: hash_of_def small_manifest_def numeral_2_eq_2 numeral_3_eq_3)
  then have "detect_split_leakage [small_manifest] = Inr ()"
    by (simp add: detect_split_leakage_def train_hashes_def validation_hashes_def) (simp add: small_manifest_def zero_digest_def)
  moreover have "largest_remainder_quotas [1] 2 = Inr [2]"
    by (simp add: largest_remainder_quotas_def Let_def exact_shares_def floor_shares_def)
  ultimately show ?thesis
    by (simp add: compile_mixture_def small_mixture_def compiled_of_def) (simp add: small_manifest_def)
qed

theorem held_out_unseen_witness:
  "\<exists>row. (7, row) \<in> set (fst (small_run 0 1)) \<and> row \<in> {1, 2} \<and> hash_of small_manifest row \<notin> unseen_hashes small_mixture [(7, small_manifest)] []"
proof -
  have init: "small_init 0 = Inr (projr (small_init 0))"
    and run: "run_batches zero_sha 1 (projr (small_init 0)) = Some (Inr (fst (small_run 0 1), snd (small_run 0 1)))"
    using small_ran(1,2) [of 0 1] by simp_all
  note start = init [unfolded small_init_def]
  note ok = init_ok [OF start] and par = init_batch [OF start]
  have "sm_rank (projr (small_init 0)) = 0" using init_facts [OF start] unfolding small_init_def [symmetric] by metis
  then have "fst (small_run 0 1) \<noteq> []"
    using run_result(1) [OF ok(1,2) run [unfolded small_init_def]] ok(3) par(1,2)
    unfolding small_init_def [symmetric] by (simp add: chunk_def strided_nonempty)
  then obtain dataset row where member: "(dataset, row) \<in> set (fst (small_run 0 1))" by (metis hd_in_set surj_pair)
  have "map source_rows [small_source] = map compiled_rows [\<lparr>cs_dataset = 7, cs_source = zero_digest, cs_split = zero_digest, cs_rows = [1, 2], cs_quota = 2\<rparr>]"
    by (simp add: source_rows_def small_source_def compiled_rows_def)
  from held_out_unseen [OF small_compiled _ start run [unfolded small_init_def] member] this
  obtain m where "dict_get [(7, small_manifest)] dataset = Some m" "row \<in> set (sp_train m)"
      "hash_of m row \<notin> unseen_hashes small_mixture [(7, small_manifest)] []" by auto
  then show ?thesis using member by (intro exI [of _ row]) (auto simp: small_manifest_def split: if_splits)
qed

section \<open>The sampler of one source\<close>

text \<open>C38: The replay of a job with one complete source. After \<open>k\<close> batches \<^verbatim>\<open>consumed_single_rows\<close> accepts the checkpoint and gives exactly
  the rows that were handed out, which are \<open>k * batch\<close> many; and a fresh sampler restored from it is the interrupted one.
  Of \<^verbatim>\<open>random.Random\<close> this needs that a shuffle permutes and that a state restores its generator.\<close>

theorem single_replay:
  assumes "shuffle_permutes pr" "rng_restores pr" "init_single pr dataset sha batch seed max_length = Inr s"
    and "run_single pr k s = Inr (rows, t)" "snapshot_single pr t = Inr st" "k * batch \<le> 409600000"
  shows "consumed_single_rows pr st seed (map te_row dataset) = Inr (set rows) \<and> length rows = k * batch
    \<and> restore_single pr (Single_source_state st) s = Inr t"
  using single_consumed [OF assms(1,3-6)] single_restored [OF assms(2) init_single_ok(1) [OF assms(3)] assms(4,1,5)] by blast

text \<open>A generator that counts its draws and turns the list round.\<close>

definition counting_random :: "nat python_random" where
  "counting_random = \<lparr>pr_seed = (\<lambda>seed. 0), pr_shuffle = (\<lambda>g xs. (rev xs, g + 1)),
     pr_getstate = (\<lambda>g. (3, replicate 625 0, Some (of_nat g))), pr_setstate = (\<lambda>(_, _, c). nat \<lfloor>the c\<rfloor>)\<rparr>"

definition counted :: "nat \<Rightarrow> nat \<Rightarrow> nat single_sampler" where
  "counted epoch cursor = \<lparr>sg_dataset = [small_example 1, small_example 2], sg_sha = zero_digest, sg_batch = 1, sg_length = 8,
     sg_epoch = epoch, sg_cursor = cursor, sg_random = epoch + 1, sg_permutation = [1, 0]\<rparr>"

lemma counted_start: "init_single counting_random [small_example 1, small_example 2] zero_digest 1 0 8 = Inr (counted 0 0)"
  by (simp add: init_single_def counting_random_def counted_def zero_hex)

lemma counted_run: "run_single counting_random 3 (counted 0 0) = Inr ([2, 1, 2], counted 1 1)"
  by code_simp

theorem single_replay_witness:
  "\<exists>st. snapshot_single counting_random (counted 1 1) = Inr st
    \<and> consumed_single_rows counting_random st 0 (map te_row [small_example 1, small_example 2]) = Inr {1, 2}
    \<and> restore_single counting_random (Single_source_state st) (counted 0 0) = Inr (counted 1 1)"
proof -
  have permutes: "shuffle_permutes counting_random" by (simp add: shuffle_permutes_def counting_random_def)
  have restores: "rng_restores counting_random" by (simp add: rng_restores_def counting_random_def)
  obtain st where st: "snapshot_single counting_random (counted 1 1) = Inr st"
    by (simp add: snapshot_single_def counted_def counting_random_def single_valid_def zero_hex list_all_iff last_replicate atLeast0_lessThan_Suc)
  have "{2, 1, 2} = {1, 2 :: nat}" by auto
  then show ?thesis using single_replay [OF permutes restores counted_start counted_run st] st by simp
qed

end
