(* ===== verification/Spec2Isabelle.thy ===== *)
theory Spec2Isabelle
  imports Failover_Liveness Reservation_Guarantees Disk_Budget Upgrade_Run Executor_Guarantees Training_Guarantees
begin

text \<open>
  A verification of the control plane of Coire, a self-hosted lab of one core host and a few Studios that serves and
  trains models. Paths below are relative to \<^verbatim>\<open>src/\<close>; \<^verbatim>\<open>core/\<close> stands for \<^verbatim>\<open>packages/coire-core/src/coire_core/\<close>,
  \<^verbatim>\<open>api/\<close> for \<^verbatim>\<open>apps/coire-api/src/coire_api/\<close>, \<^verbatim>\<open>node/\<close> for \<^verbatim>\<open>apps/coire-node/src/coire_node/\<close> and \<^verbatim>\<open>executor/\<close> for
  \<^verbatim>\<open>apps/coire-upgrade-executor/src/coire_upgrade_executor/\<close>.

  \<^bold>\<open>The parts and how they interact.\<close>
  Three members elect the host that serves (failover). The control plane accepts one upgrade at a time, fences the
  Studios it touches and issues activation grants (upgrade authority); the host of each target reports receipts, which it keeps in a
  journal of its own (receipt journal). The core host is upgraded by an executor that records every effect before it
  dispatches it (executor journal), and only while it owns the deployment (deployment ownership), which it shares with the host
  scripts and with the hold of the API. A Studio admits work against its memory and disk (reservations, disk budget). A
  training job reads rows from compiled mixtures (splits and mixtures) through samplers that checkpoint and resume, and
  evaluation replays the checkpoints (samplers and replay).

  \<^bold>\<open>Shared vocabulary.\<close> \<open>Prelude\<close> has times as integers in microseconds, Python dictionaries as association lists in
  insertion order, and the locale \<open>dictionary\<close>, interpreted on them. \<open>Py_Uuid\<close> has \<^verbatim>\<open>uuid.UUID\<close> as a 128-bit word with its
  text form and the round trip between them. \<open>Canonical_Json\<close> has \<^verbatim>\<open>json.dumps\<close> with sorted keys and its injectivity.

  \<^bold>\<open>Failover\<close> (\<^verbatim>\<open>core/models/failover.py\<close>, \<^verbatim>\<open>core/failover_election.py\<close>, \<^verbatim>\<open>core/failover_poller.py\<close>,
  \<^verbatim>\<open>api/failover/\<close>, \<^verbatim>\<open>node/failover/participant.py\<close>).
  \<^item> \<open>Failover_Models\<close>: the wire models with their validators and signed encodings.
  \<^item> \<open>Failover_Election\<close>: the state of \<^verbatim>\<open>ElectionParticipant\<close> as a record and one function per method. \<open>Failover_Election_Inv\<close>
    and \<open>Failover_Votes\<close> prove what each method keeps.
  \<^item> \<open>Failover_Cluster\<close>: the three members as an inductive step relation, with lost and replayed messages and restarts. No
    voter has two current grants for different candidates; two members serve at once only as core and edge-a.
  \<^item> \<open>Failover_Trace\<close>: a run with the default timings in which both do serve at once, and the witnesses of the cluster theorems.
  \<^item> \<open>Failover_Guarantees\<close>: what one poll does; \<open>Failover_Liveness\<close>: the heartbeat classifier, the poll loop, and that a
    tick is a sequence of cluster steps.

  \<^bold>\<open>Reservations and disk\<close> (\<^verbatim>\<open>node/reservations.py\<close>, \<^verbatim>\<open>core/models/acquisition.py\<close>).
  \<^item> \<open>Reservation_Ledger\<close>: the ledger object together with its journal file; a write may fail. \<open>Reservation_Guarantees\<close>: admitted
    holds fit, retries are answered from the journal, refusals change nothing, and a restart reads back what is in memory.
  \<^item> \<open>Disk_Budget\<close>: \<^verbatim>\<open>TrainingDiskBudget.committed_bytes\<close> between its lower and upper bound.

  \<^bold>\<open>Upgrade authority\<close> (\<^verbatim>\<open>core/models/upgrades.py\<close>, \<^verbatim>\<open>api/upgrades/\<close>, \<^verbatim>\<open>apps/coire-api/src/coire_scheduler/maintenance.py\<close>,
  the tables of \<^verbatim>\<open>api/db.py\<close>).
  \<^item> \<open>Upgrade_Models\<close>, \<open>Upgrade_Progress\<close>: the wire models, and which receipt an operation accepts next.
  \<^item> \<open>Upgrade_Authority\<close>: the tables as a record and one function per call; a call is one transaction.
  \<^item> \<open>Upgrade_Tables\<close>, \<open>Upgrade_Guarantees\<close>: every interleaving of the calls from empty tables, by induction over the runs: an upgrade ends
    only on proof, activates once, and keeps its fences until it is terminal. \<open>Upgrade_Run\<close>: a complete Studio upgrade.

  \<^bold>\<open>Receipt journal\<close> (\<^verbatim>\<open>core/upgrade_journal.py\<close>).
  \<^item> \<open>Private_Store\<close>: the document store, whose write may be done, fail, or be cut off; the locale \<open>document_store\<close> is its contract.
  \<^item> \<open>Upgrade_Receipts\<close>, \<open>Receipt_Guarantees\<close>: the hash chain of receipts is append-only, reads back, and binds its history. One
    theorem shows that the receipt after the 4096th is accepted and makes the journal unreadable.

  \<^bold>\<open>Executor and deployment\<close> (\<^verbatim>\<open>executor/journal.py\<close>, \<^verbatim>\<open>executor/ownership.py\<close>, \<^verbatim>\<open>core/deploy.py\<close>, \<^verbatim>\<open>api/upgrades/host_hold.py\<close>).
  \<^item> \<open>Executor_Models\<close>, \<open>Executor_Journal\<close>, \<open>Executor_Effects\<close>, \<open>Executor_Selection\<close>: the epoch with its deadlines, effects from
    intent to outcome, and the publication of a selection. \<open>Executor_Run\<close>, \<open>Executor_Guarantees\<close>: over every sequence of calls an effect is
    dispatched at most once and within its budget, and captured deadlines do not move.
  \<^item> \<open>Deployment_Ownership\<close>, \<open>Deployment_Hold\<close>: the coordination directory and who may change it. \<open>Deployment_Run\<close>,
    \<open>Deployment_Guarantees\<close>: under all operations of host scripts, executor and API, with processes that die, a committed claim is published, an active
    claim is kept, a hold excludes everybody else. \<open>Deployment_Example\<close>: a run with the witnesses.

  \<^bold>\<open>Training data\<close> (\<^verbatim>\<open>core/training_data.py\<close>, \<^verbatim>\<open>core/preference_data.py\<close>, \<^verbatim>\<open>core/training_sampling.py\<close>, \<^verbatim>\<open>node/training/sampler.py\<close>,
  \<^verbatim>\<open>node/training/datasets.py\<close> and the models they validate).
  \<^item> \<open>Training_Data\<close>: splits by content, quotas by largest remainder, compilation of a mixture. \<open>Training_Splits\<close> proves that splits are
    partitions, that quotas add up and that compiled rows are not held out.
  \<^item> \<open>Training_Sampling\<close>: the counter generator, the order of an epoch, the replay of a checkpoint.
  \<^item> \<open>Training_Sampler\<close>, \<open>Training_Single\<close>: the two samplers of a node. \<open>Training_Stream\<close>: a sampler hands out successive slices of
    one stream, which the ranks share without overlap. \<open>Training_Protocol\<close>: the contract \<^verbatim>\<open>TrainingSampler\<close> as a locale, interpreted on both.
  \<^item> \<open>Training_Guarantees\<close>: replay equals consumption, resumption continues the stream, sampling ends, held-out content is
    never trained on.

  \<^bold>\<open>Parameters.\<close> Digests and signatures are functions the definitions take. A theorem that needs more than that says so in a
  hypothesis: that a digest is injective, that a fair one is not always rejected (\<open>digest_fair\<close>), that a shuffle of
  \<^verbatim>\<open>random.Random\<close> permutes and its state restores it. What the environment answers (clocks, the file system, Docker, free
  memory) is in records that each call is given.

  \<^bold>\<open>Bounds and loops.\<close> No definition uses fuel. \<open>below\<close> recurs on the 128-bit counter that the source writes with
  \<^verbatim>\<open>to_bytes(16)\<close>, which raises when the counter is exhausted. The loop of \<^verbatim>\<open>next_batch\<close> is a \<^theory_text>\<open>partial_function\<close> and
  is proved to return. Counters that the source bounds keep their bounds; Python's integers are unbounded.

  \<^bold>\<open>Concurrency.\<close> A method that holds a lock or runs in one transaction is one step. Runs are arbitrary sequences of such steps, with
  failing or interrupted writes where the code writes files.

  \<^bold>\<open>Not modelled.\<close> The HTTP surface, the gateway, the web console, the coding agent and the MCP server (routing and I/O); Docker,
  launchd and process control on the hosts; downloads, transfers and document parsing; placement, instances, sharded serving and images
  (SQL workflows around engine processes); the handover of the executor container and recovery after an expired deadline (protocols of their
  own, which start where the modelled ones refuse); the normalisation of dataset rows into conversations, token caches, trainers and evaluation (third-party
  tokenizers and model calls); cryptography and token libraries. Each is listed with its files in the manifest.
\<close>

end
